(* ===== verification/Prelude.thy ===== *)
theory Prelude
  imports Main "HOL-Library.Word" "HOL-Library.State_Monad"
begin

text \<open>
  What every other theory of the development shares: the machine integers of the program, the
  state monad it is written in (one \<^verbatim>\<open>do\<close> block per Go function, one bind per Go
  statement that touches the outside world), the rules that run such a block, and a few facts
  about lists and signed words that the component proofs use through the simplifier.
\<close>

subsection \<open>Names of the types\<close>

text \<open>Go's \<^verbatim>\<open>int64\<close> and \<^verbatim>\<open>uint32\<close>: words of that width; \<open>sint\<close> and \<open>uint\<close> read them.\<close>

type_synonym int64 = "64 word"
type_synonym int32 = "32 word"
type_synonym uint32 = "32 word"
type_synonym uint64 = "64 word"

text \<open>A Go \<^verbatim>\<open>map[string]string\<close>.\<close>

type_synonym strmap = "string \<Rightarrow> string option"

named_theorems run_simps "running a do block"

subsection \<open>Running the state monad\<close>

lemma run_state_if [run_simps]:
  "run_state (if b then m else n) s = (if b then run_state m s else run_state n s)"
  by simp

lemma run_state_case_sum [run_simps]:
  "run_state (case x of Inl e \<Rightarrow> f e | Inr v \<Rightarrow> g v) s =
   (case x of Inl e \<Rightarrow> run_state (f e) s | Inr v \<Rightarrow> run_state (g v) s)"
  by (cases x) auto

lemma run_state_case_option [run_simps]:
  "run_state (case x of None \<Rightarrow> m | Some v \<Rightarrow> f v) s =
   (case x of None \<Rightarrow> run_state m s | Some v \<Rightarrow> run_state (f v) s)"
  by (cases x) auto

lemma run_state_case_prod [run_simps]:
  "run_state (case p of (a, b) \<Rightarrow> f a b) s = (case p of (a, b) \<Rightarrow> run_state (f a b) s)"
  by (cases p) auto

lemma run_state_case_list [run_simps]:
  "run_state (case xs of [] \<Rightarrow> m | y # ys \<Rightarrow> f y ys) s =
   (case xs of [] \<Rightarrow> run_state m s | y # ys \<Rightarrow> run_state (f y ys) s)"
  by (cases xs) auto

lemma run_state_let [run_simps]:
  "run_state (let x = a in f x) s = (let x = a in run_state (f x) s)"
  by simp

subsection \<open>Signed words\<close>

text \<open>Addition, subtraction and multiplication of \<open>int64\<close> are exact where the result fits.\<close>

definition fits64 :: "int \<Rightarrow> bool" where
  "fits64 i \<longleftrightarrow> - (2 ^ 63) \<le> i \<and> i < 2 ^ 63"

lemma sint_of_int64 [simp]: "fits64 i \<Longrightarrow> sint (word_of_int i :: int64) = i"
  by (simp add: fits64_def sint_sbintrunc' signed_take_bit_int_eq_self)

lemma fits64_sint [simp]: "fits64 (sint (x :: int64))"
  using sint_ge [of x] sint_lt [of x] by (simp add: fits64_def)

lemma sint_add64: "fits64 (sint x + sint y) \<Longrightarrow> sint (x + y :: int64) = sint x + sint y"
  using sint_of_int64 [of "sint x + sint y"] by simp

lemma sint_diff64: "fits64 (sint x - sint y) \<Longrightarrow> sint (x - y :: int64) = sint x - sint y"
  using sint_of_int64 [of "sint x - sint y"] by simp

lemma sint_mult64: "fits64 (sint x * sint y) \<Longrightarrow> sint (x * y :: int64) = sint x * sint y"
  using sint_of_int64 [of "sint x * sint y"] by simp

lemma int64_eqI: "sint (x :: int64) = sint y \<Longrightarrow> x = y"
  by (simp add: signed_word_eqI)

end
