(* ===== verification/Go_Quote.thy ===== *)
theory Go_Quote
  imports Go_Strconv
begin

text \<open>
  \<^verbatim>\<open>strconv.Quote\<close>, which is also the verb \<^verbatim>\<open>%q\<close>: the driver quotes the volume name
  in the filter it sends to the cloud, so what matters is that two names never share a filter and
  that nothing inside a name can end the quoted part. Strings are byte strings; the quoting works
  on their UTF-8 code points, with invalid bytes escaped one by one.

  Whether a code point above 255 is printable is Unicode table data: it is the argument
  \<open>pr\<close> of every definition here, and every fact holds for all of them.
\<close>

subsection \<open>UTF-8 (utf8.DecodeRuneInString)\<close>

definition cont :: "nat \<Rightarrow> bool" where
  "cont b \<longleftrightarrow> 128 \<le> b \<and> b \<le> 191"

text \<open>The code point at the start of a byte string and its width; an invalid start is U+FFFD, width 1.\<close>

fun decode_bytes :: "nat list \<Rightarrow> nat \<times> nat" where
  "decode_bytes [] = (65533, 0)"
| "decode_bytes (b0 # bs) =
     (if b0 < 128 then (b0, 1)
      else case bs of
        [] \<Rightarrow> (65533, 1)
      | b1 # bs1 \<Rightarrow>
          if 194 \<le> b0 \<and> b0 \<le> 223 \<and> cont b1 then ((b0 - 192) * 64 + (b1 - 128), 2)
          else case bs1 of
            [] \<Rightarrow> (65533, 1)
          | b2 # bs2 \<Rightarrow>
              if 224 \<le> b0 \<and> b0 \<le> 239 \<and> cont b1 \<and> (b0 = 224 \<longrightarrow> 160 \<le> b1) \<and>
                (b0 = 237 \<longrightarrow> b1 \<le> 159) \<and> cont b2
              then ((b0 - 224) * 4096 + (b1 - 128) * 64 + (b2 - 128), 3)
              else case bs2 of
                [] \<Rightarrow> (65533, 1)
              | b3 # bs3 \<Rightarrow>
                  if 240 \<le> b0 \<and> b0 \<le> 244 \<and> cont b1 \<and> (b0 = 240 \<longrightarrow> 144 \<le> b1) \<and>
                    (b0 = 244 \<longrightarrow> b1 \<le> 143) \<and> cont b2 \<and> cont b3
                  then ((b0 - 240) * 262144 + (b1 - 128) * 4096 + (b2 - 128) * 64 + (b3 - 128), 4)
                  else (65533, 1))"

definition codes :: "string \<Rightarrow> nat list" where
  "codes = map of_char"

definition decode_rune :: "string \<Rightarrow> nat \<times> nat" where
  "decode_rune s = decode_bytes (codes s)"

text \<open>\<^verbatim>\<open>utf8.AppendRune\<close> for valid code points.\<close>

definition encode_rune :: "nat \<Rightarrow> nat list" where
  "encode_rune r =
     (if r < 128 then [r]
      else if r < 2048 then [192 + r div 64, 128 + r mod 64]
      else if r < 65536 then [224 + r div 4096, 128 + r div 64 mod 64, 128 + r mod 64]
      else [240 + r div 262144, 128 + r div 4096 mod 64, 128 + r div 64 mod 64, 128 + r mod 64])"

subsection \<open>Quoting\<close>

definition hex_digit :: "nat \<Rightarrow> nat" where
  "hex_digit d = (if d < 10 then 48 + d else 87 + d)"

fun hex_digits :: "nat \<Rightarrow> nat \<Rightarrow> nat list" where
  "hex_digits 0 n = []"
| "hex_digits (Suc k) n = hex_digits k (n div 16) @ [hex_digit (n mod 16)]"

definition IsPrint :: "(nat \<Rightarrow> bool) \<Rightarrow> nat \<Rightarrow> bool" where
  "IsPrint pr r =
     (if r \<le> 255 then (32 \<le> r \<and> r < 127) \<or> (161 \<le> r \<and> r \<noteq> 173) else pr r)"

text \<open>
  \<^verbatim>\<open>appendEscapedRune\<close> on a code point \<open>r\<close> whose bytes are \<open>raw\<close>: a quote or a backslash
  is escaped, a printable one is copied, the rest becomes an escape sequence.
\<close>

definition escape_rune :: "(nat \<Rightarrow> bool) \<Rightarrow> nat \<Rightarrow> nat list \<Rightarrow> nat list" where
  "escape_rune pr r raw =
     (if r = 34 \<or> r = 92 then [92, r]
      else if IsPrint pr r then raw
      else if r = 7 then [92, 97]
      else if r = 8 then [92, 98]
      else if r = 12 then [92, 102]
      else if r = 10 then [92, 110]
      else if r = 13 then [92, 114]
      else if r = 9 then [92, 116]
      else if r = 11 then [92, 118]
      else if r < 32 \<or> r = 127 then [92, 120] @ hex_digits 2 r
      else if r < 65536 then [92, 117] @ hex_digits 4 r
      else [92, 85] @ hex_digits 8 r)"

text \<open>The first code point of a non-empty byte string, quoted.\<close>

definition quote_item :: "(nat \<Rightarrow> bool) \<Rightarrow> nat list \<Rightarrow> nat list" where
  "quote_item pr s =
     (case decode_bytes s of (r, w) \<Rightarrow>
        if w = 1 \<and> r = 65533 then [92, 120] @ hex_digits 2 (hd s)
        else escape_rune pr r (take w s))"

lemma decode_width_pos: "s \<noteq> [] \<Longrightarrow> 0 < snd (decode_bytes s)"
  by (cases s) (auto split: list.splits)

function quote_bytes :: "(nat \<Rightarrow> bool) \<Rightarrow> nat list \<Rightarrow> nat list" where
  "quote_bytes pr s =
     (if s = [] then [] else quote_item pr s @ quote_bytes pr (drop (snd (decode_bytes s)) s))"
  by pat_completeness auto
termination
  by (relation "measure (\<lambda>(pr, s). length s)") (simp, use decode_width_pos in fastforce)

declare quote_bytes.simps [simp del]

definition Quote :: "(nat \<Rightarrow> bool) \<Rightarrow> string \<Rightarrow> string" where
  "Quote pr s = bytes ([34] @ quote_bytes pr (codes s) @ [34])"

subsection \<open>Reading a quoted string back\<close>

definition unhex_digit :: "nat \<Rightarrow> nat" where
  "unhex_digit h = (if h < 58 then h - 48 else h - 87)"

definition unhex :: "nat list \<Rightarrow> nat" where
  "unhex hs = foldl (\<lambda>a h. 16 * a + unhex_digit h) 0 hs"

definition unquote_item :: "nat list \<Rightarrow> nat list \<times> nat list" where
  "unquote_item t =
     (if hd t \<noteq> 92 then (take (snd (decode_bytes t)) t, drop (snd (decode_bytes t)) t)
      else let e = t ! 1 in
        if e = 120 then ([unhex (take 2 (drop 2 t))], drop 4 t)
        else if e = 117 then (encode_rune (unhex (take 4 (drop 2 t))), drop 6 t)
        else if e = 85 then (encode_rune (unhex (take 8 (drop 2 t))), drop 10 t)
        else ([if e = 97 then 7 else if e = 98 then 8 else if e = 102 then 12
               else if e = 110 then 10 else if e = 114 then 13 else if e = 116 then 9
               else if e = 118 then 11 else e], drop 2 t))"

lemma length_hex_digits [simp]: "length (hex_digits k n) = k"
  by (induction k arbitrary: n) auto

lemma unhex_hex_digit [simp]: "d < 16 \<Longrightarrow> unhex_digit (hex_digit d) = d"
  by (simp add: unhex_digit_def hex_digit_def)

lemma unhex_hex_digits [simp]: "unhex (hex_digits k n) = n mod 16 ^ k"
proof (induction k arbitrary: n)
  case (Suc k)
  have "unhex (hex_digits (Suc k) n) = 16 * (n div 16 mod 16 ^ k) + n mod 16"
    using Suc.IH by (simp add: unhex_def)
  then show ?case by (simp add: mod_mult2_eq mult.commute)
qed (simp add: unhex_def)

lemma sum64: "(r::nat) = q * 64 + m \<Longrightarrow> m < 64 \<Longrightarrow> r div 64 = q \<and> r mod 64 = m"
  by simp

lemma encode2:
  assumes "194 \<le> b0" "b0 \<le> 223" "cont b1"
  defines "r \<equiv> (b0 - 192) * 64 + (b1 - 128)"
  shows "encode_rune r = [b0, b1]" and "128 \<le> r" and "r < 16 ^ 8"
proof -
  have "b1 - 128 < 64" using assms by (auto simp: cont_def)
  from sum64 [OF r_def [THEN meta_eq_to_obj_eq] this]
  have d: "r div 64 = b0 - 192" "r mod 64 = b1 - 128" by auto
  have ge: "128 \<le> r" and lt: "r < 2048" using assms(1-3) unfolding cont_def r_def by auto
  show "encode_rune r = [b0, b1]"
    using ge lt d assms(1,3) by (simp add: encode_rune_def cont_def)
  show "128 \<le> r" "r < 16 ^ 8" using ge lt by auto
qed

lemma encode3:
  assumes "224 \<le> b0" "b0 \<le> 239" "cont b1" "b0 = 224 \<longrightarrow> 160 \<le> b1" "cont b2"
  defines "r \<equiv> (b0 - 224) * 4096 + (b1 - 128) * 64 + (b2 - 128)"
  shows "encode_rune r = [b0, b1, b2]" and "128 \<le> r" and "r < 16 ^ 4"
proof -
  have r: "r = ((b0 - 224) * 64 + (b1 - 128)) * 64 + (b2 - 128)" by (simp add: r_def)
  have bounds: "b1 - 128 < 64" "b2 - 128 < 64" using assms by (auto simp: cont_def)
  from sum64 [OF r bounds(2)]
  have d: "r div 64 = (b0 - 224) * 64 + (b1 - 128)" and m: "r mod 64 = b2 - 128" by auto
  from sum64 [OF d bounds(1)]
  have "r div 64 div 64 = b0 - 224" and m2: "r div 64 mod 64 = b1 - 128" by auto
  then have d2: "r div 4096 = b0 - 224" by (simp add: div_mult2_eq [symmetric])
  have ge: "2048 \<le> r" and lt: "r < 65536"
    using assms(1-5) unfolding cont_def r_def by auto
  show "encode_rune r = [b0, b1, b2]"
    using ge lt d2 m m2 assms(1,3,5) by (simp add: encode_rune_def cont_def)
  show "128 \<le> r" "r < 16 ^ 4" using ge lt by auto
qed

lemma encode4:
  assumes "240 \<le> b0" "b0 \<le> 244" "cont b1" "b0 = 240 \<longrightarrow> 144 \<le> b1" "cont b2" "cont b3"
  defines "r \<equiv> (b0 - 240) * 262144 + (b1 - 128) * 4096 + (b2 - 128) * 64 + (b3 - 128)"
  shows "encode_rune r = [b0, b1, b2, b3]" and "128 \<le> r" and "r < 16 ^ 8"
proof -
  have r: "r = (((b0 - 240) * 64 + (b1 - 128)) * 64 + (b2 - 128)) * 64 + (b3 - 128)"
    by (simp add: r_def)
  have bounds: "b1 - 128 < 64" "b2 - 128 < 64" "b3 - 128 < 64"
    using assms by (auto simp: cont_def)
  from sum64 [OF r bounds(3)]
  have d: "r div 64 = ((b0 - 240) * 64 + (b1 - 128)) * 64 + (b2 - 128)"
    and m: "r mod 64 = b3 - 128" by auto
  from sum64 [OF d bounds(2)]
  have d2: "r div 64 div 64 = (b0 - 240) * 64 + (b1 - 128)"
    and m2: "r div 64 mod 64 = b2 - 128" by auto
  from sum64 [OF d2 bounds(1)]
  have "r div 64 div 64 div 64 = b0 - 240" and "r div 64 div 64 mod 64 = b1 - 128" by auto
  then have d3: "r div 262144 = b0 - 240" "r div 4096 mod 64 = b1 - 128"
    by (simp_all add: div_mult2_eq [symmetric])
  have ge: "65536 \<le> r" and lt: "r < 16 ^ 8"
    using assms(1-6) unfolding cont_def r_def by auto
  show "encode_rune r = [b0, b1, b2, b3]"
    using ge d3 m m2 assms(1,3,5,6) by (simp add: encode_rune_def cont_def)
  show "128 \<le> r" "r < 16 ^ 8" using ge lt by auto
qed

text \<open>What decoding can find at the start of a byte string.\<close>

lemma decode_cases:
  assumes "s \<noteq> []" and "decode_bytes s = (r, w)"
  obtains (ascii) "w = 1" "r = hd s" "r < 128"
  | (invalid) "w = 1" "r = 65533"
  | (multi) "1 < w" "w \<le> length s" "128 \<le> hd s" "encode_rune r = take w s" "128 \<le> r"
      "r < 16 ^ 8" "\<And>t. decode_bytes (take w s @ t) = (r, w)"
proof -
  obtain b0 bs where s: "s = b0 # bs" using assms(1) by (cases s) auto
  note multi' = multi and ascii' = ascii and invalid' = invalid
  consider "b0 < 128" | "w = 1 \<and> r = 65533"
    | b1 bs1 where "bs = b1 # bs1" "194 \<le> b0" "b0 \<le> 223" "cont b1"
        "r = (b0 - 192) * 64 + (b1 - 128)" "w = 2"
    | b1 b2 bs2 where "bs = b1 # b2 # bs2" "224 \<le> b0" "b0 \<le> 239" "cont b1"
        "b0 = 224 \<longrightarrow> 160 \<le> b1" "b0 = 237 \<longrightarrow> b1 \<le> 159" "cont b2"
        "r = (b0 - 224) * 4096 + (b1 - 128) * 64 + (b2 - 128)" "w = 3"
    | b1 b2 b3 bs3 where "bs = b1 # b2 # b3 # bs3" "240 \<le> b0" "b0 \<le> 244" "cont b1"
        "b0 = 240 \<longrightarrow> 144 \<le> b1" "b0 = 244 \<longrightarrow> b1 \<le> 143" "cont b2" "cont b3"
        "r = (b0 - 240) * 262144 + (b1 - 128) * 4096 + (b2 - 128) * 64 + (b3 - 128)" "w = 4"
    using assms(2) unfolding s by (simp split: if_splits list.splits)
  then show thesis
  proof cases
    case 1
    with assms s show thesis by (intro ascii) auto
  next
    case 2
    then show thesis by (intro invalid) auto
  next
    case 3
    then show thesis using encode2 [of b0 b1]
      by (intro multi) (simp_all add: s)
  next
    case 4
    then show thesis using encode3 [of b0 b1 b2]
      by (intro multi) (simp_all add: s)
  next
    case 5
    then show thesis using encode4 [of b0 b1 b2 b3]
      by (intro multi) (simp_all add: s)
  qed
qed

lemma unquote_simple: "unquote_item (92 # e # t) =
    ([if e = 97 then 7 else if e = 98 then 8 else if e = 102 then 12
      else if e = 110 then 10 else if e = 114 then 13 else if e = 116 then 9
      else if e = 118 then 11 else e], t)" if "e \<noteq> 120" "e \<noteq> 117" "e \<noteq> 85"
  using that by (simp add: unquote_item_def Let_def numeral_2_eq_2)

lemma unquote_x: "r < 256 \<Longrightarrow> unquote_item (92 # 120 # hex_digits 2 r @ t) = ([r], t)"
  by (simp add: unquote_item_def)

lemma unquote_u: "r < 16 ^ 4 \<Longrightarrow> unquote_item (92 # 117 # hex_digits 4 r @ t) = (encode_rune r, t)"
  by (simp add: unquote_item_def)

lemma unquote_U: "r < 16 ^ 8 \<Longrightarrow> unquote_item (92 # 85 # hex_digits 8 r @ t) = (encode_rune r, t)"
  by (simp add: unquote_item_def)

lemma unquote_escape:
  assumes "r < 16 ^ 8" and "r < 128 \<Longrightarrow> raw = [r]" and "128 \<le> r \<Longrightarrow> encode_rune r = raw"
    and "raw \<noteq> []" and "hd raw = 92 \<Longrightarrow> r = 92"
    and "decode_bytes (raw @ t) = (r, length raw)"
  shows "unquote_item (escape_rune pr r raw @ t) = (raw, t)"
proof (cases "r = 34 \<or> r = 92 \<or> \<not> IsPrint pr r")
  case False
  then have "escape_rune pr r raw = raw" by (simp add: escape_rune_def)
  with False assms(4-6) show ?thesis by (auto simp: unquote_item_def)
next
  case True
  have enc: "r < 128 \<Longrightarrow> encode_rune r = [r]" by (simp add: encode_rune_def)
  have "encode_rune r = raw" using enc assms(2,3) by (cases "r < 128") auto
  with True show ?thesis
    using assms(1,2)
    by (auto simp: escape_rune_def unquote_simple unquote_x unquote_u unquote_U)
qed

lemma unquote_quote_item:
  assumes "s \<noteq> []" and "hd s < 256"
  shows "unquote_item (quote_item pr s @ t) = (take (snd (decode_bytes s)) s, t)"
proof -
  obtain r w where rw: "decode_bytes s = (r, w)" by (cases "decode_bytes s")
  from assms(1) rw show ?thesis
  proof (cases rule: decode_cases)
    case ascii
    with assms(1) rw have "unquote_item (escape_rune pr r [r] @ t) = ([r], t)"
      by (intro unquote_escape) auto
    with ascii rw assms(1) show ?thesis
      by (cases s) (auto simp: quote_item_def)
  next
    case invalid
    with rw assms show ?thesis
      by (cases s) (auto simp: quote_item_def unquote_x)
  next
    case multi
    with assms(1) have "unquote_item (escape_rune pr r (take w s) @ t) = (take w s, t)"
      by (intro unquote_escape) auto
    with multi rw show ?thesis by (simp add: quote_item_def)
  qed
qed

lemma hd_quote_item:
  assumes "s \<noteq> []"
  shows "quote_item pr s \<noteq> []" and "hd (quote_item pr s) \<noteq> 34" and "hd (quote_item pr s) \<noteq> 10"
proof -
  obtain r w where rw: "decode_bytes s = (r, w)" by (cases "decode_bytes s")
  have esc: "escape_rune pr r raw \<noteq> [] \<and> hd (escape_rune pr r raw) \<notin> {34, 10}"
    if "raw \<noteq> []" "hd raw = 34 \<Longrightarrow> r = 34" "hd raw = 10 \<Longrightarrow> r = 10" for raw
    using that by (auto simp: escape_rune_def IsPrint_def)
  from assms rw have "quote_item pr s \<noteq> [] \<and> hd (quote_item pr s) \<notin> {34, 10}"
  proof (cases rule: decode_cases)
    case ascii
    with esc [of "[r]"] rw assms show ?thesis by (cases s) (auto simp: quote_item_def)
  next
    case invalid
    with rw show ?thesis by (simp add: quote_item_def)
  next
    case multi
    with esc [of "take w s"] rw assms show ?thesis by (auto simp: quote_item_def)
  qed
  then show "quote_item pr s \<noteq> []" and "hd (quote_item pr s) \<noteq> 34"
    and "hd (quote_item pr s) \<noteq> 10" by auto
qed

lemma quote_bytes_Nil [simp]: "quote_bytes pr [] = []"
  by (simp add: quote_bytes.simps)

lemma quote_bytes_Cons:
  "s \<noteq> [] \<Longrightarrow> quote_bytes pr s = quote_item pr s @ quote_bytes pr (drop (snd (decode_bytes s)) s)"
  by (simp add: quote_bytes.simps [of pr s])

lemma quote_bytes_not_quote: "s \<noteq> [] \<Longrightarrow> quote_bytes pr s @ t \<noteq> 34 # t'"
  using hd_quote_item [of s pr] by (cases "quote_item pr s") (auto simp: quote_bytes_Cons)

text \<open>
  Quoting is injective even when more text follows the closing quote: what a quoted name
  contributes to a longer text determines the name.
\<close>

lemma quote_bytes_inject:
  assumes "quote_bytes pr s @ 34 # t = quote_bytes pr s' @ 34 # t'"
    and "\<forall>b \<in> set s. b < 256" and "\<forall>b \<in> set s'. b < 256"
  shows "s = s' \<and> t = t'"
  using assms
proof (induction pr s arbitrary: s' rule: quote_bytes.induct)
  case (1 pr s)
  show ?case
  proof (cases "s = [] \<or> s' = []")
    case True
    with "1.prems"(1) show ?thesis
      using quote_bytes_not_quote [of s pr] quote_bytes_not_quote [of s' pr]
      by (cases "s = []"; cases "s' = []") (auto dest: sym)
  next
    case False
    let ?w = "snd (decode_bytes s)" and ?w' = "snd (decode_bytes s')"
    from False have hd: "hd s < 256" "hd s' < 256"
      using "1.prems"(2,3) by (auto dest: hd_in_set)
    from False "1.prems"(1)
    have eq: "quote_item pr s @ quote_bytes pr (drop ?w s) @ 34 # t =
      quote_item pr s' @ quote_bytes pr (drop ?w' s') @ 34 # t'"
      by (simp add: quote_bytes_Cons)
    from arg_cong [OF eq, of unquote_item] False hd
    have tk: "take ?w s = take ?w' s'"
      and rest: "quote_bytes pr (drop ?w s) @ 34 # t = quote_bytes pr (drop ?w' s') @ 34 # t'"
      by (simp_all add: unquote_quote_item)
    have "drop ?w s = drop ?w' s' \<and> t = t'"
      using False "1.prems"(2,3) by (intro "1.IH" rest) (auto dest: in_set_dropD)
    with tk show ?thesis by (metis append_take_drop_id)
  qed
qed

lemma hex_digits_bound: "b \<in> set (hex_digits k n) \<Longrightarrow> b < 256"
proof (induction k arbitrary: n)
  case (Suc k)
  have "hex_digit d < 256" if "d < 16" for d using that by (simp add: hex_digit_def)
  then have "hex_digit (n mod 16) < 256" by simp
  with Suc show ?case by auto
qed simp

lemma quote_item_bound:
  assumes "s \<noteq> []" and "\<forall>b \<in> set s. b < 256" and "b \<in> set (quote_item pr s)"
  shows "b < 256"
  using assms by (cases "decode_bytes s")
    (auto simp: quote_item_def escape_rune_def dest: hex_digits_bound in_set_takeD
      split: if_splits)

lemma quote_bytes_bound:
  "\<forall>b \<in> set s. b < 256 \<Longrightarrow> b \<in> set (quote_bytes pr s) \<Longrightarrow> b < 256"
proof (induction pr s rule: quote_bytes.induct)
  case (1 pr s)
  then show ?case
    by (cases "s = []") (auto simp: quote_bytes_Cons dest: quote_item_bound in_set_dropD)
qed

lemma codes_bound: "\<forall>b \<in> set (codes s). b < 256"
  by (auto simp: codes_def)

lemma codes_inject [simp]: "codes s = codes t \<longleftrightarrow> s = t"
  unfolding codes_def by (rule inj_map_eq_map) (simp add: inj_def)

lemma codes_bytes: "\<forall>b \<in> set bs. b < 256 \<Longrightarrow> codes (bytes bs) = bs"
  by (simp add: codes_def bytes_def of_char_of map_idI)

lemma codes_Quote: "codes (Quote pr s) = 34 # quote_bytes pr (codes s) @ [34]"
proof -
  have "\<forall>b \<in> set (34 # quote_bytes pr (codes s) @ [34]). b < 256"
    using quote_bytes_bound [OF codes_bound] by auto
  from codes_bytes [OF this] show ?thesis by (simp add: Quote_def)
qed

lemma codes_append: "codes (s @ t) = codes s @ codes t"
  by (simp add: codes_def)

text \<open>Even inside a longer text: what follows the closing quote is not mistaken for the name.\<close>

lemma Quote_append_inject:
  "Quote pr s @ t = Quote pr s' @ t' \<longleftrightarrow> s = s' \<and> t = t'"
proof
  assume "Quote pr s @ t = Quote pr s' @ t'"
  then have "codes (Quote pr s @ t) = codes (Quote pr s' @ t')" by simp
  then show "s = s' \<and> t = t'"
    using quote_bytes_inject [of pr "codes s" "codes t" "codes s'" "codes t'"] codes_bound
    by (simp add: codes_Quote codes_append)
qed simp

lemma Quote_inject [simp]: "Quote pr s = Quote pr t \<longleftrightarrow> s = t"
  using Quote_append_inject [of pr s "[]" t "[]"] by simp


subsection \<open>Reading a literal\<close>

text \<open>
  A reader of Go's string literals, without knowing where they end: after the opening quote it
  reads characters and escape sequences up to the first quote that is not part of one, and gives
  the value and what follows. A literal has no line break and must be closed.
\<close>

lemma unquote_item_shorter: "t \<noteq> [] \<Longrightarrow> length (snd (unquote_item t)) < length t"
  using decode_width_pos [of t] by (auto simp: unquote_item_def Let_def)

function unquote_bytes :: "nat list \<Rightarrow> (nat list \<times> nat list) option" where
  "unquote_bytes t =
     (if t = [] \<or> hd t = 10 then None
      else if hd t = 34 then Some ([], tl t)
      else map_option (map_prod ((@) (fst (unquote_item t))) id) (unquote_bytes (snd (unquote_item t))))"
  by pat_completeness auto
termination
  by (relation "measure length") (simp_all add: unquote_item_shorter)

declare unquote_bytes.simps [simp del]

definition read_literal :: "string \<Rightarrow> (string \<times> string) option" where
  "read_literal s =
     (case codes s of
        [] \<Rightarrow> None
      | b # t \<Rightarrow> if b = 34 then map_option (map_prod bytes bytes) (unquote_bytes t) else None)"

lemma unquote_quote_bytes:
  "\<forall>b \<in> set s. b < 256 \<Longrightarrow> unquote_bytes (quote_bytes pr s @ 34 # t) = Some (s, t)"
proof (induction pr s rule: quote_bytes.induct)
  case (1 pr s)
  show ?case
  proof (cases "s = []")
    case True
    then show ?thesis by (simp add: unquote_bytes.simps)
  next
    case False
    let ?w = "snd (decode_bytes s)"
    let ?rest = "quote_bytes pr (drop ?w s) @ 34 # t"
    have "hd s < 256" using False "1.prems" by simp
    with False have item: "unquote_item (quote_item pr s @ ?rest) = (take ?w s, ?rest)"
      by (rule unquote_quote_item)
    have "unquote_bytes ?rest = Some (drop ?w s, t)"
      using False "1.prems" by (intro "1.IH") (auto dest: in_set_dropD)
    with item hd_quote_item [OF False, of pr]
    have "unquote_bytes (quote_item pr s @ ?rest) = Some (s, t)"
      by (simp add: unquote_bytes.simps [of "quote_item pr s @ ?rest"])
    with False show ?thesis by (simp add: quote_bytes_Cons)
  qed
qed

lemma bytes_codes: "bytes (codes s) = s"
  using codes_bytes [OF codes_bound [of s]] by simp

lemma read_literal_Quote: "read_literal (Quote pr s @ t) = Some (s, t)"
  using unquote_quote_bytes [OF codes_bound, of pr s "codes t"]
  by (simp add: read_literal_def codes_append codes_Quote bytes_codes)

end
