(* ===== verification/Go_Errors.thy ===== *)
theory Go_Errors
  imports Go_Quote
begin

text \<open>
  Errors as values. A Go \<^verbatim>\<open>error\<close> is modelled by what the source can observe of it: its
  text (\<^verbatim>\<open>err.Error()\<close>) and the gRPC status \<^verbatim>\<open>status.Code\<close> and
  \<^verbatim>\<open>status.Convert\<close> find in it. An operation of the driver returns \<open>fault + 'a\<close>:
  \<open>Inl\<close> an error or a run-time panic, \<open>Inr\<close> the result.
\<close>

datatype code =
    OK | Canceled | Unknown | InvalidArgument | DeadlineExceeded | NotFound | AlreadyExists
  | PermissionDenied | ResourceExhausted | FailedPrecondition | Aborted | OutOfRange
  | Unimplemented | Internal | Unavailable | DataLoss | Unauthenticated

primrec code_String :: "code \<Rightarrow> string" where
  "code_String OK = ''OK''"
| "code_String Canceled = ''Canceled''"
| "code_String Unknown = ''Unknown''"
| "code_String InvalidArgument = ''InvalidArgument''"
| "code_String DeadlineExceeded = ''DeadlineExceeded''"
| "code_String NotFound = ''NotFound''"
| "code_String AlreadyExists = ''AlreadyExists''"
| "code_String PermissionDenied = ''PermissionDenied''"
| "code_String ResourceExhausted = ''ResourceExhausted''"
| "code_String FailedPrecondition = ''FailedPrecondition''"
| "code_String Aborted = ''Aborted''"
| "code_String OutOfRange = ''OutOfRange''"
| "code_String Unimplemented = ''Unimplemented''"
| "code_String Internal = ''Internal''"
| "code_String Unavailable = ''Unavailable''"
| "code_String DataLoss = ''DataLoss''"
| "code_String Unauthenticated = ''Unauthenticated''"

text \<open>The error type of \<^verbatim>\<open>driver/node.go\<close>.\<close>

record mount_error =
  me_Type :: string
  me_Message :: string

definition MountError_Error :: "mount_error \<Rightarrow> string" where
  "MountError_Error e = me_Message e"

text \<open>
  \<open>StatusError\<close> is made by \<^verbatim>\<open>status.Error\<close>, \<open>PlainError\<close> by \<^verbatim>\<open>errors.New\<close>
  and \<^verbatim>\<open>fmt.Errorf\<close>; \<open>ForeignError c m t\<close> comes from code outside the repository (the
  SDK, the operating system): its status code, status message and text are whatever that code
  chose.
\<close>

datatype go_error =
    StatusError code string
  | PlainError string
  | ForeignError code string string
  | MountErrorValue mount_error

fun err_Error :: "go_error \<Rightarrow> string" where
  "err_Error (StatusError c m) = ''rpc error: code = '' @ code_String c @ '' desc = '' @ m"
| "err_Error (PlainError m) = m"
| "err_Error (ForeignError c m t) = t"
| "err_Error (MountErrorValue e) = MountError_Error e"

fun status_Code :: "go_error \<Rightarrow> code" where
  "status_Code (StatusError c m) = c"
| "status_Code (ForeignError c m t) = c"
| "status_Code _ = Unknown"

fun status_Message :: "go_error \<Rightarrow> string" where
  "status_Message (StatusError c m) = m"
| "status_Message (ForeignError c m t) = m"
| "status_Message e = err_Error e"

datatype fault = Error go_error | Panic string

text \<open>The two ways a handler gives up with an error.\<close>

abbreviation fail :: "code \<Rightarrow> string \<Rightarrow> fault + 'a" where
  "fail c m \<equiv> Inl (Error (StatusError c m))"

abbreviation reject :: "code \<Rightarrow> string \<Rightarrow> ('s, fault + 'a) state" where
  "reject c m \<equiv> State_Monad.return (fail c m)"

definition fault_code :: "fault \<Rightarrow> code option" where
  "fault_code f = (case f of Error e \<Rightarrow> Some (status_Code e) | Panic _ \<Rightarrow> None)"

lemma fault_code_simps [simp]:
  "fault_code (Error e) = Some (status_Code e)" "fault_code (Panic p) = None"
  by (simp_all add: fault_code_def)

text \<open>The status code a caller sees: \<open>OK\<close> for a result, none when the handler panicked.\<close>

definition outcome :: "fault + 'a \<Rightarrow> code option" where
  "outcome r = (case r of Inl f \<Rightarrow> fault_code f | Inr _ \<Rightarrow> Some OK)"

lemma outcome_simps [simp]:
  "outcome (Inl f) = fault_code f" "outcome (Inr x) = Some OK"
  by (simp_all add: outcome_def)

end
