(* ===== verification/Sizes.thy ===== *)
theory Sizes
  imports Go_Errors
begin

text \<open>
  The arithmetic of \<^verbatim>\<open>driver/controller.go\<close>: block sizes, volume sizes and how both are
  read from a request. All quantities are \<^verbatim>\<open>int64\<close>, so they are 64-bit words read with
  \<open>sint\<close>; multiplication wraps around as in Go.
\<close>

unbundle bit_operations_syntax

subsection \<open>Constants\<close>

definition kiB :: int64 where "kiB = push_bit 10 1"

definition miB :: int64 where "miB = push_bit 20 1"

definition giB :: int64 where "giB = push_bit 30 1"

definition tiB :: int64 where "tiB = push_bit 40 1"

definition defaultListPageSize :: int64 where "defaultListPageSize = 100"

definition minimumVolumeSizeInBytes :: int64 where "minimumVolumeSizeInBytes = 4194304"

definition defaultVolumeSizeInBytes :: int64 where "defaultVolumeSizeInBytes = 5 * giB"

definition defaultBlockSizeInBytes :: int64 where "defaultBlockSizeInBytes = 4 * kiB"

definition minimumBlockSizeInBytes :: int64 where "minimumBlockSizeInBytes = 4 * kiB"

definition maximumBlockSizeInBytes :: int64 where "maximumBlockSizeInBytes = 128 * kiB"

definition maximumVolumeSizePerBlockSizeByte :: int64 where
  "maximumVolumeSizePerBlockSizeByte = (8 * tiB) div (4 * kiB)"

lemma unit_values:
  "kiB = 1024" "miB = 1048576" "giB = 1073741824" "tiB = 1099511627776"
  by (simp_all add: kiB_def miB_def giB_def tiB_def push_bit_eq_mult)

lemma size_values:
  "minimumVolumeSizeInBytes = 4194304" "defaultVolumeSizeInBytes = 5368709120"
  "defaultBlockSizeInBytes = 4096" "minimumBlockSizeInBytes = 4096"
  "maximumBlockSizeInBytes = 131072" "maximumVolumeSizePerBlockSizeByte = 2147483648"
  by (simp_all add: minimumVolumeSizeInBytes_def defaultVolumeSizeInBytes_def
      defaultBlockSizeInBytes_def minimumBlockSizeInBytes_def maximumBlockSizeInBytes_def
      maximumVolumeSizePerBlockSizeByte_def unit_values)

lemma size_sints:
  "sint kiB = 1024" "sint miB = 1048576" "sint giB = 1073741824" "sint tiB = 1099511627776"
  "sint minimumVolumeSizeInBytes = 4194304" "sint defaultVolumeSizeInBytes = 5368709120"
  "sint defaultBlockSizeInBytes = 4096" "sint minimumBlockSizeInBytes = 4096"
  "sint maximumBlockSizeInBytes = 131072" "sint maximumVolumeSizePerBlockSizeByte = 2147483648"
  by (simp_all add: unit_values size_values)

subsection \<open>formatBytes\<close>

text \<open>
  \<^verbatim>\<open>float64(x)\<close> of an integer rounds it to 53 significant bits, half to even; the quotient
  by a power of two is exact; \<^verbatim>\<open>strconv.FormatFloat(f, 'f', 1, 64)\<close> prints one decimal,
  rounded half to even from the exact value. A float is therefore an integer over a power of two.
\<close>

definition round_half_even :: "int \<Rightarrow> int \<Rightarrow> int" where
  "round_half_even n d =
     (let q = n div d; r = n mod d
      in if 2 * r < d then q else if d < 2 * r then q + 1 else if even q then q else q + 1)"

fun bit_length :: "nat \<Rightarrow> nat" where
  "bit_length n = (if n = 0 then 0 else Suc (bit_length (n div 2)))"

declare bit_length.simps [simp del]

definition float64_of_int :: "int \<Rightarrow> int" where
  "float64_of_int x =
     (let ulp = 2 ^ (bit_length (nat \<bar>x\<bar>) - 53)
      in sgn x * (round_half_even \<bar>x\<bar> ulp * ulp))"

text \<open>\<open>FormatFloat_1 m d\<close> prints the float \<open>m / d\<close>.\<close>

definition FormatFloat_1 :: "int \<Rightarrow> int \<Rightarrow> string" where
  "FormatFloat_1 m d =
     (let tenths = nat (round_half_even (10 * \<bar>m\<bar>) d)
      in (if m < 0 then ''-'' else []) @ put_digits (tenths div 10) [] @ ''.'' @
         [digit_char (tenths mod 10)])"

definition formatBytes :: "int64 \<Rightarrow> string" where
  "formatBytes inputBytes =
     (let output = float64_of_int (sint inputBytes);
          print = (\<lambda>unit_size unit. TrimSuffix (FormatFloat_1 output unit_size) ''.0'' @ unit)
      in if sint tiB \<le> sint inputBytes then print (sint tiB) ''Ti''
         else if sint giB \<le> sint inputBytes then print (sint giB) ''Gi''
         else if sint miB \<le> sint inputBytes then print (sint miB) ''Mi''
         else if sint kiB \<le> sint inputBytes then print (sint kiB) ''Ki''
         else if sint inputBytes = 0 then ''0''
         else print 1 '''')"

subsection \<open>maximumVolumeSize\<close>

definition maximumVolumeSize :: "int64 \<Rightarrow> int64" where
  "maximumVolumeSize blockSize = blockSize * maximumVolumeSizePerBlockSizeByte"

subsection \<open>parseBlockSize\<close>

text \<open>The suffix loop: the first suffix that matches is cut off and sets the multiplier.\<close>

fun cut_suffix :: "string \<Rightarrow> string list \<Rightarrow> string \<times> int64" where
  "cut_suffix value [] = (value, 1)"
| "cut_suffix value (suffix # rest) =
     (if HasSuffix value suffix then (TrimSpace (TrimSuffix value suffix), kiB)
      else cut_suffix value rest)"

definition block_suffixes :: "string list" where
  "block_suffixes = [''KiB'', ''KB'', ''Ki'', ''K'', ''k'']"

definition parseBlockSize :: "(nat \<Rightarrow> bool) \<Rightarrow> string \<Rightarrow> go_error + int64" where
  "parseBlockSize pr rawBlockSize =
     (case cut_suffix (TrimSpace rawBlockSize) block_suffixes of (value, multiplier) \<Rightarrow>
      case ParseInt value of
        None \<Rightarrow> Inl (PlainError (Quote pr rawBlockSize @ '' is not a valid block size''))
      | Some parsed \<Rightarrow>
          if sint parsed < 0 \<or> sint maximumBlockSizeInBytes < sint parsed then
            Inl (PlainError (''block size ('' @ rawBlockSize @ '') must be between '' @
              formatBytes minimumBlockSizeInBytes @ '' and '' @
              formatBytes maximumBlockSizeInBytes))
          else let blockSize = parsed * multiplier in
            if sint blockSize < sint minimumBlockSizeInBytes \<or>
               sint maximumBlockSizeInBytes < sint blockSize then
              Inl (PlainError (''block size ('' @ formatBytes blockSize @ '') must be between '' @
                formatBytes minimumBlockSizeInBytes @ '' and '' @
                formatBytes maximumBlockSizeInBytes))
            else if blockSize AND (blockSize - 1) \<noteq> 0 then
              Inl (PlainError (''block size ('' @ formatBytes blockSize @
                '') must be a power of two''))
            else Inr blockSize)"

subsection \<open>extractStorage\<close>

record capacity_range =
  RequiredBytes :: int64
  LimitBytes :: int64

definition extractStorage :: "capacity_range option \<Rightarrow> int64 \<Rightarrow> go_error + int64" where
  "extractStorage capRange maximumVolumeSizeInBytes =
     (case capRange of
        None \<Rightarrow> Inr defaultVolumeSizeInBytes
      | Some cr \<Rightarrow>
          let requiredBytes = RequiredBytes cr; requiredSet = 0 < sint requiredBytes;
              limitBytes = LimitBytes cr; limitSet = 0 < sint limitBytes
          in
          if \<not> requiredSet \<and> \<not> limitSet then Inr defaultVolumeSizeInBytes
          else if requiredSet \<and> limitSet \<and> sint limitBytes < sint requiredBytes then
            Inl (PlainError (''limit ('' @ formatBytes limitBytes @
              '') can not be less than required ('' @ formatBytes requiredBytes @ '') size''))
          else if requiredSet \<and> \<not> limitSet \<and>
            sint requiredBytes < sint minimumVolumeSizeInBytes then
            Inl (PlainError (''required ('' @ formatBytes requiredBytes @
              '') can not be less than minimum supported volume size ('' @
              formatBytes minimumVolumeSizeInBytes @ '')''))
          else if limitSet \<and> sint limitBytes < sint minimumVolumeSizeInBytes then
            Inl (PlainError (''limit ('' @ formatBytes limitBytes @
              '') can not be less than minimum supported volume size ('' @
              formatBytes minimumVolumeSizeInBytes @ '')''))
          else if requiredSet \<and> sint maximumVolumeSizeInBytes < sint requiredBytes then
            Inl (PlainError (''required ('' @ formatBytes requiredBytes @
              '') can not exceed maximum supported volume size ('' @
              formatBytes maximumVolumeSizeInBytes @ '')''))
          else if \<not> requiredSet \<and> limitSet \<and> sint maximumVolumeSizeInBytes < sint limitBytes then
            Inl (PlainError (''limit ('' @ formatBytes limitBytes @
              '') can not exceed maximum supported volume size ('' @
              formatBytes maximumVolumeSizeInBytes @ '')''))
          else if requiredSet \<and> limitSet \<and> requiredBytes = limitBytes then Inr requiredBytes
          else if requiredSet then Inr requiredBytes
          else if limitSet then Inr limitBytes
          else Inr defaultVolumeSizeInBytes)"

subsection \<open>Volume sizes\<close>

lemma extractStorage_ok_iff:
  "extractStorage capRange mx = Inr s \<longleftrightarrow>
    (case capRange of
       None \<Rightarrow> s = defaultVolumeSizeInBytes
     | Some cr \<Rightarrow>
         let r = sint (RequiredBytes cr); l = sint (LimitBytes cr); low = 4194304; high = sint mx
         in r \<le> 0 \<and> l \<le> 0 \<and> s = defaultVolumeSizeInBytes \<or>
            0 < r \<and> l \<le> 0 \<and> low \<le> r \<and> r \<le> high \<and> s = RequiredBytes cr \<or>
            0 < r \<and> 0 < l \<and> r \<le> l \<and> low \<le> l \<and> r \<le> high \<and> s = RequiredBytes cr \<or>
            r \<le> 0 \<and> 0 < l \<and> low \<le> l \<and> l \<le> high \<and> s = LimitBytes cr)"
  by (auto simp: extractStorage_def Let_def size_sints split: option.splits if_splits)

lemma extractStorage_total: "\<exists>e. extractStorage c m = Inl (PlainError e) \<or> (\<exists>s. extractStorage c m = Inr s)"
  by (auto simp: extractStorage_def Let_def split: option.splits)

subsection \<open>Block sizes\<close>

lemma power_of_two_and:
  "0 < (x :: int) \<Longrightarrow> x AND (x - 1) = 0 \<longleftrightarrow> (\<exists>k. x = 2 ^ k)"
proof (induction "nat x" arbitrary: x rule: less_induct)
  case less
  show ?case
  proof (cases "even x")
    case True
    then obtain y where y: "x = 2 * y" by blast
    with less.prems have "0 < y" by simp
    have a: "x AND (x - 1) = 2 * (y AND (y - 1))"
    proof -
      have "(2 * y - 1) div 2 = y - 1" by simp
      then show ?thesis using y by (subst and_int_rec) simp
    qed
    have "(\<exists>k. x = 2 ^ k) \<longleftrightarrow> (\<exists>k. y = 2 ^ k)"
    proof
      assume "\<exists>k. x = 2 ^ k"
      then obtain k where k: "x = 2 ^ k" by blast
      with True have "k \<noteq> 0" by (cases k) auto
      with k y show "\<exists>k. y = 2 ^ k" by (cases k) auto
    next
      assume "\<exists>k. y = 2 ^ k"
      then show "\<exists>k. x = 2 ^ k" using y by (metis power_Suc)
    qed
    moreover have "y AND (y - 1) = 0 \<longleftrightarrow> (\<exists>k. y = 2 ^ k)"
      using \<open>0 < y\<close> y by (intro less.hyps) auto
    ultimately show ?thesis by (simp add: a)
  next
    case False
    then obtain y where y: "x = 2 * y + 1" by (metis oddE)
    have a: "x AND (x - 1) = 2 * y"
      using y by (subst and_int_rec) auto
    have "(\<exists>k. x = 2 ^ k) \<longleftrightarrow> y = 0"
    proof
      assume "\<exists>k. x = 2 ^ k"
      then obtain k where "x = 2 ^ k" by blast
      with y have "k = 0" by (cases k) (simp_all, presburger)
      with y \<open>x = 2 ^ k\<close> show "y = 0" by simp
    next
      assume "y = 0"
      then have "x = 2 ^ 0" using y by simp
      then show "\<exists>k. x = 2 ^ k" ..
    qed
    then show ?thesis by (simp add: a)
  qed
qed

lemma uint_eq_sint64: "0 \<le> sint (x :: int64) \<Longrightarrow> uint x = sint x"
  using sint_lt [of x] by (simp add: uint_sint take_bit_int_eq_self)

lemma word_power_of_two:
  assumes "0 < sint (x :: int64)"
  shows "x AND (x - 1) = 0 \<longleftrightarrow> (\<exists>k. sint x = 2 ^ k)"
proof -
  have f: "fits64 (sint x - 1)" using assms fits64_sint [of x] by (simp add: fits64_def)
  then have "sint (x - 1) = sint x - 1" using sint_diff64 [of x 1] by simp
  then have "uint (x - 1) = uint x - 1" using assms by (simp add: uint_eq_sint64)
  then have "uint (x AND (x - 1)) = uint x AND (uint x - 1)" by (simp add: unsigned_and_eq)
  then have "x AND (x - 1) = 0 \<longleftrightarrow> uint x AND (uint x - 1) = 0"
    by (metis unsigned_0 word_uint_eqI)
  also have "\<dots> \<longleftrightarrow> (\<exists>k. uint x = 2 ^ k)"
    using assms by (intro power_of_two_and) (simp add: uint_eq_sint64)
  finally show ?thesis using assms by (simp add: uint_eq_sint64)
qed

definition block_sizes :: "int set" where
  "block_sizes = {4096, 8192, 16384, 32768, 65536, 131072}"

lemma power_of_two_block_sizes:
  "(\<exists>k. b = 2 ^ k) \<and> 4096 \<le> b \<and> b \<le> 131072 \<longleftrightarrow> b \<in> block_sizes"
proof
  assume *: "(\<exists>k. b = 2 ^ k) \<and> 4096 \<le> b \<and> b \<le> (131072 :: int)"
  then obtain k where k: "b = 2 ^ k" by blast
  from * k have "(2 :: int) ^ 12 \<le> 2 ^ k" "(2 :: int) ^ k \<le> 2 ^ 17" by simp_all
  then have "12 \<le> k" "k \<le> 17"
    by (metis one_less_numeral_iff power_increasing_iff semiring_norm(76))+
  then have "k \<in> {12, 13, 14, 15, 16, 17}" by auto
  with k show "b \<in> block_sizes" by (auto simp: block_sizes_def)
next
  assume "b \<in> block_sizes"
  then show "(\<exists>k. b = 2 ^ k) \<and> 4096 \<le> b \<and> b \<le> 131072"
    unfolding block_sizes_def
    by (auto intro: exI [of _ 12] exI [of _ 13] exI [of _ 14] exI [of _ 15] exI [of _ 16]
        exI [of _ 17])
qed

lemma cut_suffix_multiplier: "snd (cut_suffix v sufs) = 1 \<or> snd (cut_suffix v sufs) = kiB"
  by (induction v sufs rule: cut_suffix.induct) auto

lemma parseBlockSize_ok_iff:
  "parseBlockSize pr raw = Inr b \<longleftrightarrow>
    (case cut_suffix (TrimSpace raw) block_suffixes of (value, multiplier) \<Rightarrow>
       \<exists>n. ParseInt value = Some n \<and> sint b = sint n * sint multiplier \<and> sint b \<in> block_sizes)"
proof -
  obtain v m where vm: "cut_suffix (TrimSpace raw) block_suffixes = (v, m)"
    by (cases "cut_suffix (TrimSpace raw) block_suffixes")
  have m: "sint m = 1 \<or> sint m = 1024"
    using cut_suffix_multiplier [of "TrimSpace raw" block_suffixes] vm by (auto simp: size_sints)
  have exact: "sint (n * m) = sint n * sint m" if "0 \<le> sint n" "sint n \<le> 131072" for n
    using that m by (intro sint_mult64) (auto simp: fits64_def)
  have body: "(if sint n < 0 \<or> sint maximumBlockSizeInBytes < sint n then Inl e1
      else let c = n * m in
        if sint c < sint minimumBlockSizeInBytes \<or> sint maximumBlockSizeInBytes < sint c
        then Inl (e2 c)
        else if c AND (c - 1) \<noteq> 0 then Inl (e3 c) else Inr c) = Inr b \<longleftrightarrow>
      sint b = sint n * sint m \<and> sint b \<in> block_sizes" for n e1 e2 e3
  proof (cases "0 \<le> sint n \<and> sint n \<le> 131072")
    case True
    have eq: "b = n * m \<longleftrightarrow> sint b = sint n * sint m"
      using exact True by (metis int64_eqI)
    show ?thesis
      using True power_of_two_block_sizes [of "sint b"] word_power_of_two [of "n * m"]
        exact eq by (auto simp: Let_def size_sints split: if_splits)
  next
    case False
    then have "\<not> (sint n * sint m \<in> block_sizes)"
      using m by (auto simp: block_sizes_def)
    with False show ?thesis by (auto simp: size_sints)
  qed
  show ?thesis
    unfolding parseBlockSize_def vm
    by (cases "ParseInt v") (simp_all add: body split del: if_split)
qed

text \<open>
  A size \<^verbatim>\<open>extractStorage\<close> picks for a capacity range that says anything is positive,
  at least the required size, at most the limit where there is one, and at most the maximum of the
  block size; and it is always the required size or, where none is required, the limit.
\<close>

lemma extractStorage_contract:
  assumes "extractStorage (Some cr) mx = Inr s"
    and "0 < sint (RequiredBytes cr) \<or> 0 < sint (LimitBytes cr)"
  shows "0 < sint s \<and> sint (RequiredBytes cr) \<le> sint s \<and> sint s \<le> sint mx \<and>
    (0 < sint (LimitBytes cr) \<longrightarrow> sint s \<le> sint (LimitBytes cr)) \<and>
    s = (if 0 < sint (RequiredBytes cr) then RequiredBytes cr else LimitBytes cr)"
  using assms by (auto simp: extractStorage_ok_iff Let_def size_sints)

lemma extractStorage_contract_witness:
  "extractStorage (Some \<lparr>RequiredBytes = 0, LimitBytes = 8388608\<rparr>) (2 ^ 43) = Inr 8388608 \<and>
   sint (8388608 :: int64) \<le> sint (2 ^ 43 :: int64)"
proof -
  have "extractStorage (Some \<lparr>RequiredBytes = 0, LimitBytes = 8388608\<rparr>) (2 ^ 43) = Inr 8388608"
    by (simp add: extractStorage_ok_iff Let_def size_sints)
  with extractStorage_contract [OF this] show ?thesis by simp
qed

text \<open>
  C23. When \<^verbatim>\<open>extractStorage\<close> accepts a capacity range that says anything: exactly when
  some size of at least 4 MiB lies within the range and the maximum, and besides a range without
  a limit requires at least 4 MiB itself and a range with only a limit keeps that limit below the
  maximum (although a smaller disk would satisfy it).
\<close>

theorem extractStorage_accepts_iff:
  assumes "4194304 \<le> sint mx"
    and "r = sint (RequiredBytes cr)" and "l = sint (LimitBytes cr)" and "0 < r \<or> 0 < l"
  shows "(\<exists>s. extractStorage (Some cr) mx = Inr s) \<longleftrightarrow>
    (\<exists>z \<ge> 4194304. z \<le> sint mx \<and> r \<le> z \<and> (l \<le> 0 \<or> z \<le> l)) \<and>
    (0 < l \<or> 4194304 \<le> r) \<and> (0 < r \<or> l \<le> sint mx)"
proof -
  have "(\<exists>z \<ge> 4194304. z \<le> m \<and> r \<le> z \<and> (l \<le> 0 \<or> z \<le> l)) \<longleftrightarrow>
    r \<le> m \<and> (l \<le> 0 \<or> 4194304 \<le> l \<and> r \<le> l)" if "4194304 \<le> m" for m r l :: int
  proof
    assume "r \<le> m \<and> (l \<le> 0 \<or> 4194304 \<le> l \<and> r \<le> l)"
    then have "4194304 \<le> max 4194304 r \<and> max 4194304 r \<le> m \<and> r \<le> max 4194304 r \<and>
      (l \<le> 0 \<or> max 4194304 r \<le> l)" using that by simp
    then show "\<exists>z \<ge> 4194304. z \<le> m \<and> r \<le> z \<and> (l \<le> 0 \<or> z \<le> l)" by blast
  qed force
  note ex = this [OF assms(1), of r l]
  have ok: "(\<exists>s. extractStorage (Some cr) mx = Inr s) \<longleftrightarrow>
      0 < r \<and> l \<le> 0 \<and> 4194304 \<le> r \<and> r \<le> sint mx \<or>
      0 < r \<and> 0 < l \<and> r \<le> l \<and> 4194304 \<le> l \<and> r \<le> sint mx \<or>
      r \<le> 0 \<and> 0 < l \<and> 4194304 \<le> l \<and> l \<le> sint mx"
    using assms(4) unfolding extractStorage_ok_iff Let_def option.case assms(2,3) [symmetric]
    by (cases "0 < r"; cases "0 < l") (simp_all add: not_less)
  show ?thesis
    unfolding ok ex using assms(1,4) by linarith
qed

lemma extractStorage_accepts_iff_witness:
  "(\<exists>s. extractStorage (Some \<lparr>RequiredBytes = 4194304, LimitBytes = 0\<rparr>) 8796093022208 = Inr s)"
proof (rule extractStorage_accepts_iff [THEN iffD2])
  show "4194304 \<le> sint (8796093022208 :: int64)" by simp
  show "4194304 = sint (RequiredBytes \<lparr>RequiredBytes = 4194304, LimitBytes = 0\<rparr>)" by simp
  show "0 = sint (LimitBytes \<lparr>RequiredBytes = 4194304, LimitBytes = 0\<rparr>)" by simp
  show "(\<exists>z \<ge> 4194304. z \<le> sint (8796093022208 :: int64) \<and> 4194304 \<le> z \<and>
      ((0 :: int) \<le> 0 \<or> z \<le> 0)) \<and>
    (0 < (0 :: int) \<or> 4194304 \<le> (4194304 :: int)) \<and>
    (0 < (4194304 :: int) \<or> 0 \<le> sint (8796093022208 :: int64))"
    by (intro conjI exI [of _ 4194304]) simp_all
qed simp

text \<open>
  The minimum of 4 MiB is not kept: a size below it is returned exactly for a range that
  requires less than 4 MiB and sets a limit; only ranges without a limit are checked for it.
\<close>

lemma extractStorage_below_minimum:
  assumes "extractStorage (Some cr) mx = Inr s"
  shows "sint s < sint minimumVolumeSizeInBytes \<longleftrightarrow>
    0 < sint (RequiredBytes cr) \<and> sint (RequiredBytes cr) < sint minimumVolumeSizeInBytes \<and>
    0 < sint (LimitBytes cr)"
  using assms by (auto simp: extractStorage_ok_iff Let_def size_sints)

lemma extractStorage_below_minimum_witness:
  "extractStorage (Some \<lparr>RequiredBytes = 4096, LimitBytes = 8388608\<rparr>) (2 ^ 43) = Inr 4096 \<and>
   sint (4096 :: int64) < sint minimumVolumeSizeInBytes"
proof -
  have "extractStorage (Some \<lparr>RequiredBytes = 4096, LimitBytes = 8388608\<rparr>) (2 ^ 43) = Inr 4096"
    by (simp add: extractStorage_ok_iff Let_def size_sints)
  with extractStorage_below_minimum [OF this] show ?thesis by (simp add: size_sints)
qed

text \<open>How the accepted forms are read.\<close>

lemma graphic_suffixes: "suf \<in> set block_suffixes \<Longrightarrow> suf \<noteq> [] \<and> graphic (hd suf) \<and> graphic (last suf)"
  by (auto simp: block_suffixes_def graphic_def)

lemma ParseInt_digits:
  "list_all is_digit ds \<Longrightarrow> ds \<noteq> [] \<Longrightarrow> parse_digits 0 ds = Some n \<Longrightarrow> n < 2 ^ 63 \<Longrightarrow>
   ParseInt ds = Some (word_of_nat n)"
  by (cases ds) (auto simp: ParseInt_def split_sign_def dest!: digit_not_sign)

lemma find_space_suffix: "find (HasSuffix (s @ '' '')) space_encodings = Some '' ''"
  by (simp add: space_encodings_def HasSuffix_rev)

lemma TrimSpace_digits_space:
  assumes "list_all is_digit ds" "ds \<noteq> []"
  shows "TrimSpace (ds @ '' '') = ds"
proof -
  have g: "graphic (hd ds)" "graphic (last ds)"
    using assms by (auto simp: list_all_iff digit_graphic)
  have "TrimRightSpace (ds @ '' '') = TrimRightSpace ds"
    by (subst TrimRightSpace.simps) (simp add: find_space_suffix)
  with g assms(2) show ?thesis
    by (simp add: TrimSpace_def TrimLeftSpace_graphic TrimRightSpace_graphic)
qed

lemma cut_suffix_digits:
  assumes "list_all is_digit ds" "ds \<noteq> []"
  shows "cut_suffix ds block_suffixes = (ds, 1)"
proof -
  obtain t d where "ds = t @ [d]" using assms(2) by (cases ds rule: rev_cases) auto
  moreover from this assms(1) have "is_digit d" by simp
  ultimately show ?thesis by (auto simp: block_suffixes_def HasSuffix_rev is_digit_def)
qed

lemma cut_suffix_form:
  assumes "suf \<in> set block_suffixes" and "is_digit (last s) \<or> last s = CHR '' ''" and "s \<noteq> []"
  shows "cut_suffix (s @ suf) block_suffixes = (TrimSpace s, kiB)"
proof -
  obtain t c where s: "s = t @ [c]" using assms(3) by (cases s rule: rev_cases) auto
  have c: "c \<noteq> CHR ''K''" "c \<noteq> CHR ''i''" using assms(2) s by (auto simp: is_digit_def)
  have "TrimSuffix (s @ p) p = s" for p by simp
  with assms(1) c show ?thesis
    by (auto simp: block_suffixes_def HasSuffix_rev s TrimSuffix_def)
qed

text \<open>
  C25. Every supported block size is read back from each way to write it: in bytes, in kilobytes
  with any of the suffixes, and with a space before the suffix.
\<close>

theorem parseBlockSize_roundtrip:
  assumes "x \<in> block_sizes" and "suf \<in> set block_suffixes"
  shows "parseBlockSize pr (Itoa x) = Inr (word_of_int x) \<and>
    parseBlockSize pr (Itoa (x div 1024) @ suf) = Inr (word_of_int x) \<and>
    parseBlockSize pr (Itoa (x div 1024) @ '' '' @ suf) = Inr (word_of_int x)"
proof (intro conjI)
  have pos: "0 < x" "1024 dvd x" "x < 2 ^ 63" using assms(1) by (auto simp: block_sizes_def)
  have digits: "list_all is_digit (Itoa n) \<and> Itoa n \<noteq> [] \<and> parse_digits 0 (Itoa n) = Some (nat n)"
    if "0 \<le> n" for n
    using that put_digits_digits [of "[]"] by (auto simp: Itoa_def list_all_iff)
  have parse: "ParseInt (Itoa n) = Some (word_of_int n)" if "0 \<le> n" "n < 2 ^ 63" for n
    using that digits [of n] ParseInt_digits [of "Itoa n" "nat n"] by simp
  have trim: "TrimSpace (Itoa n @ t) = Itoa n @ t" if "0 \<le> n" "t = [] \<or> graphic (last t)" for n t
    using that digits [of n] 
    by (intro TrimSpace_graphic) (cases "t = []"; simp add: list_all_iff digit_graphic)
  have fits: "sint (word_of_int n :: int64) = n" if "0 \<le> n" "n < 2 ^ 63" for n
    using that by (simp add: fits64_def)
  show "parseBlockSize pr (Itoa x) = Inr (word_of_int x)"
    using pos digits [of x] parse [of x] trim [of x "[]"] fits [of x] assms(1)
    by (simp add: parseBlockSize_ok_iff cut_suffix_digits)
  define y where "y = x div 1024"
  have y: "0 \<le> y" "y < 2 ^ 63" "x = y * 1024" using pos by (auto simp: y_def)
  note facts = digits [OF y(1)] parse [OF y(1,2)] fits [OF y(1,2)] fits [of x]
  from facts(1) have trim_y: "TrimSpace (Itoa y) = Itoa y" using trim [OF y(1), of "[]"] by simp
  have suf: "suf \<noteq> []" "graphic (last suf)" using graphic_suffixes [OF assms(2)] by auto
  have ok: "parseBlockSize pr raw = Inr (word_of_int x)"
    if "cut_suffix (TrimSpace raw) block_suffixes = (Itoa y, kiB)" for raw
    using that facts pos assms(1) y(3) by (simp add: parseBlockSize_ok_iff size_sints)
  have "cut_suffix (TrimSpace (Itoa y @ suf)) block_suffixes = (Itoa y, kiB)"
    using facts(1) suf trim_y trim [OF y(1), of suf]
    by (simp add: cut_suffix_form [OF assms(2)] list_all_iff)
  then show "parseBlockSize pr (Itoa (x div 1024) @ suf) = Inr (word_of_int x)"
    unfolding y_def [symmetric] by (rule ok)
  have "cut_suffix (TrimSpace (Itoa y @ '' '' @ suf)) block_suffixes = (Itoa y, kiB)"
    using facts(1) suf trim [OF y(1), of "'' '' @ suf"]
      cut_suffix_form [OF assms(2), of "Itoa y @ '' ''"]
    by (simp add: TrimSpace_digits_space)
  then show "parseBlockSize pr (Itoa (x div 1024) @ '' '' @ suf) = Inr (word_of_int x)"
    unfolding y_def [symmetric] by (rule ok)
qed

lemma parseBlockSize_roundtrip_witness:
  "\<forall>pr. parseBlockSize pr ''8192'' = Inr 8192 \<and> parseBlockSize pr ''8KiB'' = Inr 8192 \<and>
   parseBlockSize pr ''8 KiB'' = Inr 8192"
proof
  fix pr
  have "Itoa 8192 = ''8192''" "Itoa (8192 div 1024) = ''8''"
    by (simp_all add: Itoa_def put_digits.simps digit_char_def char_of_def bit_0)
  with parseBlockSize_roundtrip [of 8192 "''KiB''" pr]
  show "parseBlockSize pr ''8192'' = Inr 8192 \<and> parseBlockSize pr ''8KiB'' = Inr 8192 \<and>
    parseBlockSize pr ''8 KiB'' = Inr 8192"
    by (simp add: block_sizes_def block_suffixes_def)
qed

text \<open>
  C35. For every block size a request can choose, the maximum volume size is computed without
  overflow: it is \<open>2\<^sup>31\<close> times the block size, between 8 TiB and 256 TiB.
\<close>

theorem maximumVolumeSize_exact:
  assumes "parseBlockSize pr raw = Inr b"
  shows "sint (maximumVolumeSize b) = sint b * 2147483648 \<and>
    8 * sint tiB \<le> sint (maximumVolumeSize b) \<and>
    sint (maximumVolumeSize b) \<le> 256 * sint tiB"
proof (intro conjI)
  have b: "sint b \<in> block_sizes"
    using assms by (auto simp: parseBlockSize_ok_iff split: prod.splits)
  then show m: "sint (maximumVolumeSize b) = sint b * 2147483648"
    unfolding maximumVolumeSize_def
    by (subst sint_mult64) (auto simp: size_sints fits64_def block_sizes_def)
  show "8 * sint tiB \<le> sint (maximumVolumeSize b)"
    "sint (maximumVolumeSize b) \<le> 256 * sint tiB"
    using b by (auto simp: m size_sints block_sizes_def)
qed

lemma maximumVolumeSize_exact_witness:
  "sint (maximumVolumeSize 131072) = 281474976710656"
proof -
  have "ParseInt ''131072'' = Some 131072"
    by (simp add: ParseInt_def split_sign_def is_digit_def digit_val_def)
  moreover have "cut_suffix (TrimSpace ''131072'') block_suffixes = (''131072'', 1)"
    by (simp add: TrimSpace_graphic cut_suffix_digits graphic_def is_digit_def)
  ultimately have "parseBlockSize (\<lambda>_. True) ''131072'' = Inr 131072"
    by (simp add: parseBlockSize_ok_iff block_sizes_def)
  with maximumVolumeSize_exact [OF this] show ?thesis by simp
qed

subsection \<open>What formatBytes prints\<close>

lemma bit_length_le: "n < 2 ^ k \<Longrightarrow> bit_length n \<le> k"
proof (induction n arbitrary: k rule: bit_length.induct)
  case (1 n)
  show ?case
  proof (cases "n = 0")
    case False
    with "1.prems" obtain k' where k: "k = Suc k'" by (cases k) auto
    with "1.prems" have "n div 2 < 2 ^ k'" by auto
    with "1.IH" [OF False] k False show ?thesis by (simp add: bit_length.simps [of n])
  qed (simp add: bit_length.simps)
qed

lemma float64_exact:
  assumes "\<bar>x\<bar> < 2 ^ 53"
  shows "float64_of_int x = x"
proof -
  have "nat \<bar>x\<bar> < 2 ^ 53" using assms by (simp add: nat_less_iff)
  then have "bit_length (nat \<bar>x\<bar>) - 53 = 0" using bit_length_le by simp
  then show ?thesis
    by (simp add: float64_of_int_def round_half_even_def Let_def sgn_mult_abs)
qed

lemma round_half_even_error:
  assumes "0 < d"
  shows "2 * \<bar>round_half_even n d * d - n\<bar> \<le> d"
proof -
  define q r where "q = n div d" and "r = n mod d"
  have n: "n = q * d + r" by (simp add: q_def r_def)
  have r: "0 \<le> r" "r < d" using assms by (simp_all add: r_def)
  have "q * d - n = - r" "(q + 1) * d - n = d - r" by (simp_all add: n algebra_simps)
  then show ?thesis
    unfolding round_half_even_def Let_def q_def [symmetric] r_def [symmetric]
    using r by auto
qed

lemma round_half_even_multiple: "0 < d \<Longrightarrow> round_half_even (k * d) d = k"
  by (simp add: round_half_even_def Let_def)

lemma digit_char_0: "digit_char 0 = CHR ''0''"
  by code_simp

definition byte_units :: "(int \<times> string) set" where
  "byte_units = {(2 ^ 10, ''Ki''), (2 ^ 20, ''Mi''), (2 ^ 30, ''Gi''), (2 ^ 40, ''Ti'')}"

lemma formatBytes_unit:
  assumes "1024 \<le> sint x" and "sint x < 2 ^ 53"
  obtains u name where "(u, name) \<in> byte_units" "u \<le> sint x" "sint x < u * 1024 \<or> name = ''Ti''"
    "formatBytes x = TrimSuffix (FormatFloat_1 (sint x) u) ''.0'' @ name"
proof -
  have f: "float64_of_int (sint x) = sint x" using assms by (intro float64_exact) auto
  consider "sint tiB \<le> sint x" | "sint giB \<le> sint x" "sint x < sint tiB"
    | "sint miB \<le> sint x" "sint x < sint giB" | "sint x < sint miB"
    by linarith
  then show thesis
    using that [of "2 ^ 10" "''Ki''"] that [of "2 ^ 20" "''Mi''"] that [of "2 ^ 30" "''Gi''"]
      that [of "2 ^ 40" "''Ti''"] assms
    by cases (auto simp: formatBytes_def Let_def f size_sints byte_units_def)
qed

text \<open>
  The sizes in the messages are right to a tenth of the unit: up to \<open>2\<^sup>53\<close> bytes, where the
  conversion to floating point is exact, \<^verbatim>\<open>formatBytes\<close> prints the nearest tenth of the
  largest unit that is not larger than the size.
\<close>

lemma formatBytes_accuracy:
  assumes "1024 \<le> sint x" and "sint x < 2 ^ 53"
  shows "\<exists>u name t. (u, name) \<in> byte_units \<and> u \<le> sint x \<and>
    formatBytes x =
      TrimSuffix (put_digits (t div 10) [] @ ''.'' @ [digit_char (t mod 10)]) ''.0'' @ name \<and>
    2 * \<bar>int t * u - 10 * sint x\<bar> \<le> u"
proof -
  obtain u name where u: "(u, name) \<in> byte_units" "u \<le> sint x"
    "formatBytes x = TrimSuffix (FormatFloat_1 (sint x) u) ''.0'' @ name"
    using formatBytes_unit [OF assms] by metis
  let ?r = "round_half_even (10 * sint x) u"
  have pos: "0 < u" using u(1) by (auto simp: byte_units_def)
  have "0 \<le> 10 * sint x div u" using pos assms(1) by (simp add: pos_imp_zdiv_nonneg_iff)
  then have "0 \<le> ?r" by (auto simp: round_half_even_def Let_def)
  with u round_half_even_error [OF pos, of "10 * sint x"] assms(1) show ?thesis
    by (intro exI [of _ u] exI [of _ name] exI [of _ "nat ?r"])
      (simp add: FormatFloat_1_def Let_def)
qed

lemma formatBytes_accuracy_witness:
  "\<exists>u name t. (u, name) \<in> byte_units \<and> u \<le> 1500 \<and>
    formatBytes 1500 =
      TrimSuffix (put_digits (t div 10) [] @ ''.'' @ [digit_char (t mod 10)]) ''.0'' @ name \<and>
    2 * \<bar>int t * u - 10 * 1500\<bar> \<le> u"
  using formatBytes_accuracy [of 1500] by simp

text \<open>
  A whole number of units is printed as that number: the sizes an administrator writes come
  back in the messages as they were written.
\<close>

lemma formatBytes_exact:
  assumes "(u, name) \<in> byte_units" and "1 \<le> n" and "n < 1024 \<or> name = ''Ti'' \<and> n < 8192"
  shows "formatBytes (word_of_int (n * u)) = Itoa n @ name"
proof -
  have u: "0 < u" using assms(1) by (auto simp: byte_units_def)
  have bounds: "1024 \<le> n * u" "n * u < 2 ^ 53" using assms by (auto simp: byte_units_def)
  then have s: "sint (word_of_int (n * u) :: int64) = n * u"
    by (intro sint_of_int64) (simp add: fits64_def)
  have f: "float64_of_int (n * u) = n * u" using bounds by (intro float64_exact) auto
  have "formatBytes x = TrimSuffix (FormatFloat_1 (n * u) u) ''.0'' @ name"
    if "sint x = n * u" for x
    using assms bounds f unfolding formatBytes_def Let_def that size_sints
    by (auto simp: byte_units_def)
  from this [OF s]
  have "formatBytes (word_of_int (n * u)) = TrimSuffix (FormatFloat_1 (n * u) u) ''.0'' @ name" .
  also have "FormatFloat_1 (n * u) u = Itoa n @ ''.0''"
  proof -
    have "0 < n * u" using assms(2) u by simp
    then have "\<not> n * u < 0" and "nat (10 * n) = 10 * nat n"
      by (simp_all add: nat_mult_distrib)
    with assms(2) u round_half_even_multiple [OF u, of "10 * n"] show ?thesis
      by (simp add: FormatFloat_1_def Let_def Itoa_def mult.assoc digit_char_0 del: mult_less_0_iff)
  qed
  finally show ?thesis by simp
qed

lemma formatBytes_exact_witness: "formatBytes 8796093022208 = ''8Ti''"
proof -
  have "Itoa 8 = ''8''" by (simp add: Itoa_def put_digits.simps digit_char_def char_of_def bit_0)
  with formatBytes_exact [of "2 ^ 40" "''Ti''" 8] show ?thesis by (simp add: byte_units_def)
qed

end
