(* ===== verification/Rw_Map.thy ===== *)
theory Rw_Map
  imports Prelude
begin

text \<open>
  \<^verbatim>\<open>driver/lock.go\<close>: the set of volumes that must not be published because a resize of them
  is pending. The Go type is a map to \<^verbatim>\<open>nil\<close> behind a \<^verbatim>\<open>sync.RWMutex\<close>; every
  method holds the mutex from its first to its last statement, so each is one atomic step and is
  modelled as one function on the map.
\<close>

subsection \<open>The contract its clients use\<close>

datatype volume_set_op = Put string | Remove string

primrec op_target :: "volume_set_op \<Rightarrow> string" where
  "op_target (Put v) = v"
| "op_target (Remove v) = v"

primrec op_is_put :: "volume_set_op \<Rightarrow> bool" where
  "op_is_put (Put v) \<longleftrightarrow> True"
| "op_is_put (Remove v) \<longleftrightarrow> False"

locale volume_set =
  fixes new :: 'm
    and put :: "'m \<Rightarrow> string \<Rightarrow> 'm"
    and remove :: "'m \<Rightarrow> string \<Rightarrow> 'm"
    and exists :: "'m \<Rightarrow> string \<Rightarrow> bool"
  assumes exists_new: "\<not> exists new v"
    and exists_put: "exists (put m v) w \<longleftrightarrow> w = v \<or> exists m w"
    and exists_remove: "exists (remove m v) w \<longleftrightarrow> w \<noteq> v \<and> exists m w"
begin

definition apply_op :: "'m \<Rightarrow> volume_set_op \<Rightarrow> 'm" where
  "apply_op m x = (case x of Put v \<Rightarrow> put m v | Remove v \<Rightarrow> remove m v)"

lemma exists_apply_op:
  "exists (apply_op m x) w \<longleftrightarrow> (if w = op_target x then op_is_put x else exists m w)"
  by (cases x) (auto simp: apply_op_def exists_put exists_remove)

text \<open>After any history, what counts is the last operation on the volume.\<close>

lemma exists_history:
  "exists (foldl apply_op m xs) w \<longleftrightarrow>
    (case rev (List.filter (\<lambda>x. op_target x = w) xs) of
       [] \<Rightarrow> exists m w
     | x # _ \<Rightarrow> op_is_put x)"
proof (induction xs rule: rev_induct)
  case (snoc x xs)
  then show ?case by (auto simp: exists_apply_op split: list.splits)
qed simp

text \<open>Operations on different volumes commute as far as anyone can tell.\<close>

lemma apply_op_commute:
  "op_target x \<noteq> op_target y \<Longrightarrow>
   exists (apply_op (apply_op m x) y) w \<longleftrightarrow> exists (apply_op (apply_op m y) x) w"
  by (simp add: exists_apply_op)

end

subsection \<open>The code\<close>

text \<open>The values of the map are all \<^verbatim>\<open>nil\<close>: the unit value.\<close>

record rw_map =
  volumes :: "string \<Rightarrow> unit option"

definition NewRwMap :: rw_map where
  "NewRwMap = \<lparr>volumes = Map.empty\<rparr>"

definition PutVolId :: "rw_map \<Rightarrow> string \<Rightarrow> rw_map" where
  "PutVolId m volID = m\<lparr>volumes := (volumes m)(volID \<mapsto> ())\<rparr>"

definition RemoveVolId :: "rw_map \<Rightarrow> string \<Rightarrow> rw_map" where
  "RemoveVolId m volID = m\<lparr>volumes := (volumes m)(volID := None)\<rparr>"

definition VolIdExists :: "rw_map \<Rightarrow> string \<Rightarrow> bool" where
  "VolIdExists m volID \<longleftrightarrow> volumes m volID \<noteq> None"

interpretation resize_set: volume_set NewRwMap PutVolId RemoveVolId VolIdExists
  by unfold_locales (auto simp: NewRwMap_def PutVolId_def RemoveVolId_def VolIdExists_def)

lemmas rw_map_simps [simp] =
  resize_set.exists_new resize_set.exists_put resize_set.exists_remove

lemma rw_map_eqI: "(\<And>v. VolIdExists m v \<longleftrightarrow> VolIdExists n v) \<Longrightarrow> m = n"
proof -
  assume *: "\<And>v. VolIdExists m v \<longleftrightarrow> VolIdExists n v"
  have "volumes m v = volumes n v" for v
    using * [of v] by (cases "volumes m v"; cases "volumes n v") (auto simp: VolIdExists_def)
  then show "m = n" by (cases m; cases n) auto
qed

end
