(* ===== verification/Environment.thy ===== *)
theory Environment
  imports Go_Errors Sizes Rw_Map
begin

text \<open>
  What the driver talks to. Nothing of it is under \<^verbatim>\<open>src/\<close>: the gRPC messages of CSI,
  the Compute API of the cloud and its SDK, the operating system of the node, the metadata
  service. Their messages are records with the fields the source reads or writes; their
  operations are the fields of one record \<open>env\<close>, the first argument of every definition that
  uses them, so every theorem holds for all of them unless it names a hypothesis.

  The world is the state behind these operations (of any type \<open>'w\<close>), the mutable fields of the
  driver (\<^verbatim>\<open>resizeLocks\<close>, \<^verbatim>\<open>ready\<close>) and the history of the calls made so far: every
  call with its answer, and every use of the shared lock table. The history is what the theorems
  about order and absence of effects speak of; no operation of the driver reads it.
\<close>

subsection \<open>CSI messages\<close>

record mount_volume =
  FsType :: string
  MountFlags :: "string list"

datatype access_type = AccessBlock | AccessMount mount_volume

datatype access_mode =
    UNKNOWN | SINGLE_NODE_WRITER | SINGLE_NODE_READER_ONLY | MULTI_NODE_READER_ONLY
  | MULTI_NODE_SINGLE_WRITER | MULTI_NODE_MULTI_WRITER | SINGLE_NODE_SINGLE_WRITER
  | SINGLE_NODE_MULTI_WRITER | OtherMode nat

text \<open>\<open>None\<close> is a message field that is not set; the getters of Go read it as the zero value.\<close>

record volume_capability =
  AccessType :: "access_type option"
  AccessMode :: "access_mode option"

definition GetAccessMode :: "volume_capability \<Rightarrow> access_mode" where
  "GetAccessMode c = (case AccessMode c of None \<Rightarrow> UNKNOWN | Some m \<Rightarrow> m)"

definition GetMount :: "volume_capability \<Rightarrow> mount_volume option" where
  "GetMount c = (case AccessType c of Some (AccessMount m) \<Rightarrow> Some m | _ \<Rightarrow> None)"

record topology =
  Segments :: strmap

record csi_volume =
  VolumeId :: string
  CapacityBytes :: int64
  AccessibleTopology :: "topology list"

record create_volume_request =
  cvr_Name :: string
  cvr_CapacityRange :: "capacity_range option"
  cvr_VolumeCapabilities :: "volume_capability list"
  cvr_Parameters :: strmap
  cvr_AccessibilityRequirements :: "topology list option"  \<comment> \<open>its \<^verbatim>\<open>Requisite\<close>\<close>

record controller_publish_request =
  cpr_VolumeId :: string
  cpr_NodeId :: string
  cpr_VolumeCapability :: "volume_capability option"
  cpr_Readonly :: bool

record controller_unpublish_request =
  cur_VolumeId :: string
  cur_NodeId :: string

record validate_capabilities_request =
  vcr_VolumeId :: string
  vcr_VolumeCapabilities :: "volume_capability list option"

record list_volumes_request =
  lvr_MaxEntries :: int32
  lvr_StartingToken :: string

record list_volumes_response =
  Entries :: "csi_volume list"
  NextToken :: string

record controller_expand_request =
  cer_VolumeId :: string
  cer_CapacityRange :: "capacity_range option"
  cer_VolumeCapability :: "volume_capability option"

record controller_expand_response =
  cer_CapacityBytes :: int64
  NodeExpansionRequired :: bool

subsection \<open>Compute API messages\<close>

record disk =
  disk_Id :: string
  disk_Name :: string
  disk_Size :: int64
  disk_BlockSize :: int64
  disk_ZoneId :: string
  disk_InstanceIds :: "string list"

record list_disks_request =
  ldr_FolderId :: string
  ldr_PageSize :: int64
  ldr_PageToken :: string
  ldr_Filter :: string

record list_disks_response =
  ldr_Disks :: "disk list"
  ldr_NextPageToken :: string

record create_disk_request =
  cdr_FolderId :: string
  cdr_Name :: string
  cdr_Description :: string
  cdr_Labels :: strmap
  cdr_TypeId :: string
  cdr_ZoneId :: string
  cdr_Size :: int64
  cdr_BlockSize :: int64

record update_disk_request =
  udr_DiskId :: string
  udr_UpdateMask :: "string list"
  udr_Size :: int64

datatype disk_mode = READ_ONLY | READ_WRITE

record attach_disk_request =
  adr_InstanceId :: string
  adr_Mode :: disk_mode
  adr_DeviceName :: string
  adr_AutoDelete :: bool
  adr_DiskId :: string

record detach_disk_request =
  ddr_InstanceId :: string
  ddr_DiskId :: string

text \<open>Of the other devices of an instance only the number matters; each is its device name.\<close>

record instance_info =
  inst_PlatformId :: string
  inst_Cores :: "int64 option"  \<comment> \<open>\<^verbatim>\<open>Resources.Cores\<close>, where \<^verbatim>\<open>Resources\<close> is set\<close>
  inst_NetworkInterfaces :: "string list"
  inst_SecondaryDisks :: "string list"  \<comment> \<open>the \<^verbatim>\<open>DeviceName\<close> of each\<close>
  inst_LocalDisks :: "string list"
  inst_Filesystems :: "string list"

text \<open>The result of an operation is some protobuf message; one kind is a disk.\<close>

datatype message = DiskMessage disk | OtherMessage string

subsection \<open>Operating system\<close>

text \<open>
  \<^verbatim>\<open>exec.LookPath\<close> of the standard library never returns its sentinel
  \<^verbatim>\<open>ErrNotFound\<close> bare: every failure is wrapped in an \<^verbatim>\<open>exec.Error\<close>
  with the name that was looked up.
\<close>

datatype lookpath_error =
    ErrNotFound | ErrDot | OSError string
  | ExecError string lookpath_error  \<comment> \<open>\<^verbatim>\<open>exec.Error\<close> with \<^verbatim>\<open>Name\<close> and \<^verbatim>\<open>Err\<close>\<close>

fun lookpath_Error :: "(nat \<Rightarrow> bool) \<Rightarrow> lookpath_error \<Rightarrow> string" where
  "lookpath_Error pr ErrNotFound = ''executable file not found in $PATH''"
| "lookpath_Error pr ErrDot = ''cannot run executable found relative to current directory''"
| "lookpath_Error pr (OSError t) = t"
| "lookpath_Error pr (ExecError name e) = ''exec: '' @ Quote pr name @ '': '' @ lookpath_Error pr e"

text \<open>
  How a command can fail: it ran and exited with a status (the first argument), or it could not
  be run; the string is the text of the error. \<^verbatim>\<open>k8s.io/utils/exec\<close> also tells a missing
  executable apart.
\<close>

datatype exec_error = ExitError int string | RunError string

datatype k8s_exec_error = ErrExecutableNotFound | K8sExitError int string | K8sRunError string

record statfs_t =
  Bsize :: int64
  Blocks :: uint64
  Bfree :: uint64
  Bavail :: uint64
  Files :: uint64
  Ffree :: uint64

text \<open>\<^verbatim>\<open>driver/mounter.go\<close>: what it reads of the output of \<^verbatim>\<open>findmnt -J\<close>.\<close>

record fileSystem =
  fs_Target :: string
  fs_Propagation :: string
  fs_FsType :: string
  fs_Options :: string

record findmntResponse =
  FileSystems :: "fileSystem list"

subsection \<open>Network, files and the SDK at start-up\<close>

text \<open>The answer of an HTTP server; reading the body can fail.\<close>

record http_response =
  StatusCode :: int
  Body :: "go_error + string"

text \<open>\<^verbatim>\<open>os.Remove\<close>: \<open>NotExist\<close> is the error \<^verbatim>\<open>os.IsNotExist\<close> accepts.\<close>

datatype remove_error = NotExist string | RemoveError string

record YandexInstanceIdentity =
  AvailabilityZone :: string
  InstanceID :: string
  PrivateIP :: string
  Region :: string

subsection \<open>Events and the world\<close>

text \<open>One event per call to the outside: the call's arguments, then the answer it got.\<close>

datatype 'op event =
    ListDisks list_disks_request "go_error + list_disks_response"
  | GetDisk string "go_error + disk"
  | CreateDisk create_disk_request "go_error + 'op"
  | DeleteDisk string "go_error + 'op"
  | UpdateDisk update_disk_request "go_error + 'op"
  | GetInstance string "go_error + instance_info"
  | AttachDisk attach_disk_request "go_error + 'op"
  | DetachDisk detach_disk_request "go_error + 'op"
  | Wait 'op "go_error option"
  | Response 'op "go_error + message"
  | ListApiEndpoints "go_error option"
  | LookPath string "lookpath_error option"
  | Exec string "string list" "string \<times> exec_error option"
  | K8sExec string "string list" "string \<times> k8s_exec_error option"
  | MkdirAll string nat "go_error option"
  | OpenCreate string nat "go_error option"
  | Stat string "go_error + uint32"
  | Statfs string "go_error + statfs_t"
  | EvalSymlinks string "go_error + string"
  | DeviceNameFromMount string "go_error + string"
  | ResizeFs string string "go_error + bool"
  | HttpGet string "go_error + http_response"
  | BuildSdk string "go_error option"
  | RemoveFile string "remove_error option"
  | NetListen string string "go_error option"
  | PutLock string
  | RemoveLock string
  | CheckLock string bool

record ('w, 'op) world =
  ext :: 'w
  resizeLocks :: rw_map
  ready :: bool
  history :: "'op event list"

type_synonym ('w, 'op, 'a) io = "(('w, 'op) world, 'a) state"

definition call :: "('a \<Rightarrow> 'op event) \<Rightarrow> ('w, 'a) state \<Rightarrow> ('w, 'op, 'a) io" where
  "call ev m = State (\<lambda>w. case run_state m (ext w) of
     (r, x) \<Rightarrow> (r, w\<lparr>ext := x, history := history w @ [ev r]\<rparr>))"

text \<open>The methods of \<^verbatim>\<open>d.resizeLocks\<close>, each one atomic step.\<close>

definition locks_PutVolId :: "string \<Rightarrow> ('w, 'op, unit) io" where
  "locks_PutVolId v = State (\<lambda>w.
     ((), w\<lparr>resizeLocks := PutVolId (resizeLocks w) v, history := history w @ [PutLock v]\<rparr>))"

definition locks_RemoveVolId :: "string \<Rightarrow> ('w, 'op, unit) io" where
  "locks_RemoveVolId v = State (\<lambda>w.
     ((), w\<lparr>resizeLocks := RemoveVolId (resizeLocks w) v, history := history w @ [RemoveLock v]\<rparr>))"

definition locks_VolIdExists :: "string \<Rightarrow> ('w, 'op, bool) io" where
  "locks_VolIdExists v = State (\<lambda>w.
     (VolIdExists (resizeLocks w) v,
      w\<lparr>history := history w @ [CheckLock v (VolIdExists (resizeLocks w) v)]\<rparr>))"

record ('w, 'op) env =
  unicode_IsPrint :: "nat \<Rightarrow> bool"
  sets_List :: "string set \<Rightarrow> string list"
  fmt_disks :: "disk list \<Rightarrow> string"
  json_error :: "string \<Rightarrow> string"  \<comment> \<open>the text of \<^verbatim>\<open>json.Unmarshal\<close>'s error\<close>
  api_Disk_List :: "list_disks_request \<Rightarrow> ('w, go_error + list_disks_response) state"
  api_Disk_Get :: "string \<Rightarrow> ('w, go_error + disk) state"
  api_Disk_Create :: "create_disk_request \<Rightarrow> ('w, go_error + 'op) state"
  api_Disk_Delete :: "string \<Rightarrow> ('w, go_error + 'op) state"
  api_Disk_Update :: "update_disk_request \<Rightarrow> ('w, go_error + 'op) state"
  api_Instance_Get :: "string \<Rightarrow> ('w, go_error + instance_info) state"
  api_Instance_AttachDisk :: "attach_disk_request \<Rightarrow> ('w, go_error + 'op) state"
  api_Instance_DetachDisk :: "detach_disk_request \<Rightarrow> ('w, go_error + 'op) state"
  sdk_WrapOperation :: "go_error + 'op \<Rightarrow> go_error + 'op"
  op_Wait :: "'op \<Rightarrow> ('w, go_error option) state"
  op_Response :: "'op \<Rightarrow> ('w, go_error + message) state"
  api_ApiEndpoint_List :: "('w, go_error option) state"
  os_LookPath :: "string \<Rightarrow> ('w, lookpath_error option) state"
  os_Exec :: "string \<Rightarrow> string list \<Rightarrow> ('w, string \<times> exec_error option) state"
  k8s_Exec :: "string \<Rightarrow> string list \<Rightarrow> ('w, string \<times> k8s_exec_error option) state"
  os_MkdirAll :: "string \<Rightarrow> nat \<Rightarrow> ('w, go_error option) state"
  os_OpenCreate :: "string \<Rightarrow> nat \<Rightarrow> ('w, go_error option) state"
  os_Stat :: "string \<Rightarrow> ('w, go_error + uint32) state"
  os_Statfs :: "string \<Rightarrow> ('w, go_error + statfs_t) state"
  os_EvalSymlinks :: "string \<Rightarrow> ('w, go_error + string) state"
  k8s_DeviceNameFromMount :: "string \<Rightarrow> ('w, go_error + string) state"
  k8s_ResizeFs :: "string \<Rightarrow> string \<Rightarrow> ('w, go_error + bool) state"
  net_HttpGet :: "string \<Rightarrow> ('w, go_error + http_response) state"
  sdk_Build :: "string \<Rightarrow> ('w, go_error option) state"
  os_RemoveFile :: "string \<Rightarrow> ('w, remove_error option) state"
  net_Listener :: "string \<Rightarrow> string \<Rightarrow> ('w, go_error option) state"
  json_iamKey :: "string \<Rightarrow> go_error + string"  \<comment> \<open>decoding into the SDK's \<^verbatim>\<open>iamkey.Key\<close>\<close>
  sdk_ServiceAccountKey :: "string \<Rightarrow> go_error + string"
  url_bracketed :: "string \<Rightarrow> string + string"  \<comment> \<open>\<^verbatim>\<open>url.Parse\<close> on a host with a bracket\<close>

subsection \<open>Reasoning about calls\<close>

text \<open>What a stretch of history does to the lock table.\<close>

fun lock_event :: "rw_map \<Rightarrow> 'op event \<Rightarrow> rw_map" where
  "lock_event m (PutLock v) = PutVolId m v"
| "lock_event m (RemoveLock v) = RemoveVolId m v"
| "lock_event m _ = m"

definition replay_locks :: "rw_map \<Rightarrow> 'op event list \<Rightarrow> rw_map" where
  "replay_locks m es = foldl lock_event m es"

lemma replay_locks_simps [simp]:
  "replay_locks m [] = m" "replay_locks m (e # es) = replay_locks (lock_event m e) es"
  "replay_locks m (es @ es') = replay_locks (replay_locks m es) es'"
  by (simp_all add: replay_locks_def)

text \<open>The answers of the lock table in a stretch of history are those of the table at their time.\<close>

fun checks_agree :: "rw_map \<Rightarrow> 'op event list \<Rightarrow> bool" where
  "checks_agree m [] \<longleftrightarrow> True"
| "checks_agree m (CheckLock v b # es) \<longleftrightarrow> (b \<longleftrightarrow> VolIdExists m v) \<and> checks_agree m es"
| "checks_agree m (e # es) \<longleftrightarrow> checks_agree (lock_event m e) es"

lemma checks_agree_append [simp]:
  "checks_agree m (es @ es') \<longleftrightarrow> checks_agree m es \<and> checks_agree (replay_locks m es) es'"
  by (induction m es rule: checks_agree.induct) auto

text \<open>
  \<open>ensures m Q\<close>: from any world, whatever the outside answers, \<open>m\<close> appends some events to the
  history, uses the lock table exactly as these events say, and its result and the events
  satisfy \<open>Q\<close>. The rules compute this for a \<^verbatim>\<open>do\<close> block the way a weakest precondition is
  computed.
\<close>

definition appends :: "('w, 'op) world \<Rightarrow> 'op event list \<Rightarrow> ('w, 'op) world \<Rightarrow> bool" where
  "appends w es w' \<longleftrightarrow> history w' = history w @ es \<and>
     resizeLocks w' = replay_locks (resizeLocks w) es \<and>
     checks_agree (resizeLocks w) es \<and> ready w' = ready w"

definition ensures :: "('w, 'op, 'a) io \<Rightarrow> ('a \<Rightarrow> 'op event list \<Rightarrow> bool) \<Rightarrow> bool" where
  "ensures m Q \<longleftrightarrow>
     (\<forall>w r w'. run_state m w = (r, w') \<longrightarrow> (\<exists>es. appends w es w' \<and> Q r es))"

named_theorems wp "weakest preconditions of the calls and of the control structure"

lemma appends_Nil [simp]: "appends w [] w"
  by (simp add: appends_def)

lemma appends_trans: "appends w es w' \<Longrightarrow> appends w' es' w'' \<Longrightarrow> appends w (es @ es') w''"
  by (simp add: appends_def)

lemma ensuresI:
  "(\<And>w r w'. run_state m w = (r, w') \<Longrightarrow> \<exists>es. appends w es w' \<and> Q r es) \<Longrightarrow> ensures m Q"
  by (auto simp: ensures_def)

lemma ensuresD:
  "ensures m Q \<Longrightarrow> run_state m w = (r, w') \<Longrightarrow> \<exists>es. appends w es w' \<and> Q r es"
  by (auto simp: ensures_def)

lemma ensures_return [wp]: "Q x [] \<Longrightarrow> ensures (State_Monad.return x) Q"
  by (auto simp: ensures_def intro!: exI [of _ "[]"])

lemma ensures_bind [wp]:
  assumes "ensures m (\<lambda>x es. ensures (f x) (\<lambda>r es'. Q r (es @ es')))"
  shows "ensures (State_Monad.bind m f) Q"
proof (rule ensuresI)
  fix w r w'
  assume run: "run_state (State_Monad.bind m f) w = (r, w')"
  obtain x w1 where m: "run_state m w = (x, w1)" by (cases "run_state m w")
  with run have f: "run_state (f x) w1 = (r, w')" by simp
  from ensuresD [OF assms m] obtain es where es: "appends w es w1"
    and "ensures (f x) (\<lambda>r es'. Q r (es @ es'))" by blast
  from ensuresD [OF this(2) f] es show "\<exists>es. appends w es w' \<and> Q r es"
    by (blast intro: appends_trans)
qed

definition no_lock_event :: "'op event \<Rightarrow> bool" where
  "no_lock_event e \<longleftrightarrow> (\<forall>m. lock_event m e = m \<and> checks_agree m [e])"

lemma ensures_call:
  "(\<And>r. no_lock_event (ev r)) \<Longrightarrow> (\<And>r. Q r [ev r]) \<Longrightarrow> ensures (call ev m) Q"
  by (auto simp: ensures_def call_def appends_def no_lock_event_def split: prod.splits)

lemma ensures_locks [wp]:
  "Q () [PutLock v] \<Longrightarrow> ensures (locks_PutVolId v) Q"
  "Q () [RemoveLock v] \<Longrightarrow> ensures (locks_RemoveVolId v) Q"
  "(\<And>b. R b [CheckLock v b]) \<Longrightarrow> ensures (locks_VolIdExists v) R"
  by (auto simp: ensures_def locks_PutVolId_def locks_RemoveVolId_def locks_VolIdExists_def
      appends_def)

subsection \<open>The calls\<close>

definition Disk_List :: "('w, 'op) env \<Rightarrow> list_disks_request \<Rightarrow> ('w, 'op, go_error + list_disks_response) io" where
  "Disk_List env r = call (ListDisks r) (api_Disk_List env r)"

definition Disk_Get :: "('w, 'op) env \<Rightarrow> string \<Rightarrow> ('w, 'op, go_error + disk) io" where
  "Disk_Get env i = call (GetDisk i) (api_Disk_Get env i)"

definition Disk_Create :: "('w, 'op) env \<Rightarrow> create_disk_request \<Rightarrow> ('w, 'op, go_error + 'op) io" where
  "Disk_Create env r = call (CreateDisk r) (api_Disk_Create env r)"

definition Disk_Delete :: "('w, 'op) env \<Rightarrow> string \<Rightarrow> ('w, 'op, go_error + 'op) io" where
  "Disk_Delete env i = call (DeleteDisk i) (api_Disk_Delete env i)"

definition Disk_Update :: "('w, 'op) env \<Rightarrow> update_disk_request \<Rightarrow> ('w, 'op, go_error + 'op) io" where
  "Disk_Update env r = call (UpdateDisk r) (api_Disk_Update env r)"

definition Instance_Get :: "('w, 'op) env \<Rightarrow> string \<Rightarrow> ('w, 'op, go_error + instance_info) io" where
  "Instance_Get env i = call (GetInstance i) (api_Instance_Get env i)"

definition Instance_AttachDisk :: "('w, 'op) env \<Rightarrow> attach_disk_request \<Rightarrow> ('w, 'op, go_error + 'op) io" where
  "Instance_AttachDisk env r = call (AttachDisk r) (api_Instance_AttachDisk env r)"

definition Instance_DetachDisk :: "('w, 'op) env \<Rightarrow> detach_disk_request \<Rightarrow> ('w, 'op, go_error + 'op) io" where
  "Instance_DetachDisk env r = call (DetachDisk r) (api_Instance_DetachDisk env r)"

definition Operation_Wait :: "('w, 'op) env \<Rightarrow> 'op \<Rightarrow> ('w, 'op, go_error option) io" where
  "Operation_Wait env x = call (Wait x) (op_Wait env x)"

definition Operation_Response :: "('w, 'op) env \<Rightarrow> 'op \<Rightarrow> ('w, 'op, go_error + message) io" where
  "Operation_Response env x = call (Response x) (op_Response env x)"

definition exec_LookPath :: "('w, 'op) env \<Rightarrow> string \<Rightarrow> ('w, 'op, lookpath_error option) io" where
  "exec_LookPath env c = do {
     r \<leftarrow> call (LookPath c) (os_LookPath env c);
     State_Monad.return (map_option (ExecError c) r)
   }"

definition exec_Command :: "('w, 'op) env \<Rightarrow> string \<Rightarrow> string list \<Rightarrow> ('w, 'op, string \<times> exec_error option) io" where
  "exec_Command env c args = call (Exec c args) (os_Exec env c args)"

definition k8s_Command :: "('w, 'op) env \<Rightarrow> string \<Rightarrow> string list \<Rightarrow> ('w, 'op, string \<times> k8s_exec_error option) io" where
  "k8s_Command env c args = call (K8sExec c args) (k8s_Exec env c args)"

definition fs_MkdirAll :: "('w, 'op) env \<Rightarrow> string \<Rightarrow> nat \<Rightarrow> ('w, 'op, go_error option) io" where
  "fs_MkdirAll env p perm = call (MkdirAll p perm) (os_MkdirAll env p perm)"

definition fs_OpenCreate :: "('w, 'op) env \<Rightarrow> string \<Rightarrow> nat \<Rightarrow> ('w, 'op, go_error option) io" where
  "fs_OpenCreate env p perm = call (OpenCreate p perm) (os_OpenCreate env p perm)"

definition unix_Stat :: "('w, 'op) env \<Rightarrow> string \<Rightarrow> ('w, 'op, go_error + uint32) io" where
  "unix_Stat env p = call (Stat p) (os_Stat env p)"

definition unix_Statfs :: "('w, 'op) env \<Rightarrow> string \<Rightarrow> ('w, 'op, go_error + statfs_t) io" where
  "unix_Statfs env p = call (Statfs p) (os_Statfs env p)"

definition fs_EvalSymlinks :: "('w, 'op) env \<Rightarrow> string \<Rightarrow> ('w, 'op, go_error + string) io" where
  "fs_EvalSymlinks env p = call (EvalSymlinks p) (os_EvalSymlinks env p)"

definition mount_GetDeviceName :: "('w, 'op) env \<Rightarrow> string \<Rightarrow> ('w, 'op, go_error + string) io" where
  "mount_GetDeviceName env p = call (DeviceNameFromMount p) (k8s_DeviceNameFromMount env p)"

definition resize_Resize :: "('w, 'op) env \<Rightarrow> string \<Rightarrow> string \<Rightarrow> ('w, 'op, go_error + bool) io" where
  "resize_Resize env dev p = call (ResizeFs dev p) (k8s_ResizeFs env dev p)"

definition ApiEndpoint_List :: "('w, 'op) env \<Rightarrow> ('w, 'op, go_error option) io" where
  "ApiEndpoint_List env = call ListApiEndpoints (api_ApiEndpoint_List env)"

definition http_Get :: "('w, 'op) env \<Rightarrow> string \<Rightarrow> ('w, 'op, go_error + http_response) io" where
  "http_Get env u = call (HttpGet u) (net_HttpGet env u)"

definition ycloud_Build :: "('w, 'op) env \<Rightarrow> string \<Rightarrow> ('w, 'op, go_error option) io" where
  "ycloud_Build env c = call (BuildSdk c) (sdk_Build env c)"

definition os_Remove :: "('w, 'op) env \<Rightarrow> string \<Rightarrow> ('w, 'op, remove_error option) io" where
  "os_Remove env p = call (RemoveFile p) (os_RemoveFile env p)"

definition net_Listen :: "('w, 'op) env \<Rightarrow> string \<Rightarrow> string \<Rightarrow> ('w, 'op, go_error option) io" where
  "net_Listen env n a = call (NetListen n a) (net_Listener env n a)"

lemmas call_defs =
  Disk_List_def Disk_Get_def Disk_Create_def Disk_Delete_def Disk_Update_def Instance_Get_def
  Instance_AttachDisk_def Instance_DetachDisk_def Operation_Wait_def Operation_Response_def
  exec_LookPath_def exec_Command_def k8s_Command_def fs_MkdirAll_def fs_OpenCreate_def
  unix_Stat_def unix_Statfs_def fs_EvalSymlinks_def mount_GetDeviceName_def resize_Resize_def
  ApiEndpoint_List_def http_Get_def ycloud_Build_def os_Remove_def net_Listen_def

lemma ensures_calls [wp]:
  "(\<And>a. Q1 a [ListDisks r1 a]) \<Longrightarrow> ensures (Disk_List env r1) Q1"
  "(\<And>a. Q2 a [GetDisk i2 a]) \<Longrightarrow> ensures (Disk_Get env i2) Q2"
  "(\<And>a. Q3 a [CreateDisk r3 a]) \<Longrightarrow> ensures (Disk_Create env r3) Q3"
  "(\<And>a. Q4 a [DeleteDisk i4 a]) \<Longrightarrow> ensures (Disk_Delete env i4) Q4"
  "(\<And>a. Q5 a [UpdateDisk r5 a]) \<Longrightarrow> ensures (Disk_Update env r5) Q5"
  "(\<And>a. Q6 a [GetInstance i6 a]) \<Longrightarrow> ensures (Instance_Get env i6) Q6"
  "(\<And>a. Q7 a [AttachDisk r7 a]) \<Longrightarrow> ensures (Instance_AttachDisk env r7) Q7"
  "(\<And>a. Q8 a [DetachDisk r8 a]) \<Longrightarrow> ensures (Instance_DetachDisk env r8) Q8"
  "(\<And>a. Q9 a [Wait x9 a]) \<Longrightarrow> ensures (Operation_Wait env x9) Q9"
  "(\<And>a. Q10 a [Response x10 a]) \<Longrightarrow> ensures (Operation_Response env x10) Q10"
  "(\<And>a. Q11 (map_option (ExecError c11) a) [LookPath c11 a]) \<Longrightarrow> ensures (exec_LookPath env c11) Q11"
  "(\<And>a. Q12 a [Exec c12 args12 a]) \<Longrightarrow> ensures (exec_Command env c12 args12) Q12"
  "(\<And>a. Q13 a [K8sExec c13 args13 a]) \<Longrightarrow> ensures (k8s_Command env c13 args13) Q13"
  "(\<And>a. Q14 a [MkdirAll p14 perm14 a]) \<Longrightarrow> ensures (fs_MkdirAll env p14 perm14) Q14"
  "(\<And>a. Q15 a [OpenCreate p15 perm15 a]) \<Longrightarrow> ensures (fs_OpenCreate env p15 perm15) Q15"
  "(\<And>a. Q16 a [Stat p16 a]) \<Longrightarrow> ensures (unix_Stat env p16) Q16"
  "(\<And>a. Q17 a [Statfs p17 a]) \<Longrightarrow> ensures (unix_Statfs env p17) Q17"
  "(\<And>a. Q18 a [EvalSymlinks p18 a]) \<Longrightarrow> ensures (fs_EvalSymlinks env p18) Q18"
  "(\<And>a. Q19 a [DeviceNameFromMount p19 a]) \<Longrightarrow> ensures (mount_GetDeviceName env p19) Q19"
  "(\<And>a. Q20 a [ResizeFs dev20 p20 a]) \<Longrightarrow> ensures (resize_Resize env dev20 p20) Q20"
  "(\<And>a. Q21 a [ListApiEndpoints a]) \<Longrightarrow> ensures (ApiEndpoint_List env) Q21"
  "(\<And>a. Q22 a [HttpGet u22 a]) \<Longrightarrow> ensures (http_Get env u22) Q22"
  "(\<And>a. Q23 a [BuildSdk c23 a]) \<Longrightarrow> ensures (ycloud_Build env c23) Q23"
  "(\<And>a. Q24 a [RemoveFile p24 a]) \<Longrightarrow> ensures (os_Remove env p24) Q24"
  "(\<And>a. Q25 a [NetListen n25 a25 a]) \<Longrightarrow> ensures (net_Listen env n25 a25) Q25"
  by (auto simp: call_defs no_lock_event_def intro!: ensures_call ensures_bind ensures_return)

lemma ensures_mono: "ensures m P \<Longrightarrow> (\<And>r es. P r es \<Longrightarrow> Q r es) \<Longrightarrow> ensures m Q"
  unfolding ensures_def by meson

lemma ensures_conj: "ensures m P \<Longrightarrow> ensures m Q \<Longrightarrow> ensures m (\<lambda>r es. P r es \<and> Q r es)"
  unfolding ensures_def appends_def by (metis same_append_eq)

lemma ensures_case_sum [wp]:
  "(\<And>e. x = Inl e \<Longrightarrow> ensures (f e) Q) \<Longrightarrow> (\<And>v. x = Inr v \<Longrightarrow> ensures (g v) Q) \<Longrightarrow>
   ensures (case x of Inl e \<Rightarrow> f e | Inr v \<Rightarrow> g v) Q"
  by (cases x) auto

lemma ensures_case_option [wp]:
  "(x = None \<Longrightarrow> ensures m Q) \<Longrightarrow> (\<And>v. x = Some v \<Longrightarrow> ensures (f v) Q) \<Longrightarrow>
   ensures (case x of None \<Rightarrow> m | Some v \<Rightarrow> f v) Q"
  by (cases x) auto

lemma ensures_case_list [wp]:
  "(xs = [] \<Longrightarrow> ensures m Q) \<Longrightarrow> (\<And>y ys. xs = y # ys \<Longrightarrow> ensures (f y ys) Q) \<Longrightarrow>
   ensures (case xs of [] \<Rightarrow> m | y # ys \<Rightarrow> f y ys) Q"
  by (cases xs) auto

lemma ensures_case_exec_error [wp]:
  "(\<And>c t. x = ExitError c t \<Longrightarrow> ensures (f c t) Q) \<Longrightarrow>
   (\<And>t. x = RunError t \<Longrightarrow> ensures (g t) Q) \<Longrightarrow>
   ensures (case x of ExitError c t \<Rightarrow> f c t | RunError t \<Rightarrow> g t) Q"
  by (cases x) auto

lemma ensures_case_access_type [wp]:
  "(x = AccessBlock \<Longrightarrow> ensures m Q) \<Longrightarrow> (\<And>v. x = AccessMount v \<Longrightarrow> ensures (f v) Q) \<Longrightarrow>
   ensures (case x of AccessBlock \<Rightarrow> m | AccessMount v \<Rightarrow> f v) Q"
  by (cases x) auto

lemma run_state_cases [run_simps]:
  "run_state (case x of ExitError c t \<Rightarrow> f c t | RunError t \<Rightarrow> g t) s =
   (case x of ExitError c t \<Rightarrow> run_state (f c t) s | RunError t \<Rightarrow> run_state (g t) s)"
  "run_state (case y of AccessBlock \<Rightarrow> m | AccessMount v \<Rightarrow> n v) s =
   (case y of AccessBlock \<Rightarrow> run_state m s | AccessMount v \<Rightarrow> run_state (n v) s)"
  by (cases x; simp) (cases y; simp)

lemma ensures_case_prod [wp]:
  "(\<And>a b. p = (a, b) \<Longrightarrow> ensures (f a b) Q) \<Longrightarrow> ensures (case p of (a, b) \<Rightarrow> f a b) Q"
  by (cases p) auto

lemma ensures_if [wp]:
  "(b \<Longrightarrow> ensures m Q) \<Longrightarrow> (\<not> b \<Longrightarrow> ensures n Q) \<Longrightarrow> ensures (if b then m else n) Q"
  by simp

lemma ensures_let [wp]:
  "(\<And>x. x = a \<Longrightarrow> ensures (f x) Q) \<Longrightarrow> ensures (let x = a in f x) Q"
  by simp

text \<open>
  \<open>preceded P Q es\<close>: in \<open>es\<close>, no event satisfying \<open>Q\<close> comes before the first one satisfying
  \<open>P\<close>; an event satisfying both counts as the first.
\<close>

fun preceded :: "('op event \<Rightarrow> bool) \<Rightarrow> ('op event \<Rightarrow> bool) \<Rightarrow> 'op event list \<Rightarrow> bool" where
  "preceded P Q [] \<longleftrightarrow> True"
| "preceded P Q (e # es) \<longleftrightarrow> P e \<or> \<not> Q e \<and> preceded P Q es"

lemma preceded_append [simp]:
  "preceded P Q (us @ vs) \<longleftrightarrow> preceded P Q us \<and> (list_ex P us \<or> preceded P Q vs)"
  by (induction us) auto

lemma split_Cons_iff:
  "(\<forall>us e vs. a # es = us @ e # vs \<longrightarrow> R us e) \<longleftrightarrow>
   R [] a \<and> (\<forall>us e vs. es = us @ e # vs \<longrightarrow> R (a # us) e)" (is "?L \<longleftrightarrow> ?R")
proof
  assume L: ?L
  then show ?R by (metis append_Cons append_Nil)
next
  assume R: ?R
  show ?L
  proof (intro allI impI)
    fix us e vs
    assume "a # es = us @ e # vs"
    with R show "R us e" by (cases us) auto
  qed
qed

lemma preceded_iff:
  "preceded P Q es \<longleftrightarrow> (\<forall>us e vs. es = us @ e # vs \<longrightarrow> (Q e \<longrightarrow> P e \<or> list_ex P us))"
proof (induction es)
  case (Cons a es)
  show ?case by (simp only: split_Cons_iff preceded.simps Cons) auto
qed simp

lemma preceded_none: "list_all (\<lambda>e. \<not> Q e) es \<Longrightarrow> preceded P Q es"
  by (induction es) auto

lemma run_state_call [run_simps]:
  "run_state (call ev m) w = (case run_state m (ext w) of
     (r, x) \<Rightarrow> (r, w\<lparr>ext := x, history := history w @ [ev r]\<rparr>))"
  by (simp add: call_def)

end
