(* ===== verification/Operation_Wrapper.thy ===== *)
theory Operation_Wrapper
  imports Environment
begin

text \<open>
  \<^verbatim>\<open>ychelpers/operation_wrapper.go\<close>: every change of the cloud is an asynchronous operation;
  \<^verbatim>\<open>WaitForResult\<close> starts it, waits for it and fetches its response, and stops at the
  first of the three steps that fails. The second component of its result is the operation, which
  is set once the operation has been wrapped.
\<close>

definition WaitForResult ::
  "('w, 'op) env \<Rightarrow> ('w, 'op, go_error + 'op) io \<Rightarrow> ('w, 'op, (go_error + message) \<times> 'op option) io"
where
  "WaitForResult env origFunc = do {
     started \<leftarrow> origFunc;
     case sdk_WrapOperation env started of
       Inl err \<Rightarrow> State_Monad.return (Inl err, None)
     | Inr op \<Rightarrow> do {
         waited \<leftarrow> Operation_Wait env op;
         case waited of
           Some err \<Rightarrow> State_Monad.return (Inl err, Some op)
         | None \<Rightarrow> do {
             response \<leftarrow> Operation_Response env op;
             case response of
               Inl err \<Rightarrow> State_Monad.return (Inl err, Some op)
             | Inr resp \<Rightarrow> State_Monad.return (Inr resp, Some op)
           }
       }
   }"

text \<open>
  The events of one run, given those of the start: nothing more when wrapping fails, a wait that
  fails, or a wait that succeeds and a response.
\<close>

inductive op_run :: "('w, 'op) env \<Rightarrow> (go_error + 'op) \<Rightarrow> (go_error + message) \<times> 'op option \<Rightarrow>
    'op event list \<Rightarrow> bool"
  for env started
where
  not_wrapped: "sdk_WrapOperation env started = Inl err \<Longrightarrow>
    op_run env started (Inl err, None) []"
| wait_failed: "sdk_WrapOperation env started = Inr op \<Longrightarrow>
    op_run env started (Inl err, Some op) [Wait op (Some err)]"
| response_failed: "sdk_WrapOperation env started = Inr op \<Longrightarrow>
    op_run env started (Inl err, Some op) [Wait op None, Response op (Inl err)]"
| finished: "sdk_WrapOperation env started = Inr op \<Longrightarrow>
    op_run env started (Inr resp, Some op) [Wait op None, Response op (Inr resp)]"

inductive_simps op_run_Inr: "op_run env started (Inr resp, x) es"
inductive_simps op_run_Inl: "op_run env started (Inl err, x) es"
inductive_cases op_runE: "op_run env started r es"

lemma ensures_WaitForResult [wp]:
  assumes "ensures origFunc (\<lambda>started es. \<forall>r es'. op_run env started r es' \<longrightarrow> Q r (es @ es'))"
  shows "ensures (WaitForResult env origFunc) Q"
  unfolding WaitForResult_def
  by (rule ensures_bind, rule ensures_mono [OF assms], intro wp)
    (simp_all, (metis append_Nil2 op_run.intros)+)

end
