(* ===== verification/Driver_State.thy ===== *)
theory Driver_State
  imports Environment
begin

text \<open>
  The configuration half of \<^verbatim>\<open>driver.Driver\<close>: the fields set once by \<^verbatim>\<open>NewDriver\<close>
  and only read afterwards. The fields that change, \<^verbatim>\<open>resizeLocks\<close> and \<^verbatim>\<open>ready\<close>,
  are part of the world; the SDK, the mounter and the health checker are the environment and the
  operations of their own theories; the servers and the logger have no state the handlers read.
\<close>

record driver =
  drv_name :: string
  drv_publishInfoVolumeName :: string
  drv_endpoint :: string
  drv_address :: string
  drv_hostID :: string
  drv_folderID :: string
  drv_waitActionTimeout :: nat  \<comment> \<open>seconds\<close>
  drv_region :: string
  drv_zone :: string
  drv_clusterUUID :: string

definition regionTopologyKey :: string where
  "regionTopologyKey = ''failure-domain.beta.kubernetes.io/region''"

definition zoneTopologyKey :: string where
  "zoneTopologyKey = ''failure-domain.beta.kubernetes.io/zone''"

lemma topology_keys_differ [simp]:
  "regionTopologyKey \<noteq> zoneTopologyKey" "zoneTopologyKey \<noteq> regionTopologyKey"
  by (simp_all add: regionTopologyKey_def zoneTopologyKey_def)

text \<open>The segments every response carries.\<close>

definition topology_of :: "string \<Rightarrow> string \<Rightarrow> topology" where
  "topology_of region zone =
     \<lparr>Segments = [regionTopologyKey \<mapsto> region, zoneTopologyKey \<mapsto> zone]\<rparr>"

end
