(* ===== verification/Encoding.thy ===== *)
theory Encoding
  imports Go_Strconv
begin

text \<open>
  \<^verbatim>\<open>driver/encoding.go\<close>: the device name a volume gets when it is attached. It is the
  FNV-1a hash of the volume id at 32 bits, in decimal after the prefix \<^verbatim>\<open>csi-\<close>, so it has
  a fixed shape (which the node relies on when it counts the disks that are not its own and when
  it looks the device up under \<^verbatim>\<open>/dev/disk/by-id\<close>) but need not be unique.
  \<^verbatim>\<open>int\<close> is taken to be 64 bits wide.
\<close>

unbundle bit_operations_syntax

text \<open>\<^verbatim>\<open>hash/fnv\<close>: the state of \<^verbatim>\<open>New32a\<close> after writing the bytes of a string.\<close>

definition fnv32a_step :: "uint32 \<Rightarrow> char \<Rightarrow> uint32" where
  "fnv32a_step h c = (h XOR of_nat (of_char c)) * 16777619"

definition fnv32a :: "string \<Rightarrow> uint32" where
  "fnv32a s = foldl fnv32a_step 2166136261 s"

definition genDiskID :: "string \<Rightarrow> string" where
  "genDiskID str = ''csi-'' @ Itoa (uint (fnv32a str))"

lemma Itoa_uint: "Itoa (uint (h :: uint32)) = put_digits (nat (uint h)) []"
  by (simp add: Itoa_def)

lemma genDiskID_digits: "genDiskID s = ''csi-'' @ put_digits (unat (fnv32a s)) []"
  by (simp add: genDiskID_def Itoa_uint)

text \<open>
  The device name has a fixed shape: \<^verbatim>\<open>csi-\<close> and one to ten decimal digits, so it
  contains no slash; the digits are the hash.
\<close>

lemma genDiskID_shape:
  "\<exists>ds. genDiskID s = ''csi-'' @ ds \<and> ds \<noteq> [] \<and> length ds \<le> 10 \<and> list_all is_digit ds \<and>
    parse_digits 0 ds = Some (unat (fnv32a s))"
proof -
  let ?ds = "put_digits (unat (fnv32a s)) []"
  have "unat (fnv32a s) < 10 ^ 10"
    using unsigned_less [of "fnv32a s", where ?'a = nat] by simp
  then have "length ?ds \<le> 10" using put_digits_length [of _ 10 "[]"] by simp
  moreover have "list_all is_digit ?ds"
    using put_digits_digits [of "[]"] by (auto simp: list_all_iff)
  ultimately show ?thesis by (intro exI [of _ ?ds]) (simp add: genDiskID_digits)
qed

text \<open>Two names agree exactly if the hashes do.\<close>

lemma genDiskID_eq_iff: "genDiskID s = genDiskID t \<longleftrightarrow> fnv32a s = fnv32a t"
  by (simp add: genDiskID_digits put_digits_inject word_unat_eq_iff)

lemma fnv32a_collision: "fnv32a ''costarring'' = fnv32a ''liquid''"
  by (simp add: fnv32a_def fnv32a_step_def of_char_def)

end
