(* ===== verification/Example_Env.thy ===== *)
theory Example_Env
  imports Environment
begin

text \<open>
  One concrete environment, for the examples that show a theorem at work: a cloud with no disks
  whose operations all succeed, and a node on which every command succeeds, where
  \<^verbatim>\<open>blkid\<close> finds a blank device and \<^verbatim>\<open>findmnt\<close> no mount. Nothing ever changes the
  state of its outside, so it fits any (\<open>quiet_env\<close>); \<open>example_env\<close> has none. Each example overrides
  the fields it needs.
\<close>

definition example_disk :: disk where
  "example_disk = \<lparr>disk_Id = ''disk-1'', disk_Name = ''pvc-1'', disk_Size = 0x40000000,
     disk_BlockSize = 0, disk_ZoneId = ''zone-a'', disk_InstanceIds = []\<rparr>"

definition example_instance :: instance_info where
  "example_instance = \<lparr>inst_PlatformId = ''standard-v3'', inst_Cores = Some 4,
     inst_NetworkInterfaces = [''eth0''], inst_SecondaryDisks = [''csi-1'', ''data''],
     inst_LocalDisks = [], inst_Filesystems = []\<rparr>"

definition not_found :: go_error where
  "not_found = ForeignError NotFound ''not found'' ''not found''"

definition example_exec :: "string \<Rightarrow> string list \<Rightarrow> string \<times> exec_error option" where
  "example_exec cmd args =
     (if cmd = ''blkid'' then ([], Some (ExitError 2 ''exit status 2''))
      else if cmd = ''findmnt'' then ([], Some (ExitError 1 ''exit status 1''))
      else ([], None))"

definition quiet_env :: "('w, nat) env" where
  "quiet_env =
     \<lparr>unicode_IsPrint = (\<lambda>c. 32 \<le> c \<and> c < 127),
      sets_List = (\<lambda>A. if A = {} then [] else [''violation'']),
      fmt_disks = (\<lambda>ds. []),
      json_error = (\<lambda>s. ''invalid JSON''),
      api_Disk_List = (\<lambda>r. State_Monad.return (Inr \<lparr>ldr_Disks = [], ldr_NextPageToken = []\<rparr>)),
      api_Disk_Get = (\<lambda>i. State_Monad.return (Inr example_disk)),
      api_Disk_Create = (\<lambda>r. State_Monad.return (Inr 1)),
      api_Disk_Delete = (\<lambda>i. State_Monad.return (Inr 2)),
      api_Disk_Update = (\<lambda>r. State_Monad.return (Inr 3)),
      api_Instance_Get = (\<lambda>i. State_Monad.return (Inr example_instance)),
      api_Instance_AttachDisk = (\<lambda>r. State_Monad.return (Inr 4)),
      api_Instance_DetachDisk = (\<lambda>r. State_Monad.return (Inr 5)),
      sdk_WrapOperation = (\<lambda>r. r),
      op_Wait = (\<lambda>x. State_Monad.return None),
      op_Response = (\<lambda>x. State_Monad.return
        (Inr (if x = 1 then DiskMessage example_disk else OtherMessage ''empty''))),
      api_ApiEndpoint_List = State_Monad.return None,
      os_LookPath = (\<lambda>c. State_Monad.return None),
      os_Exec = (\<lambda>c args. State_Monad.return (example_exec c args)),
      k8s_Exec = (\<lambda>c args. State_Monad.return ([], None)),
      os_MkdirAll = (\<lambda>p n. State_Monad.return None),
      os_OpenCreate = (\<lambda>p n. State_Monad.return None),
      os_Stat = (\<lambda>p. State_Monad.return (Inr 0x41ED)),
      os_Statfs = (\<lambda>p. State_Monad.return
        (Inr \<lparr>Bsize = 4096, Blocks = 100, Bfree = 40, Bavail = 30, Files = 10, Ffree = 4\<rparr>)),
      os_EvalSymlinks = (\<lambda>p. State_Monad.return (Inr ''/dev/vdb'')),
      k8s_DeviceNameFromMount = (\<lambda>p. State_Monad.return (Inr ''/dev/vdb'')),
      k8s_ResizeFs = (\<lambda>dev p. State_Monad.return (Inr True)),
      net_HttpGet = (\<lambda>u. State_Monad.return (Inr \<lparr>StatusCode = 200, Body = Inr ''{}''\<rparr>)),
      sdk_Build = (\<lambda>c. State_Monad.return None),
      os_RemoveFile = (\<lambda>p. State_Monad.return (Some (NotExist ''no such file''))),
      net_Listener = (\<lambda>n a. State_Monad.return None),
      json_iamKey = (\<lambda>s. Inr s),
      sdk_ServiceAccountKey = (\<lambda>k. Inr k),
      url_bracketed = (\<lambda>s. Inl ''invalid host'')\<rparr>"

definition example_env :: "(unit, nat) env" where
  "example_env = quiet_env"

definition example_world :: "(unit, nat) world" where
  "example_world = \<lparr>ext = (), resizeLocks = NewRwMap, ready = True, history = []\<rparr>"

lemma example_world_simps [simp]:
  "history example_world = []" "resizeLocks example_world = NewRwMap"
  "ready example_world" "ext example_world = ()"
  by (simp_all add: example_world_def)

text \<open>A theorem of the form \<open>ensures\<close> applied to one run.\<close>

lemma ensures_at:
  "ensures m Q \<Longrightarrow> run_state m w = (r, w') \<Longrightarrow> history w = [] \<Longrightarrow> Q r (history w')"
  by (drule (1) ensuresD) (auto simp: appends_def)

lemma example_env_simps [simp]:
  "api_Disk_List example_env r = State_Monad.return (Inr \<lparr>ldr_Disks = [], ldr_NextPageToken = []\<rparr>)"
  "api_Disk_Get example_env i = State_Monad.return (Inr example_disk)"
  "api_Disk_Create example_env r1 = State_Monad.return (Inr 1)"
  "api_Disk_Delete example_env i = State_Monad.return (Inr 2)"
  "api_Disk_Update example_env r2 = State_Monad.return (Inr 3)"
  "api_Instance_Get example_env i = State_Monad.return (Inr example_instance)"
  "api_Instance_AttachDisk example_env r3 = State_Monad.return (Inr 4)"
  "api_Instance_DetachDisk example_env r4 = State_Monad.return (Inr 5)"
  "sdk_WrapOperation example_env x = x"
  "op_Wait example_env n = State_Monad.return None"
  "op_Response example_env n = State_Monad.return
     (Inr (if n = 1 then DiskMessage example_disk else OtherMessage ''empty''))"
  "sets_List example_env A = (if A = {} then [] else [''violation''])"
  "json_error example_env i = ''invalid JSON''"
  "os_LookPath example_env i = State_Monad.return None"
  "os_Exec example_env i args = State_Monad.return (example_exec i args)"
  "k8s_Exec example_env i args = State_Monad.return ([], None)"
  "os_MkdirAll example_env i k = State_Monad.return None"
  "os_OpenCreate example_env i k = State_Monad.return None"
  "os_EvalSymlinks example_env i = State_Monad.return (Inr ''/dev/vdb'')"
  "k8s_DeviceNameFromMount example_env i = State_Monad.return (Inr ''/dev/vdb'')"
  "k8s_ResizeFs example_env i j = State_Monad.return (Inr True)"
  "os_Stat example_env i = State_Monad.return (Inr 0x41ED)"
  "os_Statfs example_env i = State_Monad.return
     (Inr \<lparr>Bsize = 4096, Blocks = 100, Bfree = 40, Bavail = 30, Files = 10, Ffree = 4\<rparr>)"
  "api_ApiEndpoint_List example_env = State_Monad.return None"
  "net_HttpGet example_env i = State_Monad.return (Inr \<lparr>StatusCode = 200, Body = Inr ''{}''\<rparr>)"
  "sdk_Build example_env i = State_Monad.return None"
  "os_RemoveFile example_env i = State_Monad.return (Some (NotExist ''no such file''))"
  "net_Listener example_env i j = State_Monad.return None"
  "json_iamKey example_env i = Inr i"
  "sdk_ServiceAccountKey example_env i = Inr i"
  "url_bracketed example_env i = Inl ''invalid host''"
  by (simp_all add: example_env_def quiet_env_def)

lemmas example_simps = run_simps call_defs example_exec_def not_found_def Let_def

end
