(* ===== verification/Guarded_Rpc.thy ===== *)
theory Guarded_Rpc
  imports Environment
begin

text \<open>
  The contract all handlers share: a request that lacks a required field is answered with
  \<^verbatim>\<open>InvalidArgument\<close> before the handler does anything. The controller and the node
  theories interpret the locale for each of their handlers.
\<close>

locale guarded_rpc =
  fixes handler :: "'req \<Rightarrow> ('w, 'op, fault + 'a) io"
    and invalid :: "'req \<Rightarrow> bool"
  assumes rejects: "invalid req \<Longrightarrow> \<exists>msg. handler req = reject InvalidArgument msg"
begin

lemma rejected: "invalid req \<Longrightarrow> \<exists>msg. run_state (handler req) w = (fail InvalidArgument msg, w)"
  using rejects by fastforce

text \<open>An invalid request is invisible to whatever is served after it.\<close>

lemma rejected_invisible:
  "invalid req \<Longrightarrow> run_state (State_Monad.bind (handler req) (\<lambda>_. m)) w = run_state m w"
  using rejects by fastforce

end

end
