(* ===== verification/Controller.thy ===== *)
theory Controller
  imports Operation_Wrapper Driver_State Encoding Example_Env Guarded_Rpc
begin

text \<open>
  The controller service of \<^verbatim>\<open>driver/controller.go\<close>: creating, deleting, attaching,
  detaching, listing and expanding disks. Each handler is one definition with the code's guards
  and early returns in the code's order; the calls it makes are those of the environment. Log
  statements are left out: they read values that are all defined at their place and change
  nothing.
\<close>

subsection \<open>Capabilities\<close>

definition supportedAccessMode :: access_mode where
  "supportedAccessMode = SINGLE_NODE_WRITER"

text \<open>The generated \<^verbatim>\<open>String()\<close> of the access mode enumeration.\<close>

fun access_mode_String :: "access_mode \<Rightarrow> string" where
  "access_mode_String UNKNOWN = ''UNKNOWN''"
| "access_mode_String SINGLE_NODE_WRITER = ''SINGLE_NODE_WRITER''"
| "access_mode_String SINGLE_NODE_READER_ONLY = ''SINGLE_NODE_READER_ONLY''"
| "access_mode_String MULTI_NODE_READER_ONLY = ''MULTI_NODE_READER_ONLY''"
| "access_mode_String MULTI_NODE_SINGLE_WRITER = ''MULTI_NODE_SINGLE_WRITER''"
| "access_mode_String MULTI_NODE_MULTI_WRITER = ''MULTI_NODE_MULTI_WRITER''"
| "access_mode_String SINGLE_NODE_SINGLE_WRITER = ''SINGLE_NODE_SINGLE_WRITER''"
| "access_mode_String SINGLE_NODE_MULTI_WRITER = ''SINGLE_NODE_MULTI_WRITER''"
| "access_mode_String (OtherMode n) = Itoa (int n)"

text \<open>The loop of \<^verbatim>\<open>validateCapabilities\<close> over the requested capabilities.\<close>

fun insert_violations :: "string set \<Rightarrow> volume_capability list \<Rightarrow> string set" where
  "insert_violations violations [] = violations"
| "insert_violations violations (capability # caps) =
     (let mode = GetAccessMode capability;
          violations1 = (if mode \<noteq> supportedAccessMode
            then insert (''unsupported access mode '' @ access_mode_String mode) violations
            else violations);
          violations2 = (case AccessType capability of
              Some AccessBlock \<Rightarrow> violations1
            | Some (AccessMount _) \<Rightarrow> violations1
            | None \<Rightarrow> insert ''unsupported access type'' violations1)
      in insert_violations violations2 caps)"

definition validateCapabilities ::
  "('w, 'op) env \<Rightarrow> volume_capability list \<Rightarrow> string list" where
  "validateCapabilities env caps = sets_List env (insert_violations {} caps)"

subsection \<open>CreateVolume\<close>

definition createdByYandex :: string where
  "createdByYandex = ''Created by Yandex CSI driver''"

text \<open>The loop over the requisite topologies: the last one decides.\<close>

fun requisite_topology :: "string \<Rightarrow> string \<Rightarrow> topology list \<Rightarrow> fault + string \<times> string" where
  "requisite_topology region zone [] = Inr (region, zone)"
| "requisite_topology region zone (t # ts) =
     (case Segments t regionTopologyKey of
        None \<Rightarrow> fail InvalidArgument ''CreateVolume AccessibilityRequirements missing a region''
      | Some regionStr \<Rightarrow>
          (case Segments t zoneTopologyKey of
             None \<Rightarrow> fail InvalidArgument ''CreateVolume AccessibilityRequirements missing a zone''
           | Some zoneStr \<Rightarrow> requisite_topology regionStr zoneStr ts))"

text \<open>The local variables of \<^verbatim>\<open>CreateVolume\<close> once the request is validated.\<close>

record create_params =
  cp_typeID :: string
  cp_blockSize :: int64
  cp_size :: int64
  cp_region :: string
  cp_zone :: string

definition CreateVolume_blockSize ::
  "('w, 'op) env \<Rightarrow> create_volume_request \<Rightarrow> fault + int64" where
  "CreateVolume_blockSize env req =
     (case cvr_Parameters req ''blockSize'' of
        None \<Rightarrow> Inr defaultBlockSizeInBytes
      | Some rawBlockSize \<Rightarrow>
          if TrimSpace rawBlockSize \<noteq> [] then
            (case parseBlockSize (unicode_IsPrint env) rawBlockSize of
               Inl err \<Rightarrow> fail InvalidArgument
                 (''CreateVolume invalid volume parameter \"blockSize\": '' @ err_Error err)
             | Inr parsedBlockSize \<Rightarrow> Inr parsedBlockSize)
          else Inr defaultBlockSizeInBytes)"

definition CreateVolume_params ::
  "('w, 'op) env \<Rightarrow> create_volume_request \<Rightarrow> fault + create_params" where
  "CreateVolume_params env req =
     (if cvr_Name req = [] then fail InvalidArgument ''CreateVolume Name must be provided''
      else if cvr_VolumeCapabilities req = [] then
        fail InvalidArgument ''CreateVolume Volume capabilities must be provided''
      else let violations = validateCapabilities env (cvr_VolumeCapabilities req) in
      if violations \<noteq> [] then
        fail InvalidArgument (''volume capabilities cannot be satisified: '' @ Join violations ''; '')
      else (case cvr_Parameters req ''typeID'' of
        None \<Rightarrow> fail InvalidArgument ''CreateVolume Volume parameter \"typeID\" must be provided''
      | Some typeID \<Rightarrow>
        (case CreateVolume_blockSize env req of
          Inl f \<Rightarrow> Inl f
        | Inr blockSize \<Rightarrow>
          (case extractStorage (cvr_CapacityRange req) (maximumVolumeSize blockSize) of
            Inl err \<Rightarrow> fail OutOfRange (''invalid capacity range: '' @ err_Error err)
          | Inr volSize \<Rightarrow>
            (case (case cvr_AccessibilityRequirements req of
                     None \<Rightarrow> Inr ([], [])
                   | Some requisite \<Rightarrow> requisite_topology [] [] requisite) of
              Inl f \<Rightarrow> Inl f
            | Inr (region, zone) \<Rightarrow>
                Inr \<lparr>cp_typeID = typeID, cp_blockSize = blockSize, cp_size = volSize,
                  cp_region = region, cp_zone = zone\<rparr>)))))"

definition CreateVolume_listRequest ::
  "('w, 'op) env \<Rightarrow> driver \<Rightarrow> create_volume_request \<Rightarrow> list_disks_request" where
  "CreateVolume_listRequest env d req =
     \<lparr>ldr_FolderId = drv_folderID d, ldr_PageSize = 0, ldr_PageToken = [],
      ldr_Filter = ''name='' @ Quote (unicode_IsPrint env) (cvr_Name req)\<rparr>"

text \<open>The block size a listed disk really has: unset means the cloud's default.\<close>

definition existing_block_size :: "disk \<Rightarrow> int64" where
  "existing_block_size vol =
     (if disk_BlockSize vol = 0 then defaultBlockSizeInBytes else disk_BlockSize vol)"

text \<open>What \<^verbatim>\<open>CreateVolume\<close> answers when the list is not empty (its first disk and the rest).\<close>

definition CreateVolume_existing ::
  "('w, 'op) env \<Rightarrow> create_volume_request \<Rightarrow> create_params \<Rightarrow> disk \<Rightarrow> disk list \<Rightarrow>
   fault + csi_volume" where
  "CreateVolume_existing env req p vol rest =
     (if rest \<noteq> [] then
        Inl (Error (PlainError (''fatal issue: duplicate volume '' @
          Quote (unicode_IsPrint env) (cvr_Name req) @ '' exists'' @ [CHR 0x0A] @
          fmt_disks env (vol # rest))))
      else if disk_Size vol \<noteq> cp_size p then
        fail AlreadyExists (''invalid option requested size: '' @ fmt_d (cp_size p))
      else let existingBlockSize = existing_block_size vol in
      if existingBlockSize \<noteq> cp_blockSize p then
        fail AlreadyExists (''invalid option requested block size: '' @ fmt_d (cp_blockSize p) @
          '', existing volume block size: '' @ fmt_d existingBlockSize)
      else Inr \<lparr>VolumeId = disk_Id vol, CapacityBytes = disk_Size vol,
             AccessibleTopology = [topology_of (cp_region p) (disk_ZoneId vol)]\<rparr>)"

definition CreateVolume_createRequest ::
  "driver \<Rightarrow> create_volume_request \<Rightarrow> create_params \<Rightarrow> create_disk_request" where
  "CreateVolume_createRequest d req p =
     \<lparr>cdr_FolderId = drv_folderID d, cdr_Name = cvr_Name req,
      cdr_Description = createdByYandex,
      cdr_Labels = [''cluster_uuid'' \<mapsto> drv_clusterUUID d],
      cdr_TypeId = cp_typeID p, cdr_ZoneId = cp_zone p, cdr_Size = cp_size p,
      cdr_BlockSize = cp_blockSize p\<rparr>"

text \<open>
  The result of the operation is asserted to be a disk; the assertion panics on any other
  message.
\<close>

definition CreateVolume_created :: "create_params \<Rightarrow> message \<Rightarrow> fault + csi_volume" where
  "CreateVolume_created p result =
     (case result of
        OtherMessage m \<Rightarrow> Inl (Panic ''interface conversion'')
      | DiskMessage newDisk \<Rightarrow>
          Inr \<lparr>VolumeId = disk_Id newDisk, CapacityBytes = disk_Size newDisk,
            AccessibleTopology = [topology_of (cp_region p) (cp_zone p)]\<rparr>)"

definition CreateVolume ::
  "('w, 'op) env \<Rightarrow> driver \<Rightarrow> create_volume_request \<Rightarrow> ('w, 'op, fault + csi_volume) io" where
  "CreateVolume env d req =
     (case CreateVolume_params env req of
        Inl f \<Rightarrow> State_Monad.return (Inl f)
      | Inr p \<Rightarrow> do {
          listDiskResp \<leftarrow> Disk_List env (CreateVolume_listRequest env d req);
          case listDiskResp of
            Inl err \<Rightarrow> reject Internal (err_Error err)
          | Inr resp \<Rightarrow>
              (case ldr_Disks resp of
                 vol # rest \<Rightarrow> State_Monad.return (CreateVolume_existing env req p vol rest)
               | [] \<Rightarrow> do {
                   (created, _) \<leftarrow> WaitForResult env
                     (Disk_Create env (CreateVolume_createRequest d req p));
                   case created of
                     Inl err \<Rightarrow> reject Internal (err_Error err)
                   | Inr result \<Rightarrow> State_Monad.return (CreateVolume_created p result)
                 })
        })"

subsection \<open>DeleteVolume\<close>

definition DeleteVolume ::
  "('w, 'op) env \<Rightarrow> string \<Rightarrow> ('w, 'op, fault + unit) io" where
  "DeleteVolume env volumeId =
     (if volumeId = [] then reject InvalidArgument ''DeleteVolume Volume ID must be provided''
      else do {
        (deleted, _) \<leftarrow> WaitForResult env (Disk_Delete env volumeId);
        case deleted of
          Inl err \<Rightarrow>
            if status_Code err = NotFound then State_Monad.return (Inr ())
            else reject Internal (err_Error err)
        | Inr response \<Rightarrow> State_Monad.return (Inr ())
      })"

subsection \<open>ControllerPublishVolume\<close>

text \<open>The verb \<^verbatim>\<open>%v\<close> applied to a list of strings.\<close>

definition fmt_v_strings :: "string list \<Rightarrow> string" where
  "fmt_v_strings xs = ''['' @ Join xs '' '' @ '']''"

definition attach_request :: "controller_publish_request \<Rightarrow> attach_disk_request" where
  "attach_request req =
     \<lparr>adr_InstanceId = cpr_NodeId req, adr_Mode = READ_WRITE,
      adr_DeviceName = genDiskID (cpr_VolumeId req), adr_AutoDelete = False,
      adr_DiskId = cpr_VolumeId req\<rparr>"

definition publish_context :: "driver \<Rightarrow> disk \<Rightarrow> strmap" where
  "publish_context d vol = [drv_publishInfoVolumeName d \<mapsto> disk_Name vol]"

definition ControllerPublishVolume_check :: "controller_publish_request \<Rightarrow> fault option" where
  "ControllerPublishVolume_check req =
     (if cpr_VolumeId req = [] then
        Some (Error (StatusError InvalidArgument
          ''ControllerPublishVolume Volume ID must be provided''))
      else if cpr_NodeId req = [] then
        Some (Error (StatusError InvalidArgument
          ''ControllerPublishVolume Node ID must be provided''))
      else if cpr_VolumeCapability req = None then
        Some (Error (StatusError InvalidArgument
          ''ControllerPublishVolume Volume capability must be provided''))
      else if cpr_Readonly req then
        Some (Error (StatusError AlreadyExists ''read only Volumes are not supported''))
      else None)"

definition ControllerPublishVolume ::
  "('w, 'op) env \<Rightarrow> driver \<Rightarrow> controller_publish_request \<Rightarrow> ('w, 'op, fault + strmap) io" where
  "ControllerPublishVolume env d req =
     (case ControllerPublishVolume_check req of
        Some f \<Rightarrow> State_Monad.return (Inl f)
      | None \<Rightarrow> do {
          locked \<leftarrow> locks_VolIdExists (cpr_VolumeId req);
          if locked then reject Internal ''Resize required, not publishing''
          else do {
            got \<leftarrow> Disk_Get env (cpr_VolumeId req);
            case got of
              Inl err \<Rightarrow>
                if status_Code err = NotFound then
                  reject NotFound (''volume '' @ Quote (unicode_IsPrint env) (cpr_VolumeId req) @
                    '' does not exist'')
                else State_Monad.return (Inl (Error err))
            | Inr vol \<Rightarrow> do {
                inst \<leftarrow> Instance_Get env (cpr_NodeId req);
                case inst of
                  Inl err \<Rightarrow>
                    if status_Code err = NotFound then
                      reject NotFound (''instance '' @
                        Quote (unicode_IsPrint env) (cpr_NodeId req) @ '' does not exist'')
                    else State_Monad.return (Inl (Error err))
                | Inr _ \<Rightarrow>
                    if list_ex (\<lambda>id. id = cpr_NodeId req) (disk_InstanceIds vol) then
                      State_Monad.return (Inr (publish_context d vol))
                    else if disk_InstanceIds vol \<noteq> [] then
                      reject FailedPrecondition (''Disk '' @
                        Quote (unicode_IsPrint env) (cpr_VolumeId req) @
                        '' is attached to the wrong Instance(s) ('' @
                        fmt_v_strings (disk_InstanceIds vol) @
                        ''), detach the Disk to fix it'')
                    else do {
                      (attached, _) \<leftarrow> WaitForResult env
                        (Instance_AttachDisk env (attach_request req));
                      case attached of
                        Inl err \<Rightarrow> reject Internal (err_Error err)
                      | Inr _ \<Rightarrow> State_Monad.return (Inr (publish_context d vol))
                    }
              }
          }
        })"

subsection \<open>ControllerUnpublishVolume\<close>

definition ControllerUnpublishVolume ::
  "('w, 'op) env \<Rightarrow> controller_unpublish_request \<Rightarrow> ('w, 'op, fault + unit) io" where
  "ControllerUnpublishVolume env req =
     (if cur_VolumeId req = [] then
        reject InvalidArgument ''ControllerUnpublishVolume Volume ID must be provided''
      else do {
        got \<leftarrow> Disk_Get env (cur_VolumeId req);
        case got of
          Inl err \<Rightarrow>
            if status_Code err = NotFound then State_Monad.return (Inr ())
            else State_Monad.return (Inl (Error err))
        | Inr vol \<Rightarrow>
            if disk_InstanceIds vol = [] then State_Monad.return (Inr ())
            else do {
              inst \<leftarrow> Instance_Get env (cur_NodeId req);
              case inst of
                Inl err \<Rightarrow>
                  if status_Code err = NotFound then State_Monad.return (Inr ())
                  else State_Monad.return (Inl (Error err))
              | Inr _ \<Rightarrow> do {
                  (detached, _) \<leftarrow> WaitForResult env
                    (Instance_DetachDisk env
                      \<lparr>ddr_InstanceId = cur_NodeId req, ddr_DiskId = cur_VolumeId req\<rparr>);
                  case detached of
                    Inl err \<Rightarrow> reject Internal (err_Error err)
                  | Inr _ \<Rightarrow> State_Monad.return (Inr ())
                }
            }
      })"

subsection \<open>Queries\<close>

definition ValidateVolumeCapabilities ::
  "validate_capabilities_request \<Rightarrow> fault + volume_capability list" where
  "ValidateVolumeCapabilities req =
     (if vcr_VolumeId req = [] then
        fail InvalidArgument ''ValidateVolumeCapabilities Volume ID must be provided''
      else if vcr_VolumeCapabilities req = None then
        fail InvalidArgument ''ValidateVolumeCapabilities Volume Capabilities must be provided''
      else Inr [\<lparr>AccessType = None, AccessMode = Some supportedAccessMode\<rparr>])"

definition ListVolumes ::
  "('w, 'op) env \<Rightarrow> driver \<Rightarrow> list_volumes_request \<Rightarrow> ('w, 'op, fault + list_volumes_response) io"
where
  "ListVolumes env d req = do {
     let (pageSize :: int64) =
       (if lvr_MaxEntries req \<noteq> 0 then scast (lvr_MaxEntries req)
        else defaultListPageSize);
     listRes \<leftarrow> Disk_List env
       \<lparr>ldr_FolderId = drv_folderID d, ldr_PageSize = pageSize,
        ldr_PageToken = lvr_StartingToken req, ldr_Filter = []\<rparr>;
     case listRes of
       Inl err \<Rightarrow> reject Internal (err_Error err)
     | Inr res \<Rightarrow> State_Monad.return (Inr
         \<lparr>Entries = map (\<lambda>disk. \<lparr>VolumeId = disk_Id disk, CapacityBytes = disk_Size disk,
            AccessibleTopology = []\<rparr>) (ldr_Disks res),
          NextToken = ldr_NextPageToken res\<rparr>)
   }"

definition GetCapacity :: "strmap \<Rightarrow> fault + unit" where
  "GetCapacity parameters = fail Unimplemented []"

datatype controller_rpc =
    CREATE_DELETE_VOLUME | PUBLISH_UNPUBLISH_VOLUME | LIST_VOLUMES | CREATE_DELETE_SNAPSHOT
  | LIST_SNAPSHOTS | EXPAND_VOLUME

definition ControllerGetCapabilities :: "controller_rpc list" where
  "ControllerGetCapabilities =
     [CREATE_DELETE_VOLUME, PUBLISH_UNPUBLISH_VOLUME, LIST_VOLUMES, CREATE_DELETE_SNAPSHOT,
      LIST_SNAPSHOTS, EXPAND_VOLUME]"

text \<open>The snapshot methods of \<^verbatim>\<open>driver/driver.go\<close>.\<close>

definition CreateSnapshot :: "'req \<Rightarrow> fault + 'resp" where
  "CreateSnapshot req = Inl (Panic ''implement me'')"

definition DeleteSnapshot :: "'req \<Rightarrow> fault + 'resp" where
  "DeleteSnapshot req = Inl (Panic ''implement me'')"

definition ListSnapshots :: "'req \<Rightarrow> fault + 'resp" where
  "ListSnapshots req = Inl (Panic ''implement me'')"

subsection \<open>ControllerExpandVolume\<close>

definition update_request :: "string \<Rightarrow> int64 \<Rightarrow> update_disk_request" where
  "update_request volID resizeBytes =
     \<lparr>udr_DiskId = volID, udr_UpdateMask = [''size''], udr_Size = resizeBytes\<rparr>"

text \<open>The update was refused because the disk is in use: it has to be detached first.\<close>

definition must_detach :: "go_error \<Rightarrow> bool" where
  "must_detach err \<longleftrightarrow> status_Code err = FailedPrecondition \<and>
     Contains (status_Message err) ''attached to non-stopped instance''"

definition expand_node_required :: "volume_capability option \<Rightarrow> bool" where
  "expand_node_required capability =
     (case capability of
        None \<Rightarrow> True
      | Some c \<Rightarrow> (case AccessType c of Some AccessBlock \<Rightarrow> False | _ \<Rightarrow> True))"

definition ControllerExpandVolume ::
  "('w, 'op) env \<Rightarrow> controller_expand_request \<Rightarrow> ('w, 'op, fault + controller_expand_response) io"
where
  "ControllerExpandVolume env req =
     (let volID = cer_VolumeId req in
      if volID = [] then
        reject InvalidArgument ''ControllerExpandVolume volume ID missing in request''
      else do {
        got \<leftarrow> Disk_Get env volID;
        case got of
          Inl err \<Rightarrow> reject Internal
            (''ControllerExpandVolume could not retrieve existing volume: '' @ err_Error err)
        | Inr vol \<Rightarrow>
            (case extractStorage (cer_CapacityRange req)
                (maximumVolumeSize (existing_block_size vol)) of
               Inl err \<Rightarrow> reject OutOfRange
                 (''ControllerExpandVolume invalid capacity range: '' @ err_Error err)
             | Inr resizeBytes \<Rightarrow>
                 if sint resizeBytes \<le> sint (disk_Size vol) then
                   State_Monad.return (Inr
                     \<lparr>cer_CapacityBytes = disk_Size vol, NodeExpansionRequired = True\<rparr>)
                 else do {
                   (updated, _) \<leftarrow> WaitForResult env
                     (Disk_Update env (update_request volID resizeBytes));
                   case updated of
                     Inl err \<Rightarrow>
                       if must_detach err then do {
                         locks_PutVolId volID;
                         reject Internal (''cannot resize volume '' @ volID @ '': '' @ err_Error err)
                       }
                       else reject Internal (''cannot resize volume '' @ volID @ '': '' @ err_Error err)
                   | Inr _ \<Rightarrow> do {
                       locks_RemoveVolId volID;
                       State_Monad.return (Inr
                         \<lparr>cer_CapacityBytes = resizeBytes,
                          NodeExpansionRequired = expand_node_required (cer_VolumeCapability req)\<rparr>)
                     }
                 })
      })"

subsection \<open>Reading a history\<close>

fun created_disk :: "'op event \<Rightarrow> create_disk_request option" where
  "created_disk (CreateDisk r a) = Some r"
| "created_disk _ = None"

fun attached :: "'op event \<Rightarrow> attach_disk_request option" where
  "attached (AttachDisk r a) = Some r"
| "attached _ = None"

fun detached :: "'op event \<Rightarrow> detach_disk_request option" where
  "detached (DetachDisk r a) = Some r"
| "detached _ = None"

fun updated :: "'op event \<Rightarrow> update_disk_request option" where
  "updated (UpdateDisk r a) = Some r"
| "updated _ = None"

fun deleted :: "'op event \<Rightarrow> string option" where
  "deleted (DeleteDisk i a) = Some i"
| "deleted _ = None"

fun got_disk :: "string \<Rightarrow> 'op event \<Rightarrow> disk option" where
  "got_disk i (GetDisk j a) = (if i = j then (case a of Inl _ \<Rightarrow> None | Inr vol \<Rightarrow> Some vol) else None)"
| "got_disk i _ = None"

fun got_instance :: "string \<Rightarrow> 'op event \<Rightarrow> bool" where
  "got_instance i (GetInstance j a) \<longleftrightarrow> i = j \<and> (case a of Inl _ \<Rightarrow> False | Inr _ \<Rightarrow> True)"
| "got_instance i _ \<longleftrightarrow> False"

fun finished_with :: "message \<Rightarrow> 'op event \<Rightarrow> bool" where
  "finished_with m (Response x a) \<longleftrightarrow> a = Inr m"
| "finished_with m _ \<longleftrightarrow> False"

fun cloud_event :: "'op event \<Rightarrow> bool" where
  "cloud_event (PutLock v) \<longleftrightarrow> False"
| "cloud_event (RemoveLock v) \<longleftrightarrow> False"
| "cloud_event (CheckLock v b) \<longleftrightarrow> False"
| "cloud_event _ \<longleftrightarrow> True"

definition changes_cloud :: "'op event \<Rightarrow> bool" where
  "changes_cloud e \<longleftrightarrow> created_disk e \<noteq> None \<or> deleted e \<noteq> None \<or> updated e \<noteq> None \<or>
     attached e \<noteq> None \<or> detached e \<noteq> None"

text \<open>The events of waiting for an operation change nothing by themselves.\<close>

lemma op_run_quiet:
  "op_run env started r es \<Longrightarrow> list_all (\<lambda>e. \<not> changes_cloud e \<and> got_disk i e = None \<and>
     \<not> got_instance i e \<and> cloud_event e \<and> no_lock_event e) es"
  by (erule op_runE) (auto simp: changes_cloud_def no_lock_event_def)

lemma op_run_result:
  "op_run env started (Inr m, x) es \<Longrightarrow> list_ex (finished_with m) es"
  by (auto simp: op_run_Inr)

subsection \<open>Requests that are accepted\<close>

lemma requisite_topology_last:
  "requisite_topology region zone ts = Inr (r, z) \<longleftrightarrow>
     list_all (\<lambda>t. Segments t regionTopologyKey \<noteq> None \<and> Segments t zoneTopologyKey \<noteq> None) ts \<and>
     (if ts = [] then r = region \<and> z = zone
      else Segments (last ts) regionTopologyKey = Some r \<and> Segments (last ts) zoneTopologyKey = Some z)"
  by (induction region zone ts rule: requisite_topology.induct) (auto split: option.splits)

lemma requisite_topology_fault:
  "requisite_topology region zone ts = Inl f \<Longrightarrow> fault_code f = Some InvalidArgument"
  by (induction region zone ts rule: requisite_topology.induct) (auto split: option.splits)

lemma requisite_topology_refused:
  "requisite_topology region zone ts = Inl f \<Longrightarrow> \<not> list_all (\<lambda>t. (\<exists>r. Segments t regionTopologyKey = Some r) \<and>
     (\<exists>z. Segments t zoneTopologyKey = Some z)) ts"
  by (induction region zone ts rule: requisite_topology.induct) (auto split: option.splits)

lemma insert_violations_empty:
  "insert_violations V caps = {} \<longleftrightarrow>
     V = {} \<and> list_all (\<lambda>c. GetAccessMode c = supportedAccessMode \<and> AccessType c \<noteq> None) caps"
  by (induction V caps rule: insert_violations.induct)
    (auto simp: Let_def split: option.splits access_type.splits)

text \<open>
  Capabilities: there is no violation exactly when every requested capability asks for the one
  supported access mode, a single writer on one node, and has an access type set. The hypothesis
  is what \<^verbatim>\<open>sets.String.List\<close> promises of emptiness.
\<close>

lemma validateCapabilities_none_iff:
  assumes sets_List_empty: "\<And>A. sets_List env A = [] \<longleftrightarrow> A = {}"
  shows "validateCapabilities env caps = [] \<longleftrightarrow>
    list_all (\<lambda>c. AccessMode c = Some SINGLE_NODE_WRITER \<and> AccessType c \<noteq> None) caps"
  unfolding validateCapabilities_def sets_List_empty insert_violations_empty
  by (auto simp: GetAccessMode_def supportedAccessMode_def list_all_iff split: option.splits)

lemma validateCapabilities_none_iff_witness:
  "validateCapabilities example_env
     [\<lparr>AccessType = Some AccessBlock, AccessMode = Some SINGLE_NODE_WRITER\<rparr>] = [] \<and>
   validateCapabilities example_env
     [\<lparr>AccessType = Some AccessBlock, AccessMode = Some MULTI_NODE_MULTI_WRITER\<rparr>] \<noteq> []"
  by (subst (1 2) validateCapabilities_none_iff) simp_all

lemma CreateVolume_blockSize_cases:
  "case CreateVolume_blockSize env req of
     Inl f \<Rightarrow> fault_code f = Some InvalidArgument
   | Inr b \<Rightarrow> sint b \<in> block_sizes"
  by (auto simp: CreateVolume_blockSize_def parseBlockSize_ok_iff size_sints block_sizes_def
      split: option.splits sum.splits prod.splits)

lemma default_block_size: "b = defaultBlockSizeInBytes \<longleftrightarrow> sint b = 4096"
proof -
  have "sint defaultBlockSizeInBytes = 4096" by (simp add: size_sints)
  then show ?thesis by (metis signed_word_eqI)
qed

lemma CreateVolume_blockSize_iff:
  "CreateVolume_blockSize env req = Inr b \<longleftrightarrow>
     (case cvr_Parameters req ''blockSize'' of
        None \<Rightarrow> sint b = 4096
      | Some raw \<Rightarrow> if TrimSpace raw = [] then sint b = 4096
          else parseBlockSize (unicode_IsPrint env) raw = Inr b)"
  by (auto simp: CreateVolume_blockSize_def default_block_size [symmetric]
      split: option.splits sum.splits)

lemma CreateVolume_params_iff:
  assumes sets_List_empty: "\<And>A. sets_List env A = [] \<longleftrightarrow> A = {}"
  shows "CreateVolume_params env req = Inr p \<longleftrightarrow>
     cvr_Name req \<noteq> [] \<and> cvr_VolumeCapabilities req \<noteq> [] \<and>
     list_all (\<lambda>c. AccessMode c = Some SINGLE_NODE_WRITER \<and> AccessType c \<noteq> None)
       (cvr_VolumeCapabilities req) \<and>
     cvr_Parameters req ''typeID'' = Some (cp_typeID p) \<and>
     (case cvr_Parameters req ''blockSize'' of
        None \<Rightarrow> sint (cp_blockSize p) = 4096
      | Some raw \<Rightarrow> if TrimSpace raw = [] then sint (cp_blockSize p) = 4096
          else parseBlockSize (unicode_IsPrint env) raw = Inr (cp_blockSize p)) \<and>
     extractStorage (cvr_CapacityRange req) (maximumVolumeSize (cp_blockSize p)) = Inr (cp_size p) \<and>
     (case cvr_AccessibilityRequirements req of
        None \<Rightarrow> cp_region p = [] \<and> cp_zone p = []
      | Some ts \<Rightarrow>
          list_all (\<lambda>t. Segments t regionTopologyKey \<noteq> None \<and> Segments t zoneTopologyKey \<noteq> None) ts \<and>
          (if ts = [] then cp_region p = [] \<and> cp_zone p = []
           else Segments (last ts) regionTopologyKey = Some (cp_region p) \<and>
             Segments (last ts) zoneTopologyKey = Some (cp_zone p)))"
  unfolding CreateVolume_blockSize_iff [symmetric] validateCapabilities_none_iff [OF assms, symmetric]
  by (cases p) (auto simp: CreateVolume_params_def Let_def requisite_topology_last
      dest: requisite_topology_refused split: sum.splits option.splits)

lemma CreateVolume_params_answers:
  "case CreateVolume_params env req of
     Inl f \<Rightarrow> fault_code f \<in> {Some InvalidArgument, Some OutOfRange}
   | Inr p \<Rightarrow> sint (cp_blockSize p) \<in> block_sizes"
  using CreateVolume_blockSize_cases [of env req]
  by (auto simp: CreateVolume_params_def Let_def
      dest: requisite_topology_fault split: sum.splits option.splits if_splits)

text \<open>
  C24. Which requests \<^verbatim>\<open>CreateVolume\<close> accepts, and as what: all the guards hold, the block
  size is the one the parameter gives, 4 KiB when it is missing or blank, the size is the one
  \<^verbatim>\<open>extractStorage\<close> finds below the maximum of that block size, and region and zone are
  those of the last requisite topology, each of which names both. These requests are accepted, with
  exactly these parameters, and no others; a block size is always a supported one, and
  \<^verbatim>\<open>sets.String.List\<close> is taken to be empty for the empty set only. Everything else is
  refused with \<^verbatim>\<open>InvalidArgument\<close>, or with
  \<^verbatim>\<open>OutOfRange\<close> for a capacity range that cannot be met.
\<close>

theorem CreateVolume_params_accepts:
  assumes sets_List_empty: "\<And>A. sets_List env A = [] \<longleftrightarrow> A = {}"
  shows "(CreateVolume_params env req = Inr p \<longleftrightarrow>
       cvr_Name req \<noteq> [] \<and> cvr_VolumeCapabilities req \<noteq> [] \<and>
       list_all (\<lambda>c. AccessMode c = Some SINGLE_NODE_WRITER \<and> AccessType c \<noteq> None)
         (cvr_VolumeCapabilities req) \<and>
       cvr_Parameters req ''typeID'' = Some (cp_typeID p) \<and>
       (case cvr_Parameters req ''blockSize'' of
          None \<Rightarrow> sint (cp_blockSize p) = 4096
        | Some raw \<Rightarrow> if TrimSpace raw = [] then sint (cp_blockSize p) = 4096
            else parseBlockSize (unicode_IsPrint env) raw = Inr (cp_blockSize p)) \<and>
       extractStorage (cvr_CapacityRange req) (maximumVolumeSize (cp_blockSize p)) = Inr (cp_size p) \<and>
       (case cvr_AccessibilityRequirements req of
          None \<Rightarrow> cp_region p = [] \<and> cp_zone p = []
        | Some ts \<Rightarrow>
            list_all (\<lambda>t. Segments t regionTopologyKey \<noteq> None \<and> Segments t zoneTopologyKey \<noteq> None) ts \<and>
            (if ts = [] then cp_region p = [] \<and> cp_zone p = []
             else Segments (last ts) regionTopologyKey = Some (cp_region p) \<and>
               Segments (last ts) zoneTopologyKey = Some (cp_zone p)))) \<and>
     (case CreateVolume_params env req of
        Inl f \<Rightarrow> fault_code f \<in> {Some InvalidArgument, Some OutOfRange}
      | Inr p \<Rightarrow> sint (cp_blockSize p) \<in> block_sizes)"
  using CreateVolume_params_iff [OF assms, of req p] CreateVolume_params_answers [of env req] by blast

lemma CreateVolume_params_accepts_witness:
  "CreateVolume_params example_env
     \<lparr>cvr_Name = ''pvc-1'', cvr_CapacityRange = None,
      cvr_VolumeCapabilities = [\<lparr>AccessType = Some AccessBlock, AccessMode = Some SINGLE_NODE_WRITER\<rparr>],
      cvr_Parameters = [''typeID'' \<mapsto> ''network-ssd'', ''blockSize'' \<mapsto> ''  ''],
      cvr_AccessibilityRequirements = Some [topology_of ''ru'' ''zone-a'', topology_of ''ru'' ''zone-b'']\<rparr> =
   Inr \<lparr>cp_typeID = ''network-ssd'', cp_blockSize = 4096, cp_size = 5368709120, cp_region = ''ru'',
     cp_zone = ''zone-b''\<rparr>"
proof -
  have "TrimSpace ''  '' = []" by code_simp
  then show ?thesis
    by (subst CreateVolume_params_accepts [THEN conjunct1])
      (simp_all add: topology_of_def extractStorage_def size_values)
qed

lemma CreateVolume_params_refused:
  "CreateVolume_params env req = Inl f \<Longrightarrow> fault_code f \<in> {Some InvalidArgument, Some OutOfRange}"
  using CreateVolume_blockSize_cases [of env req]
  by (auto simp: CreateVolume_params_def Let_def
      dest: requisite_topology_fault split: sum.splits option.splits if_splits)

subsection \<open>Creating a volume\<close>

text \<open>The reply that says there is no disk of that name.\<close>

definition no_such_disk :: "list_disks_request \<Rightarrow> 'op event \<Rightarrow> bool" where
  "no_such_disk r e =
     (case e of ListDisks r' (Inr resp) \<Rightarrow> r' = r \<and> ldr_Disks resp = [] | _ \<Rightarrow> False)"

text \<open>
  C10. Creation is guarded: a refused request makes no call at all; an accepted one changes the
  cloud only by creating disks, only after a list of the disks of that name in the driver's folder
  came back empty, at most once, and only with the request that its name, folder, cluster label
  and validated parameters give.
\<close>

theorem CreateVolume_creates_once:
  "ensures (CreateVolume env d req) (\<lambda>r es.
     preceded (no_such_disk (CreateVolume_listRequest env d req)) changes_cloud es \<and>
     length (filter changes_cloud es) \<le> 1 \<and>
     (case CreateVolume_params env req of
        Inl f \<Rightarrow> es = [] \<and> r = Inl f
      | Inr p \<Rightarrow> list_all (\<lambda>e. changes_cloud e =
          (created_disk e = Some (CreateVolume_createRequest d req p))) es))"
  unfolding CreateVolume_def
  by (intro wp allI impI)
    (auto simp: changes_cloud_def no_such_disk_def elim!: op_runE split: sum.splits prod.splits)

text \<open>
  What a successful \<^verbatim>\<open>CreateVolume\<close> answers. Either the list showed exactly one disk of
  that name, whose size and effective block size are the requested ones, and the volume is that
  disk; or the list was empty and the operation that created the disk finished with the disk that
  the volume describes. In both cases the segments carry the requested region.
\<close>

lemma CreateVolume_success:
  "ensures (CreateVolume env d req) (\<lambda>r es.
     case r of
       Inl f \<Rightarrow> True
     | Inr v \<Rightarrow> \<exists>p vol zone. CreateVolume_params env req = Inr p \<and>
         VolumeId v = disk_Id vol \<and> CapacityBytes v = disk_Size vol \<and>
         AccessibleTopology v = [topology_of (cp_region p) zone] \<and>
         ((\<exists>resp. es = [ListDisks (CreateVolume_listRequest env d req) (Inr resp)] \<and>
             ldr_Disks resp = [vol] \<and> disk_Size vol = cp_size p \<and>
             existing_block_size vol = cp_blockSize p \<and> zone = disk_ZoneId vol) \<or>
          list_ex (no_such_disk (CreateVolume_listRequest env d req)) es \<and>
          list_ex (finished_with (DiskMessage vol)) es \<and> zone = cp_zone p))"
  unfolding CreateVolume_def
  by (intro wp allI impI)
    (auto simp: no_such_disk_def CreateVolume_existing_def CreateVolume_created_def Let_def
      elim!: op_runE split: if_splits message.splits list.splits)

text \<open>
  C32. The filter asks for exactly this volume. After \<^verbatim>\<open>name=\<close> comes a string literal
  that a reader of Go's literals, reading up to the first quote that is not escaped, turns back
  into exactly the name, whatever bytes it has, and after which nothing is left; nor would the
  reader go on into any text that followed. A name cannot end the literal early, nor run on.
\<close>

theorem CreateVolume_filter_names_volume:
  "ldr_FolderId (CreateVolume_listRequest env d req) = drv_folderID d \<and>
   (\<exists>literal. ldr_Filter (CreateVolume_listRequest env d req) = ''name='' @ literal \<and>
     (\<forall>more. read_literal (literal @ more) = Some (cvr_Name req, more)))"
  by (simp add: CreateVolume_listRequest_def read_literal_Quote)

text \<open>So two requests ask the cloud for the same disks exactly when they name the same volume.\<close>

lemma CreateVolume_filter_injective:
  "CreateVolume_listRequest env d req = CreateVolume_listRequest env d req' \<longleftrightarrow>
   cvr_Name req = cvr_Name req'"
  by (auto simp: CreateVolume_listRequest_def)

text \<open>
  Creating is idempotent over the cloud's own list: when a request is accepted and the list
  shows disks of its name, nothing is created. A single disk of the requested size and effective
  block size is answered as success, with the same volume every time; a single disk that differs
  is \<^verbatim>\<open>AlreadyExists\<close>; several disks are an error without a status code.
\<close>

lemma CreateVolume_retry:
  assumes accepted: "CreateVolume_params env req = Inr p"
    and listed: "run_state (api_Disk_List env (CreateVolume_listRequest env d req)) (ext w) = (Inr resp, x)"
    and exists: "ldr_Disks resp = vol # rest"
  shows "\<exists>r. run_state (CreateVolume env d req) w =
      (r, w\<lparr>ext := x, history := history w @
        [ListDisks (CreateVolume_listRequest env d req) (Inr resp)]\<rparr>) \<and>
    (if rest = [] \<and> disk_Size vol = cp_size p \<and> existing_block_size vol = cp_blockSize p
     then r = Inr \<lparr>VolumeId = disk_Id vol, CapacityBytes = cp_size p,
       AccessibleTopology = [topology_of (cp_region p) (disk_ZoneId vol)]\<rparr>
     else outcome r = Some (if rest = [] then AlreadyExists else Unknown))"
  using assms
  by (auto simp: CreateVolume_def run_simps Disk_List_def CreateVolume_existing_def Let_def)

definition example_create :: create_volume_request where
  "example_create = \<lparr>cvr_Name = ''pvc-1'', cvr_CapacityRange = None,
     cvr_VolumeCapabilities = [\<lparr>AccessType = Some AccessBlock, AccessMode = Some SINGLE_NODE_WRITER\<rparr>],
     cvr_Parameters = [''typeID'' \<mapsto> ''network-ssd''], cvr_AccessibilityRequirements = None\<rparr>"

definition example_driver :: driver where
  "example_driver = \<lparr>drv_name = ''yandex.csi.flant.com'',
     drv_publishInfoVolumeName = ''yandex.csi.flant.com/volume-name'',
     drv_endpoint = ''unix:///csi.sock'', drv_address = ''127.0.0.1:12302'',
     drv_hostID = ''node-1'', drv_folderID = ''folder-1'', drv_waitActionTimeout = 300,
     drv_region = ''region-1'', drv_zone = ''zone-a'', drv_clusterUUID = ''default''\<rparr>"

definition example_params :: create_params where
  "example_params = \<lparr>cp_typeID = ''network-ssd'', cp_blockSize = defaultBlockSizeInBytes,
     cp_size = defaultVolumeSizeInBytes, cp_region = [], cp_zone = []\<rparr>"

lemma example_accepted:
  "sets_List env {} = [] \<Longrightarrow> CreateVolume_params env example_create = Inr example_params"
  by (simp add: CreateVolume_params_def example_create_def example_params_def Let_def
      validateCapabilities_def CreateVolume_blockSize_def extractStorage_def supportedAccessMode_def GetAccessMode_def)

definition example_listing :: list_disks_response where
  "example_listing = \<lparr>ldr_Disks = [example_disk\<lparr>disk_Size := defaultVolumeSizeInBytes\<rparr>],
     ldr_NextPageToken = []\<rparr>"

lemma CreateVolume_retry_witness:
  "\<exists>w'. run_state (CreateVolume
       (example_env\<lparr>api_Disk_List := (\<lambda>r. State_Monad.return (Inr example_listing))\<rparr>)
       example_driver example_create) example_world =
     (Inr \<lparr>VolumeId = ''disk-1'', CapacityBytes = defaultVolumeSizeInBytes,
       AccessibleTopology = [topology_of [] ''zone-a'']\<rparr>, w')"
proof -
  let ?env = "example_env\<lparr>api_Disk_List := (\<lambda>r. State_Monad.return (Inr example_listing))\<rparr>"
  have "CreateVolume_params ?env example_create = Inr example_params"
    by (rule example_accepted) simp
  moreover have "run_state (api_Disk_List ?env (CreateVolume_listRequest ?env example_driver
      example_create)) (ext example_world) = (Inr example_listing, ())"
    by simp
  moreover have "ldr_Disks example_listing = [example_disk\<lparr>disk_Size := defaultVolumeSizeInBytes\<rparr>]"
    by (simp add: example_listing_def)
  ultimately show ?thesis
    by (elim CreateVolume_retry [THEN exE])
      (auto simp: example_params_def example_disk_def existing_block_size_def)
qed

subsection \<open>Deleting a volume\<close>

text \<open>
  Deleting is one operation on exactly the requested disk, and idempotent: it reports success
  when and only when the operation finished or failed with \<^verbatim>\<open>NotFound\<close>; any other failure
  is \<^verbatim>\<open>Internal\<close>. Without an ID no call is made.
\<close>

lemma DeleteVolume_outcome:
  "ensures (DeleteVolume env volumeId) (\<lambda>r es.
     if volumeId = [] then es = [] \<and> outcome r = Some InvalidArgument
     else \<exists>started result op waited.
       es = DeleteDisk volumeId started # waited \<and> op_run env started (result, op) waited \<and>
       (case result of
          Inr m \<Rightarrow> r = Inr ()
        | Inl err \<Rightarrow> if status_Code err = NotFound then r = Inr () else outcome r = Some Internal))"
  unfolding DeleteVolume_def by (intro wp allI impI) auto

subsection \<open>Attaching and detaching\<close>

text \<open>
  C15. Attaching is guarded. Whatever the cloud answers, \<^verbatim>\<open>ControllerPublishVolume\<close> first
  finds the volume free of a pending resize, before any other call; it changes the cloud only by
  the one attach that the request asks for, read-write and not deleted with the instance, at most
  once, and only after the disk was found to exist and to be attached to no instance, and the
  instance was found to exist. It never writes the lock table.
\<close>

theorem ControllerPublishVolume_attaches_free_disk:
  "ensures (ControllerPublishVolume env d req) (\<lambda>r es.
     preceded (\<lambda>e. e = CheckLock (cpr_VolumeId req) False) cloud_event es \<and>
     preceded (\<lambda>e. case got_disk (cpr_VolumeId req) e of Some vol \<Rightarrow> disk_InstanceIds vol = []
         | None \<Rightarrow> False) changes_cloud es \<and>
     preceded (got_instance (cpr_NodeId req)) changes_cloud es \<and>
     list_all (\<lambda>e. changes_cloud e = (attached e = Some (attach_request req))) es \<and>
     length (filter changes_cloud es) \<le> 1 \<and>
     list_all (\<lambda>e. \<forall>v. e \<noteq> PutLock v \<and> e \<noteq> RemoveLock v) es)"
  unfolding ControllerPublishVolume_def
  by (intro wp allI impI)
    (auto simp: changes_cloud_def elim!: op_runE)

text \<open>
  Publishing reports success exactly when the volume ends up attached where it was asked: the
  disk was already attached to the node, or the attach operation finished. The publish context
  then holds the name of the disk under the driver's key and nothing else.
\<close>

lemma ControllerPublishVolume_success:
  "ensures (ControllerPublishVolume env d req) (\<lambda>r es.
     case r of
       Inl f \<Rightarrow> \<not> list_ex (\<lambda>e. \<exists>m. finished_with m e) es
     | Inr context \<Rightarrow> ControllerPublishVolume_check req = None \<and>
         (\<exists>vol. list_ex (\<lambda>e. got_disk (cpr_VolumeId req) e = Some vol) es \<and>
           context = [drv_publishInfoVolumeName d \<mapsto> disk_Name vol] \<and>
           (cpr_NodeId req \<in> set (disk_InstanceIds vol) \<and> \<not> list_ex changes_cloud es \<or>
            disk_InstanceIds vol = [] \<and> list_ex (\<lambda>e. \<exists>m. finished_with m e) es)))"
  unfolding ControllerPublishVolume_def
  by (intro wp allI impI)
    (auto simp: changes_cloud_def publish_context_def list_ex_iff elim!: op_runE)

text \<open>
  A volume with a pending resize is not published: with a valid request, as long as it is in
  the lock table, the answer is \<^verbatim>\<open>Internal\<close> and the cloud is not called at all.
\<close>

lemma ControllerPublishVolume_locked:
  assumes "ControllerPublishVolume_check req = None"
    and "VolIdExists (resizeLocks w) (cpr_VolumeId req)"
  shows "run_state (ControllerPublishVolume env d req) w =
    (fail Internal ''Resize required, not publishing'',
     w\<lparr>history := history w @ [CheckLock (cpr_VolumeId req) True]\<rparr>)"
  using assms by (simp add: ControllerPublishVolume_def run_simps locks_VolIdExists_def)

definition example_publish :: controller_publish_request where
  "example_publish = \<lparr>cpr_VolumeId = ''disk-1'', cpr_NodeId = ''node-1'',
     cpr_VolumeCapability = Some \<lparr>AccessType = Some AccessBlock, AccessMode = None\<rparr>,
     cpr_Readonly = False\<rparr>"

lemma ControllerPublishVolume_locked_witness:
  "fst (run_state (ControllerPublishVolume example_env example_driver example_publish)
     (example_world\<lparr>resizeLocks := PutVolId NewRwMap ''disk-1''\<rparr>)) =
   fail Internal ''Resize required, not publishing''"
  by (subst ControllerPublishVolume_locked)
    (simp_all add: ControllerPublishVolume_check_def example_publish_def)

text \<open>
  C26. Detaching is guarded and idempotent. \<^verbatim>\<open>ControllerUnpublishVolume\<close> changes the cloud
  only by the one detach asked for, after the disk was found attached to some instance and the
  instance was found to exist. It reports success when the disk or the instance does not exist,
  when the disk is attached nowhere, and when the detach operation finished, and in no other case.
\<close>

theorem ControllerUnpublishVolume_outcome:
  "ensures (ControllerUnpublishVolume env req) (\<lambda>r es.
     preceded (\<lambda>e. case got_disk (cur_VolumeId req) e of Some vol \<Rightarrow> disk_InstanceIds vol \<noteq> []
         | None \<Rightarrow> False) changes_cloud es \<and>
     preceded (got_instance (cur_NodeId req)) changes_cloud es \<and>
     list_all (\<lambda>e. changes_cloud e = (detached e =
       Some \<lparr>ddr_InstanceId = cur_NodeId req, ddr_DiskId = cur_VolumeId req\<rparr>)) es \<and>
     (r = Inr ()) = list_ex (\<lambda>e. case e of
         GetDisk i (Inl err) \<Rightarrow> status_Code err = NotFound
       | GetDisk i (Inr vol) \<Rightarrow> disk_InstanceIds vol = []
       | GetInstance i (Inl err) \<Rightarrow> status_Code err = NotFound
       | Response x (Inr m) \<Rightarrow> True
       | _ \<Rightarrow> False) es)"
  unfolding ControllerUnpublishVolume_def
  by (intro wp allI impI) (auto simp: changes_cloud_def elim!: op_runE)

subsection \<open>Listing\<close>

text \<open>
  Listing is one page of the driver's folder, in the cloud's order and with its token: the
  page size is the requested one, sign-extended, or the default for zero, and the token goes
  through both ways; nothing is filtered and nothing is changed.
\<close>

lemma ListVolumes_page:
  "ensures (ListVolumes env d req) (\<lambda>r es. \<exists>answer pageSize.
     es = [ListDisks \<lparr>ldr_FolderId = drv_folderID d, ldr_PageSize = pageSize,
       ldr_PageToken = lvr_StartingToken req, ldr_Filter = []\<rparr> answer] \<and>
     sint pageSize = (if lvr_MaxEntries req = 0 then sint defaultListPageSize
       else sint (lvr_MaxEntries req)) \<and>
     (case answer of
        Inl err \<Rightarrow> outcome r = Some Internal
      | Inr res \<Rightarrow> \<exists>out. r = Inr out \<and> NextToken out = ldr_NextPageToken res \<and>
          map VolumeId (Entries out) = map disk_Id (ldr_Disks res) \<and>
          map CapacityBytes (Entries out) = map disk_Size (ldr_Disks res)))"
proof -
  have "sint (scast (x :: int32) :: int64) = sint x" for x
    by (rule sint_up_scast) (simp add: is_up)
  then show ?thesis
    unfolding ListVolumes_def by (intro wp) (auto simp: comp_def)
qed

subsection \<open>Growing a volume\<close>

text \<open>
  C16. A volume only ever grows, and only to a size the request allows: every update
  \<^verbatim>\<open>ControllerExpandVolume\<close> sends is for the requested disk, changes its size and nothing
  else, and carries the size \<^verbatim>\<open>extractStorage\<close> finds in the requested range below the
  maximum of the disk's block size, which is larger than the size the cloud reported just before.
  A success reports the larger of the two sizes, and where that is the requested one the update
  operation finished; the node is told to grow the file system unless the volume is a block device.
\<close>

theorem ControllerExpandVolume_only_grows:
  "ensures (ControllerExpandVolume env req) (\<lambda>r es.
     list_all (\<lambda>e. changes_cloud e = (updated e \<noteq> None)) es \<and>
     list_all (\<lambda>e. case updated e of None \<Rightarrow> True | Some u \<Rightarrow>
       udr_DiskId u = cer_VolumeId req \<and> udr_UpdateMask u = [''size''] \<and>
       list_ex (\<lambda>g. case got_disk (cer_VolumeId req) g of None \<Rightarrow> False | Some vol \<Rightarrow>
         sint (disk_Size vol) < sint (udr_Size u) \<and>
         extractStorage (cer_CapacityRange req) (maximumVolumeSize (existing_block_size vol)) =
           Inr (udr_Size u)) es) es \<and>
     (case r of
        Inl f \<Rightarrow> True
      | Inr resp \<Rightarrow> \<exists>vol n. list_ex (\<lambda>g. got_disk (cer_VolumeId req) g = Some vol) es \<and>
          extractStorage (cer_CapacityRange req) (maximumVolumeSize (existing_block_size vol)) = Inr n \<and>
          sint (cer_CapacityBytes resp) = max (sint n) (sint (disk_Size vol)) \<and>
          (if sint n \<le> sint (disk_Size vol) then \<not> list_ex changes_cloud es \<and> NodeExpansionRequired resp
           else list_ex (\<lambda>e. \<exists>m. finished_with m e) es \<and>
             NodeExpansionRequired resp = expand_node_required (cer_VolumeCapability req))))"
  unfolding ControllerExpandVolume_def Let_def
  by (intro wp allI impI)
    (auto simp: changes_cloud_def update_request_def max_def elim!: op_runE)

text \<open>
  C18. The lock table records exactly the refused resizes: when the update is never sent the table
  is not touched; when the operation is refused because the disk is attached to an instance that
  is not stopped, the volume is put into the table and the caller gets \<^verbatim>\<open>Internal\<close>; when
  it finishes, the volume is removed; any other failure leaves the table as it is.
\<close>

theorem ControllerExpandVolume_lock_protocol:
  "ensures (ControllerExpandVolume env req) (\<lambda>r es.
     if \<not> list_ex changes_cloud es then list_all no_lock_event es
     else \<exists>u started result op waited answer. op_run env started (result, op) waited \<and>
       es = [GetDisk (cer_VolumeId req) answer, UpdateDisk u started] @ waited @
         (case result of
            Inr m \<Rightarrow> [RemoveLock (cer_VolumeId req)]
          | Inl err \<Rightarrow> if status_Code err = FailedPrecondition \<and>
                Contains (status_Message err) ''attached to non-stopped instance''
              then [PutLock (cer_VolumeId req)] else []) \<and>
       outcome r = Some (case result of Inr m \<Rightarrow> OK | Inl err \<Rightarrow> Internal))"
  unfolding ControllerExpandVolume_def Let_def
  by (intro wp allI impI)
    (auto simp: changes_cloud_def no_lock_event_def must_detach_def,
     (intro exI conjI, assumption, simp, simp)+)

subsection \<open>Invalid requests\<close>

interpretation create_rpc: guarded_rpc "CreateVolume env d"
  "\<lambda>req. cvr_Name req = [] \<or> cvr_VolumeCapabilities req = []" for env d
  by unfold_locales (auto simp: CreateVolume_def CreateVolume_params_def)

interpretation delete_rpc: guarded_rpc "DeleteVolume env" "\<lambda>i. i = []" for env
  by unfold_locales (auto simp: DeleteVolume_def)

interpretation publish_rpc: guarded_rpc "ControllerPublishVolume env d"
  "\<lambda>req. cpr_VolumeId req = [] \<or> cpr_NodeId req = [] \<or> cpr_VolumeCapability req = None" for env d
  by unfold_locales (auto simp: ControllerPublishVolume_def ControllerPublishVolume_check_def)

interpretation unpublish_rpc: guarded_rpc "ControllerUnpublishVolume env"
  "\<lambda>req. cur_VolumeId req = []" for env
  by unfold_locales (auto simp: ControllerUnpublishVolume_def)

interpretation expand_rpc: guarded_rpc "ControllerExpandVolume env"
  "\<lambda>req. cer_VolumeId req = []" for env
  by unfold_locales (auto simp: ControllerExpandVolume_def)

end
