(* ===== verification/Go_Path.thy ===== *)
theory Go_Path
  imports Go_Strconv
begin

text \<open>
  Package \<^verbatim>\<open>path/filepath\<close> on Unix, as far as the driver calls it: \<^verbatim>\<open>Clean\<close>,
  \<^verbatim>\<open>Join\<close> and \<^verbatim>\<open>Dir\<close>. \<^verbatim>\<open>Clean\<close> is lexical: it splits the path at the
  slashes, drops empty and dot elements and lets each \<^verbatim>\<open>..\<close> cancel the element before it
  (at the root it disappears, at the start of a relative path it stays).
\<close>

fun split_slash :: "string \<Rightarrow> string \<Rightarrow> string list" where
  "split_slash cur [] = [rev cur]"
| "split_slash cur (c # cs) =
     (if c = CHR ''/'' then rev cur # split_slash [] cs else split_slash (c # cur) cs)"

text \<open>The elements kept so far are the second argument, the last one first.\<close>

fun clean_elems :: "bool \<Rightarrow> string list \<Rightarrow> string list \<Rightarrow> string list" where
  "clean_elems rooted out [] = rev out"
| "clean_elems rooted out (e # es) =
     (if e = [] \<or> e = ''.'' then clean_elems rooted out es
      else if e = ''..'' then
        (case out of
           [] \<Rightarrow> clean_elems rooted (if rooted then [] else [e]) es
         | prev # rest \<Rightarrow>
             if prev = ''..'' then clean_elems rooted (e # out) es
             else clean_elems rooted rest es)
      else clean_elems rooted (e # out) es)"

definition Clean :: "string \<Rightarrow> string" where
  "Clean p =
     (if p = [] then ''.''
      else let rooted = HasPrefix p ''/'';
               out = Join (clean_elems rooted [] (split_slash [] p)) ''/''
           in if rooted then CHR ''/'' # out else if out = [] then ''.'' else out)"

text \<open>\<^verbatim>\<open>filepath.Join\<close>: the non-empty elements, joined and cleaned.\<close>

definition filepath_Join :: "string list \<Rightarrow> string" where
  "filepath_Join elems =
     (case dropWhile (\<lambda>e. e = []) elems of
        [] \<Rightarrow> []
      | es \<Rightarrow> Clean (Join es ''/''))"

text \<open>\<^verbatim>\<open>filepath.Dir\<close>: all but the last element, cleaned.\<close>

definition Dir :: "string \<Rightarrow> string" where
  "Dir p = Clean (rev (dropWhile (\<lambda>c. c \<noteq> CHR ''/'') (rev p)))"

lemma split_slash_no_slash:
  "CHR ''/'' \<notin> set e \<Longrightarrow> split_slash cur (e @ t) = split_slash (rev e @ cur) t"
  by (induction e arbitrary: cur) auto

lemma split_slash_end: "CHR ''/'' \<notin> set e \<Longrightarrow> split_slash cur e = [rev cur @ e]"
  using split_slash_no_slash [of e cur "[]"] by simp

text \<open>A plain element: not empty, no slash, neither dot nor dot dot.\<close>

definition plain_elem :: "string \<Rightarrow> bool" where
  "plain_elem e \<longleftrightarrow> e \<noteq> [] \<and> e \<noteq> ''.'' \<and> e \<noteq> ''..'' \<and> CHR ''/'' \<notin> set e"

lemma clean_elems_plain:
  "list_all plain_elem es \<Longrightarrow> clean_elems rooted out es = rev out @ es"
  by (induction es arbitrary: out) (auto simp: plain_elem_def)

lemma split_slash_Join:
  "list_all plain_elem es \<Longrightarrow> es \<noteq> [] \<Longrightarrow> split_slash [] (Join es ''/'') = es"
proof (induction es rule: induct_list012)
  case (3 x y zs)
  then show ?case
    by (simp add: plain_elem_def split_slash_no_slash)
qed (auto simp: plain_elem_def split_slash_end)

text \<open>A clean absolute path is its own cleaning.\<close>

lemma Clean_absolute:
  "list_all plain_elem es \<Longrightarrow> es \<noteq> [] \<Longrightarrow>
   Clean (CHR ''/'' # Join es ''/'') = CHR ''/'' # Join es ''/''"
  by (simp add: Clean_def HasPrefix_def split_slash_Join clean_elems_plain Let_def)

end
