(* ===== verification/Go_Json.thy ===== *)
theory Go_Json
  imports Go_Quote
begin

text \<open>
  Package \<^verbatim>\<open>encoding/json\<close>, as far as \<^verbatim>\<open>json.Unmarshal\<close> into structs of
  strings uses it: \<^verbatim>\<open>mounter.go\<close> reads the output of \<^verbatim>\<open>findmnt\<close> with it
  and \<^verbatim>\<open>metadata_service.go\<close> the identity of the instance. The package first checks the
  whole text with a byte-wise scanner and then walks it; here a byte-wise lexer makes tokens and a
  parser with an explicit stack makes a value, both structurally recursive. A text is accepted
  exactly when it is one JSON value between white space, nested at most 10000 deep. The texts of
  the errors are not modelled.

  The last part renders a value as text and shows that reading it gives the value back.
\<close>

subsection \<open>Tokens\<close>

datatype token =
    LBrace | RBrace | LBracket | RBracket | Colon | Comma
  | StringTok "nat list"  \<comment> \<open>the bytes between the quotes, escapes and all\<close>
  | NumberTok "nat list" | TrueTok | FalseTok | NullTok

datatype num_state = AfterMinus | AfterZero | InInt | AfterDot | InFrac | AfterE | AfterSign | InExp

datatype lex_state =
    Between
  | InString "nat list" | AfterBackslash "nat list" | InHex nat "nat list"
  | InNumber num_state "nat list"
  | InLiteral "nat list" token  \<comment> \<open>what is left of it\<close>

definition digit_byte :: "nat \<Rightarrow> bool" where
  "digit_byte c \<longleftrightarrow> 48 \<le> c \<and> c \<le> 57"

definition exp_byte :: "nat \<Rightarrow> bool" where
  "exp_byte c \<longleftrightarrow> c = 101 \<or> c = 69"

definition space_byte :: "nat \<Rightarrow> bool" where
  "space_byte c \<longleftrightarrow> c = 32 \<or> c = 9 \<or> c = 10 \<or> c = 13"

definition hex_value :: "nat \<Rightarrow> nat option" where
  "hex_value c =
     (if 48 \<le> c \<and> c \<le> 57 then Some (c - 48)
      else if 97 \<le> c \<and> c \<le> 102 then Some (c - 87)
      else if 65 \<le> c \<and> c \<le> 70 then Some (c - 55)
      else None)"

fun num_step :: "num_state \<Rightarrow> nat \<Rightarrow> num_state option" where
  "num_step AfterMinus c = (if c = 48 then Some AfterZero else if digit_byte c then Some InInt else None)"
| "num_step AfterZero c =
     (if c = 46 then Some AfterDot else if exp_byte c then Some AfterE else None)"
| "num_step InInt c =
     (if digit_byte c then Some InInt else if c = 46 then Some AfterDot
      else if exp_byte c then Some AfterE else None)"
| "num_step AfterDot c = (if digit_byte c then Some InFrac else None)"
| "num_step InFrac c =
     (if digit_byte c then Some InFrac else if exp_byte c then Some AfterE else None)"
| "num_step AfterE c =
     (if c = 43 \<or> c = 45 then Some AfterSign else if digit_byte c then Some InExp else None)"
| "num_step AfterSign c = (if digit_byte c then Some InExp else None)"
| "num_step InExp c = (if digit_byte c then Some InExp else None)"

fun num_complete :: "num_state \<Rightarrow> bool" where
  "num_complete AfterZero \<longleftrightarrow> True"
| "num_complete InInt \<longleftrightarrow> True"
| "num_complete InFrac \<longleftrightarrow> True"
| "num_complete InExp \<longleftrightarrow> True"
| "num_complete _ \<longleftrightarrow> False"

text \<open>The byte a token starts with, or white space.\<close>

definition begin_token :: "nat \<Rightarrow> (token list \<times> lex_state) option" where
  "begin_token c =
     (if space_byte c then Some ([], Between)
      else if c = 123 then Some ([LBrace], Between)
      else if c = 125 then Some ([RBrace], Between)
      else if c = 91 then Some ([LBracket], Between)
      else if c = 93 then Some ([RBracket], Between)
      else if c = 58 then Some ([Colon], Between)
      else if c = 44 then Some ([Comma], Between)
      else if c = 34 then Some ([], InString [])
      else if c = 45 then Some ([], InNumber AfterMinus [c])
      else if c = 48 then Some ([], InNumber AfterZero [c])
      else if digit_byte c then Some ([], InNumber InInt [c])
      else if c = 116 then Some ([], InLiteral [114, 117, 101] TrueTok)
      else if c = 102 then Some ([], InLiteral [97, 108, 115, 101] FalseTok)
      else if c = 110 then Some ([], InLiteral [117, 108, 108] NullTok)
      else None)"

definition simple_escape :: "nat \<Rightarrow> bool" where
  "simple_escape c \<longleftrightarrow> c \<in> {98, 102, 110, 114, 116, 92, 47, 34}"

fun advance :: "lex_state \<Rightarrow> nat \<Rightarrow> (token list \<times> lex_state) option" where
  "advance Between c = begin_token c"
| "advance (InString raw) c =
     (if c = 34 then Some ([StringTok raw], Between)
      else if c = 92 then Some ([], AfterBackslash (raw @ [c]))
      else if c < 32 then None
      else Some ([], InString (raw @ [c])))"
| "advance (AfterBackslash raw) c =
     (if simple_escape c then Some ([], InString (raw @ [c]))
      else if c = 117 then Some ([], InHex 4 (raw @ [c]))
      else None)"
| "advance (InHex n raw) c =
     (if hex_value c = None then None
      else if n \<le> 1 then Some ([], InString (raw @ [c]))
      else Some ([], InHex (n - 1) (raw @ [c])))"
| "advance (InNumber st raw) c =
     (case num_step st c of
        Some st' \<Rightarrow> Some ([], InNumber st' (raw @ [c]))
      | None \<Rightarrow> if num_complete st
          then map_option (map_prod (\<lambda>ts. NumberTok raw # ts) id) (begin_token c)
          else None)"
| "advance (InLiteral [] t) c = None"
| "advance (InLiteral (x # xs) t) c =
     (if c \<noteq> x then None
      else if xs = [] then Some ([t], Between) else Some ([], InLiteral xs t))"

fun lex :: "lex_state \<Rightarrow> nat list \<Rightarrow> token list option" where
  "lex st [] = (case st of
     Between \<Rightarrow> Some []
   | InNumber ns raw \<Rightarrow> if num_complete ns then Some [NumberTok raw] else None
   | _ \<Rightarrow> None)"
| "lex st (c # cs) = (case advance st c of
     None \<Rightarrow> None
   | Some (ts, st') \<Rightarrow> map_option ((@) ts) (lex st' cs))"

subsection \<open>Strings\<close>

text \<open>\<^verbatim>\<open>getu4\<close>, on what follows the \<^verbatim>\<open>u\<close>; the scanner has checked the digits.\<close>

definition hex4 :: "nat list \<Rightarrow> nat" where
  "hex4 s = foldl (\<lambda>a c. 16 * a + (case hex_value c of None \<Rightarrow> 0 | Some d \<Rightarrow> d)) 0 (take 4 s)"

definition surrogate :: "nat \<Rightarrow> bool" where
  "surrogate r \<longleftrightarrow> 0xD800 \<le> r \<and> r < 0xE000"

text \<open>\<^verbatim>\<open>utf16.DecodeRune\<close> of a first surrogate and the escape after it, when they are a pair.\<close>

definition surrogate_pair :: "nat \<Rightarrow> nat list \<Rightarrow> nat option" where
  "surrogate_pair r s =
     (if 0xD800 \<le> r \<and> r < 0xDC00 \<and> take 2 s = [92, 117] \<and>
         0xDC00 \<le> hex4 (drop 2 s) \<and> hex4 (drop 2 s) < 0xE000
      then Some ((r - 0xD800) * 1024 + (hex4 (drop 2 s) - 0xDC00) + 0x10000)
      else None)"

definition unescape :: "nat \<Rightarrow> nat" where
  "unescape e =
     (if e = 98 then 8 else if e = 102 then 12 else if e = 110 then 10
      else if e = 114 then 13 else if e = 116 then 9 else e)"

text \<open>
  \<^verbatim>\<open>unquote\<close>: escapes are replaced, a lone surrogate and every byte that is not part of
  valid UTF-8 become U+FFFD.
\<close>

fun unquote :: "nat list \<Rightarrow> nat list" where
  "unquote [] = []"
| "unquote (c # cs) =
     (if c = 92 then
        (case cs of
           [] \<Rightarrow> []
         | e # rest \<Rightarrow>
             if e = 117 then
               (case surrogate_pair (hex4 rest) (drop 4 rest) of
                  Some r \<Rightarrow> encode_rune r @ unquote (drop 10 rest)
                | None \<Rightarrow> encode_rune (if surrogate (hex4 rest) then 65533 else hex4 rest) @
                    unquote (drop 4 rest))
             else unescape e # unquote rest)
      else if c < 128 then c # unquote cs
      else (case decode_bytes (c # cs) of (r, w) \<Rightarrow> encode_rune r @ unquote (drop (w - 1) cs)))"

subsection \<open>Values\<close>

datatype json =
    JNull | JBool bool | JNumber "nat list" | JString string
  | JArray "json list" | JObject "(string \<times> json) list"

text \<open>The arrays and objects a position is inside of, with what was read of them; an object also
  has the key whose value is being read.\<close>

datatype frame = ArrayFrame "json list" | ObjectFrame "(string \<times> json) list" string

datatype parse_state =
    WantValue | WantValueOrEnd | WantKey | WantKeyOrEnd | WantColon
  | After json

definition max_nesting_depth :: nat where
  "max_nesting_depth = 10000"

definition open_frame ::
  "frame \<Rightarrow> parse_state \<Rightarrow> frame list \<Rightarrow> (parse_state \<times> frame list) option" where
  "open_frame fr st stk =
     (if length stk < max_nesting_depth then Some (st, fr # stk) else None)"

fun begin_value :: "token \<Rightarrow> frame list \<Rightarrow> (parse_state \<times> frame list) option" where
  "begin_value NullTok stk = Some (After JNull, stk)"
| "begin_value TrueTok stk = Some (After (JBool True), stk)"
| "begin_value FalseTok stk = Some (After (JBool False), stk)"
| "begin_value (NumberTok raw) stk = Some (After (JNumber raw), stk)"
| "begin_value (StringTok raw) stk = Some (After (JString (bytes (unquote raw))), stk)"
| "begin_value LBracket stk = open_frame (ArrayFrame []) WantValueOrEnd stk"
| "begin_value LBrace stk = open_frame (ObjectFrame [] []) WantKeyOrEnd stk"
| "begin_value _ stk = None"

fun begin_key :: "token \<Rightarrow> frame list \<Rightarrow> (parse_state \<times> frame list) option" where
  "begin_key (StringTok raw) (ObjectFrame kvs k # stk) =
     Some (WantColon, ObjectFrame kvs (bytes (unquote raw)) # stk)"
| "begin_key _ stk = None"

fun after_value :: "json \<Rightarrow> token \<Rightarrow> frame list \<Rightarrow> (parse_state \<times> frame list) option" where
  "after_value v Comma (ArrayFrame vs # stk) = Some (WantValue, ArrayFrame (vs @ [v]) # stk)"
| "after_value v RBracket (ArrayFrame vs # stk) = Some (After (JArray (vs @ [v])), stk)"
| "after_value v Comma (ObjectFrame kvs k # stk) =
     Some (WantKey, ObjectFrame (kvs @ [(k, v)]) [] # stk)"
| "after_value v RBrace (ObjectFrame kvs k # stk) = Some (After (JObject (kvs @ [(k, v)])), stk)"
| "after_value v _ stk = None"

definition parse_token ::
  "parse_state \<Rightarrow> frame list \<Rightarrow> token \<Rightarrow> (parse_state \<times> frame list) option" where
  "parse_token st stk t =
     (case st of
        WantValue \<Rightarrow> begin_value t stk
      | WantValueOrEnd \<Rightarrow>
          if t = RBracket then Some (After (JArray []), tl stk) else begin_value t stk
      | WantKey \<Rightarrow> begin_key t stk
      | WantKeyOrEnd \<Rightarrow>
          if t = RBrace then Some (After (JObject []), tl stk) else begin_key t stk
      | WantColon \<Rightarrow> if t = Colon then Some (WantValue, stk) else None
      | After v \<Rightarrow> after_value v t stk)"

fun parse :: "parse_state \<Rightarrow> frame list \<Rightarrow> token list \<Rightarrow> json option" where
  "parse st stk [] = (case st of After v \<Rightarrow> if stk = [] then Some v else None | _ \<Rightarrow> None)"
| "parse st stk (t # ts) = (case parse_token st stk t of
     None \<Rightarrow> None
   | Some (st', stk') \<Rightarrow> parse st' stk' ts)"

definition json_value :: "string \<Rightarrow> json option" where
  "json_value s = (case lex Between (codes s) of None \<Rightarrow> None | Some ts \<Rightarrow> parse WantValue [] ts)"

subsection \<open>Unmarshalling\<close>

text \<open>
  Keys are matched up to case, as \<^verbatim>\<open>foldName\<close> does; among the letters beyond ASCII only
  the Kelvin sign and the long s fold to ASCII ones.
\<close>

fun fold_key :: "nat list \<Rightarrow> nat list" where
  "fold_key [] = []"
| "fold_key (c # cs) =
     (if 97 \<le> c \<and> c \<le> 122 then (c - 32) # fold_key cs
      else if take 3 (c # cs) = [226, 132, 170] then 75 # fold_key (drop 2 cs)
      else if take 2 (c # cs) = [197, 191] then 83 # fold_key (drop 1 cs)
      else c # fold_key cs)"

definition same_key :: "string \<Rightarrow> string \<Rightarrow> bool" where
  "same_key name key \<longleftrightarrow> fold_key (codes name) = fold_key (codes key)"

text \<open>
  A value is stored into what was there before; the flag is false when its type does not fit,
  which lets the walk go on and makes \<^verbatim>\<open>Unmarshal\<close> return an error at the end.
  \<^verbatim>\<open>null\<close> leaves strings and structs as they are.
\<close>

definition unmarshal_string :: "json \<Rightarrow> string \<Rightarrow> string \<times> bool" where
  "unmarshal_string v old =
     (case v of JString s \<Rightarrow> (s, True) | JNull \<Rightarrow> (old, True) | _ \<Rightarrow> (old, False))"

fun unmarshal_fields ::
  "(string \<Rightarrow> json \<Rightarrow> 'a \<Rightarrow> 'a \<times> bool) \<Rightarrow> (string \<times> json) list \<Rightarrow> 'a \<Rightarrow> 'a \<times> bool" where
  "unmarshal_fields field [] x = (x, True)"
| "unmarshal_fields field ((k, v) # kvs) x =
     (case field k v x of (y, ok) \<Rightarrow> map_prod id (\<lambda>ok'. ok \<and> ok') (unmarshal_fields field kvs y))"

definition unmarshal_struct ::
  "(string \<Rightarrow> json \<Rightarrow> 'a \<Rightarrow> 'a \<times> bool) \<Rightarrow> json \<Rightarrow> 'a \<Rightarrow> 'a \<times> bool" where
  "unmarshal_struct field v x =
     (case v of JObject kvs \<Rightarrow> unmarshal_fields field kvs x | JNull \<Rightarrow> (x, True) | _ \<Rightarrow> (x, False))"

text \<open>
  The elements of a slice that has some already (its key came twice) are stored over these; a
  third time is taken to find no elements beyond its length.
\<close>

fun unmarshal_elements ::
  "(json \<Rightarrow> 'a \<Rightarrow> 'a \<times> bool) \<Rightarrow> 'a \<Rightarrow> json list \<Rightarrow> 'a list \<Rightarrow> 'a list \<times> bool" where
  "unmarshal_elements elem zero [] old = ([], True)"
| "unmarshal_elements elem zero (v # vs) old =
     (case elem v (case old of [] \<Rightarrow> zero | x # _ \<Rightarrow> x) of (y, ok) \<Rightarrow>
        map_prod ((#) y) (\<lambda>ok'. ok \<and> ok') (unmarshal_elements elem zero vs (tl old)))"

definition unmarshal_slice ::
  "(json \<Rightarrow> 'a \<Rightarrow> 'a \<times> bool) \<Rightarrow> 'a \<Rightarrow> json \<Rightarrow> 'a list \<Rightarrow> 'a list \<times> bool" where
  "unmarshal_slice elem zero v old =
     (case v of JArray vs \<Rightarrow> unmarshal_elements elem zero vs old | JNull \<Rightarrow> ([], True)
      | _ \<Rightarrow> (old, False))"

subsection \<open>Rendering and reading back\<close>

fun commas :: "'a \<Rightarrow> 'a list list \<Rightarrow> 'a list" where
  "commas c [] = []"
| "commas c [x] = x"
| "commas c (x # y # xs) = x @ c # commas c (y # xs)"

definition escape_byte :: "nat \<Rightarrow> nat list" where
  "escape_byte b =
     (if b = 34 \<or> b = 92 then [92, b] else if b < 32 then [92, 117] @ hex_digits 4 b else [b])"

definition escaped :: "string \<Rightarrow> nat list" where
  "escaped s = concat (map escape_byte (codes s))"

definition string_text :: "string \<Rightarrow> nat list" where
  "string_text s = [34] @ escaped s @ [34]"

primrec render :: "json \<Rightarrow> nat list" where
  "render JNull = [110, 117, 108, 108]"
| "render (JBool b) = (if b then [116, 114, 117, 101] else [102, 97, 108, 115, 101])"
| "render (JNumber raw) = raw"
| "render (JString s) = string_text s"
| "render (JArray vs) = [91] @ commas 44 (map render vs) @ [93]"
| "render (JObject kvs) = [123] @
     commas 44 (map (\<lambda>(k, t). string_text k @ 58 # t) (map (map_prod id render) kvs)) @ [125]"

primrec tokens :: "json \<Rightarrow> token list" where
  "tokens JNull = [NullTok]"
| "tokens (JBool b) = [if b then TrueTok else FalseTok]"
| "tokens (JNumber raw) = [NumberTok raw]"
| "tokens (JString s) = [StringTok (escaped s)]"
| "tokens (JArray vs) = [LBracket] @ commas Comma (map tokens vs) @ [RBracket]"
| "tokens (JObject kvs) = [LBrace] @ commas Comma
     (map (\<lambda>(k, t). [StringTok (escaped k), Colon] @ t) (map (map_prod id tokens) kvs)) @ [RBrace]"

definition ascii :: "string \<Rightarrow> bool" where
  "ascii s \<longleftrightarrow> list_all (\<lambda>c. c < 128) (codes s)"

text \<open>Values without numbers whose strings are ASCII, nested at most \<open>n\<close> deep.\<close>

fun simple_json :: "nat \<Rightarrow> json \<Rightarrow> bool" where
  "simple_json n JNull \<longleftrightarrow> True"
| "simple_json n (JBool b) \<longleftrightarrow> True"
| "simple_json n (JNumber raw) \<longleftrightarrow> False"
| "simple_json n (JString s) \<longleftrightarrow> ascii s"
| "simple_json n (JArray vs) \<longleftrightarrow> (case n of 0 \<Rightarrow> False | Suc m \<Rightarrow> list_all (simple_json m) vs)"
| "simple_json n (JObject kvs) \<longleftrightarrow> (case n of 0 \<Rightarrow> False
     | Suc m \<Rightarrow> list_all (\<lambda>(k, v). ascii k \<and> simple_json m v) kvs)"

lemma hex_value_digit: "d < 16 \<Longrightarrow> hex_value (hex_digit d) = Some d"
  by (simp add: hex_value_def hex_digit_def)

lemma map_option_append [simp]:
  "map_option ((@) xs) (map_option ((@) ys) x) = map_option ((@) (xs @ ys)) x"
  by (cases x) auto

lemma map_option_append_Nil [simp]: "map_option ((@) []) x = x"
  by (cases x) auto

lemma lex_hex:
  "d < 16 \<Longrightarrow> lex (InHex (Suc (Suc n)) raw) (hex_digit d # rest) =
     lex (InHex (Suc n) (raw @ [hex_digit d])) rest"
  "d < 16 \<Longrightarrow> lex (InHex (Suc 0) raw) (hex_digit d # rest) = lex (InString (raw @ [hex_digit d])) rest"
  by (simp_all add: hex_value_digit)

lemma four: "(4 :: nat) = Suc (Suc (Suc (Suc 0)))"
  by simp

lemma hex_digits4:
  "hex_digits 4 b = [hex_digit (b div 4096 mod 16), hex_digit (b div 256 mod 16),
     hex_digit (b div 16 mod 16), hex_digit (b mod 16)]"
  by (subst four) (simp add: div_mult2_eq [symmetric])

lemma lex_escape_byte:
  assumes "b < 256"
  shows "lex (InString raw) (escape_byte b @ rest) = lex (InString (raw @ escape_byte b)) rest"
proof (cases "b = 34 \<or> b = 92 \<or> b \<ge> 32")
  case True
  then show ?thesis by (auto simp: escape_byte_def simple_escape_def)
next
  case False
  have "lex (InString raw) (92 # 117 # hex_digits 4 b @ rest) =
      lex (InHex 4 (raw @ [92, 117])) (hex_digits 4 b @ rest)"
    by (simp add: simple_escape_def)
  also have "\<dots> = lex (InString (raw @ [92, 117] @ hex_digits 4 b)) rest"
    unfolding hex_digits4 by (subst four) (simp del: lex.simps add: lex_hex)
  finally show ?thesis using False by (simp add: escape_byte_def)
qed

lemma lex_escaped:
  "list_all (\<lambda>c. c < 256) bs \<Longrightarrow> lex (InString raw) (concat (map escape_byte bs) @ rest) =
   lex (InString (raw @ concat (map escape_byte bs))) rest"
  by (induction bs arbitrary: raw) (simp_all add: lex_escape_byte)

lemma codes_bound256: "list_all (\<lambda>c. c < 256) (codes s)"
  by (auto simp: codes_def list_all_iff of_char_def)

lemma lex_string_text:
  "lex Between (string_text s @ rest) = map_option ((@) [StringTok (escaped s)]) (lex Between rest)"
  using lex_escaped [OF codes_bound256, of "[]" s "34 # rest"]
  by (simp add: string_text_def begin_token_def space_byte_def escaped_def)

lemma lex_byte:
  "begin_token c = Some (ts, Between) \<Longrightarrow> lex Between (c # rest) = map_option ((@) ts) (lex Between rest)"
  by simp

lemma begin_token_simps [simp]:
  "begin_token 123 = Some ([LBrace], Between)" "begin_token 125 = Some ([RBrace], Between)"
  "begin_token 91 = Some ([LBracket], Between)" "begin_token 93 = Some ([RBracket], Between)"
  "begin_token 58 = Some ([Colon], Between)" "begin_token 44 = Some ([Comma], Between)"
  by (simp_all add: begin_token_def space_byte_def)

text \<open>Lexing piece by piece: \<open>lexes xs ts\<close>, the text \<open>xs\<close> gives the tokens \<open>ts\<close> whatever follows.\<close>

definition lexes :: "nat list \<Rightarrow> token list \<Rightarrow> bool" where
  "lexes xs ts \<longleftrightarrow> (\<forall>rest. lex Between (xs @ rest) = map_option ((@) ts) (lex Between rest))"

lemma lexes_append: "lexes xs ts \<Longrightarrow> lexes ys us \<Longrightarrow> lexes (xs @ ys) (ts @ us)"
  by (simp add: lexes_def)

lemma lexes_byte: "begin_token c = Some (ts, Between) \<Longrightarrow> lexes [c] ts"
  by (simp add: lexes_def)

lemma lexes_Cons:
  "begin_token c = Some (ts, Between) \<Longrightarrow> lexes ys us \<Longrightarrow> lexes (c # ys) (ts @ us)"
  using lexes_append [OF lexes_byte] by fastforce

lemma lexes_Nil: "lexes [] []"
  by (simp add: lexes_def)

lemma lexes_commas:
  "list_all2 lexes xs ts \<Longrightarrow> lexes (commas 44 xs) (commas Comma ts)"
proof (induction "44 :: nat" xs arbitrary: ts rule: commas.induct)
  case 1
  then show ?case by (simp add: lexes_Nil)
next
  case (2 x)
  then show ?case by (cases ts) auto
next
  case (3 x y xs)
  obtain t u us where ts: "ts = t # u # us" "lexes x t" "list_all2 lexes (y # xs) (u # us)"
    using 3(2) by (auto simp: list_all2_Cons1)
  with lexes_append [OF ts(2) lexes_Cons [of 44 "[Comma]", OF _ 3(1) [OF ts(3)]]]
  show ?case by simp
qed

lemma lexes_bracketed:
  "begin_token c = Some ([t], Between) \<Longrightarrow> begin_token c' = Some ([t'], Between) \<Longrightarrow>
   list_all2 lexes xs ts \<Longrightarrow> lexes ([c] @ commas 44 xs @ [c']) ([t] @ commas Comma ts @ [t'])"
  by (intro lexes_append lexes_byte lexes_commas)

lemma lexes_string: "lexes (string_text s) [StringTok (escaped s)]"
  by (simp add: lexes_def lex_string_text)

lemma lexes_word:
  "lexes [110, 117, 108, 108] [NullTok]" "lexes [116, 114, 117, 101] [TrueTok]"
  "lexes [102, 97, 108, 115, 101] [FalseTok]"
  by (simp_all add: lexes_def begin_token_def space_byte_def digit_byte_def)

lemma lexes_render: "simple_json n v \<Longrightarrow> lexes (render v) (tokens v)"
proof (induction v arbitrary: n)
  case (JArray vs)
  then obtain m where "list_all (simple_json m) vs" by (cases n) auto
  with JArray.IH have "list_all2 lexes (map render vs) (map tokens vs)"
    by (induction vs) auto
  then show ?case by (simp only: render.simps tokens.simps) (rule lexes_bracketed; simp)
next
  case (JObject kvs)
  then obtain m where m: "list_all (\<lambda>(k, v). ascii k \<and> simple_json m v) kvs" by (cases n) auto
  have "list_all2 lexes
      (map (\<lambda>(k, t). string_text k @ 58 # t) (map (map_prod id render) kvs))
      (map (\<lambda>(k, t). [StringTok (escaped k), Colon] @ t) (map (map_prod id tokens) kvs))"
    using m JObject.IH
  proof (induction kvs)
    case (Cons kv kvs)
    obtain k v where kv: "kv = (k, v)" by (cases kv)
    have "lexes (render v) (tokens v)"
      by (rule Cons.prems(2) [of kv v m]) (use kv Cons.prems(1) in auto)
    from lexes_append [OF lexes_string lexes_Cons [of 58 "[Colon]", OF _ this]]
    have "lexes (string_text k @ 58 # render v) ([StringTok (escaped k), Colon] @ tokens v)"
      by simp
    moreover have "list_all2 lexes
        (map (\<lambda>(k, t). string_text k @ 58 # t) (map (map_prod id render) kvs))
        (map (\<lambda>(k, t). [StringTok (escaped k), Colon] @ t) (map (map_prod id tokens) kvs))"
      by (rule Cons.IH) (use Cons.prems in auto)
    ultimately show ?case by (simp add: kv id_def)
  qed simp
  then show ?case by (simp only: render.simps tokens.simps) (rule lexes_bracketed; simp)
qed (auto simp: lexes_string lexes_word)

lemma unquote_escape_byte:
  assumes "b < 128"
  shows "unquote (escape_byte b @ rest) = b # unquote rest"
proof (cases "b = 34 \<or> b = 92 \<or> b \<ge> 32")
  case True
  with assms show ?thesis by (auto simp: escape_byte_def unescape_def)
next
  case False
  then have "b div 16 < 16" by auto
  with False have "hex4 (hex_digits 4 b @ rest) = b"
    by (simp add: hex4_def hex_digits4 hex_value_digit div_mult2_eq [symmetric])
  with False show ?thesis
    by (simp add: escape_byte_def surrogate_pair_def surrogate_def encode_rune_def)
qed

lemma unquote_escaped: "ascii s \<Longrightarrow> bytes (unquote (escaped s)) = s"
proof -
  have "list_all (\<lambda>c. c < 128) bs \<Longrightarrow> unquote (concat (map escape_byte bs)) = bs" for bs
    by (induction bs) (simp_all add: unquote_escape_byte)
  then show "ascii s \<Longrightarrow> bytes (unquote (escaped s)) = s"
    by (simp add: ascii_def escaped_def) (simp add: bytes_def codes_def comp_def)
qed

text \<open>
  The parser, given the tokens of a value where one may begin, comes to the position after it.
\<close>

definition parses :: "json \<Rightarrow> frame list \<Rightarrow> bool" where
  "parses v stk \<longleftrightarrow> (\<forall>st ts. st \<in> {WantValue, WantValueOrEnd} \<longrightarrow>
     parse st stk (tokens v @ ts) = parse (After v) stk ts)"

lemma parsesD: "parses v stk \<Longrightarrow> parse WantValue stk (tokens v @ ts) = parse (After v) stk ts"
  "parses v stk \<Longrightarrow> parse WantValueOrEnd stk (tokens v @ ts) = parse (After v) stk ts"
  by (simp_all add: parses_def)

lemma parse_elements:
  assumes "list_all (\<lambda>v. \<forall>us. parses v (ArrayFrame us # stk)) (v # vs)"
    and "st = WantValue \<or> st = WantValueOrEnd"
  shows "parse st (ArrayFrame us # stk) (commas Comma (map tokens (v # vs)) @ RBracket # ts) =
    parse (After (JArray (us @ v # vs))) stk ts"
  using assms
proof (induction vs arbitrary: v us st)
  case Nil
  then show ?case by (auto simp: parsesD parse_token_def)
next
  case (Cons x xs)
  then have "parse st (ArrayFrame us # stk)
      (commas Comma (map tokens (v # x # xs)) @ RBracket # ts) =
    parse (After v) (ArrayFrame us # stk) (Comma # commas Comma (map tokens (x # xs)) @ RBracket # ts)"
    by (auto simp: parsesD simp del: parse.simps)
  also have "\<dots> = parse WantValue (ArrayFrame (us @ [v]) # stk)
      (commas Comma (map tokens (x # xs)) @ RBracket # ts)"
    by (simp add: parse_token_def)
  finally show ?case using Cons by simp
qed

text \<open>One entry of an object: its key, the colon and the value.\<close>

definition entry_tokens :: "string \<times> json \<Rightarrow> token list" where
  "entry_tokens kv = [StringTok (escaped (fst kv)), Colon] @ tokens (snd kv)"

lemma tokens_JObject:
  "tokens (JObject kvs) = [LBrace] @ commas Comma (map entry_tokens kvs) @ [RBrace]"
  by (simp add: entry_tokens_def [abs_def] comp_def case_prod_beta)

lemma parse_entries:
  assumes "list_all (\<lambda>(k, v). ascii k \<and> (\<forall>us k'. parses v (ObjectFrame us k' # stk))) (kv # kvs)"
    and "st = WantKey \<or> st = WantKeyOrEnd"
  shows "parse st (ObjectFrame us k # stk) (commas Comma (map entry_tokens (kv # kvs)) @ RBrace # ts) =
    parse (After (JObject (us @ kv # kvs))) stk ts"
  using assms
proof (induction kvs arbitrary: kv us k st)
  case Nil
  then show ?case
    by (cases kv) (auto simp: entry_tokens_def parsesD parse_token_def unquote_escaped)
next
  case (Cons x xs)
  obtain j v where kv: "kv = (j, v)" by (cases kv)
  with Cons.prems have "parse st (ObjectFrame us k # stk)
      (commas Comma (map entry_tokens (kv # x # xs)) @ RBrace # ts) =
    parse WantValue (ObjectFrame us j # stk)
      (tokens v @ Comma # commas Comma (map entry_tokens (x # xs)) @ RBrace # ts)"
    by (auto simp: entry_tokens_def parse_token_def unquote_escaped)
  also have "\<dots> = parse (After v) (ObjectFrame us j # stk)
      (Comma # commas Comma (map entry_tokens (x # xs)) @ RBrace # ts)"
    using Cons.prems kv by (simp add: parsesD)
  also have "\<dots> = parse WantKey (ObjectFrame (us @ [kv]) [] # stk)
      (commas Comma (map entry_tokens (x # xs)) @ RBrace # ts)"
    by (simp add: parse_token_def kv)
  finally show ?case using Cons by simp
qed

lemma parses_tokens:
  "simple_json n v \<Longrightarrow> length stk + n \<le> max_nesting_depth \<Longrightarrow> parses v stk"
proof (induction v arbitrary: n stk)
  case (JArray vs)
  then obtain m where m: "n = Suc m" "list_all (simple_json m) vs" by (cases n) auto
  have "list_all (\<lambda>v. \<forall>us. parses v (ArrayFrame us # stk)) vs"
    using m JArray by (auto simp: list_all_iff)
  with m JArray.prems(2) parse_elements [of stk "hd vs" "tl vs" WantValueOrEnd "[]"]
  show ?case
    by (cases vs) (auto simp: parses_def parse_token_def open_frame_def)
next
  case (JObject kvs)
  then obtain m where m: "n = Suc m" "list_all (\<lambda>(k, v). ascii k \<and> simple_json m v) kvs"
    by (cases n) auto
  have "list_all (\<lambda>(k, v). ascii k \<and> (\<forall>us k'. parses v (ObjectFrame us k' # stk))) kvs"
    using m JObject by (fastforce simp: list_all_iff)
  with m JObject.prems(2) parse_entries [of stk "hd kvs" "tl kvs" WantKeyOrEnd "[]" "[]"]
  show ?case
    unfolding parses_def tokens_JObject
    by (cases kvs) (auto simp: parse_token_def open_frame_def)
qed (auto simp: parses_def parse_token_def unquote_escaped)

text \<open>The text is made of bytes.\<close>

lemma list_all_commas: "P c \<Longrightarrow> list_all (list_all P) xs \<Longrightarrow> list_all P (commas c xs)"
  by (induction c xs rule: commas.induct) auto

lemma string_text_bound: "ascii s \<Longrightarrow> list_all (\<lambda>c. c < 256) (string_text s)"
proof -
  have "list_all (\<lambda>c. c < 256) (escape_byte b)" if "b < 128" for b
    using that by (auto simp: escape_byte_def list_all_iff dest: hex_digits_bound)
  then show "ascii s \<Longrightarrow> list_all (\<lambda>c. c < 256) (string_text s)"
    by (auto simp: ascii_def string_text_def escaped_def list_all_iff)
qed

lemma render_bound: "simple_json n v \<Longrightarrow> list_all (\<lambda>c. c < 256) (render v)"
proof (induction v arbitrary: n)
  case (JArray vs)
  then obtain m where m: "list_all (simple_json m) vs" by (cases n) auto
  have "list_all (list_all (\<lambda>c. c < 256)) (map render vs)"
    using m JArray.IH by (auto simp: list_all_iff)
  then show ?case by (simp add: list_all_commas)
next
  case (JObject kvs)
  then obtain m where m: "list_all (\<lambda>(k, v). ascii k \<and> simple_json m v) kvs" by (cases n) auto
  have "list_all (list_all (\<lambda>c. c < 256))
      (map (\<lambda>(k, t). string_text k @ 58 # t) (map (map_prod id render) kvs))"
    using m JObject.IH string_text_bound by (fastforce simp: list_all_iff)
  then show ?case by (simp add: list_all_commas)
qed (auto simp: string_text_bound)

text \<open>Reading the text of a value gives the value.\<close>

lemma json_value_render:
  assumes "simple_json max_nesting_depth v"
  shows "json_value (bytes (render v)) = Some v"
proof -
  have codes: "codes (bytes (render v)) = render v"
    using render_bound [OF assms] by (simp add: codes_bytes list_all_iff)
  have "lex Between (render v) = Some (tokens v)"
    using lexes_render [OF assms, unfolded lexes_def, rule_format, of "[]"] by simp
  moreover have "parse WantValue [] (tokens v) = Some v"
    using parsesD(1) [OF parses_tokens [OF assms], of "[]" "[]"] by simp
  ultimately show ?thesis by (simp add: json_value_def codes)
qed

end
