(* ===== verification/Mounter.thy ===== *)
theory Mounter
  imports Environment Example_Env Go_Path Go_Json
begin

text \<open>
  \<^verbatim>\<open>driver/mounter.go\<close>: the commands that format, probe, mount and measure a device. The
  Go interface \<^verbatim>\<open>Mounter\<close> is the record \<open>mounter\<close> of its methods, and
  \<open>newMounter env\<close> is the one implementation, on the commands and system calls of the
  environment. The locale \<open>mounter_contract\<close> states what the node service relies on; the
  interpretation at the end shows that the implementation keeps it.

  A Go method that returns a value and an error is \<open>fault + value\<close>; the value that accompanies
  an error (always the zero value, but \<^verbatim>\<open>true\<close> when \<^verbatim>\<open>IsMounted\<close> meets a mount
  that is not shared) is dropped, and no caller reads it.
\<close>

abbreviation failed :: "string \<Rightarrow> ('w, 'op, fault + 'a) io" where
  "failed t \<equiv> State_Monad.return (Inl (Error (PlainError t)))"

text \<open>A caller that wraps the error it got into one of its own; a panic goes through.\<close>

fun wrap_error :: "(string \<Rightarrow> go_error) \<Rightarrow> fault \<Rightarrow> fault" where
  "wrap_error k (Error e) = Error (k (err_Error e))"
| "wrap_error k (Panic p) = Panic p"

lemma wrap_error_code: "fault_code (wrap_error (\<lambda>t. StatusError c (k t)) f) \<in> {Some c, None}"
  by (cases f) simp_all

text \<open>The text of a failed command, and the verb \<^verbatim>\<open>%q\<close> applied to a list of strings.\<close>

fun exec_text :: "exec_error \<Rightarrow> string" where
  "exec_text (ExitError c t) = t"
| "exec_text (RunError t) = t"

definition fmt_q_strings :: "(nat \<Rightarrow> bool) \<Rightarrow> string list \<Rightarrow> string" where
  "fmt_q_strings pr xs = ''['' @ Join (map (Quote pr) xs) '' '' @ '']''"

definition in_quotes :: "string \<Rightarrow> string" where
  "in_quotes t = [CHR 0x27] @ t @ [CHR 0x27]"

definition lookpath_failed ::
  "('w, 'op) env \<Rightarrow> string \<Rightarrow> lookpath_error \<Rightarrow> ('w, 'op, fault + 'a) io" where
  "lookpath_failed env cmd err =
     (if err = ErrNotFound
      then failed (Quote (unicode_IsPrint env) cmd @ '' executable not found in $PATH'')
      else failed (lookpath_Error (unicode_IsPrint env) err))"

subsection \<open>Formatting\<close>

definition mkfs_args :: "string \<Rightarrow> string \<Rightarrow> string list" where
  "mkfs_args source fsType =
     (if fsType = ''ext4'' \<or> fsType = ''ext3'' then [''-F'', ''-m0'', source] else [source])"

definition Format ::
  "('w, 'op) env \<Rightarrow> string \<Rightarrow> string \<Rightarrow> ('w, 'op, fault + unit) io" where
  "Format env source fsType = (let mkfsCmd = ''mkfs.'' @ fsType in do {
     missing \<leftarrow> exec_LookPath env mkfsCmd;
     case missing of
       Some err \<Rightarrow> lookpath_failed env mkfsCmd err
     | None \<Rightarrow>
         if fsType = [] then failed ''fs type is not specified for formatting the volume''
         else if source = [] then failed ''source is not specified for formatting the volume''
         else let mkfsArgs = mkfs_args source fsType in do {
           (out, res) \<leftarrow> exec_Command env mkfsCmd mkfsArgs;
           case res of
             Some err \<Rightarrow> failed (''formatting disk failed: '' @ exec_text err @ '' cmd: '' @
               in_quotes (mkfsCmd @ '' '' @ Join mkfsArgs '' '') @ '' output: '' @
               Quote (unicode_IsPrint env) out)
           | None \<Rightarrow> State_Monad.return (Inr ())
         }
   })"

subsection \<open>Mounting\<close>

definition mount_args :: "string \<Rightarrow> string \<Rightarrow> string \<Rightarrow> string list \<Rightarrow> string list" where
  "mount_args source target fsType opts =
     (if fsType = [] then [] else [''-t'', fsType]) @
     (if 0 < length opts then [''-o'', Join opts '',''] else []) @ [source, target]"

text \<open>The mount point: a file for a raw block device, a directory for a file system.\<close>

definition make_mount_point ::
  "('w, 'op) env \<Rightarrow> string \<Rightarrow> string \<Rightarrow> ('w, 'op, fault + unit) io" where
  "make_mount_point env target fsType =
     (if fsType = [] then do {
        made \<leftarrow> fs_MkdirAll env (Dir target) 488;
        case made of
          Some err \<Rightarrow> failed (''failed to create target directory for raw block bind mount: '' @
            err_Error err)
        | None \<Rightarrow> do {
            opened \<leftarrow> fs_OpenCreate env target 432;
            case opened of
              Some err \<Rightarrow> failed (''failed to create target file for raw block bind mount: '' @
                err_Error err)
            | None \<Rightarrow> State_Monad.return (Inr ())
          }
      }
      else do {
        made \<leftarrow> fs_MkdirAll env target 488;
        case made of
          Some err \<Rightarrow> State_Monad.return (Inl (Error err))
        | None \<Rightarrow> State_Monad.return (Inr ())
      })"

definition Mount ::
  "('w, 'op) env \<Rightarrow> string \<Rightarrow> string \<Rightarrow> string \<Rightarrow> string list \<Rightarrow> ('w, 'op, fault + unit) io" where
  "Mount env source target fsType opts =
     (if source = [] then failed ''source is not specified for mounting the volume''
      else if target = [] then failed ''target is not specified for mounting the volume''
      else do {
        made \<leftarrow> make_mount_point env target fsType;
        case made of
          Inl f \<Rightarrow> State_Monad.return (Inl f)
        | Inr _ \<Rightarrow> let mountArgs = mount_args source target fsType opts in do {
            (out, res) \<leftarrow> exec_Command env ''mount'' mountArgs;
            case res of
              Some err \<Rightarrow> failed (''mounting failed: '' @ exec_text err @ '' cmd: '' @
                in_quotes (''mount '' @ Join mountArgs '' '') @ '' output: '' @ Quote (unicode_IsPrint env) out)
            | None \<Rightarrow> State_Monad.return (Inr ())
          }
      })"

definition Unmount :: "('w, 'op) env \<Rightarrow> string \<Rightarrow> ('w, 'op, fault + unit) io" where
  "Unmount env target =
     (if target = [] then failed ''target is not specified for unmounting the volume''
      else do {
        (out, res) \<leftarrow> exec_Command env ''umount'' [target];
        case res of
          Some err \<Rightarrow> failed (''unmounting failed: '' @ exec_text err @ '' cmd: '' @
            in_quotes (''umount '' @ target) @ '' output: '' @ Quote (unicode_IsPrint env) out)
        | None \<Rightarrow> State_Monad.return (Inr ())
      })"

subsection \<open>Probing\<close>

definition blkidExitStatusNoIdentifiers :: int where
  "blkidExitStatusNoIdentifiers = 2"

definition IsFormatted :: "('w, 'op) env \<Rightarrow> string \<Rightarrow> ('w, 'op, fault + bool) io" where
  "IsFormatted env source =
     (if source = [] then failed ''source is not specified''
      else let blkidCmd = ''blkid'' in do {
        missing \<leftarrow> exec_LookPath env blkidCmd;
        case missing of
          Some err \<Rightarrow> lookpath_failed env blkidCmd err
        | None \<Rightarrow> let blkidArgs = [source];
              failure = (\<lambda>text. ''checking formatting failed: '' @ text @ '' cmd: '' @
                Quote (unicode_IsPrint env) blkidCmd @ '', args: '' @
                fmt_q_strings (unicode_IsPrint env) blkidArgs)
            in do {
              (out, res) \<leftarrow> exec_Command env blkidCmd blkidArgs;
              case res of
                None \<Rightarrow> State_Monad.return (Inr True)
              | Some err \<Rightarrow>
                  (case err of
                     RunError t \<Rightarrow> failed (failure t)
                   | ExitError exitCode t \<Rightarrow>
                       if exitCode = blkidExitStatusNoIdentifiers then State_Monad.return (Inr False)
                       else failed (failure t))
            }
      })"

text \<open>The loop over the mounts \<^verbatim>\<open>findmnt\<close> found, and its early return.\<close>

fun scan_mounts :: "(nat \<Rightarrow> bool) \<Rightarrow> string \<Rightarrow> bool \<Rightarrow> fileSystem list \<Rightarrow> fault + bool" where
  "scan_mounts pr target targetFound [] = Inr targetFound"
| "scan_mounts pr target targetFound (fs # rest) =
     (if fs_Propagation fs \<noteq> ''shared'' then
        Inl (Error (PlainError (''mount propagation for target '' @ Quote pr target @
          '' is not enabled'')))
      else scan_mounts pr target (if fs_Target fs = target then True else targetFound) rest)"

definition findmnt_args :: "string \<Rightarrow> string list" where
  "findmnt_args target = [''-o'', ''TARGET,PROPAGATION,FSTYPE,OPTIONS'', ''-M'', target, ''-J'']"

text \<open>Decoding the answer: the fields by their JSON names.\<close>

definition fileSystem_field :: "string \<Rightarrow> json \<Rightarrow> fileSystem \<Rightarrow> fileSystem \<times> bool" where
  "fileSystem_field key v fs =
     (if same_key ''target'' key then
        map_prod (\<lambda>s. fs\<lparr>fs_Target := s\<rparr>) id (unmarshal_string v (fs_Target fs))
      else if same_key ''propagation'' key then
        map_prod (\<lambda>s. fs\<lparr>fs_Propagation := s\<rparr>) id (unmarshal_string v (fs_Propagation fs))
      else if same_key ''fstype'' key then
        map_prod (\<lambda>s. fs\<lparr>fs_FsType := s\<rparr>) id (unmarshal_string v (fs_FsType fs))
      else if same_key ''options'' key then
        map_prod (\<lambda>s. fs\<lparr>fs_Options := s\<rparr>) id (unmarshal_string v (fs_Options fs))
      else (fs, True))"

definition empty_fileSystem :: fileSystem where
  "empty_fileSystem = \<lparr>fs_Target = [], fs_Propagation = [], fs_FsType = [], fs_Options = []\<rparr>"

definition findmnt_field :: "string \<Rightarrow> json \<Rightarrow> findmntResponse \<Rightarrow> findmntResponse \<times> bool" where
  "findmnt_field key v resp =
     (if same_key ''filesystems'' key then
        map_prod (\<lambda>fss. resp\<lparr>FileSystems := fss\<rparr>) id
          (unmarshal_slice (unmarshal_struct fileSystem_field) empty_fileSystem v (FileSystems resp))
      else (resp, True))"

text \<open>
  The decoded answer is a pointer; \<^verbatim>\<open>null\<close> leaves it \<^verbatim>\<open>nil\<close> (\<open>None\<close>), and
  reading its field then panics.
\<close>

definition unmarshal_findmnt ::
  "('w, 'op) env \<Rightarrow> string \<Rightarrow> go_error + findmntResponse option" where
  "unmarshal_findmnt env out =
     (case json_value out of
        None \<Rightarrow> Inl (PlainError (json_error env out))
      | Some JNull \<Rightarrow> Inr None
      | Some v \<Rightarrow>
          (case unmarshal_struct findmnt_field v \<lparr>FileSystems = []\<rparr> of (resp, ok) \<Rightarrow>
             if ok then Inr (Some resp) else Inl (PlainError (json_error env out))))"

definition read_findmnt :: "('w, 'op) env \<Rightarrow> string \<Rightarrow> string \<Rightarrow> fault + bool" where
  "read_findmnt env target out =
     (if out = [] then Inr False
      else (case unmarshal_findmnt env out of
          Inl err \<Rightarrow> Inl (Error (PlainError (''couldn'' @ [CHR 0x27] @ ''t unmarshal data: '' @
            Quote (unicode_IsPrint env) out @ '': '' @ err_Error err)))
        | Inr None \<Rightarrow> Inl (Panic ''nil pointer dereference'')
        | Inr (Some resp) \<Rightarrow>
            scan_mounts (unicode_IsPrint env) target False (FileSystems resp)))"

definition IsMounted :: "('w, 'op) env \<Rightarrow> string \<Rightarrow> ('w, 'op, fault + bool) io" where
  "IsMounted env target =
     (if target = [] then failed ''target is not specified for checking the mount''
      else let findmntCmd = ''findmnt'' in do {
        missing \<leftarrow> exec_LookPath env findmntCmd;
        case missing of
          Some err \<Rightarrow> lookpath_failed env findmntCmd err
        | None \<Rightarrow> do {
            (out, res) \<leftarrow> exec_Command env findmntCmd (findmnt_args target);
            case res of
              Some err \<Rightarrow>
                if TrimSpace out = [] then State_Monad.return (Inr False)
                else failed (''checking mounted failed: '' @ exec_text err @ '' cmd: '' @
                  Quote (unicode_IsPrint env) findmntCmd @ '' output: '' @
                  Quote (unicode_IsPrint env) out)
            | None \<Rightarrow> State_Monad.return (read_findmnt env target out)
          }
      })"

subsection \<open>Measuring\<close>

record volumeStatistics =
  availableBytes :: int64
  totalBytes :: int64
  usedBytes :: int64
  availableInodes :: int64
  totalInodes :: int64
  usedInodes :: int64

definition zero_statistics :: volumeStatistics where
  "zero_statistics = \<lparr>availableBytes = 0, totalBytes = 0, usedBytes = 0,
     availableInodes = 0, totalInodes = 0, usedInodes = 0\<rparr>"

definition S_IFMT :: uint32 where "S_IFMT = 0xF000"
definition S_IFBLK :: uint32 where "S_IFBLK = 0x6000"

definition is_block_mode :: "uint32 \<Rightarrow> bool" where
  "is_block_mode mode \<longleftrightarrow> mode AND S_IFMT = S_IFBLK"

definition IsBlockDevice :: "('w, 'op) env \<Rightarrow> string \<Rightarrow> ('w, 'op, fault + bool) io" where
  "IsBlockDevice env devicePath = do {
     res \<leftarrow> unix_Stat env devicePath;
     case res of
       Inl err \<Rightarrow> State_Monad.return (Inl (Error err))
     | Inr mode \<Rightarrow> State_Monad.return (Inr (is_block_mode mode))
   }"

text \<open>The size \<^verbatim>\<open>blockdev\<close> printed.\<close>

definition block_statistics :: "string \<Rightarrow> fault + volumeStatistics" where
  "block_statistics output = (let strOut = TrimSpace output in
     case ParseInt strOut of
       None \<Rightarrow> Inl (Error (PlainError (''failed to parse size '' @ strOut @ '' into int'')))
     | Some gotSizeBytes \<Rightarrow> Inr (zero_statistics\<lparr>totalBytes := gotSizeBytes\<rparr>))"

text \<open>The counts of \<^verbatim>\<open>statfs\<close> are unsigned; all the arithmetic is on \<^verbatim>\<open>int64\<close>.\<close>

definition statfs_statistics :: "statfs_t \<Rightarrow> volumeStatistics" where
  "statfs_statistics st =
     \<lparr>availableBytes = Bavail st * Bsize st,
      totalBytes = Blocks st * Bsize st,
      usedBytes = (Blocks st - Bfree st) * Bsize st,
      availableInodes = Ffree st,
      totalInodes = Files st,
      usedInodes = Files st - Ffree st\<rparr>"

definition GetStatistics ::
  "('w, 'op) env \<Rightarrow> string \<Rightarrow> ('w, 'op, fault + volumeStatistics) io" where
  "GetStatistics env volumePath = do {
     probed \<leftarrow> IsBlockDevice env volumePath;
     case probed of
       Inl f \<Rightarrow> State_Monad.return (Inl (wrap_error (\<lambda>t. PlainError
         (''failed to determine if volume '' @ volumePath @ '' is block device: '' @ t)) f))
     | Inr isBlock \<Rightarrow>
         if isBlock then do {
           (output, res) \<leftarrow> exec_Command env ''blockdev'' [''getsize64'', volumePath];
           case res of
             Some err \<Rightarrow> failed (''error when getting size of block volume at path '' @
               volumePath @ '': output: '' @ output @ '', err: '' @ exec_text err)
           | None \<Rightarrow> State_Monad.return (block_statistics output)
         }
         else do {
           res \<leftarrow> unix_Statfs env volumePath;
           case res of
             Inl err \<Rightarrow> State_Monad.return (Inl (Error err))
           | Inr st \<Rightarrow> State_Monad.return (Inr (statfs_statistics st))
         }
   }"

subsection \<open>The interface\<close>

record ('w, 'op) mounter =
  mounter_Format :: "string \<Rightarrow> string \<Rightarrow> ('w, 'op, fault + unit) io"
  mounter_Mount :: "string \<Rightarrow> string \<Rightarrow> string \<Rightarrow> string list \<Rightarrow> ('w, 'op, fault + unit) io"
  mounter_Unmount :: "string \<Rightarrow> ('w, 'op, fault + unit) io"
  mounter_IsFormatted :: "string \<Rightarrow> ('w, 'op, fault + bool) io"
  mounter_IsMounted :: "string \<Rightarrow> ('w, 'op, fault + bool) io"
  mounter_GetStatistics :: "string \<Rightarrow> ('w, 'op, fault + volumeStatistics) io"
  mounter_IsBlockDevice :: "string \<Rightarrow> ('w, 'op, fault + bool) io"

definition newMounter :: "('w, 'op) env \<Rightarrow> ('w, 'op) mounter" where
  "newMounter env =
     \<lparr>mounter_Format = Format env, mounter_Mount = Mount env, mounter_Unmount = Unmount env,
      mounter_IsFormatted = IsFormatted env, mounter_IsMounted = IsMounted env,
      mounter_GetStatistics = GetStatistics env, mounter_IsBlockDevice = IsBlockDevice env\<rparr>"

text \<open>
  What a run did to devices and mount points, read off its events: the device a
  \<^verbatim>\<open>mkfs\<close> was run on, the arguments of a \<^verbatim>\<open>mount\<close>, the target of an
  \<^verbatim>\<open>umount\<close>, and the device \<^verbatim>\<open>blkid\<close> found nothing on.
\<close>

fun formatted_device :: "'op event \<Rightarrow> string option" where
  "formatted_device (Exec cmd args res) =
     (if HasPrefix cmd ''mkfs.'' \<and> args \<noteq> [] then Some (last args) else None)"
| "formatted_device _ = None"

fun mount_of :: "'op event \<Rightarrow> string list option" where
  "mount_of (Exec cmd args res) = (if cmd = ''mount'' then Some args else None)"
| "mount_of _ = None"

fun unmount_of :: "'op event \<Rightarrow> string option" where
  "unmount_of (Exec cmd args res) =
     (if cmd = ''umount'' \<and> args \<noteq> [] then Some (last args) else None)"
| "unmount_of _ = None"

fun blank_device :: "'op event \<Rightarrow> string option" where
  "blank_device (Exec cmd args (out, Some (ExitError exitCode t))) =
     (if cmd = ''blkid'' \<and> exitCode = blkidExitStatusNoIdentifiers \<and> args \<noteq> []
      then Some (last args) else None)"
| "blank_device _ = None"

fun succeeded :: "'op event \<Rightarrow> bool" where
  "succeeded (Exec cmd args (out, res)) \<longleftrightarrow> res = None"
| "succeeded _ \<longleftrightarrow> False"

text \<open>The answer of \<^verbatim>\<open>findmnt\<close> that shows a mount at the target, and one that shows none.\<close>

fun shows_mounted :: "('w, 'op) env \<Rightarrow> string \<Rightarrow> bool \<Rightarrow> 'op event \<Rightarrow> bool" where
  "shows_mounted env target b (Exec cmd args (out, res)) \<longleftrightarrow>
     cmd = ''findmnt'' \<and> args = findmnt_args target \<and>
     (case res of
        None \<Rightarrow> read_findmnt env target out = Inr b
      | Some _ \<Rightarrow> \<not> b \<and> TrimSpace out = [])"
| "shows_mounted env target b _ \<longleftrightarrow> False"

definition quiet :: "'op event \<Rightarrow> bool" where
  "quiet e \<longleftrightarrow> formatted_device e = None \<and> mount_of e = None \<and> unmount_of e = None"

text \<open>
  The contract: the probing methods change nothing; only \<^verbatim>\<open>Format\<close> formats, and only its
  argument; a device reported unformatted was found blank; a mount or unmount is run with the
  given arguments only, and was run successfully when it is reported done. The parameter
  \<open>seen\<close> says what counts as having seen a target mounted or not.
\<close>

locale mounter_contract =
  fixes m :: "('w, 'op) mounter"
    and seen :: "string \<Rightarrow> bool \<Rightarrow> 'op event \<Rightarrow> bool"
  assumes Format_law: "ensures (mounter_Format m dev fs) (\<lambda>r es.
      list_all (\<lambda>e. formatted_device e \<in> {None, Some dev} \<and> mount_of e = None \<and> unmount_of e = None) es)"
    and IsFormatted_law: "ensures (mounter_IsFormatted m dev) (\<lambda>r es.
      list_all quiet es \<and> (r = Inr False \<longrightarrow> list_ex (\<lambda>e. blank_device e = Some dev) es))"
    and IsMounted_law: "ensures (mounter_IsMounted m target) (\<lambda>r es.
      list_all quiet es \<and> (\<forall>b. r = Inr b \<longrightarrow> list_ex (seen target b) es))"
    and Mount_law: "ensures (mounter_Mount m source target fs opts) (\<lambda>r es.
      list_all (\<lambda>e. formatted_device e = None \<and> unmount_of e = None \<and>
        mount_of e \<in> {None, Some (mount_args source target fs opts)}) es \<and>
      (r = Inr () \<longrightarrow>
        list_ex (\<lambda>e. mount_of e = Some (mount_args source target fs opts) \<and> succeeded e) es))"
    and Unmount_law: "ensures (mounter_Unmount m target) (\<lambda>r es.
      list_all (\<lambda>e. formatted_device e = None \<and> mount_of e = None \<and>
        unmount_of e \<in> {None, Some target}) es \<and>
      (r = Inr () \<longrightarrow> list_ex (\<lambda>e. unmount_of e = Some target \<and> succeeded e) es))"
    and IsBlockDevice_law: "ensures (mounter_IsBlockDevice m path) (\<lambda>r es. list_all quiet es)"
    and GetStatistics_law: "ensures (mounter_GetStatistics m path) (\<lambda>r es. list_all quiet es)"
begin

lemmas laws = Format_law IsFormatted_law IsMounted_law Mount_law Unmount_law IsBlockDevice_law
  GetStatistics_law

text \<open>What a client may assume after each call, in the form the calculus uses.\<close>

lemmas wp_laws = laws [THEN ensures_mono]

end

lemma ensures_lookpath_failed [wp]:
  "(\<And>t. Q (Inl (Error (PlainError t))) []) \<Longrightarrow> ensures (lookpath_failed env cmd err) Q"
  by (simp add: lookpath_failed_def ensures_return)

lemma mkfs_args_last [simp]: "mkfs_args dev fs \<noteq> []" "last (mkfs_args dev fs) = dev"
  by (auto simp: mkfs_args_def)

lemma TrimSpace_Nil [simp]: "TrimSpace [] = []"
  by (simp add: TrimSpace_graphic)

text \<open>The last two arguments of a mount are its source and its target.\<close>

lemma mount_args_paths: "\<exists>xs. mount_args source target fs opts = xs @ [source, target]"
  by (simp add: mount_args_def)

interpretation real_mounter: mounter_contract "newMounter env" "shows_mounted env"
  for env :: "('w, 'op) env"
proof
  show "ensures (mounter_Format (newMounter env) dev fs) (\<lambda>r es.
      list_all (\<lambda>e. formatted_device e \<in> {None, Some dev} \<and> mount_of e = None \<and> unmount_of e = None) es)"
    for dev fs
    unfolding newMounter_def mounter.simps Format_def by (intro wp) auto
  show "ensures (mounter_IsFormatted (newMounter env) dev) (\<lambda>r es.
      list_all quiet es \<and> (r = Inr False \<longrightarrow> list_ex (\<lambda>e. blank_device e = Some dev) es))" for dev
    unfolding newMounter_def mounter.simps IsFormatted_def by (intro wp) (auto simp: quiet_def)
  show "ensures (mounter_IsMounted (newMounter env) target) (\<lambda>r es.
      list_all quiet es \<and> (\<forall>b. r = Inr b \<longrightarrow> list_ex (shows_mounted env target b) es))" for target
    unfolding newMounter_def mounter.simps IsMounted_def by (intro wp) (auto simp: quiet_def)
  show "ensures (mounter_Mount (newMounter env) source target fs opts) (\<lambda>r es.
      list_all (\<lambda>e. formatted_device e = None \<and> unmount_of e = None \<and>
        mount_of e \<in> {None, Some (mount_args source target fs opts)}) es \<and>
      (r = Inr () \<longrightarrow>
        list_ex (\<lambda>e. mount_of e = Some (mount_args source target fs opts) \<and> succeeded e) es))"
    for source target fs opts
    unfolding newMounter_def mounter.simps Mount_def make_mount_point_def by (intro wp) auto
  show "ensures (mounter_Unmount (newMounter env) target) (\<lambda>r es.
      list_all (\<lambda>e. formatted_device e = None \<and> mount_of e = None \<and>
        unmount_of e \<in> {None, Some target}) es \<and>
      (r = Inr () \<longrightarrow> list_ex (\<lambda>e. unmount_of e = Some target \<and> succeeded e) es))" for target
    unfolding newMounter_def mounter.simps Unmount_def by (intro wp) auto
  show block: "ensures (mounter_IsBlockDevice (newMounter env) path) (\<lambda>r es. list_all quiet es)"
    for path
    unfolding newMounter_def mounter.simps IsBlockDevice_def by (intro wp) (auto simp: quiet_def)
  show "ensures (mounter_GetStatistics (newMounter env) path) (\<lambda>r es. list_all quiet es)" for path
    unfolding newMounter_def mounter.simps GetStatistics_def IsBlockDevice_def
    by (intro wp) (auto simp: quiet_def)
qed

subsection \<open>What each method does\<close>

text \<open>
  The formatting check is decided by the exit status of \<^verbatim>\<open>blkid\<close> alone: it answers
  only after running \<^verbatim>\<open>blkid\<close> on exactly the given device, \<^verbatim>\<open>true\<close> for status 0
  and \<^verbatim>\<open>false\<close> for status 2; every other outcome is an error and never reads as an
  unformatted device.
\<close>

lemma IsFormatted_verdict:
  "ensures (IsFormatted env source) (\<lambda>r es.
     case r of
       Inl f \<Rightarrow> fault_code f = Some Unknown
     | Inr formatted \<Rightarrow> \<exists>out. if formatted
         then es = [LookPath ''blkid'' None, Exec ''blkid'' [source] (out, None)]
         else \<exists>t. es = [LookPath ''blkid'' None, Exec ''blkid'' [source] (out, Some (ExitError 2 t))])"
  unfolding IsFormatted_def by (intro wp) (auto simp: blkidExitStatusNoIdentifiers_def)

lemma scan_mounts_spec:
  "scan_mounts pr target False mounts =
     (if list_all (\<lambda>fs. fs_Propagation fs = ''shared'') mounts
      then Inr (list_ex (\<lambda>fs. fs_Target fs = target) mounts)
      else Inl (Error (PlainError
        (''mount propagation for target '' @ Quote pr target @ '' is not enabled''))))"
proof -
  have "scan_mounts pr target found mounts =
     (if list_all (\<lambda>fs. fs_Propagation fs = ''shared'') mounts
      then Inr (found \<or> list_ex (\<lambda>fs. fs_Target fs = target) mounts)
      else Inl (Error (PlainError
        (''mount propagation for target '' @ Quote pr target @ '' is not enabled''))))" for found
    by (induction mounts arbitrary: found) auto
  then show ?thesis by simp
qed

text \<open>The answer of \<^verbatim>\<open>findmnt -J\<close> about some mounts, as a value.\<close>

definition findmnt_value :: "fileSystem list \<Rightarrow> json" where
  "findmnt_value mounts = JObject [(''filesystems'', JArray (map (\<lambda>fs. JObject
     [(''target'', JString (fs_Target fs)), (''propagation'', JString (fs_Propagation fs)),
      (''fstype'', JString (fs_FsType fs)), (''options'', JString (fs_Options fs))]) mounts))]"

definition ascii_mount :: "fileSystem \<Rightarrow> bool" where
  "ascii_mount fs \<longleftrightarrow> ascii (fs_Target fs) \<and> ascii (fs_Propagation fs) \<and> ascii (fs_FsType fs) \<and>
     ascii (fs_Options fs)"

lemma findmnt_keys:
  "same_key ''filesystems'' ''filesystems''"
  "same_key ''target'' ''target''" "\<not> same_key ''target'' ''propagation''"
  "\<not> same_key ''target'' ''fstype''" "\<not> same_key ''target'' ''options''"
  "same_key ''propagation'' ''propagation''" "\<not> same_key ''propagation'' ''fstype''"
  "\<not> same_key ''propagation'' ''options''" "same_key ''fstype'' ''fstype''"
  "\<not> same_key ''fstype'' ''options''" "same_key ''options'' ''options''"
  by (code_simp)+

lemma findmnt_value_simple: "list_all ascii_mount mounts \<Longrightarrow> simple_json max_nesting_depth (findmnt_value mounts)"
proof -
  have keys: "ascii ''filesystems''" "ascii ''target''" "ascii ''propagation''" "ascii ''fstype''"
    "ascii ''options''" by code_simp+
  assume "list_all ascii_mount mounts"
  then have "simple_json (Suc (Suc (Suc 9997))) (findmnt_value mounts)"
    by (auto simp: findmnt_value_def keys ascii_mount_def list_all_iff)
  then show ?thesis by (simp add: max_nesting_depth_def)
qed

lemma unmarshal_mounts:
  "unmarshal_elements (unmarshal_struct fileSystem_field) empty_fileSystem
     (map (\<lambda>fs. JObject [(''target'', JString (fs_Target fs)),
       (''propagation'', JString (fs_Propagation fs)), (''fstype'', JString (fs_FsType fs)),
       (''options'', JString (fs_Options fs))]) mounts) [] = (mounts, True)"
  by (induction mounts)
    (simp_all add: unmarshal_struct_def fileSystem_field_def unmarshal_string_def findmnt_keys
      empty_fileSystem_def)

lemma unmarshal_findmnt_rendered:
  assumes "list_all ascii_mount mounts"
  shows "unmarshal_findmnt env (bytes (render (findmnt_value mounts))) =
    Inr (Some \<lparr>FileSystems = mounts\<rparr>)"
  using json_value_render [OF findmnt_value_simple [OF assms]]
  by (simp add: unmarshal_findmnt_def findmnt_value_def unmarshal_struct_def findmnt_field_def
      findmnt_keys unmarshal_slice_def unmarshal_mounts)

lemma read_findmnt_mounts:
  assumes "list_all ascii_mount mounts"
  shows "read_findmnt env target (bytes (render (findmnt_value mounts))) =
    (if list_all (\<lambda>fs. fs_Propagation fs = ''shared'') mounts
     then Inr (list_ex (\<lambda>fs. fs_Target fs = target) mounts)
     else Inl (Error (PlainError (''mount propagation for target '' @
       Quote (unicode_IsPrint env) target @ '' is not enabled''))))"
proof -
  have "bytes (render (findmnt_value mounts)) \<noteq> []"
    by (simp add: findmnt_value_def bytes_def)
  then show ?thesis
    by (simp add: read_findmnt_def unmarshal_findmnt_rendered [OF assms] scan_mounts_spec)
qed

text \<open>
  C31. What \<^verbatim>\<open>IsMounted\<close> concludes from an answer of \<^verbatim>\<open>findmnt\<close>. Read as JSON,
  the text of any list of mounts (their strings ASCII, quotes and control characters included) is
  decoded to exactly that list, every field in its place, and the verdict is: an error when one of them is not shared, wherever it stands
  in the list, and otherwise whether one of them is at the target.
\<close>

theorem read_findmnt_rendered:
  assumes "list_all ascii_mount mounts"
  shows "unmarshal_findmnt env (bytes (render (findmnt_value mounts))) =
      Inr (Some \<lparr>FileSystems = mounts\<rparr>) \<and>
    read_findmnt env target (bytes (render (findmnt_value mounts))) =
    (if list_all (\<lambda>fs. fs_Propagation fs = ''shared'') mounts
     then Inr (list_ex (\<lambda>fs. fs_Target fs = target) mounts)
     else Inl (Error (PlainError (''mount propagation for target '' @
       Quote (unicode_IsPrint env) target @ '' is not enabled''))))"
  using unmarshal_findmnt_rendered [OF assms] read_findmnt_mounts [OF assms] by blast

definition example_mount :: fileSystem where
  "example_mount = \<lparr>fs_Target = ''/stage'', fs_Propagation = ''shared'', fs_FsType = ''ext4'',
     fs_Options = ''rw''\<rparr>"

lemma ascii_example_mount: "ascii_mount example_mount"
  by code_simp

lemma read_findmnt_rendered_witness:
  "unmarshal_findmnt example_env (bytes (render (findmnt_value [example_mount]))) =
     Inr (Some \<lparr>FileSystems = [\<lparr>fs_Target = ''/stage'', fs_Propagation = ''shared'',
       fs_FsType = ''ext4'', fs_Options = ''rw''\<rparr>]\<rparr>) \<and>
   read_findmnt example_env ''/stage'' (bytes (render (findmnt_value [example_mount]))) = Inr True \<and>
   read_findmnt example_env ''/data'' (bytes (render (findmnt_value [example_mount]))) = Inr False"
  using read_findmnt_rendered [of "[example_mount]" example_env "''/stage''"]
    read_findmnt_rendered [of "[example_mount]" example_env "''/data''"] ascii_example_mount
  by (simp add: example_mount_def)

text \<open>
  A format or a mount that succeeds ran exactly these steps: the tool was found and run once
  with the device last, forced and without reserved blocks for ext3 and ext4; the mount point was
  made first (the parent directory and a file for a raw device, a directory for a file system)
  and \<^verbatim>\<open>mount\<close> was run once on the source and the target. An empty source or target runs
  no command.
\<close>

lemma Format_Mount_steps:
  "ensures (Format env source fsType) (\<lambda>r es.
     case r of
       Inr _ \<Rightarrow> source \<noteq> [] \<and> fsType \<noteq> [] \<and> (\<exists>out. es = [LookPath (''mkfs.'' @ fsType) None,
         Exec (''mkfs.'' @ fsType) (if fsType \<in> {''ext3'', ''ext4''} then [''-F'', ''-m0'', source]
           else [source]) (out, None)])
     | Inl f \<Rightarrow> fault_code f = Some Unknown) \<and>
   ensures (Mount env source target fsType opts) (\<lambda>r es.
     case r of
       Inr _ \<Rightarrow> source \<noteq> [] \<and> target \<noteq> [] \<and> (\<exists>out. es =
         (if fsType = [] then [MkdirAll (Dir target) 488 None, OpenCreate target 432 None]
          else [MkdirAll target 488 None]) @
         [Exec ''mount'' (mount_args source target fsType opts) (out, None)])
     | Inl f \<Rightarrow> \<not> list_ex (\<lambda>e. succeeded e \<and> mount_of e \<noteq> None) es)"
  unfolding Format_def Mount_def make_mount_point_def
  by (intro conjI; intro wp) (auto simp: mkfs_args_def)

text \<open>
  The driver's own message for a missing tool is never produced: the comparison with
  \<^verbatim>\<open>exec.ErrNotFound\<close> never holds, because \<^verbatim>\<open>exec.LookPath\<close> wraps that value;
  the caller gets the text of the wrapped error instead.
\<close>

lemma missing_tool_error:
  "ensures (Format env source fsType) (\<lambda>r es.
     es = [LookPath (''mkfs.'' @ fsType) (Some ErrNotFound)] \<longrightarrow>
     r = Inl (Error (PlainError (''exec: '' @ Quote (unicode_IsPrint env) (''mkfs.'' @ fsType) @
       '': executable file not found in $PATH'')))) \<and>
   ensures (IsFormatted env source) (\<lambda>r es.
     es = [LookPath ''blkid'' (Some ErrNotFound)] \<longrightarrow>
     r = Inl (Error (PlainError (''exec: '' @ Quote (unicode_IsPrint env) ''blkid'' @
       '': executable file not found in $PATH'')))) \<and>
   ensures (IsMounted env target) (\<lambda>r es.
     es = [LookPath ''findmnt'' (Some ErrNotFound)] \<longrightarrow>
     r = Inl (Error (PlainError (''exec: '' @ Quote (unicode_IsPrint env) ''findmnt'' @
       '': executable file not found in $PATH''))))"
  unfolding Format_def IsFormatted_def IsMounted_def lookpath_failed_def
  by (intro conjI; intro wp) auto

lemma missing_tool_error_witness:
  "\<exists>r w'. run_state (IsFormatted (example_env\<lparr>os_LookPath := (\<lambda>c. State_Monad.return (Some ErrNotFound))\<rparr>)
       ''/dev/vdb'') example_world = (r, w') \<and>
     r = Inl (Error (PlainError (''exec: '' @ Quote (\<lambda>c. 32 \<le> c \<and> c < 127) ''blkid'' @
       '': executable file not found in $PATH'')))"
proof -
  let ?env = "example_env\<lparr>os_LookPath := (\<lambda>c. State_Monad.return (Some ErrNotFound))\<rparr>"
  obtain r w' where run: "run_state (IsFormatted ?env ''/dev/vdb'') example_world = (r, w')"
    by (cases "run_state (IsFormatted ?env ''/dev/vdb'') example_world")
  moreover from run have "history w' = [LookPath ''blkid'' (Some ErrNotFound)]"
    by (auto simp: example_simps IsFormatted_def lookpath_failed_def)
  ultimately show ?thesis
    using ensures_at [OF missing_tool_error [THEN conjunct2, THEN conjunct1] run]
    by (simp add: example_env_def quiet_env_def)
qed

lemma sint_block_product:
  assumes "0 < sint (b :: int64)" and "uint (x :: uint64) * sint b < 2 ^ 63"
  shows "sint (x * b) = uint x * sint b"
proof -
  have "x * b = word_of_int (uint x * sint b)"
    by (simp add: wi_hom_mult [symmetric])
  moreover have "0 \<le> uint x * sint b"
    using assms(1) by simp
  ultimately have "fits64 (uint x * sint b)"
    using assms(2) by (simp add: fits64_def)
  then show ?thesis by (simp only: \<open>x * b = _\<close> sint_of_int64)
qed

lemma sint_count: "uint (x :: uint64) < 2 ^ 63 \<Longrightarrow> sint x = uint x"
  using sint_block_product [of 1 x] by simp

lemma uint_sub_count: "uint (y :: uint64) \<le> uint x \<Longrightarrow> uint (x - y) = uint x - uint y"
  by (simp only: uint_sub_lem)



lemma Itoa_graphic: "list_all graphic (Itoa i)" "Itoa i \<noteq> []"
proof -
  have "graphic c" if "c \<in> set (put_digits n [])" for c n
    using that put_digits_digits [of "[]" c n] by (auto intro: digit_graphic)
  then show "list_all graphic (Itoa i)"
    by (auto simp: Itoa_def list_all_iff graphic_def)
qed (simp add: Itoa_def)

lemma TrimSpace_newline:
  assumes "s \<noteq> []" and "list_all graphic s"
  shows "TrimSpace (s @ [CHR 0x0A]) = s"
proof -
  have ends: "graphic (hd s)" "graphic (last s)"
    using assms by (auto simp: list_all_iff)
  have "find (HasSuffix (s @ [CHR 0x0A])) space_encodings = Some [CHR 0x0A]"
    by (simp add: space_encodings_def HasSuffix_rev)
  then have "TrimRightSpace (s @ [CHR 0x0A]) = TrimRightSpace s"
    by (subst TrimRightSpace.simps) simp
  then show ?thesis
    using ends assms(1) by (simp add: TrimSpace_def TrimLeftSpace_graphic TrimRightSpace_graphic)
qed

text \<open>
  The size of a block device survives its trip through the text \<^verbatim>\<open>blockdev\<close> prints:
  a size printed in decimal, alone or followed by a newline, is read back as that size, all of the
  64 bits.
\<close>

lemma block_statistics_roundtrip:
  "block_statistics (Itoa (sint n) @ [CHR 0x0A]) = Inr (zero_statistics\<lparr>totalBytes := n\<rparr>) \<and>
   block_statistics (Itoa (sint n)) = Inr (zero_statistics\<lparr>totalBytes := n\<rparr>)"
proof -
  have "TrimSpace (Itoa (sint n)) = Itoa (sint n)"
    using Itoa_graphic [of "sint n"] by (simp add: TrimSpace_graphic list_all_iff)
  then show ?thesis
    by (simp add: block_statistics_def TrimSpace_newline Itoa_graphic ParseInt_Itoa)
qed

end
