(* ===== verification/Node.thy ===== *)
theory Node
  imports Mounter Driver_State Encoding Example_Env Guarded_Rpc
begin

text \<open>
  The node service of \<^verbatim>\<open>driver/node.go\<close>: staging and publishing a volume on the node
  the driver runs on, its statistics and its growth. The handlers take the mounter they call as a
  record of methods, the way the Go code takes the interface.
\<close>

subsection \<open>Devices\<close>

definition diskIDPath :: string where
  "diskIDPath = ''/dev/disk/by-id''"

definition getDeviceByIDPath :: "string \<Rightarrow> string" where
  "getDeviceByIDPath volumeName = filepath_Join [diskIDPath, ''virtio-'' @ genDiskID volumeName]"

definition findAbsoluteDeviceByIDPath ::
  "('w, 'op) env \<Rightarrow> string \<Rightarrow> ('w, 'op, go_error + string) io" where
  "findAbsoluteDeviceByIDPath env volumeName = (let path = getDeviceByIDPath volumeName in do {
     res \<leftarrow> fs_EvalSymlinks env path;
     case res of
       Inl err \<Rightarrow> State_Monad.return (Inl (PlainError (''could not resolve symlink '' @
         Quote (unicode_IsPrint env) path @ '': '' @ err_Error err)))
     | Inr resolved \<Rightarrow>
         if \<not> HasPrefix resolved ''/dev'' then
           State_Monad.return (Inl (PlainError (''resolved symlink '' @
             Quote (unicode_IsPrint env) resolved @ '' for '' @ Quote (unicode_IsPrint env) path @
             '' was unexpected'')))
         else State_Monad.return (Inr resolved)
   })"

subsection \<open>Checking the file system\<close>

definition HasFilesystemErrors :: string where
  "HasFilesystemErrors = ''HasFilesystemErrors''"

definition fsckErrorsCorrected :: int where "fsckErrorsCorrected = 1"
definition fsckErrorsUncorrected :: int where "fsckErrorsUncorrected = 4"

definition NewMountError :: "string \<Rightarrow> string \<Rightarrow> go_error" where
  "NewMountError mountErrorValue text =
     MountErrorValue \<lparr>me_Type = mountErrorValue, me_Message = text\<rparr>"

text \<open>The switch over the outcome of \<^verbatim>\<open>fsck\<close>; most branches only log.\<close>

definition fsck_verdict :: "string \<Rightarrow> string \<Rightarrow> k8s_exec_error option \<Rightarrow> go_error option" where
  "fsck_verdict source out res =
     (case res of
        None \<Rightarrow> None
      | Some err \<Rightarrow>
          (case err of
             ErrExecutableNotFound \<Rightarrow> None
           | K8sExitError status t \<Rightarrow>
               if status = fsckErrorsCorrected then None
               else if status = fsckErrorsUncorrected then
                 Some (NewMountError HasFilesystemErrors
                   ([CHR 0x27] @ ''fsck'' @ [CHR 0x27] @ '' found errors on device '' @ source @
                    '' but could not correct them: '' @ out))
               else None
           | K8sRunError t \<Rightarrow> None))"

definition checkAndRepairFilesystem ::
  "('w, 'op) env \<Rightarrow> string \<Rightarrow> ('w, 'op, go_error option) io" where
  "checkAndRepairFilesystem env source = do {
     (out, res) \<leftarrow> k8s_Command env ''fsck'' [''-a'', source];
     State_Monad.return (fsck_verdict source out res)
   }"

subsection \<open>NodeStageVolume\<close>

definition annsNoFormatVolume :: "string list" where
  "annsNoFormatVolume = [''com.flant.csi.yandex/noformat'']"

record node_stage_request =
  nsr_VolumeId :: string
  nsr_StagingTargetPath :: string
  nsr_VolumeCapability :: "volume_capability option"
  nsr_VolumeContext :: strmap

definition noFormat :: "strmap \<Rightarrow> bool" where
  "noFormat ctx \<longleftrightarrow> list_ex (\<lambda>ann. ctx ann \<noteq> None) annsNoFormatVolume"

definition default_fsType :: "mount_volume \<Rightarrow> string" where
  "default_fsType mnt = (if FsType mnt \<noteq> [] then FsType mnt else ''ext4'')"

text \<open>Formatting the device, unless it is formatted already or the volume forbids it.\<close>

definition NodeStageVolume_format ::
  "('w, 'op) mounter \<Rightarrow> bool \<Rightarrow> string \<Rightarrow> string \<Rightarrow> ('w, 'op, fault + unit) io" where
  "NodeStageVolume_format m skip source fsType =
     (if skip then State_Monad.return (Inr ())
      else do {
        res \<leftarrow> mounter_IsFormatted m source;
        case res of
          Inl f \<Rightarrow> State_Monad.return (Inl f)
        | Inr formatted \<Rightarrow>
            if \<not> formatted then do {
              res2 \<leftarrow> mounter_Format m source fsType;
              case res2 of
                Inl f \<Rightarrow> State_Monad.return (Inl (wrap_error (StatusError Internal) f))
              | Inr _ \<Rightarrow> State_Monad.return (Inr ())
            }
            else State_Monad.return (Inr ())
      })"

text \<open>Mounting, unless the target is mounted already; the same in three handlers.\<close>

definition mount_unless_mounted ::
  "('w, 'op) mounter \<Rightarrow> string \<Rightarrow> string \<Rightarrow> string \<Rightarrow> string list \<Rightarrow> ('w, 'op, fault + unit) io"
where
  "mount_unless_mounted m source target fsType options = do {
     res \<leftarrow> mounter_IsMounted m target;
     case res of
       Inl f \<Rightarrow> State_Monad.return (Inl f)
     | Inr mounted \<Rightarrow>
         if \<not> mounted then do {
           res2 \<leftarrow> mounter_Mount m source target fsType options;
           case res2 of
             Inl f \<Rightarrow> State_Monad.return (Inl (wrap_error (StatusError Internal) f))
           | Inr _ \<Rightarrow> State_Monad.return (Inr ())
         }
         else State_Monad.return (Inr ())
   }"

definition NodeStageVolume_mount ::
  "('w, 'op) env \<Rightarrow> ('w, 'op) mounter \<Rightarrow> node_stage_request \<Rightarrow> mount_volume \<Rightarrow>
   ('w, 'op, fault + unit) io" where
  "NodeStageVolume_mount env m req mnt =
     (let source = getDeviceByIDPath (nsr_VolumeId req); fsType = default_fsType mnt in do {
        ready_dev \<leftarrow> NodeStageVolume_format m (noFormat (nsr_VolumeContext req)) source fsType;
        case ready_dev of
          Inl f \<Rightarrow> State_Monad.return (Inl f)
        | Inr _ \<Rightarrow> do {
            checked \<leftarrow> checkAndRepairFilesystem env source;
            case checked of
              Some err \<Rightarrow> State_Monad.return (Inl (Error err))
            | None \<Rightarrow>
                mount_unless_mounted m source (nsr_StagingTargetPath req) fsType (MountFlags mnt)
          }
      })"

text \<open>With no access type set, the mount settings are \<^verbatim>\<open>nil\<close> and reading them panics.\<close>

definition NodeStageVolume ::
  "('w, 'op) env \<Rightarrow> ('w, 'op) mounter \<Rightarrow> node_stage_request \<Rightarrow> ('w, 'op, fault + unit) io" where
  "NodeStageVolume env m req =
     (if nsr_VolumeId req = [] then
        reject InvalidArgument ''NodeStageVolume Volume ID must be provided''
      else if nsr_StagingTargetPath req = [] then
        reject InvalidArgument ''NodeStageVolume Staging Target Path must be provided''
      else (case nsr_VolumeCapability req of
          None \<Rightarrow> reject InvalidArgument ''NodeStageVolume Volume Capability must be provided''
        | Some capability \<Rightarrow>
            (case AccessType capability of
               None \<Rightarrow> State_Monad.return (Inl (Panic ''nil pointer dereference''))
             | Some access \<Rightarrow>
                 (case access of
                    AccessBlock \<Rightarrow> State_Monad.return (Inr ())
                  | AccessMount mnt \<Rightarrow> NodeStageVolume_mount env m req mnt))))"

definition unmount_if_mounted ::
  "('w, 'op) mounter \<Rightarrow> string \<Rightarrow> ('w, 'op, fault + unit) io" where
  "unmount_if_mounted m target = do {
     res \<leftarrow> mounter_IsMounted m target;
     case res of
       Inl f \<Rightarrow> State_Monad.return (Inl f)
     | Inr mounted \<Rightarrow>
         if mounted then mounter_Unmount m target else State_Monad.return (Inr ())
   }"

record node_unstage_request =
  nur_VolumeId :: string
  nur_StagingTargetPath :: string

definition NodeUnstageVolume ::
  "('w, 'op) mounter \<Rightarrow> node_unstage_request \<Rightarrow> ('w, 'op, fault + unit) io" where
  "NodeUnstageVolume m req =
     (if nur_VolumeId req = [] then
        reject InvalidArgument ''NodeUnstageVolume Volume ID must be provided''
      else if nur_StagingTargetPath req = [] then
        reject InvalidArgument ''NodeUnstageVolume Staging Target Path must be provided''
      else unmount_if_mounted m (nur_StagingTargetPath req))"

subsection \<open>NodePublishVolume\<close>

record node_publish_request =
  npr_VolumeId :: string
  npr_StagingTargetPath :: string
  npr_TargetPath :: string
  npr_VolumeCapability :: "volume_capability option"
  npr_Readonly :: bool

definition nodePublishVolumeForFileSystem ::
  "('w, 'op) mounter \<Rightarrow> node_publish_request \<Rightarrow> mount_volume \<Rightarrow> string list \<Rightarrow>
   ('w, 'op, fault + unit) io" where
  "nodePublishVolumeForFileSystem m req mnt mountOptions =
     mount_unless_mounted m (npr_StagingTargetPath req) (npr_TargetPath req)
       (default_fsType mnt) (mountOptions @ MountFlags mnt)"

definition nodePublishVolumeForBlock ::
  "('w, 'op) env \<Rightarrow> ('w, 'op) mounter \<Rightarrow> node_publish_request \<Rightarrow> string list \<Rightarrow>
   ('w, 'op, fault + unit) io" where
  "nodePublishVolumeForBlock env m req mountOptions = do {
     found \<leftarrow> findAbsoluteDeviceByIDPath env (npr_VolumeId req);
     case found of
       Inl err \<Rightarrow> reject Internal (''Failed to find device path for volume '' @
         npr_VolumeId req @ ''. '' @ err_Error err)
     | Inr source \<Rightarrow> mount_unless_mounted m source (npr_TargetPath req) [] mountOptions
   }"

definition publish_options :: "node_publish_request \<Rightarrow> string list" where
  "publish_options req = (if npr_Readonly req then [''bind'', ''ro''] else [''bind''])"

definition NodePublishVolume ::
  "('w, 'op) env \<Rightarrow> ('w, 'op) mounter \<Rightarrow> node_publish_request \<Rightarrow> ('w, 'op, fault + unit) io" where
  "NodePublishVolume env m req =
     (if npr_VolumeId req = [] then
        reject InvalidArgument ''NodePublishVolume Volume ID must be provided''
      else if npr_StagingTargetPath req = [] then
        reject InvalidArgument ''NodePublishVolume Staging Target Path must be provided''
      else if npr_TargetPath req = [] then
        reject InvalidArgument ''NodePublishVolume Target Path must be provided''
      else (case npr_VolumeCapability req of
          None \<Rightarrow> reject InvalidArgument ''NodePublishVolume Volume Capability must be provided''
        | Some capability \<Rightarrow>
            (case AccessType capability of
               None \<Rightarrow> reject InvalidArgument ''Unknown access type''
             | Some access \<Rightarrow>
                 (case access of
                    AccessBlock \<Rightarrow> nodePublishVolumeForBlock env m req (publish_options req)
                  | AccessMount mnt \<Rightarrow>
                      nodePublishVolumeForFileSystem m req mnt (publish_options req)))))"

record node_unpublish_request =
  nupr_VolumeId :: string
  nupr_TargetPath :: string

definition NodeUnpublishVolume ::
  "('w, 'op) mounter \<Rightarrow> node_unpublish_request \<Rightarrow> ('w, 'op, fault + unit) io" where
  "NodeUnpublishVolume m req =
     (if nupr_VolumeId req = [] then
        reject InvalidArgument ''NodeUnpublishVolume Volume ID must be provided''
      else if nupr_TargetPath req = [] then
        reject InvalidArgument ''NodeUnpublishVolume Target Path must be provided''
      else unmount_if_mounted m (nupr_TargetPath req))"

subsection \<open>What the node can do, and how much of it\<close>

datatype node_rpc = STAGE_UNSTAGE_VOLUME | NODE_EXPAND_VOLUME | GET_VOLUME_STATS

definition NodeGetCapabilities :: "node_rpc list" where
  "NodeGetCapabilities = [STAGE_UNSTAGE_VOLUME, NODE_EXPAND_VOLUME, GET_VOLUME_STATS]"

record node_info =
  NodeId :: string
  MaxVolumesPerNode :: int64
  NodeTopology :: topology

definition int64_len :: "'a list \<Rightarrow> int64" where
  "int64_len xs = of_nat (length xs)"

text \<open>The secondary disks that some other tool attached, and the other devices.\<close>

fun count_non_csi :: "int64 \<Rightarrow> string list \<Rightarrow> int64" where
  "count_non_csi n [] = n"
| "count_non_csi n (deviceName # rest) =
     count_non_csi (if \<not> HasPrefix deviceName ''csi-'' then n + 1 else n) rest"

text \<open>More cores than the platform's bound allow 14 devices; reading unset resources panics.\<close>

definition limit_by_cores :: "instance_info \<Rightarrow> int \<Rightarrow> fault + int64" where
  "limit_by_cores inst bound =
     (case inst_Cores inst of
        None \<Rightarrow> Inl (Panic ''nil pointer dereference'')
      | Some cores \<Rightarrow> Inr (if sint cores > bound then 14 else 8))"

definition disksLimit :: "instance_info \<Rightarrow> fault + int64" where
  "disksLimit inst = (let platform = inst_PlatformId inst in
     if platform = ''standard-v1'' \<or> platform = ''gpu-standard-v1'' then limit_by_cores inst 18
     else if platform = ''standard-v2'' \<or> platform = ''gpu-standard-v2'' then limit_by_cores inst 20
     else if platform = ''standard-v3'' \<or> platform = ''highfreq-v3'' then limit_by_cores inst 32
     else Inr 8)"

definition maxVolumesPerNode :: "instance_info \<Rightarrow> int64 \<Rightarrow> int64" where
  "maxVolumesPerNode inst limit =
     (let bootDisksCount = 1;
          networkInterfacesCount = int64_len (inst_NetworkInterfaces inst);
          secondaryDisksCount = int64_len (inst_SecondaryDisks inst);
          localDisksCount = int64_len (inst_LocalDisks inst);
          filesystemsCount = int64_len (inst_Filesystems inst);
          nonCSISecondaryDisksCount =
            count_non_csi (localDisksCount + filesystemsCount) (inst_SecondaryDisks inst)
      in if sint (bootDisksCount + secondaryDisksCount + networkInterfacesCount) < 14
         then limit - bootDisksCount - nonCSISecondaryDisksCount
         else limit - bootDisksCount - nonCSISecondaryDisksCount - networkInterfacesCount)"

definition NodeGetInfo :: "('w, 'op) env \<Rightarrow> driver \<Rightarrow> ('w, 'op, fault + node_info) io" where
  "NodeGetInfo env d = do {
     got \<leftarrow> Instance_Get env (drv_hostID d);
     case got of
       Inl err \<Rightarrow> State_Monad.return (Inl (Error err))
     | Inr inst \<Rightarrow>
         (case disksLimit inst of
            Inl f \<Rightarrow> State_Monad.return (Inl f)
          | Inr limit \<Rightarrow> State_Monad.return (Inr
              \<lparr>NodeId = drv_hostID d, MaxVolumesPerNode = maxVolumesPerNode inst limit,
               NodeTopology = topology_of (drv_region d) (drv_zone d)\<rparr>))
   }"

subsection \<open>NodeGetVolumeStats\<close>

datatype usage_unit = BYTES | INODES

record volume_usage =
  Unit :: usage_unit
  Available :: int64
  Total :: int64
  Used :: int64

record node_stats_request =
  ngs_VolumeId :: string
  ngs_VolumePath :: string

definition usage_of :: "bool \<Rightarrow> volumeStatistics \<Rightarrow> volume_usage list" where
  "usage_of isBlock stats =
     (if isBlock then [\<lparr>Unit = BYTES, Available = 0, Total = totalBytes stats, Used = 0\<rparr>]
      else [\<lparr>Unit = BYTES, Available = availableBytes stats, Total = totalBytes stats,
              Used = usedBytes stats\<rparr>,
            \<lparr>Unit = INODES, Available = availableInodes stats, Total = totalInodes stats,
              Used = usedInodes stats\<rparr>])"

definition NodeGetVolumeStats ::
  "('w, 'op) env \<Rightarrow> ('w, 'op) mounter \<Rightarrow> node_stats_request \<Rightarrow>
   ('w, 'op, fault + volume_usage list) io" where
  "NodeGetVolumeStats env m req =
     (if ngs_VolumeId req = [] then
        reject InvalidArgument ''NodeGetVolumeStats Volume ID must be provided''
      else let volumePath = ngs_VolumePath req; quoted = Quote (unicode_IsPrint env) volumePath in
      if volumePath = [] then
        reject InvalidArgument ''NodeGetVolumeStats Volume Path must be provided''
      else do {
        res \<leftarrow> mounter_IsMounted m volumePath;
        case res of
          Inl f \<Rightarrow> State_Monad.return (Inl (wrap_error (\<lambda>t. StatusError Internal
            (''failed to check if volume path '' @ quoted @ '' is mounted: '' @ t)) f))
        | Inr mounted \<Rightarrow>
            if \<not> mounted then reject NotFound (''volume path '' @ quoted @ '' is not mounted'')
            else do {
              probed \<leftarrow> mounter_IsBlockDevice m volumePath;
              case probed of
                Inl f \<Rightarrow> State_Monad.return (Inl (wrap_error (\<lambda>t. StatusError Internal
                  (''failed to determine if '' @ quoted @ '' is block device: '' @ t)) f))
              | Inr isBlock \<Rightarrow> do {
                  measured \<leftarrow> mounter_GetStatistics m volumePath;
                  case measured of
                    Inl f \<Rightarrow> State_Monad.return (Inl (wrap_error (\<lambda>t. StatusError Internal
                      (''failed to retrieve capacity statistics for volume path '' @ quoted @
                       '': '' @ t)) f))
                  | Inr stats \<Rightarrow> State_Monad.return (Inr (usage_of isBlock stats))
                }
            }
      })"

subsection \<open>NodeExpandVolume\<close>

record node_expand_request =
  ner_VolumeId :: string
  ner_VolumePath :: string
  ner_VolumeCapability :: "volume_capability option"

definition is_block_capability :: "volume_capability option \<Rightarrow> bool" where
  "is_block_capability capability =
     (case capability of None \<Rightarrow> False | Some c \<Rightarrow> AccessType c = Some AccessBlock)"

definition NodeExpandVolume ::
  "('w, 'op) env \<Rightarrow> node_expand_request \<Rightarrow> ('w, 'op, fault + unit) io" where
  "NodeExpandVolume env req =
     (let volumeID = ner_VolumeId req; volumePath = ner_VolumePath req in
      if volumeID = [] then reject InvalidArgument ''NodeExpandVolume volume ID not provided''
      else if volumePath = [] then
        reject InvalidArgument ''NodeExpandVolume volume path not provided''
      else if is_block_capability (ner_VolumeCapability req) then State_Monad.return (Inr ())
      else do {
        found \<leftarrow> mount_GetDeviceName env volumePath;
        case found of
          Inl err \<Rightarrow> reject Internal (''NodeExpandVolume unable to get device path for '' @
            Quote (unicode_IsPrint env) volumePath @ '': '' @ err_Error err)
        | Inr devicePath \<Rightarrow> do {
            resized \<leftarrow> resize_Resize env devicePath volumePath;
            case resized of
              Inl err \<Rightarrow> reject Internal (''NodeExpandVolume could not resize volume '' @
                Quote (unicode_IsPrint env) volumeID @ '' ('' @
                Quote (unicode_IsPrint env) volumePath @ ''):  '' @ err_Error err)
            | Inr _ \<Rightarrow> State_Monad.return (Inr ())
          }
      })"

subsection \<open>What the node service does with any mounter that keeps the contract\<close>

definition fsck_passed :: "string \<Rightarrow> 'op event \<Rightarrow> bool" where
  "fsck_passed dev e =
     (case e of
        K8sExec cmd args (out, res) \<Rightarrow>
          cmd = ''fsck'' \<and> args = [''-a'', dev] \<and> fsck_verdict dev out res = None
      | _ \<Rightarrow> False)"

abbreviation mounted_ok :: "string list \<Rightarrow> 'op event \<Rightarrow> bool" where
  "mounted_ok args e \<equiv> mount_of e = Some args \<and> succeeded e"

text \<open>The arguments of the mount that stages a volume.\<close>

definition staged :: "node_stage_request \<Rightarrow> mount_volume \<Rightarrow> string list" where
  "staged req mnt = mount_args (getDeviceByIDPath (nsr_VolumeId req)) (nsr_StagingTargetPath req)
     (default_fsType mnt) (MountFlags mnt)"

context mounter_contract
begin

lemma format_law: "ensures (NodeStageVolume_format m skip dev fs) (\<lambda>r es.
    list_all (\<lambda>e. formatted_device e \<in> {None, Some dev} \<and> mount_of e = None \<and> unmount_of e = None) es \<and>
    preceded (\<lambda>e. blank_device e = Some dev) (\<lambda>e. formatted_device e \<noteq> None) es \<and>
    (skip \<longrightarrow> es = []))"
  unfolding NodeStageVolume_format_def
  by (intro wp wp_laws) (auto simp: quiet_def list_all_iff list_ex_iff intro!: preceded_none)

lemma mount_law: "ensures (mount_unless_mounted m source target fs opts) (\<lambda>r es.
    list_all (\<lambda>e. formatted_device e = None \<and> unmount_of e = None \<and>
      mount_of e \<in> {None, Some (mount_args source target fs opts)}) es \<and>
    preceded (seen target False) (\<lambda>e. mount_of e \<noteq> None) es \<and>
    (r = Inr () \<longrightarrow> list_ex (seen target True) es \<or>
      list_ex (mounted_ok (mount_args source target fs opts)) es))"
  unfolding mount_unless_mounted_def
  by (intro wp wp_laws) (auto simp: quiet_def list_all_iff list_ex_iff intro!: preceded_none)

lemma unmount_law: "ensures (unmount_if_mounted m target) (\<lambda>r es.
    list_all (\<lambda>e. formatted_device e = None \<and> mount_of e = None \<and>
      unmount_of e \<in> {None, Some target}) es \<and>
    preceded (seen target True) (\<lambda>e. unmount_of e \<noteq> None) es \<and>
    (r = Inr () \<longrightarrow> list_ex (seen target False) es \<or>
      list_ex (\<lambda>e. unmount_of e = Some target \<and> succeeded e) es))"
  unfolding unmount_if_mounted_def
  by (intro wp wp_laws) (auto simp: quiet_def list_all_iff list_ex_iff intro!: preceded_none)

lemma fsck_law: "ensures (checkAndRepairFilesystem env dev) (\<lambda>r es.
    list_all quiet es \<and> (r = None \<longrightarrow> list_ex (fsck_passed dev) es))"
  unfolding checkAndRepairFilesystem_def
  by (intro wp) (auto simp: quiet_def fsck_passed_def)

text \<open>The three laws above, and what they give for staging a file system.\<close>

lemmas wp_node = format_law [THEN ensures_mono] mount_law [THEN ensures_mono]
  unmount_law [THEN ensures_mono] fsck_law [THEN ensures_mono]

lemma stage_format_law: "ensures (NodeStageVolume_mount env m req mnt) (\<lambda>r es.
    list_all (\<lambda>e. formatted_device e \<in> {None, Some (getDeviceByIDPath (nsr_VolumeId req))}) es \<and>
    preceded (\<lambda>e. blank_device e = Some (getDeviceByIDPath (nsr_VolumeId req)))
      (\<lambda>e. formatted_device e \<noteq> None) es \<and>
    (noFormat (nsr_VolumeContext req) \<longrightarrow> list_all (\<lambda>e. formatted_device e = None) es))"
  unfolding NodeStageVolume_mount_def
  by (intro wp wp_node) (auto simp: quiet_def list_all_iff list_ex_iff intro!: preceded_none)

lemma stage_mount_law: "ensures (NodeStageVolume_mount env m req mnt) (\<lambda>r es.
    list_all (\<lambda>e. unmount_of e = None \<and> mount_of e \<in> {None, Some (staged req mnt)}) es \<and>
    preceded (fsck_passed (getDeviceByIDPath (nsr_VolumeId req))) (\<lambda>e. mount_of e \<noteq> None) es \<and>
    preceded (seen (nsr_StagingTargetPath req) False) (\<lambda>e. mount_of e \<noteq> None) es \<and>
    (r = Inr () \<longrightarrow> list_ex (seen (nsr_StagingTargetPath req) True) es \<or>
      list_ex (mounted_ok (staged req mnt)) es))"
  unfolding NodeStageVolume_mount_def staged_def
  by (intro wp wp_node) (auto simp: quiet_def list_all_iff list_ex_iff intro!: preceded_none)

end

lemmas wp_stage_format = real_mounter.stage_format_law [THEN ensures_mono]
lemmas wp_stage_mount = real_mounter.stage_mount_law [THEN ensures_mono]

lemma getDeviceByIDPath_eq:
  "getDeviceByIDPath v = ''/dev/disk/by-id/virtio-csi-'' @ put_digits (unat (fnv32a v)) []"
proof -
  have "list_all plain_elem [''dev'', ''disk'', ''by-id'', ''virtio-'' @ genDiskID v]"
    using put_digits_digits [of "[]" "CHR ''/''" "unat (fnv32a v)"]
    by (auto simp: plain_elem_def genDiskID_digits is_digit_def)
  from Clean_absolute [OF this] show ?thesis
    by (simp add: getDeviceByIDPath_def filepath_Join_def diskIDPath_def genDiskID_digits)
qed

lemma getDeviceByIDPath_nonempty [simp]: "getDeviceByIDPath v \<noteq> []"
  by (simp add: getDeviceByIDPath_eq)

text \<open>
  C1. Staging never destroys data: whatever the node answers, \<^verbatim>\<open>NodeStageVolume\<close> runs
  \<^verbatim>\<open>mkfs\<close> only on the device of the requested volume, only after \<^verbatim>\<open>blkid\<close> exited with
  the status for a blank device on exactly that device, and never when the volume carries the
  no-format annotation.
\<close>

theorem NodeStageVolume_formats_only_blank:
  "ensures (NodeStageVolume env (newMounter env) req) (\<lambda>r es.
     list_all (\<lambda>e. formatted_device e \<in> {None, Some (getDeviceByIDPath (nsr_VolumeId req))}) es \<and>
     preceded (\<lambda>e. blank_device e = Some (getDeviceByIDPath (nsr_VolumeId req)))
       (\<lambda>e. formatted_device e \<noteq> None) es \<and>
     (noFormat (nsr_VolumeContext req) \<longrightarrow> list_all (\<lambda>e. formatted_device e = None) es))"
  unfolding NodeStageVolume_def by (intro wp wp_stage_format) auto

definition example_capability :: volume_capability where
  "example_capability = \<lparr>AccessType = Some (AccessMount \<lparr>FsType = [], MountFlags = [''noatime'']\<rparr>),
     AccessMode = Some SINGLE_NODE_WRITER\<rparr>"

definition example_stage :: "strmap \<Rightarrow> node_stage_request" where
  "example_stage ctx = \<lparr>nsr_VolumeId = ''disk-1'', nsr_StagingTargetPath = ''/stage'',
     nsr_VolumeCapability = Some example_capability, nsr_VolumeContext = ctx\<rparr>"

lemmas stage_simps = example_simps NodeStageVolume_def NodeStageVolume_mount_def
  NodeStageVolume_format_def mount_unless_mounted_def checkAndRepairFilesystem_def
  fsck_verdict_def newMounter_def Format_def IsFormatted_def IsMounted_def Mount_def
  make_mount_point_def example_stage_def example_capability_def noFormat_def
  annsNoFormatVolume_def default_fsType_def blkidExitStatusNoIdentifiers_def

lemma example_stage_run:
  "run_state (NodeStageVolume example_env (newMounter example_env) (example_stage Map.empty))
     example_world =
   (Inr (), example_world\<lparr>history :=
     [LookPath ''blkid'' None,
      Exec ''blkid'' [getDeviceByIDPath ''disk-1''] ([], Some (ExitError 2 ''exit status 2'')),
      LookPath ''mkfs.ext4'' None,
      Exec ''mkfs.ext4'' [''-F'', ''-m0'', getDeviceByIDPath ''disk-1''] ([], None),
      K8sExec ''fsck'' [''-a'', getDeviceByIDPath ''disk-1''] ([], None),
      LookPath ''findmnt'' None,
      Exec ''findmnt'' (findmnt_args ''/stage'') ([], Some (ExitError 1 ''exit status 1'')),
      MkdirAll ''/stage'' 488 None,
      Exec ''mount'' [''-t'', ''ext4'', ''-o'', ''noatime'', getDeviceByIDPath ''disk-1'', ''/stage'']
        ([], None)]\<rparr>)"
  by (simp add: stage_simps mkfs_args_def mount_args_def)

lemma example_stage_noformat_run:
  "run_state (NodeStageVolume example_env (newMounter example_env)
     (example_stage [''com.flant.csi.yandex/noformat'' \<mapsto> []])) example_world =
   (Inr (), example_world\<lparr>history :=
     [K8sExec ''fsck'' [''-a'', getDeviceByIDPath ''disk-1''] ([], None),
      LookPath ''findmnt'' None,
      Exec ''findmnt'' (findmnt_args ''/stage'') ([], Some (ExitError 1 ''exit status 1'')),
      MkdirAll ''/stage'' 488 None,
      Exec ''mount'' [''-t'', ''ext4'', ''-o'', ''noatime'', getDeviceByIDPath ''disk-1'', ''/stage'']
        ([], None)]\<rparr>)"
  by (simp add: stage_simps mount_args_def)

lemma NodeStageVolume_formats_only_blank_witness:
  "\<exists>w'. run_state (NodeStageVolume example_env (newMounter example_env)
       (example_stage [''com.flant.csi.yandex/noformat'' \<mapsto> []])) example_world = (Inr (), w') \<and>
     list_all (\<lambda>e. formatted_device e = None) (history w')"
proof -
  have "noFormat (nsr_VolumeContext (example_stage [''com.flant.csi.yandex/noformat'' \<mapsto> []]))"
    by (simp add: example_stage_def noFormat_def annsNoFormatVolume_def)
  with ensures_at [OF NodeStageVolume_formats_only_blank example_stage_noformat_run]
  show ?thesis using example_stage_noformat_run by simp
qed

text \<open>
  C17. Staging mounts only what it checked: every \<^verbatim>\<open>mount\<close> it runs has exactly the arguments
  of the request (the device of the volume, the staging path, the file system type and the flags)
  and comes after an \<^verbatim>\<open>fsck\<close> of that device that did not end in uncorrected errors and
  after \<^verbatim>\<open>findmnt\<close> showed nothing mounted there; nothing is ever unmounted. Staging that
  reports success either did so for a block volume, without doing anything, or saw the target
  mounted already, or mounted it successfully.
\<close>

theorem NodeStageVolume_mounts_checked:
  "ensures (NodeStageVolume env (newMounter env) req) (\<lambda>r es.
     list_all (\<lambda>e. unmount_of e = None) es \<and>
     preceded (fsck_passed (getDeviceByIDPath (nsr_VolumeId req))) (\<lambda>e. mount_of e \<noteq> None) es \<and>
     preceded (shows_mounted env (nsr_StagingTargetPath req) False) (\<lambda>e. mount_of e \<noteq> None) es \<and>
     (case Option.bind (nsr_VolumeCapability req) GetMount of
        Some mnt \<Rightarrow>
          list_all (\<lambda>e. mount_of e \<in> {None, Some (staged req mnt)}) es \<and>
          (r = Inr () \<longrightarrow> list_ex (shows_mounted env (nsr_StagingTargetPath req) True) es \<or>
             list_ex (mounted_ok (staged req mnt)) es)
      | _ \<Rightarrow> es = []))"
  unfolding NodeStageVolume_def
  by (intro wp wp_stage_mount) (auto simp: list_all_iff GetMount_def split: option.splits)

lemma NodeStageVolume_mounts_checked_witness:
  "\<exists>w'. run_state (NodeStageVolume example_env (newMounter example_env) (example_stage Map.empty))
       example_world = (Inr (), w') \<and>
     preceded (fsck_passed (getDeviceByIDPath ''disk-1'')) (\<lambda>e. mount_of e \<noteq> None) (history w') \<and>
     (list_ex (shows_mounted example_env ''/stage'' True) (history w') \<or>
      list_ex (mounted_ok [''-t'', ''ext4'', ''-o'', ''noatime'', getDeviceByIDPath ''disk-1'', ''/stage''])
        (history w'))"
  using ensures_at [OF NodeStageVolume_mounts_checked example_stage_run] example_stage_run
  by (simp add: example_stage_def example_capability_def GetMount_def staged_def mount_args_def
      default_fsType_def)


definition mounted_text :: string where
  "mounted_text = bytes (render (findmnt_value [example_mount]))"

definition mounted_env :: "(unit, nat) env" where
  "mounted_env = example_env\<lparr>os_Exec := (\<lambda>c args. State_Monad.return (mounted_text, None))\<rparr>"

lemma mounted_env_simps [simp]:
  "os_Exec mounted_env c args = State_Monad.return (mounted_text, None)"
  "os_LookPath mounted_env c = State_Monad.return None"
  by (simp_all add: mounted_env_def)

lemma read_mounted_text [simp]: "read_findmnt env ''/stage'' mounted_text = Inr True"
  using read_findmnt_mounts [of "[example_mount]" env "''/stage''"] ascii_example_mount
  by (simp add: mounted_text_def) (simp add: example_mount_def)

lemma mounted_env_unstage:
  "run_state (NodeUnstageVolume (newMounter mounted_env)
     \<lparr>nur_VolumeId = ''disk-1'', nur_StagingTargetPath = ''/stage''\<rparr>) example_world =
   (Inr (), example_world\<lparr>history := [LookPath ''findmnt'' None,
     Exec ''findmnt'' (findmnt_args ''/stage'') (mounted_text, None),
     Exec ''umount'' [''/stage''] (mounted_text, None)]\<rparr>)"
  by (simp add: NodeUnstageVolume_def unmount_if_mounted_def newMounter_def IsMounted_def
      Unmount_def example_simps)

text \<open>
  Unstaging and unpublishing undo a mount and nothing else: the only command that changes
  anything is an \<^verbatim>\<open>umount\<close> of the requested path, run only after \<^verbatim>\<open>findmnt\<close>
  showed it mounted; both report success only when the path was seen unmounted or the
  \<^verbatim>\<open>umount\<close> succeeded, so both are idempotent.
\<close>

lemma NodeUnstage_Unpublish_only_unmount:
  "ensures (NodeUnstageVolume (newMounter env) req) (\<lambda>r es.
     list_all (\<lambda>e. formatted_device e = None \<and> mount_of e = None \<and>
       unmount_of e \<in> {None, Some (nur_StagingTargetPath req)}) es \<and>
     preceded (shows_mounted env (nur_StagingTargetPath req) True) (\<lambda>e. unmount_of e \<noteq> None) es \<and>
     (r = Inr () \<longrightarrow> list_ex (shows_mounted env (nur_StagingTargetPath req) False) es \<or>
       list_ex (\<lambda>e. unmount_of e = Some (nur_StagingTargetPath req) \<and> succeeded e) es)) \<and>
   ensures (NodeUnpublishVolume (newMounter env) preq) (\<lambda>r es.
     list_all (\<lambda>e. formatted_device e = None \<and> mount_of e = None \<and>
       unmount_of e \<in> {None, Some (nupr_TargetPath preq)}) es \<and>
     preceded (shows_mounted env (nupr_TargetPath preq) True) (\<lambda>e. unmount_of e \<noteq> None) es \<and>
     (r = Inr () \<longrightarrow> list_ex (shows_mounted env (nupr_TargetPath preq) False) es \<or>
       list_ex (\<lambda>e. unmount_of e = Some (nupr_TargetPath preq) \<and> succeeded e) es))"
  unfolding NodeUnstageVolume_def NodeUnpublishVolume_def
  by (intro conjI; intro wp real_mounter.unmount_law [THEN ensures_mono]) auto

lemma NodeUnstage_Unpublish_only_unmount_witness:
  "\<exists>w'. run_state (NodeUnstageVolume (newMounter mounted_env)
       \<lparr>nur_VolumeId = ''disk-1'', nur_StagingTargetPath = ''/stage''\<rparr>) example_world = (Inr (), w') \<and>
     (list_ex (shows_mounted mounted_env ''/stage'' False) (history w') \<or>
      list_ex (\<lambda>e. unmount_of e = Some ''/stage'' \<and> succeeded e) (history w'))"
  using ensures_at [OF NodeUnstage_Unpublish_only_unmount [THEN conjunct1] mounted_env_unstage]
    mounted_env_unstage by simp
text \<open>
  C27. Publishing makes exactly the bind mount asked for: it never formats or unmounts; a file
  system is mounted from the staging path to the target path with the type of the volume (ext4 when it
  names none) and the options \<^verbatim>\<open>bind\<close>, \<^verbatim>\<open>ro\<close> for a read-only request, and the flags of the volume; a block
  device is mounted from the resolved path of the volume's own link, which starts with
  \<^verbatim>\<open>/dev\<close>. A capability with no access type does nothing.
\<close>

theorem NodePublishVolume_mounts:
  "ensures (NodePublishVolume env (newMounter env) req) (\<lambda>r es.
     list_all (\<lambda>e. formatted_device e = None \<and> unmount_of e = None) es \<and>
     (case Option.bind (npr_VolumeCapability req) AccessType of
        None \<Rightarrow> es = [] \<and> outcome r = Some InvalidArgument
      | Some (AccessMount mnt) \<Rightarrow>
          list_all (\<lambda>e. mount_of e \<in> {None, Some
            [''-t'', if FsType mnt = [] then ''ext4'' else FsType mnt,
             ''-o'', Join ((if npr_Readonly req then [''bind'', ''ro''] else [''bind'']) @ MountFlags mnt) '','',
             npr_StagingTargetPath req, npr_TargetPath req]}) es
      | Some AccessBlock \<Rightarrow>
          list_all (\<lambda>e. mount_of e = None \<or> list_ex (\<lambda>l. case l of
              EvalSymlinks link (Inr source) \<Rightarrow>
                link = getDeviceByIDPath (npr_VolumeId req) \<and> HasPrefix source ''/dev'' \<and>
                mount_of e = Some [''-o'', if npr_Readonly req then ''bind,ro'' else ''bind'',
                  source, npr_TargetPath req]
            | _ \<Rightarrow> False) es) es))"
  unfolding NodePublishVolume_def nodePublishVolumeForBlock_def
    nodePublishVolumeForFileSystem_def findAbsoluteDeviceByIDPath_def
  by (intro wp real_mounter.mount_law [THEN ensures_mono])
    (auto simp: list_all_iff list_ex_iff mount_args_def publish_options_def default_fsType_def
      split: option.splits access_type.splits)

lemma example_publish_run:
  "run_state (NodePublishVolume example_env (newMounter example_env)
     \<lparr>npr_VolumeId = ''disk-1'', npr_StagingTargetPath = ''/stage'', npr_TargetPath = ''/pod'',
      npr_VolumeCapability = Some example_capability, npr_Readonly = True\<rparr>) example_world =
   (Inr (), example_world\<lparr>history :=
     [LookPath ''findmnt'' None,
      Exec ''findmnt'' (findmnt_args ''/pod'') ([], Some (ExitError 1 ''exit status 1'')),
      MkdirAll ''/pod'' 488 None,
      Exec ''mount'' [''-t'', ''ext4'', ''-o'', ''bind,ro,noatime'', ''/stage'', ''/pod''] ([], None)]\<rparr>)"
  by (simp add: NodePublishVolume_def nodePublishVolumeForFileSystem_def publish_options_def
      stage_simps mount_args_def)

lemma NodePublishVolume_mounts_witness:
  "\<exists>w'. run_state (NodePublishVolume example_env (newMounter example_env)
       \<lparr>npr_VolumeId = ''disk-1'', npr_StagingTargetPath = ''/stage'', npr_TargetPath = ''/pod'',
        npr_VolumeCapability = Some example_capability, npr_Readonly = True\<rparr>) example_world =
       (Inr (), w') \<and>
     list_all (\<lambda>e. mount_of e \<in> {None, Some
       [''-t'', ''ext4'', ''-o'', ''bind,ro,noatime'', ''/stage'', ''/pod'']}) (history w') \<and>
     list_ex (\<lambda>e. mount_of e \<noteq> None) (history w')"
  using ensures_at [OF NodePublishVolume_mounts example_publish_run] example_publish_run
  by (simp add: example_capability_def)

lemma count_non_csi_eq:
  "count_non_csi n xs = n + int64_len (filter (\<lambda>x. \<not> HasPrefix x ''csi-'') xs)"
  by (induction xs arbitrary: n) (auto simp: int64_len_def)

lemma int64_len_int: "int64_len xs = word_of_int (int (length xs))"
  by (simp add: int64_len_def)

lemma disksLimit_cases: "disksLimit i = Inr limit \<Longrightarrow> limit = word_of_int 8 \<or> limit = word_of_int 14"
  by (auto simp: disksLimit_def limit_by_cores_def Let_def split: if_splits option.splits)

lemma max_volumes_words:
  fixes n s l f c :: nat and L :: int
  assumes "n + s + l + f < 2 ^ 62" and "c \<le> s" and "L = 8 \<or> L = 14"
  shows "sint (if sint (word_of_int (1 + int s + int n) :: int64) < 14
      then word_of_int (L - 1 - (int l + int f + int c))
      else word_of_int (L - 1 - (int l + int f + int c) - int n) :: int64) =
    L - 1 - int l - int f - int c - (if s + n < 13 then 0 else int n)"
proof -
  have "fits64 (1 + int s + int n)" "fits64 (L - 1 - (int l + int f + int c))"
    "fits64 (L - 1 - (int l + int f + int c) - int n)"
    using assms by (auto simp: fits64_def)
  then show ?thesis by (simp only: if_distrib [of sint] sint_of_int64) auto
qed

text \<open>
  C33. The device limit the node reports, in integers: from the 8 or 14 devices of its platform it
  takes the boot disk, the local disks and file systems, and the secondary disks that are not the
  driver's own; from 14 devices on also the network interfaces. Nothing stops it at one: the
  result can be zero, which the CSI specification reads as no limit, or negative.
\<close>

theorem maxVolumesPerNode_formula:
  assumes "length (inst_NetworkInterfaces i) + length (inst_SecondaryDisks i) +
      length (inst_LocalDisks i) + length (inst_Filesystems i) < 2 ^ 62"
    and "disksLimit i = Inr limit"
  shows "sint (maxVolumesPerNode i limit) =
     sint limit - 1 - int (length (inst_LocalDisks i)) - int (length (inst_Filesystems i)) -
     int (length (filter (\<lambda>x. \<not> HasPrefix x ''csi-'') (inst_SecondaryDisks i))) -
     (if length (inst_SecondaryDisks i) + length (inst_NetworkInterfaces i) < 13 then 0
      else int (length (inst_NetworkInterfaces i)))"
proof -
  have one: "(1 :: int64) = word_of_int 1" by simp
  have len: "length (filter (\<lambda>x. \<not> HasPrefix x ''csi-'') (inst_SecondaryDisks i)) \<le>
      length (inst_SecondaryDisks i)" by simp
  obtain L where L: "limit = word_of_int L" "L = 8 \<or> L = 14"
    using disksLimit_cases [OF assms(2)] by blast
  then have "sint limit = L" by (auto simp: fits64_def)
  then show ?thesis
    unfolding maxVolumesPerNode_def Let_def count_non_csi_eq int64_len_int one L(1)
      wi_hom_add wi_hom_sub
    by (simp only: max_volumes_words [OF assms(1) len L(2)])
qed

lemma maxVolumesPerNode_formula_witness:
  "sint (maxVolumesPerNode example_instance 8) = 6 \<and>
   sint (maxVolumesPerNode (example_instance\<lparr>inst_SecondaryDisks := replicate 7 ''data''\<rparr>) 8) = 0"
  using maxVolumesPerNode_formula [of example_instance 8]
    maxVolumesPerNode_formula [of "example_instance\<lparr>inst_SecondaryDisks := replicate 7 ''data''\<rparr>" 8]
  by (simp add: example_instance_def disksLimit_def limit_by_cores_def)

text \<open>
  \<^verbatim>\<open>NodeGetInfo\<close> makes one call, for the instance the driver runs on, and reports
  that instance, the region and zone found at start, and the limit computed from the answer; it
  panics exactly when the answer has a platform whose limit depends on the cores and no resources.
\<close>

lemma NodeGetInfo_result:
  "ensures (NodeGetInfo env d) (\<lambda>r es. \<exists>got. es = [GetInstance (drv_hostID d) got] \<and>
     (case got of
        Inl err \<Rightarrow> r = Inl (Error err)
      | Inr inst \<Rightarrow>
          if inst_Cores inst = None \<and> inst_PlatformId inst \<in> {''standard-v1'', ''gpu-standard-v1'',
            ''standard-v2'', ''gpu-standard-v2'', ''standard-v3'', ''highfreq-v3''}
          then r = Inl (Panic ''nil pointer dereference'')
          else \<exists>info limit. r = Inr info \<and> disksLimit inst = Inr limit \<and>
            sint limit \<in> {8, 14} \<and> NodeId info = drv_hostID d \<and>
            MaxVolumesPerNode info = maxVolumesPerNode inst limit \<and>
            Segments (NodeTopology info) regionTopologyKey = Some (drv_region d) \<and>
            Segments (NodeTopology info) zoneTopologyKey = Some (drv_zone d)))"
  unfolding NodeGetInfo_def
  by (intro wp)
    (auto simp: disksLimit_def limit_by_cores_def topology_of_def Let_def
      split: if_splits option.splits)

text \<open>
  The statistics come from the requested path and from nowhere else, and nothing is changed:
  a result means \<^verbatim>\<open>findmnt\<close> showed the path mounted; a path seen unmounted is reported as
  \<^verbatim>\<open>NotFound\<close> before anything is measured; every other failure is \<^verbatim>\<open>Internal\<close>
  or a panic.
\<close>

lemma NodeGetVolumeStats_mounted_only:
  "ensures (NodeGetVolumeStats env (newMounter env) req) (\<lambda>r es.
     list_all quiet es \<and>
     (case r of
        Inr usage \<Rightarrow> list_ex (shows_mounted env (ngs_VolumePath req) True) es \<and>
          (\<exists>isBlock stats. usage = usage_of isBlock stats)
      | Inl f \<Rightarrow>
          if ngs_VolumeId req = [] \<or> ngs_VolumePath req = [] then
            es = [] \<and> fault_code f = Some InvalidArgument
          else list_ex (shows_mounted env (ngs_VolumePath req) False) es \<and>
              fault_code f = Some NotFound \<or>
            fault_code f = Some Internal \<or> fault_code f = None))"
  unfolding NodeGetVolumeStats_def
  by (intro wp real_mounter.wp_laws)
    (use wrap_error_code in \<open>auto simp: list_all_iff list_ex_iff split: sum.splits\<close>)

text \<open>
  Growing a file system: \<^verbatim>\<open>NodeExpandVolume\<close> does nothing for a block volume and
  otherwise grows exactly the device the mount table gives for the requested path; it reports
  success when and only when that grow succeeded, and every failure is \<^verbatim>\<open>Internal\<close>.
\<close>

lemma NodeExpandVolume_grows_mounted_device:
  "ensures (NodeExpandVolume env req) (\<lambda>r es.
     if ner_VolumeId req = [] \<or> ner_VolumePath req = [] then
       es = [] \<and> outcome r = Some InvalidArgument
     else if is_block_capability (ner_VolumeCapability req) then es = [] \<and> r = Inr ()
     else (\<exists>err. es = [DeviceNameFromMount (ner_VolumePath req) (Inl err)] \<and>
         outcome r = Some Internal) \<or>
       (\<exists>dev answer. es = [DeviceNameFromMount (ner_VolumePath req) (Inr dev),
           ResizeFs dev (ner_VolumePath req) answer] \<and>
         (case answer of Inl err \<Rightarrow> outcome r = Some Internal | Inr b \<Rightarrow> r = Inr ())))"
  unfolding NodeExpandVolume_def by (intro wp) (auto simp: Let_def)

text \<open>
  \<^verbatim>\<open>fsck\<close> stops the staging with one exit status only: 4. The statuses of
  \<^verbatim>\<open>fsck\<close> are sums of flags, so 5, 6 and 7 also say that errors were left uncorrected,
  and these mount the file system as if it were sound.
\<close>

lemma fsck_verdict_blocks_only_4:
  "fsck_verdict source out res = None \<longleftrightarrow> (\<forall>t. res \<noteq> Some (K8sExitError 4 t))"
  by (auto simp: fsck_verdict_def fsckErrorsCorrected_def fsckErrorsUncorrected_def
      split: option.splits k8s_exec_error.splits)

subsection \<open>Invalid requests\<close>

interpretation stage_rpc: guarded_rpc "NodeStageVolume env m"
  "\<lambda>req. nsr_VolumeId req = [] \<or> nsr_StagingTargetPath req = [] \<or> nsr_VolumeCapability req = None"
  for env m
  by unfold_locales (auto simp: NodeStageVolume_def)

interpretation unstage_rpc: guarded_rpc "NodeUnstageVolume m"
  "\<lambda>req. nur_VolumeId req = [] \<or> nur_StagingTargetPath req = []" for m
  by unfold_locales (auto simp: NodeUnstageVolume_def)

interpretation node_publish_rpc: guarded_rpc "NodePublishVolume env m"
  "\<lambda>req. npr_VolumeId req = [] \<or> npr_StagingTargetPath req = [] \<or> npr_TargetPath req = [] \<or>
    npr_VolumeCapability req = None" for env m
  by unfold_locales (auto simp: NodePublishVolume_def)

interpretation node_unpublish_rpc: guarded_rpc "NodeUnpublishVolume m"
  "\<lambda>req. nupr_VolumeId req = [] \<or> nupr_TargetPath req = []" for m
  by unfold_locales (auto simp: NodeUnpublishVolume_def)

interpretation stats_rpc: guarded_rpc "NodeGetVolumeStats env m"
  "\<lambda>req. ngs_VolumeId req = [] \<or> ngs_VolumePath req = []" for env m
  by unfold_locales (auto simp: NodeGetVolumeStats_def)

interpretation node_expand_rpc: guarded_rpc "NodeExpandVolume env"
  "\<lambda>req. ner_VolumeId req = [] \<or> ner_VolumePath req = []" for env
  by unfold_locales (auto simp: NodeExpandVolume_def Let_def)

end
