(* ===== verification/View.thy ===== *)
theory View
  imports Environment
begin

text \<open>
  Running a handler against an abstract view of the outside: what a \<^verbatim>\<open>do\<close> block leaves
  behind of the state a contract speaks of, computed by rules in the manner of a weakest
  precondition. \<open>Cloud\<close> uses them with the disks of the cloud, \<open>Node_View\<close> with the devices and
  mounts of the node.
\<close>

text \<open>\<open>view\<close> reads the view off the state of the outside; \<open>view_wp view A m Q\<close>: run from any
  world that shows \<open>A\<close>, the block \<open>m\<close> ends with a result and a view that satisfy \<open>Q\<close>.\<close>

definition view_wp ::
  "('w \<Rightarrow> 'v) \<Rightarrow> 'v \<Rightarrow> ('w, 'op, 'a) io \<Rightarrow> ('a \<Rightarrow> 'v \<Rightarrow> bool) \<Rightarrow> bool" where
  "view_wp view A m Q \<longleftrightarrow>
     (\<forall>w r w'. view (ext w) = A \<longrightarrow> run_state m w = (r, w') \<longrightarrow> Q r (view (ext w')))"

text \<open>A call that leaves the view alone, with an answer that is true of it.\<close>

definition reads ::
  "('w \<Rightarrow> 'v) \<Rightarrow> ('w, 'a) state \<Rightarrow> ('v \<Rightarrow> 'a \<Rightarrow> bool) \<Rightarrow> bool" where
  "reads view m P \<longleftrightarrow>
     (\<forall>s r s'. run_state m s = (r, s') \<longrightarrow> view s' = view s \<and> P (view s) r)"

named_theorems vwp "the state a block of calls leaves behind"

lemma view_wpI:
  "(\<And>w r w'. view (ext w) = A \<Longrightarrow> run_state m w = (r, w') \<Longrightarrow> Q r (view (ext w'))) \<Longrightarrow>
   view_wp view A m Q"
  by (simp add: view_wp_def)

lemma view_wpD:
  "view_wp view (view (ext w)) m Q \<Longrightarrow> run_state m w = (r, w') \<Longrightarrow> Q r (view (ext w'))"
  by (simp add: view_wp_def)

lemma view_wp_mono:
  "view_wp view A m Q \<Longrightarrow> (\<And>r B. Q r B \<Longrightarrow> R r B) \<Longrightarrow> view_wp view A m R"
  by (simp add: view_wp_def)

lemma view_wp_return [vwp]: "Q x A \<Longrightarrow> view_wp view A (State_Monad.return x) Q"
  by (simp add: view_wp_def)

lemma view_wp_bind [vwp]:
  assumes "view_wp view A m (\<lambda>x B. view_wp view B (f x) Q)"
  shows "view_wp view A (State_Monad.bind m f) Q"
proof (rule view_wpI)
  fix w r w'
  assume A: "view (ext w) = A" and run: "run_state (State_Monad.bind m f) w = (r, w')"
  obtain x w1 where m: "run_state m w = (x, w1)" by (cases "run_state m w")
  with run have "run_state (f x) w1 = (r, w')" by simp
  with view_wpD [OF assms [folded A] m] show "Q r (view (ext w'))" by (rule view_wpD)
qed

lemma view_wp_locks [vwp]:
  "Q () A \<Longrightarrow> view_wp view A (locks_PutVolId v) Q"
  "Q () A \<Longrightarrow> view_wp view A (locks_RemoveVolId v) Q"
  "(\<And>b. R b A) \<Longrightarrow> view_wp view A (locks_VolIdExists v) R"
  by (auto simp: view_wp_def locks_PutVolId_def locks_RemoveVolId_def locks_VolIdExists_def)

text \<open>A call that changes the view as \<open>P\<close> says: before, answer, after.\<close>

definition obeys ::
  "('w \<Rightarrow> 'v) \<Rightarrow> ('w, 'a) state \<Rightarrow> ('v \<Rightarrow> 'a \<Rightarrow> 'v \<Rightarrow> bool) \<Rightarrow> bool" where
  "obeys view m P \<longleftrightarrow> (\<forall>s r s'. run_state m s = (r, s') \<longrightarrow> P (view s) r (view s'))"

lemma reads_obeys: "reads view m P \<longleftrightarrow> obeys view m (\<lambda>A r B. B = A \<and> P A r)"
  by (simp add: reads_def obeys_def)

lemma view_wp_obeys:
  assumes "obeys view m P" and "\<And>r B. P A r B \<Longrightarrow> Q r B"
  shows "view_wp view A (call ev m) Q"
  using assms by (auto simp: view_wp_def obeys_def call_def split: prod.splits)

lemma view_wp_reads:
  "reads view m P \<Longrightarrow> (\<And>r. P A r \<Longrightarrow> Q r A) \<Longrightarrow> view_wp view A (call ev m) Q"
  unfolding reads_obeys by (erule view_wp_obeys) simp

lemma view_wp_case_sum [vwp]:
  "(\<And>e. x = Inl e \<Longrightarrow> view_wp view A (f e) Q) \<Longrightarrow> (\<And>v. x = Inr v \<Longrightarrow> view_wp view A (g v) Q) \<Longrightarrow>
   view_wp view A (case x of Inl e \<Rightarrow> f e | Inr v \<Rightarrow> g v) Q"
  by (cases x) auto

lemma view_wp_case_option [vwp]:
  "(x = None \<Longrightarrow> view_wp view A m Q) \<Longrightarrow> (\<And>v. x = Some v \<Longrightarrow> view_wp view A (f v) Q) \<Longrightarrow>
   view_wp view A (case x of None \<Rightarrow> m | Some v \<Rightarrow> f v) Q"
  by (cases x) auto

lemma view_wp_case_list [vwp]:
  "(xs = [] \<Longrightarrow> view_wp view A m Q) \<Longrightarrow>
   (\<And>y ys. xs = y # ys \<Longrightarrow> view_wp view A (f y ys) Q) \<Longrightarrow>
   view_wp view A (case xs of [] \<Rightarrow> m | y # ys \<Rightarrow> f y ys) Q"
  by (cases xs) auto

lemma view_wp_case_prod [vwp]:
  "(\<And>a b. p = (a, b) \<Longrightarrow> view_wp view A (f a b) Q) \<Longrightarrow>
   view_wp view A (case p of (a, b) \<Rightarrow> f a b) Q"
  by (cases p) auto

lemma view_wp_if [vwp]:
  "(b \<Longrightarrow> view_wp view A m Q) \<Longrightarrow> (\<not> b \<Longrightarrow> view_wp view A n Q) \<Longrightarrow>
   view_wp view A (if b then m else n) Q"
  by simp

lemma view_wp_let [vwp]:
  "(\<And>x. x = a \<Longrightarrow> view_wp view A (f x) Q) \<Longrightarrow> view_wp view A (let x = a in f x) Q"
  by simp

lemma view_wp_case_exec_error [vwp]:
  "(\<And>c t. x = ExitError c t \<Longrightarrow> view_wp view A (f c t) Q) \<Longrightarrow>
   (\<And>t. x = RunError t \<Longrightarrow> view_wp view A (g t) Q) \<Longrightarrow>
   view_wp view A (case x of ExitError c t \<Rightarrow> f c t | RunError t \<Rightarrow> g t) Q"
  by (cases x) auto

lemma view_wp_case_access_type [vwp]:
  "(x = AccessBlock \<Longrightarrow> view_wp view A m Q) \<Longrightarrow>
   (\<And>v. x = AccessMount v \<Longrightarrow> view_wp view A (f v) Q) \<Longrightarrow>
   view_wp view A (case x of AccessBlock \<Rightarrow> m | AccessMount v \<Rightarrow> f v) Q"
  by (cases x) auto

end
