(* ===== verification/Lifecycle.thy ===== *)
theory Lifecycle
  imports Controller Node View
begin

text \<open>
  The driver as a system: the requests it serves, one after the other and mixed with any change
  of the outside, as a step relation on the world; what every reachable world keeps; and how the
  resize locks tie the expansion and the publication of a volume together. The concurrency of the
  gRPC server is modelled at the granularity of whole requests.
\<close>

subsection \<open>Serving a request\<close>

datatype rpc =
    Rpc_CreateVolume create_volume_request
  | Rpc_DeleteVolume string
  | Rpc_ControllerPublishVolume controller_publish_request
  | Rpc_ControllerUnpublishVolume controller_unpublish_request
  | Rpc_ListVolumes list_volumes_request
  | Rpc_ControllerExpandVolume controller_expand_request
  | Rpc_NodeStageVolume node_stage_request
  | Rpc_NodeUnstageVolume node_unstage_request
  | Rpc_NodePublishVolume node_publish_request
  | Rpc_NodeUnpublishVolume node_unpublish_request
  | Rpc_NodeGetInfo
  | Rpc_NodeGetVolumeStats node_stats_request
  | Rpc_NodeExpandVolume node_expand_request

definition with_outcome :: "('w, 'op, fault + 'a) io \<Rightarrow> ('w, 'op, code option) io" where
  "with_outcome m = do { r \<leftarrow> m; State_Monad.return (outcome r) }"

fun serve :: "('w, 'op) env \<Rightarrow> driver \<Rightarrow> rpc \<Rightarrow> ('w, 'op, code option) io" where
  "serve env d (Rpc_CreateVolume req) = with_outcome (CreateVolume env d req)"
| "serve env d (Rpc_DeleteVolume i) = with_outcome (DeleteVolume env i)"
| "serve env d (Rpc_ControllerPublishVolume req) = with_outcome (ControllerPublishVolume env d req)"
| "serve env d (Rpc_ControllerUnpublishVolume req) = with_outcome (ControllerUnpublishVolume env req)"
| "serve env d (Rpc_ListVolumes req) = with_outcome (ListVolumes env d req)"
| "serve env d (Rpc_ControllerExpandVolume req) = with_outcome (ControllerExpandVolume env req)"
| "serve env d (Rpc_NodeStageVolume req) = with_outcome (NodeStageVolume env (newMounter env) req)"
| "serve env d (Rpc_NodeUnstageVolume req) = with_outcome (NodeUnstageVolume (newMounter env) req)"
| "serve env d (Rpc_NodePublishVolume req) =
     with_outcome (NodePublishVolume env (newMounter env) req)"
| "serve env d (Rpc_NodeUnpublishVolume req) =
     with_outcome (NodeUnpublishVolume (newMounter env) req)"
| "serve env d Rpc_NodeGetInfo = with_outcome (NodeGetInfo env d)"
| "serve env d (Rpc_NodeGetVolumeStats req) =
     with_outcome (NodeGetVolumeStats env (newMounter env) req)"
| "serve env d (Rpc_NodeExpandVolume req) = with_outcome (NodeExpandVolume env req)"

lemma ensures_with_outcome [wp]:
  "ensures m (\<lambda>r es. Q (outcome r) es) \<Longrightarrow> ensures (with_outcome m) Q"
  unfolding with_outcome_def by (rule ensures_bind, erule ensures_mono) (auto intro!: ensures_return)

lemma view_wp_with_outcome [vwp]:
  "view_wp view A m (\<lambda>r. Q (outcome r)) \<Longrightarrow> view_wp view A (with_outcome m) Q"
  unfolding with_outcome_def by (rule view_wp_bind, erule view_wp_mono, rule view_wp_return)

subsection \<open>Which part of the world a request touches\<close>

fun node_event :: "'op event \<Rightarrow> bool" where
  "node_event (LookPath c a) \<longleftrightarrow> True"
| "node_event (Exec c args a) \<longleftrightarrow> True"
| "node_event (K8sExec c args a) \<longleftrightarrow> True"
| "node_event (MkdirAll p n a) \<longleftrightarrow> True"
| "node_event (OpenCreate p n a) \<longleftrightarrow> True"
| "node_event (Stat p a) \<longleftrightarrow> True"
| "node_event (Statfs p a) \<longleftrightarrow> True"
| "node_event (EvalSymlinks p a) \<longleftrightarrow> True"
| "node_event (DeviceNameFromMount p a) \<longleftrightarrow> True"
| "node_event (ResizeFs dev p a) \<longleftrightarrow> True"
| "node_event _ \<longleftrightarrow> False"

fun is_node_rpc :: "rpc \<Rightarrow> bool" where
  "is_node_rpc (Rpc_NodeStageVolume req) \<longleftrightarrow> True"
| "is_node_rpc (Rpc_NodeUnstageVolume req) \<longleftrightarrow> True"
| "is_node_rpc (Rpc_NodePublishVolume req) \<longleftrightarrow> True"
| "is_node_rpc (Rpc_NodeUnpublishVolume req) \<longleftrightarrow> True"
| "is_node_rpc (Rpc_NodeGetVolumeStats req) \<longleftrightarrow> True"
| "is_node_rpc (Rpc_NodeExpandVolume req) \<longleftrightarrow> True"
| "is_node_rpc _ \<longleftrightarrow> False"

text \<open>Each method of the mounter stays on the node.\<close>

lemma mounter_stays_on_node:
  "ensures (Format env dev fs) (\<lambda>r. list_all node_event)"
  "ensures (IsFormatted env dev) (\<lambda>r. list_all node_event)"
  "ensures (Mount env source target fs opts) (\<lambda>r. list_all node_event)"
  "ensures (Unmount env target) (\<lambda>r. list_all node_event)"
  "ensures (IsMounted env target) (\<lambda>r. list_all node_event)"
  "ensures (IsBlockDevice env path) (\<lambda>r. list_all node_event)"
  "ensures (GetStatistics env path) (\<lambda>r. list_all node_event)"
  unfolding Format_def IsFormatted_def Mount_def make_mount_point_def Unmount_def IsMounted_def
    GetStatistics_def IsBlockDevice_def
  by (intro wp; auto)+

lemmas wp_node_event = mounter_stays_on_node [THEN ensures_mono]

lemma newMounter_simps:
  "mounter_Format (newMounter env) = Format env" "mounter_Mount (newMounter env) = Mount env"
  "mounter_Unmount (newMounter env) = Unmount env"
  "mounter_IsFormatted (newMounter env) = IsFormatted env"
  "mounter_IsMounted (newMounter env) = IsMounted env"
  "mounter_GetStatistics (newMounter env) = GetStatistics env"
  "mounter_IsBlockDevice (newMounter env) = IsBlockDevice env"
  by (simp_all add: newMounter_def)

lemma mounting_stays_on_node:
  "ensures (mount_unless_mounted (newMounter env) source target fs opts) (\<lambda>r. list_all node_event)"
  "ensures (unmount_if_mounted (newMounter env) target) (\<lambda>r. list_all node_event)"
  "ensures (NodeStageVolume_format (newMounter env) skip dev fs) (\<lambda>r. list_all node_event)"
  "ensures (checkAndRepairFilesystem env dev) (\<lambda>r. list_all node_event)"
  "ensures (findAbsoluteDeviceByIDPath env v) (\<lambda>r. list_all node_event)"
  unfolding mount_unless_mounted_def unmount_if_mounted_def NodeStageVolume_format_def
    checkAndRepairFilesystem_def findAbsoluteDeviceByIDPath_def newMounter_simps
  by (intro wp wp_node_event; simp)+

lemmas wp_mounting = mounting_stays_on_node [THEN ensures_mono]

lemma node_handlers_stay_on_node:
  "ensures (NodeStageVolume env (newMounter env) r1) (\<lambda>r. list_all node_event)"
  "ensures (NodeUnstageVolume (newMounter env) r2) (\<lambda>r. list_all node_event)"
  "ensures (NodePublishVolume env (newMounter env) r3) (\<lambda>r. list_all node_event)"
  "ensures (NodeUnpublishVolume (newMounter env) r4) (\<lambda>r. list_all node_event)"
  "ensures (NodeGetVolumeStats env (newMounter env) r5) (\<lambda>r. list_all node_event)"
  "ensures (NodeExpandVolume env r6) (\<lambda>r. list_all node_event)"
  unfolding NodeStageVolume_def NodeStageVolume_mount_def NodeUnstageVolume_def
    NodePublishVolume_def nodePublishVolumeForBlock_def nodePublishVolumeForFileSystem_def
    NodeUnpublishVolume_def NodeGetVolumeStats_def NodeExpandVolume_def newMounter_simps
  by (intro wp wp_node_event wp_mounting; simp)+

lemma node_rpc_stays_on_node:
  "is_node_rpc rpc \<Longrightarrow> ensures (serve env d rpc) (\<lambda>r. list_all node_event)"
  using node_handlers_stay_on_node by (cases rpc) (auto intro!: ensures_with_outcome)

lemma node_event_quiet_locks: "node_event e \<Longrightarrow> lock_event m e = m"
  by (cases e) auto

lemma replay_node_events: "list_all node_event es \<Longrightarrow> replay_locks m es = m"
  by (induction es arbitrary: m) (simp_all add: node_event_quiet_locks)

lemma node_events_release_nothing:
  "list_all node_event es \<Longrightarrow> list_all (\<lambda>e. \<forall>v. e \<noteq> RemoveLock v) es"
  by (erule list.pred_mono_strong) auto

text \<open>
  The node service is confined to the node: whatever a stage, publish, statistics or expansion
  request asks for, serving it makes no call to the cloud and leaves the resize locks alone.
\<close>

lemma node_service_confined:
  assumes "is_node_rpc rpc" and "run_state (serve env d rpc) w = (c, w')"
  shows "\<exists>es. history w' = history w @ es \<and> list_all node_event es \<and>
    resizeLocks w' = resizeLocks w"
proof -
  from ensuresD [OF node_rpc_stays_on_node [OF assms(1)] assms(2)] show ?thesis
    by (auto simp: appends_def replay_node_events)
qed

lemma node_service_confined_witness:
  "\<exists>c w' es. run_state (serve example_env example_driver
       (Rpc_NodeStageVolume (example_stage Map.empty))) example_world = (c, w') \<and>
     history w' = es \<and> list_all node_event es \<and> length es = 9"
  using node_service_confined [of "Rpc_NodeStageVolume (example_stage Map.empty)" example_env
      example_driver example_world] example_stage_run
  by (simp add: with_outcome_def)

subsection \<open>Runs of the driver\<close>

text \<open>
  A step of the system: the driver serves a request, or the outside changes on its own (another
  client of the cloud, the operating system, the passing of time).
\<close>

inductive step :: "('w, 'op) env \<Rightarrow> driver \<Rightarrow> ('w, 'op) world \<Rightarrow> ('w, 'op) world \<Rightarrow> bool"
  for env d
where
  served: "run_state (serve env d rpc) w = (c, w') \<Longrightarrow> step env d w w'"
| outside: "step env d w (w\<lparr>ext := x\<rparr>)"

inductive reachable :: "('w, 'op) env \<Rightarrow> driver \<Rightarrow> ('w, 'op) world \<Rightarrow> bool"
  for env d
where
  started: "history w = [] \<Longrightarrow> resizeLocks w = NewRwMap \<Longrightarrow> reachable env d w"
| stepped: "reachable env d w \<Longrightarrow> step env d w w' \<Longrightarrow> reachable env d w'"

text \<open>
  \<open>attach_safe m es\<close>: starting with the lock table \<open>m\<close>, no disk is attached while it is in the
  table.
\<close>

fun attach_safe :: "rw_map \<Rightarrow> 'op event list \<Rightarrow> bool" where
  "attach_safe m [] \<longleftrightarrow> True"
| "attach_safe m (e # es) \<longleftrightarrow>
     (case attached e of Some r \<Rightarrow> \<not> VolIdExists m (adr_DiskId r) | None \<Rightarrow> True) \<and>
     attach_safe (lock_event m e) es"

lemma attach_safe_append [simp]:
  "attach_safe m (es @ es') \<longleftrightarrow> attach_safe m es \<and> attach_safe (replay_locks m es) es'"
  by (induction es arbitrary: m) auto

lemma attach_safe_none: "list_all (\<lambda>e. attached e = None) es \<Longrightarrow> attach_safe m es"
  by (induction es arbitrary: m) auto

lemma node_event_simps: "node_event e \<Longrightarrow> attached e = None \<and> no_lock_event e"
  by (cases e) (auto simp: no_lock_event_def)

lemma handlers_attach_safe:
  "ensures (CreateVolume env d r1) (\<lambda>r es. \<forall>m. checks_agree m es \<longrightarrow> attach_safe m es)"
  "ensures (DeleteVolume env i) (\<lambda>r es. \<forall>m. checks_agree m es \<longrightarrow> attach_safe m es)"
  "ensures (ControllerPublishVolume env d r2) (\<lambda>r es. \<forall>m. checks_agree m es \<longrightarrow> attach_safe m es)"
  "ensures (ControllerUnpublishVolume env r3) (\<lambda>r es. \<forall>m. checks_agree m es \<longrightarrow> attach_safe m es)"
  "ensures (ListVolumes env d r4) (\<lambda>r es. \<forall>m. checks_agree m es \<longrightarrow> attach_safe m es)"
  "ensures (ControllerExpandVolume env r5) (\<lambda>r es. \<forall>m. checks_agree m es \<longrightarrow> attach_safe m es)"
  "ensures (NodeGetInfo env d) (\<lambda>r es. \<forall>m. checks_agree m es \<longrightarrow> attach_safe m es)"
  unfolding CreateVolume_def DeleteVolume_def ControllerPublishVolume_def
    ControllerUnpublishVolume_def ListVolumes_def ControllerExpandVolume_def NodeGetInfo_def Let_def
  by (intro wp allI impI; auto simp: attach_request_def elim!: op_runE)+

lemma serve_attach_safe:
  "ensures (serve env d rpc) (\<lambda>r es. \<forall>m. checks_agree m es \<longrightarrow> attach_safe m es)"
proof (cases "is_node_rpc rpc")
  case True
  then show ?thesis
    by (rule node_rpc_stays_on_node [THEN ensures_mono])
      (simp add: attach_safe_none list_all_iff node_event_simps)
next
  case False
  then show ?thesis
    using handlers_attach_safe by (cases rpc) (auto intro!: ensures_with_outcome)
qed

subsection \<open>What every reachable world keeps\<close>

lemma step_appends:
  assumes "step env d w w'"
  shows "\<exists>es. appends w es w' \<and> (\<forall>m. checks_agree m es \<longrightarrow> attach_safe m es)"
  using assms
proof (cases rule: step.cases)
  case (served rpc c)
  with ensuresD [OF serve_attach_safe] show ?thesis by blast
next
  case (outside x)
  then show ?thesis by (intro exI [of _ "[]"]) (simp add: appends_def)
qed

lemma reachable_invariant:
  "reachable env d w \<Longrightarrow> resizeLocks w = replay_locks NewRwMap (history w) \<and>
     checks_agree NewRwMap (history w) \<and> attach_safe NewRwMap (history w)"
proof (induction rule: reachable.induct)
  case (stepped w w')
  from step_appends [OF stepped.hyps(2)] stepped.IH show ?case
    by (auto simp: appends_def)
qed simp

text \<open>
  An example run: growing an attached disk is refused by the cloud, and publishing it is then
  refused by the driver.
\<close>

definition refusal :: go_error where
  "refusal = ForeignError FailedPrecondition ''attached to non-stopped instance'' ''refused''"

definition refusing_env :: "(unit, nat) env" where
  "refusing_env = example_env\<lparr>op_Wait := (\<lambda>x. State_Monad.return (Some refusal))\<rparr>"

definition example_expand :: controller_expand_request where
  "example_expand = \<lparr>cer_VolumeId = ''disk-1'',
     cer_CapacityRange = Some \<lparr>RequiredBytes = 0x80000000, LimitBytes = 0\<rparr>,
     cer_VolumeCapability = None\<rparr>"

lemma refusing_env_simps [simp]:
  "api_Disk_Get refusing_env i = State_Monad.return (Inr example_disk)"
  "api_Disk_Update refusing_env u = State_Monad.return (Inr 3)"
  "sdk_WrapOperation refusing_env y = y"
  "op_Wait refusing_env n = State_Monad.return (Some refusal)"
  by (simp_all add: refusing_env_def)

definition refused_world :: "(unit, nat) world" where
  "refused_world = example_world\<lparr>resizeLocks := PutVolId NewRwMap ''disk-1'', history :=
     [GetDisk ''disk-1'' (Inr example_disk),
      UpdateDisk (update_request ''disk-1'' 0x80000000) (Inr 3), Wait 3 (Some refusal),
      PutLock ''disk-1'']\<rparr>"

lemma must_detach_refusal: "must_detach refusal"
  by (simp add: must_detach_def refusal_def)

lemma example_expand_size:
  "extractStorage (cer_CapacityRange example_expand) (maximumVolumeSize (existing_block_size example_disk)) =
   Inr 0x80000000"
  by (simp add: example_expand_def extractStorage_ok_iff Let_def existing_block_size_def
      example_disk_def maximumVolumeSize_def size_sints size_values)

lemma example_expand_run:
  "snd (run_state (ControllerExpandVolume refusing_env example_expand) example_world) = refused_world"
  using example_expand_size must_detach_refusal
  by (simp add: ControllerExpandVolume_def example_simps WaitForResult_def locks_PutVolId_def
      refused_world_def example_world_def) (simp add: example_expand_def example_disk_def)

lemma refused_world_reachable: "reachable refusing_env example_driver refused_world"
proof (rule reachable.stepped)
  show "reachable refusing_env example_driver example_world"
    by (rule reachable.started) simp_all
  obtain r where "run_state (ControllerExpandVolume refusing_env example_expand) example_world =
      (r, refused_world)"
    using example_expand_run by (metis prod.collapse)
  then show "step refusing_env example_driver example_world refused_world"
    by (intro step.served [where rpc = "Rpc_ControllerExpandVolume example_expand"])
      (simp add: with_outcome_def)
qed

lemma publish_refused_reachable:
  "reachable refusing_env example_driver
     (refused_world\<lparr>history := history refused_world @ [CheckLock ''disk-1'' True]\<rparr>)"
proof (rule reachable.stepped [OF refused_world_reachable])
  show "step refusing_env example_driver refused_world
      (refused_world\<lparr>history := history refused_world @ [CheckLock ''disk-1'' True]\<rparr>)"
    by (rule step.served [where rpc = "Rpc_ControllerPublishVolume example_publish"])
      (simp add: with_outcome_def ControllerPublishVolume_def ControllerPublishVolume_check_def
        example_publish_def run_simps locks_VolIdExists_def refused_world_def)
qed

text \<open>The operations on the lock table a history contains.\<close>

fun lock_ops :: "'op event list \<Rightarrow> volume_set_op list" where
  "lock_ops [] = []"
| "lock_ops (PutLock v # es) = Put v # lock_ops es"
| "lock_ops (RemoveLock v # es) = Remove v # lock_ops es"
| "lock_ops (e # es) = lock_ops es"

lemma replay_lock_ops: "replay_locks m es = foldl resize_set.apply_op m (lock_ops es)"
  by (induction es arbitrary: m rule: lock_ops.induct) (simp_all add: resize_set.apply_op_def)

text \<open>
  The lock table never drifts from what the driver did: in every reachable world a volume is
  locked exactly when the last operation on it in the history put it there.
\<close>

lemma reachable_lock_iff_last_put:
  assumes "reachable env d w"
  shows "VolIdExists (resizeLocks w) v \<longleftrightarrow>
    (case rev (filter (\<lambda>x. op_target x = v) (lock_ops (history w))) of
       [] \<Rightarrow> False
     | x # _ \<Rightarrow> op_is_put x)"
proof -
  have "resizeLocks w = foldl resize_set.apply_op NewRwMap (lock_ops (history w))"
    using reachable_invariant [OF assms] by (simp add: replay_lock_ops)
  then show ?thesis by (simp add: resize_set.exists_history split: list.split)
qed

lemma reachable_lock_iff_last_put_witness:
  "reachable refusing_env example_driver refused_world \<and>
   VolIdExists (resizeLocks refused_world) ''disk-1'' \<and>
   \<not> VolIdExists (resizeLocks refused_world) ''disk-2''"
  using reachable_lock_iff_last_put [OF refused_world_reachable] refused_world_reachable
  by (simp add: refused_world_def)

lemma attach_safe_locked:
  "attach_safe m es \<Longrightarrow> VolIdExists m v \<Longrightarrow> RemoveLock v \<notin> set es \<Longrightarrow> e \<in> set es \<Longrightarrow>
   attached e = Some r \<Longrightarrow> adr_DiskId r \<noteq> v"
proof (induction es arbitrary: m)
  case (Cons a es)
  have "VolIdExists (lock_event m a) v"
    using Cons.prems(2,3) by (cases a) auto
  with Cons show ?case by (cases "e = a") auto
qed simp

text \<open>
  C2. The resize lock keeps its promise: in every reachable world, once a volume has been put into
  the lock table, no disk operation attaches it, whatever is served and whatever happens outside,
  until the driver itself removes it from the table.
\<close>

theorem no_attach_while_locked:
  assumes "reachable env d w" and "history w = us @ PutLock v # vs" and "RemoveLock v \<notin> set vs"
  shows "\<not> list_ex (\<lambda>e. case attached e of Some r \<Rightarrow> adr_DiskId r = v | None \<Rightarrow> False) vs"
proof -
  from reachable_invariant [OF assms(1)] assms(2)
  have "attach_safe (PutVolId (replay_locks NewRwMap us) v) vs" by simp
  from attach_safe_locked [OF this _ assms(3)] show ?thesis
    by (auto simp: list_ex_iff split: option.splits)
qed

lemma no_attach_while_locked_witness:
  "\<exists>w us vs. reachable refusing_env example_driver w \<and> history w = us @ PutLock ''disk-1'' # vs \<and>
     vs = [CheckLock ''disk-1'' True] \<and>
     \<not> list_ex (\<lambda>e. case attached e of Some r \<Rightarrow> adr_DiskId r = ''disk-1'' | None \<Rightarrow> False) vs"
proof -
  let ?w = "refused_world\<lparr>history := history refused_world @ [CheckLock ''disk-1'' True]\<rparr>"
  let ?us = "[GetDisk ''disk-1'' (Inr example_disk),
    UpdateDisk (update_request ''disk-1'' 0x80000000) (Inr 3), Wait 3 (Some refusal)]"
  have split: "history ?w = ?us @ PutLock ''disk-1'' # [CheckLock ''disk-1'' True]"
    by (simp add: refused_world_def)
  have "\<not> list_ex (\<lambda>e. case attached e of Some r \<Rightarrow> adr_DiskId r = ''disk-1'' | None \<Rightarrow> False)
      [CheckLock ''disk-1'' True :: nat event]"
    by (rule no_attach_while_locked [OF publish_refused_reachable split]) simp
  with publish_refused_reachable split show ?thesis by blast
qed

text \<open>
  A volume is released by the events that end a resize of it: its update was started, waited for
  and finished, and nothing happened in between.
\<close>

definition resized :: "string \<Rightarrow> 'op event list \<Rightarrow> bool" where
  "resized v es \<longleftrightarrow> (\<exists>before u started op m.
     es = before @ [UpdateDisk u started, Wait op None, Response op (Inr m)] \<and> udr_DiskId u = v)"

definition releases_resized :: "'op event list \<Rightarrow> bool" where
  "releases_resized es \<longleftrightarrow> (\<forall>us v vs. es = us @ RemoveLock v # vs \<longrightarrow> resized v us)"

lemma resized_append: "resized v us \<Longrightarrow> resized v (es @ us)"
  unfolding resized_def by (metis append_assoc)

lemma releases_resized_append:
  "releases_resized es \<Longrightarrow> releases_resized es' \<Longrightarrow> releases_resized (es @ es')"
  unfolding releases_resized_def
proof (intro allI impI)
  fix us v vs
  assume left: "\<forall>us v vs. es = us @ RemoveLock v # vs \<longrightarrow> resized v us"
    and right: "\<forall>us v vs. es' = us @ RemoveLock v # vs \<longrightarrow> resized v us"
    and "es @ es' = us @ RemoveLock v # vs"
  then consider zs where "es = us @ RemoveLock v # zs"
    | zs where "us = es @ zs" "es' = zs @ RemoveLock v # vs"
    by (auto simp: append_eq_append_conv2 append_eq_Cons_conv)
  then show "resized v us"
    using left right by cases (auto intro: resized_append)
qed

lemma releases_resized_none: "list_all (\<lambda>e. \<forall>v. e \<noteq> RemoveLock v) es \<Longrightarrow> releases_resized es"
  by (auto simp: releases_resized_def)

lemma no_release:
  "ensures (CreateVolume env d r1) (\<lambda>r. list_all (\<lambda>e. \<forall>v. e \<noteq> RemoveLock v))"
  "ensures (DeleteVolume env i) (\<lambda>r. list_all (\<lambda>e. \<forall>v. e \<noteq> RemoveLock v))"
  "ensures (ControllerPublishVolume env d r2) (\<lambda>r. list_all (\<lambda>e. \<forall>v. e \<noteq> RemoveLock v))"
  "ensures (ControllerUnpublishVolume env r3) (\<lambda>r. list_all (\<lambda>e. \<forall>v. e \<noteq> RemoveLock v))"
  "ensures (ListVolumes env d r4) (\<lambda>r. list_all (\<lambda>e. \<forall>v. e \<noteq> RemoveLock v))"
  "ensures (NodeGetInfo env d) (\<lambda>r. list_all (\<lambda>e. \<forall>v. e \<noteq> RemoveLock v))"
  unfolding CreateVolume_def DeleteVolume_def ControllerPublishVolume_def
    ControllerUnpublishVolume_def ListVolumes_def NodeGetInfo_def Let_def
  by (intro wp allI impI; auto elim!: op_runE)+

lemma expand_releases:
  "ensures (ControllerExpandVolume env req) (\<lambda>r. releases_resized)"
  unfolding ControllerExpandVolume_def Let_def
  by (intro wp allI impI)
    (auto simp: releases_resized_def resized_def update_request_def Cons_eq_append_conv
      append_eq_Cons_conv elim!: op_runE)

lemma serve_releases: "ensures (serve env d rpc) (\<lambda>r. releases_resized)"
proof (cases "is_node_rpc rpc")
  case True
  then show ?thesis
    by (rule node_rpc_stays_on_node [THEN ensures_mono])
      (rule releases_resized_none, rule node_events_release_nothing)
next
  case False
  then show ?thesis
    using expand_releases no_release [THEN ensures_mono, OF releases_resized_none]
    by (cases rpc) (auto intro!: ensures_with_outcome)
qed

text \<open>
  C19. A lock is released for one reason only: in every reachable world, each removal of a volume
  from the lock table directly follows the end of an update of that very volume, whose operation
  was waited for and answered without an error.
\<close>

theorem release_follows_resize:
  assumes "reachable env d w" and "history w = us @ RemoveLock v # vs"
  shows "\<exists>before u started op m. us = before @ [UpdateDisk u started, Wait op None,
    Response op (Inr m)] \<and> udr_DiskId u = v"
proof -
  have "releases_resized (history w)"
    using assms(1)
  proof (induction rule: reachable.induct)
    case (stepped w w')
    from stepped.hyps(2) show ?case
    proof (cases rule: step.cases)
      case (served rpc c)
      from ensuresD [OF serve_releases served] stepped.IH show ?thesis
        by (auto simp: appends_def intro: releases_resized_append)
    qed (use stepped.IH in simp)
  qed (simp add: releases_resized_def)
  with assms(2) show ?thesis
    unfolding releases_resized_def resized_def by blast
qed

definition resized_world :: "(unit, nat) world" where
  "resized_world = example_world\<lparr>resizeLocks := RemoveVolId NewRwMap ''disk-1'', history :=
     [GetDisk ''disk-1'' (Inr example_disk),
      UpdateDisk (update_request ''disk-1'' 0x80000000) (Inr 3), Wait 3 None,
      Response 3 (Inr (OtherMessage ''empty'')), RemoveLock ''disk-1'']\<rparr>"

lemma resized_world_reachable: "reachable example_env example_driver resized_world"
proof (rule reachable.stepped)
  show "reachable example_env example_driver example_world"
    by (rule reachable.started) simp_all
  have "snd (run_state (ControllerExpandVolume example_env example_expand) example_world) =
      resized_world"
    using example_expand_size
    by (simp add: ControllerExpandVolume_def example_simps WaitForResult_def locks_RemoveVolId_def
        resized_world_def example_world_def) (simp add: example_expand_def example_disk_def)
  then obtain r where
    "run_state (ControllerExpandVolume example_env example_expand) example_world = (r, resized_world)"
    by (metis prod.collapse)
  then show "step example_env example_driver example_world resized_world"
    by (intro step.served [where rpc = "Rpc_ControllerExpandVolume example_expand"])
      (simp add: with_outcome_def)
qed

lemma release_follows_resize_witness:
  "\<exists>before u started op m.
     [GetDisk ''disk-1'' (Inr example_disk),
      UpdateDisk (update_request ''disk-1'' 0x80000000) (Inr 3), Wait 3 None,
      Response 3 (Inr (OtherMessage ''empty''))] =
     before @ [UpdateDisk u started, Wait (op :: nat) None, Response op (Inr m)] \<and>
     udr_DiskId u = ''disk-1''"
  by (rule release_follows_resize [OF resized_world_reachable, where vs = "[]"])
    (simp add: resized_world_def)

text \<open>
  C39. A success can leave a volume locked out: when the disk was grown elsewhere in the meantime,
  \<^verbatim>\<open>ControllerExpandVolume\<close> reports success without sending an update, and so never
  removes the lock that a refused resize left; publishing the volume stays refused afterwards.
\<close>

theorem expand_skip_keeps_lock:
  assumes got: "run_state (api_Disk_Get env (cer_VolumeId req)) (ext w) = (Inr vol, x)"
    and enough: "extractStorage (cer_CapacityRange req) (maximumVolumeSize (existing_block_size vol)) = Inr n"
      "sint n \<le> sint (disk_Size vol)"
    and named: "cer_VolumeId req \<noteq> []"
    and locked: "VolIdExists (resizeLocks w) (cer_VolumeId req)"
    and publish: "cpr_VolumeId preq = cer_VolumeId req" "ControllerPublishVolume_check preq = None"
  shows "\<exists>w'. run_state (ControllerExpandVolume env req) w =
      (Inr \<lparr>cer_CapacityBytes = disk_Size vol, NodeExpansionRequired = True\<rparr>, w') \<and>
    VolIdExists (resizeLocks w') (cer_VolumeId req) \<and>
    outcome (fst (run_state (ControllerPublishVolume env d preq) w')) = Some Internal"
  using assms
  by (simp add: ControllerExpandVolume_def Let_def run_simps Disk_Get_def
      ControllerPublishVolume_def locks_VolIdExists_def)

lemma expand_skip_keeps_lock_witness:
  "\<exists>w'. run_state (ControllerExpandVolume
       (example_env\<lparr>api_Disk_Get := (\<lambda>i. State_Monad.return
         (Inr (example_disk\<lparr>disk_Size := 0x80000000\<rparr>)))\<rparr>) example_expand) refused_world =
      (Inr \<lparr>cer_CapacityBytes = 0x80000000, NodeExpansionRequired = True\<rparr>, w') \<and>
     VolIdExists (resizeLocks w') ''disk-1''"
proof -
  let ?env = "example_env\<lparr>api_Disk_Get := (\<lambda>i. State_Monad.return
    (Inr (example_disk\<lparr>disk_Size := 0x80000000\<rparr>)))\<rparr>"
  have got: "run_state (api_Disk_Get ?env (cer_VolumeId example_expand)) (ext refused_world) =
      (Inr (example_disk\<lparr>disk_Size := 0x80000000\<rparr>), ())" by simp
  have "existing_block_size (example_disk\<lparr>disk_Size := n\<rparr>) = existing_block_size example_disk"
    for n by (simp add: existing_block_size_def)
  with example_expand_size have enough: "extractStorage (cer_CapacityRange example_expand)
    (maximumVolumeSize (existing_block_size (example_disk\<lparr>disk_Size := 0x80000000\<rparr>))) =
      Inr 0x80000000" by simp
  have locked: "VolIdExists (resizeLocks refused_world) (cer_VolumeId example_expand)"
    by (simp add: refused_world_def example_expand_def)
  have check: "ControllerPublishVolume_check example_publish = None"
    and named: "cer_VolumeId example_expand \<noteq> []"
    and same: "cpr_VolumeId example_publish = cer_VolumeId example_expand"
    by (simp_all add: ControllerPublishVolume_check_def example_publish_def example_expand_def)
  from expand_skip_keeps_lock [OF got enough _ named locked same check] show ?thesis
    by (auto simp: example_expand_def)
qed

text \<open>
  Controller and node agree on the device: the link under which the node looks for a volume is
  made of the device name the controller attached it with, so both sides find the same disk
  without talking to each other; and the node's count of foreign disks never counts a disk the
  controller attached.
\<close>

lemma device_name_agreement:
  "getDeviceByIDPath (cpr_VolumeId req) =
     ''/dev/disk/by-id/virtio-'' @ adr_DeviceName (attach_request req) \<and>
   HasPrefix (adr_DeviceName (attach_request req)) ''csi-'' \<and>
   count_non_csi n (adr_DeviceName (attach_request req) # names) = count_non_csi n names"
  by (simp add: getDeviceByIDPath_eq attach_request_def genDiskID_digits)

subsection \<open>Requests that lack a field\<close>

fun malformed :: "rpc \<Rightarrow> bool" where
  "malformed (Rpc_CreateVolume req) \<longleftrightarrow> cvr_Name req = [] \<or> cvr_VolumeCapabilities req = []"
| "malformed (Rpc_DeleteVolume i) \<longleftrightarrow> i = []"
| "malformed (Rpc_ControllerPublishVolume req) \<longleftrightarrow>
     cpr_VolumeId req = [] \<or> cpr_NodeId req = [] \<or> cpr_VolumeCapability req = None"
| "malformed (Rpc_ControllerUnpublishVolume req) \<longleftrightarrow> cur_VolumeId req = []"
| "malformed (Rpc_ListVolumes req) \<longleftrightarrow> False"
| "malformed (Rpc_ControllerExpandVolume req) \<longleftrightarrow> cer_VolumeId req = []"
| "malformed (Rpc_NodeStageVolume req) \<longleftrightarrow>
     nsr_VolumeId req = [] \<or> nsr_StagingTargetPath req = [] \<or> nsr_VolumeCapability req = None"
| "malformed (Rpc_NodeUnstageVolume req) \<longleftrightarrow> nur_VolumeId req = [] \<or> nur_StagingTargetPath req = []"
| "malformed (Rpc_NodePublishVolume req) \<longleftrightarrow>
     npr_VolumeId req = [] \<or> npr_StagingTargetPath req = [] \<or> npr_TargetPath req = [] \<or>
     npr_VolumeCapability req = None"
| "malformed (Rpc_NodeUnpublishVolume req) \<longleftrightarrow> nupr_VolumeId req = [] \<or> nupr_TargetPath req = []"
| "malformed Rpc_NodeGetInfo \<longleftrightarrow> False"
| "malformed (Rpc_NodeGetVolumeStats req) \<longleftrightarrow> ngs_VolumeId req = [] \<or> ngs_VolumePath req = []"
| "malformed (Rpc_NodeExpandVolume req) \<longleftrightarrow> ner_VolumeId req = [] \<or> ner_VolumePath req = []"

lemmas rejected_requests = create_rpc.rejected delete_rpc.rejected publish_rpc.rejected
  unpublish_rpc.rejected expand_rpc.rejected stage_rpc.rejected unstage_rpc.rejected
  node_publish_rpc.rejected node_unpublish_rpc.rejected stats_rpc.rejected
  node_expand_rpc.rejected

lemma outcome_of_rejected:
  "\<exists>msg. run_state m w = (fail InvalidArgument msg, w) \<Longrightarrow>
   run_state (with_outcome m) w = (Some InvalidArgument, w)"
  by (auto simp: with_outcome_def)

text \<open>
  C30. A request that lacks a required field is answered with \<^verbatim>\<open>InvalidArgument\<close>, whichever
  handler it is for, and leaves everything as it is: no call is made, no lock is touched.
\<close>

theorem malformed_requests_rejected:
  assumes "malformed rpc"
  shows "run_state (serve env d rpc) w = (Some InvalidArgument, w)"
proof -
  show ?thesis
    using assms
    by (cases rpc) (auto intro!: outcome_of_rejected intro: rejected_requests)
qed

lemma malformed_requests_rejected_witness:
  "run_state (serve example_env example_driver (Rpc_NodeUnpublishVolume
     \<lparr>nupr_VolumeId = ''disk-1'', nupr_TargetPath = []\<rparr>)) example_world =
   (Some InvalidArgument, example_world)"
  by (rule malformed_requests_rejected) simp

end
