(* ===== verification/Health.thy ===== *)
theory Health
  imports Example_Env "HOL-Library.Multiset"
begin

text \<open>
  \<^verbatim>\<open>driver/health.go\<close>: checks that run side by side, and the one check there is, a call to
  the cloud. An error group starts every check and returns the first error; in which order they
  run is up to the scheduler, here the argument \<open>rank\<close>: every check runs, those of a smaller rank
  first.
\<close>

subsection \<open>The contract of a check\<close>

text \<open>
  \<open>healthy\<close> says which events of a run are good. A check reports no error exactly when all its
  events are.
\<close>

locale health_contract =
  fixes healthy :: "'op event \<Rightarrow> bool"
    and check :: "('w, 'op, go_error option) io"
  assumes law: "ensures check (\<lambda>r es. r = None \<longleftrightarrow> list_all healthy es)"
begin

lemma failure_seen: "ensures check (\<lambda>r es. r \<noteq> None \<longleftrightarrow> list_ex (\<lambda>e. \<not> healthy e) es)"
  by (rule ensures_mono [OF law]) (auto simp: list_all_iff list_ex_iff)

end

subsection \<open>The code\<close>

record ('w, 'op) health_check =
  hc_Name :: string
  hc_Check :: "('w, 'op, go_error option) io"

record ('w, 'op) health_checker =
  checks :: "('w, 'op) health_check list"

definition NewHealthChecker :: "('w, 'op) health_check list \<Rightarrow> ('w, 'op) health_checker" where
  "NewHealthChecker cs = \<lparr>checks = cs\<rparr>"

text \<open>
  Every check of the group runs, whatever the others say; the group keeps the error that comes
  first.
\<close>

fun group_Wait ::
  "go_error option \<Rightarrow> ('w, 'op) health_check list \<Rightarrow> ('w, 'op, go_error option) io" where
  "group_Wait first [] = State_Monad.return first"
| "group_Wait first (c # cs) = do {
     res \<leftarrow> hc_Check c;
     group_Wait (case first of None \<Rightarrow> res | Some err \<Rightarrow> Some err) cs
   }"

definition HealthChecker_Check ::
  "('w, 'op) health_checker \<Rightarrow> (nat \<Rightarrow> nat) \<Rightarrow> ('w, 'op, go_error option) io" where
  "HealthChecker_Check c rank =
     group_Wait None (map ((!) (checks c)) (sort_key rank [0..<length (checks c)]))"

definition yandexHealthChecker :: "('w, 'op) env \<Rightarrow> ('w, 'op) health_check" where
  "yandexHealthChecker env =
     \<lparr>hc_Name = ''yandex'',
      hc_Check = do {
        res \<leftarrow> ApiEndpoint_List env;
        case res of
          Some err \<Rightarrow> State_Monad.return (Some (PlainError (''checking yandex health: '' @ err_Error err)))
        | None \<Rightarrow> State_Monad.return None
      }\<rparr>"

text \<open>The status the handler of \<^verbatim>\<open>/health\<close> answers.\<close>

definition health_status :: "go_error option \<Rightarrow> int" where
  "health_status err = (case err of Some _ \<Rightarrow> 500 | None \<Rightarrow> 200)"

definition serve_health ::
  "('w, 'op) health_checker \<Rightarrow> (nat \<Rightarrow> nat) \<Rightarrow> ('w, 'op, int) io" where
  "serve_health c rank = do {
     err \<leftarrow> HealthChecker_Check c rank;
     State_Monad.return (health_status err)
   }"

subsection \<open>What it shows\<close>

fun endpoint_healthy :: "'op event \<Rightarrow> bool" where
  "endpoint_healthy (ListApiEndpoints res) \<longleftrightarrow> res = None"
| "endpoint_healthy _ \<longleftrightarrow> True"

interpretation yandex_health: health_contract endpoint_healthy "hc_Check (yandexHealthChecker env)"
  for env :: "('w, 'op) env"
  by unfold_locales (simp add: yandexHealthChecker_def, intro wp; simp)

lemma group_Wait_law:
  assumes "\<And>c. c \<in> set cs \<Longrightarrow> health_contract healthy (hc_Check c)"
  shows "ensures (group_Wait first cs) (\<lambda>r es. r = None \<longleftrightarrow> first = None \<and> list_all healthy es)"
  using assms
proof (induction cs arbitrary: first)
  case (Cons c cs)
  have first_check: "ensures (hc_Check c) (\<lambda>r es. r = None \<longleftrightarrow> list_all healthy es)"
    using Cons.prems [of c] health_contract.law by auto
  have rest: "ensures (group_Wait k cs) (\<lambda>r es. r = None \<longleftrightarrow> k = None \<and> list_all healthy es)" for k
    using Cons by simp
  show ?case
    unfolding group_Wait.simps
    by (rule ensures_bind, rule ensures_mono [OF first_check], rule ensures_mono [OF rest])
      (auto split: option.splits)
qed (auto intro: ensures_return)

text \<open>Checks that keep the contract: an error exactly when one of the answers was unhealthy.\<close>

lemma checker_reports_any_failure:
  assumes "\<And>c. c \<in> set cs \<Longrightarrow> health_contract healthy (hc_Check c)"
  shows "ensures (HealthChecker_Check (NewHealthChecker cs) rank)
    (\<lambda>r es. r = None \<longleftrightarrow> list_all healthy es)"
proof -
  have "set (map ((!) cs) (sort_key rank [0..<length cs])) \<subseteq> set cs" by auto
  then show ?thesis
    using group_Wait_law [of "map ((!) cs) (sort_key rank [0..<length cs])" healthy None] assms
    by (auto simp: HealthChecker_Check_def NewHealthChecker_def)
qed

lemma group_Wait_runs:
  assumes "\<And>i. i \<in> set order \<Longrightarrow> ensures (hc_Check (cs ! i)) (Q i)"
  shows "ensures (group_Wait first (map ((!) cs) order)) (\<lambda>r es. \<exists>runs.
    map fst runs = order \<and> list_all (\<lambda>(i, res, evs). Q i res evs) runs \<and>
    es = concat (map (\<lambda>(i, res, evs). evs) runs) \<and>
    r = (case first of Some err \<Rightarrow> Some err | None \<Rightarrow>
      (case find (\<lambda>(i, res, evs). res \<noteq> None) runs of
         None \<Rightarrow> None | Some (i, res, evs) \<Rightarrow> res)))"
  using assms
proof (induction order arbitrary: first)
  case Nil
  show ?case by (auto intro!: ensures_return exI [of _ "[]"] split: option.splits)
next
  case (Cons i order)
  show ?case
    unfolding list.map group_Wait.simps
  proof (rule ensures_bind, rule ensures_mono [OF Cons.prems [of i]])
    show "i \<in> set (i # order)" by simp
  next
    fix res evs
    assume Q: "Q i res evs"
    show "ensures (group_Wait (case first of None \<Rightarrow> res | Some err \<Rightarrow> Some err) (map ((!) cs) order))
      (\<lambda>r es'. \<exists>runs. map fst runs = i # order \<and> list_all (\<lambda>(i, res, evs). Q i res evs) runs \<and>
        evs @ es' = concat (map (\<lambda>(i, res, evs). evs) runs) \<and>
        r = (case first of Some err \<Rightarrow> Some err | None \<Rightarrow>
          (case find (\<lambda>(i, res, evs). res \<noteq> None) runs of
             None \<Rightarrow> None | Some (i, res, evs) \<Rightarrow> res)))"
    proof (rule ensures_mono [OF Cons.IH], use Cons.prems in simp, elim exE conjE)
      fix r es' runs
      assume "map fst runs = order" "list_all (\<lambda>(i, res, evs). Q i res evs) runs"
        "es' = concat (map (\<lambda>(i, res, evs). evs) runs)"
        "r = (case case first of None \<Rightarrow> res | Some err \<Rightarrow> Some err of Some err \<Rightarrow> Some err
          | None \<Rightarrow> (case find (\<lambda>(i, res, evs). res \<noteq> None) runs of
             None \<Rightarrow> None | Some (i, res, evs) \<Rightarrow> res))"
      with Q show "\<exists>runs. map fst runs = i # order \<and> list_all (\<lambda>(i, res, evs). Q i res evs) runs \<and>
        evs @ es' = concat (map (\<lambda>(i, res, evs). evs) runs) \<and>
        r = (case first of Some err \<Rightarrow> Some err | None \<Rightarrow>
          (case find (\<lambda>(i, res, evs). res \<noteq> None) runs of
             None \<Rightarrow> None | Some (i, res, evs) \<Rightarrow> res))"
        by (intro exI [of _ "(i, res, evs) # runs"]) (auto split: option.splits)
    qed
  qed
qed

text \<open>
  C37. The health checker runs every check it was made with exactly once, in some order, makes no
  other call, and answers the error of the first check of that order that failed, so none exactly
  when all of them succeeded: no check is left out and no failure is hidden. \<open>Q i\<close> is whatever is
  known of the result and the calls of check \<open>i\<close>.
\<close>

theorem HealthChecker_Check_runs_every_check:
  assumes "\<And>i. i < length cs \<Longrightarrow> ensures (hc_Check (cs ! i)) (Q i)"
  shows "ensures (HealthChecker_Check (NewHealthChecker cs) rank) (\<lambda>r es. \<exists>runs.
    mset (map fst runs) = mset [0..<length cs] \<and>
    list_all (\<lambda>(i, res, evs). Q i res evs) runs \<and>
    es = concat (map (\<lambda>(i, res, evs). evs) runs) \<and>
    r = (case find (\<lambda>(i, res, evs). res \<noteq> None) runs of
      None \<Rightarrow> None | Some (i, res, evs) \<Rightarrow> res))"
  unfolding HealthChecker_Check_def NewHealthChecker_def health_checker.simps
  by (rule ensures_mono [OF group_Wait_runs [where Q = Q]], use assms in simp, erule ex_forward)
    (simp del: mset_map)

lemma HealthChecker_Check_runs_every_check_witness:
  "ensures (HealthChecker_Check (NewHealthChecker
      [yandexHealthChecker example_env, yandexHealthChecker example_env]) (\<lambda>i. 1 - i))
    (\<lambda>r es. \<exists>a b. es = [ListApiEndpoints a, ListApiEndpoints b] \<and> (r = None \<longleftrightarrow> a = None \<and> b = None))"
proof (rule ensures_mono [OF HealthChecker_Check_runs_every_check
      [where Q = "\<lambda>i r es. \<exists>a. es = [ListApiEndpoints a] \<and> (r = None \<longleftrightarrow> a = None)"]])
  fix i :: nat
  assume "i < length [yandexHealthChecker example_env, yandexHealthChecker example_env]"
  then have "[yandexHealthChecker example_env, yandexHealthChecker example_env] ! i =
      yandexHealthChecker example_env" by (auto simp: less_Suc_eq nth_Cons')
  then show "ensures (hc_Check ([yandexHealthChecker example_env, yandexHealthChecker example_env] ! i))
      (\<lambda>r es. \<exists>a. es = [ListApiEndpoints a] \<and> (r = None \<longleftrightarrow> a = None))"
    by (simp add: yandexHealthChecker_def, intro wp; simp)
next
  fix r and es :: "nat event list"
  assume "\<exists>runs. mset (map fst runs) =
      mset [0..<length [yandexHealthChecker example_env, yandexHealthChecker example_env]] \<and>
    list_all (\<lambda>(i, res, evs). \<exists>a. evs = [ListApiEndpoints a] \<and> (res = None \<longleftrightarrow> a = None)) runs \<and>
    es = concat (map (\<lambda>(i, res, evs). evs) runs) \<and>
    r = (case find (\<lambda>(i, res, evs). res \<noteq> None) runs of
      None \<Rightarrow> None | Some (i, res, evs) \<Rightarrow> res)"
  then obtain runs where m: "mset (map fst runs) = mset [0..<2]"
    and runs: "list_all (\<lambda>(i, res, evs). \<exists>a. evs = [ListApiEndpoints a] \<and> (res = None \<longleftrightarrow> a = None)) runs"
      "es = concat (map (\<lambda>(i, res, evs). evs) runs)"
      "r = (case find (\<lambda>(i, res, evs). res \<noteq> None) runs of
        None \<Rightarrow> None | Some (i, res, evs) \<Rightarrow> res)"
    by (auto simp: numeral_2_eq_2)
  from mset_eq_length [OF m] obtain x y where "runs = [x, y]"
    by (auto simp: length_Suc_conv numeral_2_eq_2)
  with runs show "\<exists>a b. es = [ListApiEndpoints a, ListApiEndpoints b] \<and> (r = None \<longleftrightarrow> a = None \<and> b = None)"
    by (cases x; cases y) (auto split: if_splits)
qed

text \<open>
  The health endpoint of the driver tells the truth about the cloud: it makes one call, and
  answers 200 when that call succeeds and 500 when it fails.
\<close>

lemma health_endpoint_status:
  "ensures (serve_health (NewHealthChecker [yandexHealthChecker env]) rank) (\<lambda>status es.
     \<exists>res. es = [ListApiEndpoints res] \<and> status = (if res = None then 200 else 500))"
  unfolding serve_health_def HealthChecker_Check_def NewHealthChecker_def yandexHealthChecker_def
    health_status_def
  by (simp, intro wp) auto

end
