(* ===== verification/Metadata_Service.thy ===== *)
theory Metadata_Service
  imports Example_Env Go_Json
begin

text \<open>
  \<^verbatim>\<open>ychelpers/metadata_service.go\<close>: what an instance asks the metadata service about
  itself. The address of the service is a constant of the SDK and so an argument here; it is taken
  to need no escaping in a URL. Closing the body has no effect the program can see.
\<close>

text \<open>\<^verbatim>\<open>strconv.QuoteRune\<close>, which is what the verb \<^verbatim>\<open>%q\<close> does to an integer.\<close>

definition QuoteRune :: "(nat \<Rightarrow> bool) \<Rightarrow> nat \<Rightarrow> string" where
  "QuoteRune pr r = bytes ([39] @
     (if r = 39 then [92, 39] else if r = 34 then [34] else escape_rune pr r (encode_rune r)) @ [39])"

definition metadataUrl :: "string \<Rightarrow> string \<Rightarrow> string" where
  "metadataUrl addr path = ''http://'' @ addr @ path"

text \<open>The steps both functions share: ask, insist on status 200, read the body.\<close>

definition metadata_get ::
  "('w, 'op) env \<Rightarrow> string \<Rightarrow> string \<Rightarrow> ('w, 'op, go_error + string) io" where
  "metadata_get env addr path = (let url = metadataUrl addr path in do {
     got \<leftarrow> http_Get env url;
     case got of
       Inl err \<Rightarrow> State_Monad.return (Inl err)
     | Inr resp \<Rightarrow>
         if StatusCode resp \<noteq> 200 then State_Monad.return (Inl (PlainError (''non-200 status '' @
           QuoteRune (unicode_IsPrint env) (nat (StatusCode resp)) @
           '' returned on GET at URL '' @ Quote (unicode_IsPrint env) url)))
         else State_Monad.return (Body resp)
   })"

text \<open>Decoding the identity: the fields by their JSON names.\<close>

definition no_identity :: YandexInstanceIdentity where
  "no_identity = \<lparr>AvailabilityZone = [], InstanceID = [], PrivateIP = [], Region = []\<rparr>"

definition identity_field ::
  "string \<Rightarrow> json \<Rightarrow> YandexInstanceIdentity \<Rightarrow> YandexInstanceIdentity \<times> bool" where
  "identity_field key v i =
     (if same_key ''availabilityZone'' key then
        map_prod (\<lambda>s. i\<lparr>AvailabilityZone := s\<rparr>) id (unmarshal_string v (AvailabilityZone i))
      else if same_key ''instanceId'' key then
        map_prod (\<lambda>s. i\<lparr>InstanceID := s\<rparr>) id (unmarshal_string v (InstanceID i))
      else if same_key ''privateIp'' key then
        map_prod (\<lambda>s. i\<lparr>PrivateIP := s\<rparr>) id (unmarshal_string v (PrivateIP i))
      else if same_key ''region'' key then
        map_prod (\<lambda>s. i\<lparr>Region := s\<rparr>) id (unmarshal_string v (Region i))
      else (i, True))"

definition unmarshal_identity :: "('w, 'op) env \<Rightarrow> string \<Rightarrow> go_error + YandexInstanceIdentity" where
  "unmarshal_identity env s =
     (case json_value s of
        None \<Rightarrow> Inl (PlainError (json_error env s))
      | Some v \<Rightarrow> (case unmarshal_struct identity_field v no_identity of (i, ok) \<Rightarrow>
          if ok then Inr i else Inl (PlainError (json_error env s))))"

definition GetInstanceIdentity ::
  "('w, 'op) env \<Rightarrow> string \<Rightarrow> ('w, 'op, go_error + YandexInstanceIdentity) io" where
  "GetInstanceIdentity env addr = do {
     got \<leftarrow> metadata_get env addr ''/latest/dynamic/instance-identity/document'';
     case got of
       Inl err \<Rightarrow> State_Monad.return (Inl err)
     | Inr identityBytes \<Rightarrow> State_Monad.return (unmarshal_identity env identityBytes)
   }"

definition GetHostname :: "('w, 'op) env \<Rightarrow> string \<Rightarrow> ('w, 'op, go_error + string) io" where
  "GetHostname env addr = metadata_get env addr ''/latest/meta-data/hostname''"

text \<open>
  The identity of the instance comes from one request to one address, and only from an answer
  with status 200 whose body was read whole and decoded; any other status is an error, however
  well-formed its body. The host name is the body as it is.
\<close>

lemma metadata_only_from_200:
  "ensures (GetInstanceIdentity env addr) (\<lambda>r es. \<exists>answer.
     es = [HttpGet (''http://'' @ addr @ ''/latest/dynamic/instance-identity/document'') answer] \<and>
     (case answer of
        Inl err \<Rightarrow> r = Inl err
      | Inr resp \<Rightarrow>
          if StatusCode resp \<noteq> 200 then \<exists>t. r = Inl (PlainError t)
          else (case Body resp of Inl err \<Rightarrow> r = Inl err | Inr s \<Rightarrow> r = unmarshal_identity env s))) \<and>
   ensures (GetHostname env addr) (\<lambda>r es. \<exists>answer.
     es = [HttpGet (''http://'' @ addr @ ''/latest/meta-data/hostname'') answer] \<and>
     (case answer of
        Inl err \<Rightarrow> r = Inl err
      | Inr resp \<Rightarrow> if StatusCode resp \<noteq> 200 then \<exists>t. r = Inl (PlainError t) else r = Body resp))"
  unfolding GetInstanceIdentity_def GetHostname_def metadata_get_def metadataUrl_def Let_def
  by (intro conjI; intro wp) auto

text \<open>
  A document with the four fields, their strings ASCII, is decoded to exactly that identity.
\<close>

definition identity_document :: "YandexInstanceIdentity \<Rightarrow> json" where
  "identity_document i = JObject
     [(''availabilityZone'', JString (AvailabilityZone i)), (''instanceId'', JString (InstanceID i)),
      (''privateIp'', JString (PrivateIP i)), (''region'', JString (Region i))]"

lemma identity_keys:
  "same_key ''availabilityZone'' ''availabilityZone''" "\<not> same_key ''availabilityZone'' ''instanceId''"
  "\<not> same_key ''availabilityZone'' ''privateIp''" "\<not> same_key ''availabilityZone'' ''region''"
  "same_key ''instanceId'' ''instanceId''" "\<not> same_key ''instanceId'' ''privateIp''"
  "\<not> same_key ''instanceId'' ''region''" "same_key ''privateIp'' ''privateIp''"
  "\<not> same_key ''privateIp'' ''region''" "same_key ''region'' ''region''"
  by code_simp+

lemma identity_document_decoded:
  assumes "ascii (AvailabilityZone i)" "ascii (InstanceID i)" "ascii (PrivateIP i)" "ascii (Region i)"
  shows "unmarshal_identity env (bytes (render (identity_document i))) = Inr i"
proof -
  have "ascii ''availabilityZone''" "ascii ''instanceId''" "ascii ''privateIp''" "ascii ''region''"
    by code_simp+
  with assms have "simple_json (Suc 9999) (identity_document i)"
    by (simp add: identity_document_def)
  then have "json_value (bytes (render (identity_document i))) = Some (identity_document i)"
    by (intro json_value_render) (simp add: max_nesting_depth_def)
  then show ?thesis
    by (simp add: unmarshal_identity_def identity_document_def unmarshal_struct_def
        identity_field_def unmarshal_string_def identity_keys no_identity_def)
qed

text \<open>
  The status in that error is unreadable: it is printed as a character. Status 404 appears as the
  quoted letter U+0194.
\<close>

lemma status_404_text: "pr 404 \<Longrightarrow> QuoteRune pr 404 = bytes [39, 198, 148, 39]"
  by (simp add: QuoteRune_def escape_rune_def encode_rune_def IsPrint_def)

end
