(* ===== verification/Identity.thy ===== *)
theory Identity
  imports Driver_State Example_Env
begin

text \<open>
  The identity service of \<^verbatim>\<open>driver/identity.go\<close>. The version is a variable of the package,
  set when it is linked and defaulted by \<^verbatim>\<open>NewDriver\<close>; it is an argument here.
\<close>

record plugin_info =
  Name :: string
  VendorVersion :: string

definition GetPluginInfo :: "driver \<Rightarrow> string \<Rightarrow> plugin_info" where
  "GetPluginInfo d version = \<lparr>Name = drv_name d, VendorVersion = version\<rparr>"

datatype plugin_capability =
    CONTROLLER_SERVICE | VOLUME_ACCESSIBILITY_CONSTRAINTS | VolumeExpansion_OFFLINE

definition GetPluginCapabilities :: "plugin_capability list" where
  "GetPluginCapabilities =
     [CONTROLLER_SERVICE, VOLUME_ACCESSIBILITY_CONSTRAINTS, VolumeExpansion_OFFLINE]"

text \<open>The readiness flag is read under its mutex: one atomic step that changes nothing.\<close>

definition Probe :: "('w, 'op, bool) io" where
  "Probe = State (\<lambda>w. (ready w, w))"

lemma run_state_Probe [simp]: "run_state Probe w = (ready w, w)"
  by (simp add: Probe_def)

end
