(* ===== verification/Go_Url.thy ===== *)
theory Go_Url
  imports Go_Strconv Go_Quote
begin

text \<open>
  \<^verbatim>\<open>url.Parse\<close> of Go's package \<^verbatim>\<open>net/url\<close>, which the driver applies to its
  endpoint: the scheme, the authority with its user and host, the path, and every error with its
  text. Of the result the driver reads three fields. A host in square brackets (an IPv6 literal) is
  left to an argument.
\<close>

record parsed_url =
  Scheme :: string
  Host :: string
  Path :: string

datatype encoding = EncodePath | EncodeHost | EncodeUserPassword | EncodeFragment

subsection \<open>Characters\<close>

definition is_letter :: "char \<Rightarrow> bool" where
  "is_letter c \<longleftrightarrow> (CHR ''a'' \<le> c \<and> c \<le> CHR ''z'') \<or> (CHR ''A'' \<le> c \<and> c \<le> CHR ''Z'')"

definition is_hex :: "char \<Rightarrow> bool" where
  "is_hex c \<longleftrightarrow> is_digit c \<or> (CHR ''a'' \<le> c \<and> c \<le> CHR ''f'') \<or> (CHR ''A'' \<le> c \<and> c \<le> CHR ''F'')"

definition hex_val :: "char \<Rightarrow> nat" where
  "hex_val c = (if is_digit c then of_char c - 48
     else if CHR ''a'' \<le> c then of_char c - 87 else of_char c - 55)"

definition is_control :: "char \<Rightarrow> bool" where
  "is_control c \<longleftrightarrow> c < CHR '' '' \<or> c = CHR 0x7F"

definition url_lower :: "char \<Rightarrow> char" where
  "url_lower c = (if CHR ''A'' \<le> c \<and> c \<le> CHR ''Z'' then char_of (of_char c + (32 :: nat)) else c)"

text \<open>Which characters a host may hold as they are (\<^verbatim>\<open>shouldEscape\<close> for a host).\<close>

definition host_chars :: string where
  "host_chars = ''!$&()*+,;=:[]<>-_.~'' @ [CHR 0x22, CHR 0x27]"

definition must_escape_host :: "char \<Rightarrow> bool" where
  "must_escape_host c \<longleftrightarrow> \<not> (is_letter c \<or> is_digit c \<or> c \<in> set host_chars)"

subsection \<open>Unescaping\<close>

text \<open>The error values, and their texts.\<close>

datatype url_error = EscapeError string | InvalidHostError string | UrlError string

fun url_error_text :: "(nat \<Rightarrow> bool) \<Rightarrow> url_error \<Rightarrow> string" where
  "url_error_text pr (EscapeError s) = ''invalid URL escape '' @ Quote pr s"
| "url_error_text pr (InvalidHostError s) = ''invalid character '' @ Quote pr s @ '' in host name''"
| "url_error_text pr (UrlError t) = t"

text \<open>In a host only bytes from 0x80 on and the percent sign may be escaped.\<close>

definition escape_refused :: "encoding \<Rightarrow> char \<Rightarrow> char \<Rightarrow> bool" where
  "escape_refused mode a b \<longleftrightarrow> mode = EncodeHost \<and> hex_val a < 8 \<and> [a, b] \<noteq> ''25''"

fun unescape :: "encoding \<Rightarrow> string \<Rightarrow> url_error + string" where
  "unescape mode [] = Inr []"
| "unescape mode (c # s) =
     (if c = CHR ''%'' then
        (case s of
           a # b # rest \<Rightarrow>
             if \<not> (is_hex a \<and> is_hex b) \<or> escape_refused mode a b then Inl (EscapeError [c, a, b])
             else map_sum id ((#) (char_of (16 * hex_val a + hex_val b))) (unescape mode rest)
         | _ \<Rightarrow> Inl (EscapeError (c # s)))
      else if mode = EncodeHost \<and> c < CHR 0x80 \<and> must_escape_host c then
        Inl (InvalidHostError [c])
      else map_sum id ((#) c) (unescape mode s))"

subsection \<open>The parts of a URL\<close>

text \<open>\<^verbatim>\<open>getScheme\<close>: the loop over the characters, with those seen so far.\<close>

fun scheme_loop :: "string \<Rightarrow> string \<Rightarrow> string \<Rightarrow> url_error + string \<times> string" where
  "scheme_loop raw seen [] = Inr ([], raw)"
| "scheme_loop raw seen (c # s) =
     (if is_letter c then scheme_loop raw (seen @ [c]) s
      else if is_digit c \<or> c \<in> set ''+-.'' then
        if seen = [] then Inr ([], raw) else scheme_loop raw (seen @ [c]) s
      else if c = CHR '':'' then
        if seen = [] then Inl (UrlError ''missing protocol scheme'') else Inr (seen, s)
      else Inr ([], raw))"

definition getScheme :: "string \<Rightarrow> url_error + string \<times> string" where
  "getScheme raw = scheme_loop raw [] raw"

text \<open>\<^verbatim>\<open>strings.Cut\<close> at a character, and at the last occurrence of one.\<close>

definition Cut :: "char \<Rightarrow> string \<Rightarrow> string \<times> string" where
  "Cut c s = (takeWhile (\<lambda>x. x \<noteq> c) s, drop 1 (dropWhile (\<lambda>x. x \<noteq> c) s))"

definition CutLast :: "char \<Rightarrow> string \<Rightarrow> string \<times> string" where
  "CutLast c s = (case Cut c (rev s) of (a, b) \<Rightarrow> (rev b, rev a))"

definition validOptionalPort :: "string \<Rightarrow> bool" where
  "validOptionalPort port \<longleftrightarrow> (case port of [] \<Rightarrow> True | c # ds \<Rightarrow> c = CHR '':'' \<and> list_all is_digit ds)"

definition validUserinfo :: "string \<Rightarrow> bool" where
  "validUserinfo s \<longleftrightarrow> list_all (\<lambda>c. is_letter c \<or> is_digit c \<or>
     c \<in> set (''-._:~!$&()*+,;=%@'' @ [CHR 0x27])) s"

definition parseHost :: "(nat \<Rightarrow> bool) \<Rightarrow> (string \<Rightarrow> string + string) \<Rightarrow> string \<Rightarrow> url_error + string" where
  "parseHost pr bracketed host =
     (if CHR ''['' \<in> set host then map_sum UrlError id (bracketed host)
      else if CHR '':'' \<in> set host \<and> \<not> validOptionalPort (CHR '':'' # snd (CutLast CHR '':'' host)) then
        Inl (UrlError (''invalid port '' @ Quote pr (CHR '':'' # snd (CutLast CHR '':'' host)) @ '' after host''))
      else unescape EncodeHost host)"

text \<open>The user and the password must be well-formed; nothing else is made of them here.\<close>

definition check_userinfo :: "string \<Rightarrow> url_error option" where
  "check_userinfo userinfo =
     (let wrong = (\<lambda>s. case unescape EncodeUserPassword s of Inl err \<Rightarrow> Some err | Inr _ \<Rightarrow> None) in
      if \<not> validUserinfo userinfo then Some (UrlError ''net/url: invalid userinfo'')
      else if CHR '':'' \<notin> set userinfo then wrong userinfo
      else case Cut CHR '':'' userinfo of (username, password) \<Rightarrow>
        (case wrong username of Some err \<Rightarrow> Some err | None \<Rightarrow> wrong password))"

definition parseAuthority ::
  "(nat \<Rightarrow> bool) \<Rightarrow> (string \<Rightarrow> string + string) \<Rightarrow> string \<Rightarrow> url_error + string" where
  "parseAuthority pr bracketed authority =
     (if CHR ''@'' \<notin> set authority then parseHost pr bracketed authority
      else case CutLast CHR ''@'' authority of (userinfo, hostpart) \<Rightarrow>
        (case parseHost pr bracketed hostpart of
           Inl err \<Rightarrow> Inl err
         | Inr host \<Rightarrow>
             (case check_userinfo userinfo of Some err \<Rightarrow> Inl err | None \<Rightarrow> Inr host)))"

text \<open>What is left after the scheme and before the query.\<close>

definition parse_hierarchy ::
  "(nat \<Rightarrow> bool) \<Rightarrow> (string \<Rightarrow> string + string) \<Rightarrow> string \<Rightarrow> string \<Rightarrow> url_error + parsed_url" where
  "parse_hierarchy pr bracketed scheme rest =
     (let with_path = (\<lambda>host p. map_sum id (\<lambda>path. \<lparr>Scheme = scheme, Host = host, Path = path\<rparr>)
        (unescape EncodePath p)) in
      if \<not> HasPrefix rest ''/'' \<and> scheme \<noteq> [] then
        Inr \<lparr>Scheme = scheme, Host = [], Path = []\<rparr>
      else if \<not> HasPrefix rest ''/'' \<and> CHR '':'' \<in> set (fst (Cut CHR ''/'' rest)) then
        Inl (UrlError ''first path segment in URL cannot contain colon'')
      else if (scheme \<noteq> [] \<or> \<not> HasPrefix rest ''///'') \<and> HasPrefix rest ''//'' then
        (let authority = takeWhile (\<lambda>c. c \<noteq> CHR ''/'') (drop 2 rest) in
         case parseAuthority pr bracketed authority of
           Inl err \<Rightarrow> Inl err
         | Inr host \<Rightarrow> with_path host (drop (2 + length authority) rest))
      else with_path [] rest)"

text \<open>The query ends the path; a single question mark at the very end is dropped the same way.\<close>

definition parse_url ::
  "(nat \<Rightarrow> bool) \<Rightarrow> (string \<Rightarrow> string + string) \<Rightarrow> string \<Rightarrow> url_error + parsed_url" where
  "parse_url pr bracketed raw =
     (if list_ex is_control raw then Inl (UrlError ''net/url: invalid control character in URL'')
      else if raw = ''*'' then Inr \<lparr>Scheme = [], Host = [], Path = ''*''\<rparr>
      else (case getScheme raw of
          Inl err \<Rightarrow> Inl err
        | Inr (scheme, rest) \<Rightarrow>
            parse_hierarchy pr bracketed (map url_lower scheme) (fst (Cut CHR ''?'' rest))))"

text \<open>The fragment is cut off first and checked last; an error names the text it is about.\<close>

definition url_Parse ::
  "(nat \<Rightarrow> bool) \<Rightarrow> (string \<Rightarrow> string + string) \<Rightarrow> string \<Rightarrow> string + parsed_url" where
  "url_Parse pr bracketed raw =
     (case Cut CHR ''#'' raw of (u, frag) \<Rightarrow>
        let failure = (\<lambda>s err. ''parse '' @ Quote pr s @ '': '' @ url_error_text pr err) in
        (case parse_url pr bracketed u of
           Inl err \<Rightarrow> Inl (failure u err)
         | Inr parsed \<Rightarrow>
             (case unescape EncodeFragment frag of
                Inl err \<Rightarrow> Inl (failure raw err)
              | Inr _ \<Rightarrow> Inr parsed)))"

subsection \<open>Escaped paths\<close>

text \<open>Any path can be written in a URL: what is not plain goes in as an escape.\<close>

definition plain_in_path :: "char \<Rightarrow> bool" where
  "plain_in_path c \<longleftrightarrow> \<not> is_control c \<and> c \<notin> set ''%?#''"

definition hex_char :: "nat \<Rightarrow> char" where
  "hex_char d = (if d < 10 then char_of (48 + d) else char_of (55 + d))"

definition path_escape :: "string \<Rightarrow> string" where
  "path_escape p = concat (map (\<lambda>c. if plain_in_path c then [c]
     else [CHR ''%'', hex_char (of_char c div 16), hex_char (of_char c mod 16)]) p)"

lemma path_escape_plain: "list_all plain_in_path p \<Longrightarrow> path_escape p = p"
  by (induction p) (simp_all add: path_escape_def)

lemma hex_char:
  assumes "d < 16"
  shows "is_hex (hex_char d)" "hex_val (hex_char d) = d" "plain_in_path (hex_char d)"
proof -
  have "d \<in> {0, 1, 2, 3, 4, 5, 6, 7, 8, 9, 10, 11, 12, 13, 14, 15}" using assms by (simp only: insert_iff empty_iff) arith
  then show "is_hex (hex_char d)" "hex_val (hex_char d) = d" "plain_in_path (hex_char d)"
    by (elim insertE emptyE; simp; code_simp)+
qed

lemma high_digit: "(of_char c :: nat) div 16 < 16"
  using nat_of_char_less_256 [of c] by (simp only: less_mult_imp_div_less)

lemma unescape_path_escape: "mode \<noteq> EncodeHost \<Longrightarrow> unescape mode (path_escape p) = Inr p"
proof (induction p)
  case (Cons c p)
  note hex = hex_char [OF high_digit [of c]] hex_char [of "of_char c mod 16"]
  have "c = CHR ''%'' \<Longrightarrow> \<not> plain_in_path c" by (simp add: plain_in_path_def)
  with Cons hex show ?case
    by (auto simp: path_escape_def escape_refused_def)
qed (simp add: path_escape_def)

lemma path_escape_chars: "list_all (\<lambda>c. c = CHR ''%'' \<or> plain_in_path c) (path_escape p)"
  by (auto simp: path_escape_def list_all_iff hex_char(3) high_digit)

lemma Cut_absent: "c \<notin> set s \<Longrightarrow> Cut c s = (s, [])"
  unfolding Cut_def by (induction s) auto

lemma path_escape_absent:
  "CHR ''#'' \<notin> set (path_escape p)" "CHR ''?'' \<notin> set (path_escape p)"
  "\<not> list_ex is_control (path_escape p)"
proof -
  have plain: "\<not> plain_in_path CHR ''#''" "\<not> plain_in_path CHR ''?''" "\<not> is_control CHR ''%''"
    "\<And>c. plain_in_path c \<Longrightarrow> \<not> is_control c"
    by (simp_all add: plain_in_path_def is_control_def)
  have "CHR ''#'' \<noteq> CHR ''%''" "CHR ''?'' \<noteq> CHR ''%''" by simp_all
  with plain show "CHR ''#'' \<notin> set (path_escape p)" "CHR ''?'' \<notin> set (path_escape p)"
    "\<not> list_ex is_control (path_escape p)"
    using path_escape_chars [of p] unfolding list_all_iff list_ex_iff by metis+
qed

lemma getScheme_unix: "getScheme (''unix:'' @ s) = Inr (''unix'', s)"
proof -
  have "is_letter CHR ''u''" "is_letter CHR ''n''" "is_letter CHR ''i''" "is_letter CHR ''x''"
    "\<not> is_letter CHR '':''" "\<not> is_digit CHR '':''"
    by code_simp+
  then show ?thesis by (simp add: getScheme_def)
qed

lemma url_Parse_unix:
  "url_Parse pr bracketed (''unix://'' @ path_escape (CHR ''/'' # q)) =
   Inr \<lparr>Scheme = ''unix'', Host = [], Path = CHR ''/'' # q\<rparr>"
proof -
  let ?p = "path_escape (CHR ''/'' # q)"
  have slash: "?p = CHR ''/'' # path_escape q"
    by (simp add: path_escape_def plain_in_path_def is_control_def)
  have "\<not> list_ex is_control ''unix://''" by code_simp
  then have clean: "\<not> list_ex is_control (''unix://'' @ ?p)"
    using path_escape_absent(3) [of "CHR ''/'' # q"] by (simp only: list_ex_append) simp
  have lower: "map url_lower ''unix'' = ''unix''" by code_simp
  have scheme: "getScheme (''unix://'' @ ?p) = Inr (''unix'', ''//'' @ ?p)"
    using getScheme_unix [of "''//'' @ ?p"] by simp
  have query: "Cut CHR ''?'' (''//'' @ ?p) = (''//'' @ ?p, [])"
    by (rule Cut_absent) (use path_escape_absent(2) in simp)
  have fragment: "Cut CHR ''#'' (''unix://'' @ ?p) = (''unix://'' @ ?p, [])"
    by (rule Cut_absent) (use path_escape_absent(1) in simp)
  have "parse_hierarchy pr bracketed ''unix'' (''//'' @ ?p) =
      Inr \<lparr>Scheme = ''unix'', Host = [], Path = CHR ''/'' # q\<rparr>"
    using unescape_path_escape [of EncodePath "CHR ''/'' # q"]
    by (simp add: parse_hierarchy_def slash parseAuthority_def parseHost_def)
  then have "parse_url pr bracketed (''unix://'' @ ?p) =
      Inr \<lparr>Scheme = ''unix'', Host = [], Path = CHR ''/'' # q\<rparr>"
    unfolding parse_url_def using clean scheme lower query by simp
  with fragment show ?thesis by (simp add: url_Parse_def)
qed

end
