(* ===== verification/Driver.thy ===== *)
theory Driver
  imports Lifecycle Health Metadata_Service Identity Go_Url
begin

text \<open>
  \<^verbatim>\<open>driver/driver.go\<close> and \<^verbatim>\<open>cmd/yandex-csi-driver/main.go\<close>: how the driver is
  made and started, up to the servers; \<open>Run_Loop\<close> has the goroutines \<^verbatim>\<open>Run\<close> serves and stops
  with. Timeouts and loggers are left out.
\<close>

subsection \<open>NewDriver\<close>

definition DefaultDriverName :: string where "DefaultDriverName = ''yandex.csi.flant.com''"
definition DefaultAddress :: string where "DefaultAddress = ''127.0.0.1:12302''"
definition DefaultClusterUUID :: string where "DefaultClusterUUID = ''default''"
definition defaultWaitActionTimeout :: nat where "defaultWaitActionTimeout = 5 * 60"

text \<open>The arguments of \<^verbatim>\<open>NewDriver\<close>, in the order of the Go function.\<close>

record driver_args =
  arg_ep :: string
  arg_authKeysStr :: string
  arg_folderID :: string
  arg_driverName :: string
  arg_address :: string
  arg_clusterUUID :: string

definition make_driver :: "driver_args \<Rightarrow> YandexInstanceIdentity \<Rightarrow> driver" where
  "make_driver a i =
     (let driverName = (if arg_driverName a = [] then DefaultDriverName else arg_driverName a) in
      \<lparr>drv_name = driverName, drv_publishInfoVolumeName = driverName @ ''/volume-name'',
       drv_endpoint = arg_ep a, drv_address = arg_address a, drv_hostID = InstanceID i,
       drv_folderID = arg_folderID a, drv_waitActionTimeout = defaultWaitActionTimeout,
       drv_region = Region i, drv_zone = AvailabilityZone i,
       drv_clusterUUID = arg_clusterUUID a\<rparr>)"

text \<open>The mutable fields of a driver just made: an empty lock table, and not ready.\<close>

definition fresh_fields :: "('w, 'op, unit) io" where
  "fresh_fields = State (\<lambda>w. ((), w\<lparr>resizeLocks := NewRwMap, ready := False\<rparr>))"

text \<open>
  The result is the driver with the version of the package after the call. Decoding the key (the
  SDK's \<^verbatim>\<open>iamkey.Key\<close> decodes itself) and making credentials of it are the SDK's.
\<close>

definition NewDriver ::
  "('w, 'op) env \<Rightarrow> string \<Rightarrow> string \<Rightarrow> driver_args \<Rightarrow> ('w, 'op, go_error + driver \<times> string) io"
where
  "NewDriver env addr version a =
     (case json_iamKey env (arg_authKeysStr a) of
        Inl err \<Rightarrow> State_Monad.return (Inl err)
      | Inr authKeys \<Rightarrow>
          (case sdk_ServiceAccountKey env authKeys of
             Inl err \<Rightarrow> State_Monad.return (Inl err)
           | Inr credentials \<Rightarrow> do {
               built \<leftarrow> ycloud_Build env credentials;
               case built of
                 Some err \<Rightarrow> State_Monad.return (Inl err)
               | None \<Rightarrow> do {
                   got \<leftarrow> GetInstanceIdentity env addr;
                   let identity = (case got of Inl err \<Rightarrow> no_identity | Inr i \<Rightarrow> i);
                   fresh_fields;
                   State_Monad.return (Inr (make_driver a identity,
                     if version = [] then ''dev'' else version))
                 }
             }))"

subsection \<open>Run\<close>

text \<open>On Unix \<^verbatim>\<open>filepath.FromSlash\<close> is the identity.\<close>

definition grpcAddr :: "parsed_url \<Rightarrow> string" where
  "grpcAddr u = (if Host u = [] then Path u else filepath_Join [Host u, Path u])"

definition set_ready :: "bool \<Rightarrow> ('w, 'op, unit) io" where
  "set_ready b = State (\<lambda>w. ((), w\<lparr>ready := b\<rparr>))"

text \<open>Opening the second listener, and the last step before serving.\<close>

definition Run_http :: "('w, 'op) env \<Rightarrow> driver \<Rightarrow> ('w, 'op, go_error option) io" where
  "Run_http env d = do {
     httpListener \<leftarrow> net_Listen env ''tcp'' (drv_address d);
     case httpListener of
       Some err \<Rightarrow> State_Monad.return (Some (PlainError (''failed to listen: '' @ err_Error err)))
     | None \<Rightarrow> do { set_ready True; State_Monad.return None }
   }"

text \<open>What \<^verbatim>\<open>Run\<close> does before it serves; \<open>None\<close> means the servers are started.\<close>

definition Run_start :: "('w, 'op) env \<Rightarrow> driver \<Rightarrow> ('w, 'op, go_error option) io" where
  "Run_start env d =
     (case url_Parse (unicode_IsPrint env) (url_bracketed env) (drv_endpoint d) of
        Inl err \<Rightarrow> State_Monad.return (Some (PlainError (''unable to parse address: '' @
          Quote (unicode_IsPrint env) err)))
      | Inr u \<Rightarrow>
          if Scheme u \<noteq> ''unix'' then
            State_Monad.return (Some (PlainError
              (''currently only unix domain sockets are supported, have: '' @ Scheme u)))
          else do {
            removed \<leftarrow> os_Remove env (grpcAddr u);
            case removed of
              Some (RemoveError t) \<Rightarrow> State_Monad.return (Some (PlainError
                (''failed to remove unix domain socket file '' @ grpcAddr u @ '', error: '' @ t)))
            | _ \<Rightarrow> do {
                grpcListener \<leftarrow> net_Listen env (Scheme u) (grpcAddr u);
                case grpcListener of
                  Some err \<Rightarrow>
                    State_Monad.return (Some (PlainError (''failed to listen: '' @ err_Error err)))
                | None \<Rightarrow> Run_http env d
              }
          })"

subsection \<open>main\<close>

record flags =
  fl_endpoint :: string
  fl_folderID :: string
  fl_driverName :: string
  fl_address :: string
  fl_clusterUUID :: string
  fl_version :: bool

definition default_flags :: flags where
  "default_flags =
     \<lparr>fl_endpoint = ''unix:///var/lib/kubelet/plugins/'' @ DefaultDriverName @ ''/csi.sock'',
      fl_folderID = [], fl_driverName = DefaultDriverName, fl_address = DefaultAddress,
      fl_clusterUUID = DefaultClusterUUID, fl_version = False\<rparr>"

datatype main_outcome = ExitZero string | Fatal go_error | Running driver

definition main_program ::
  "('w, 'op) env \<Rightarrow> string \<Rightarrow> string \<Rightarrow> string \<Rightarrow> string \<Rightarrow> string \<Rightarrow> flags \<Rightarrow> ('w, 'op, main_outcome) io"
where
  "main_program env addr version commit gitTreeState authKeys fl =
     (if fl_version fl then State_Monad.return
        (ExitZero (version @ '' - '' @ commit @ '' ('' @ gitTreeState @ '')'' @ [CHR 0x0A]))
      else do {
        made \<leftarrow> NewDriver env addr version
          \<lparr>arg_ep = fl_endpoint fl, arg_authKeysStr = authKeys, arg_folderID = fl_folderID fl,
           arg_driverName = fl_driverName fl, arg_address = fl_address fl,
           arg_clusterUUID = fl_clusterUUID fl\<rparr>;
        case made of
          Inl err \<Rightarrow> State_Monad.return (Fatal err)
        | Inr (drv, version') \<Rightarrow> do {
            res \<leftarrow> Run_start env drv;
            case res of
              Some err \<Rightarrow> State_Monad.return (Fatal err)
            | None \<Rightarrow> State_Monad.return (Running drv)
          }
      })"

subsection \<open>What a new driver looks like\<close>

text \<open>
  C38. What a new driver is, down to its fields. It fails only when the key is refused, by the
  decoder or by the SDK, before any call, or when the SDK cannot be built, its only call. Otherwise
  it has asked the metadata service exactly once, at one address, and it takes zone, instance and
  region from the body of that very answer when the status is 200 and the body was read and
  decoded, and leaves all three empty in every other case; no answer makes it fail. Its name and
  its version are never empty, and it starts with an empty lock table and not ready.
\<close>

theorem NewDriver_well_formed:
  "case run_state (NewDriver env addr version a) w of (r, w') \<Rightarrow>
     (case r of
        Inl err \<Rightarrow>
          (json_iamKey env (arg_authKeysStr a) = Inl err \<or>
            (\<exists>key. json_iamKey env (arg_authKeysStr a) = Inr key \<and>
              sdk_ServiceAccountKey env key = Inl err)) \<and> w' = w \<or>
          (\<exists>key c. json_iamKey env (arg_authKeysStr a) = Inr key \<and>
            sdk_ServiceAccountKey env key = Inr c \<and>
            history w' = history w @ [BuildSdk c (Some err)])
      | Inr (d, v) \<Rightarrow>
          (\<exists>key c answer. json_iamKey env (arg_authKeysStr a) = Inr key \<and>
            sdk_ServiceAccountKey env key = Inr c \<and>
            history w' = history w @ [BuildSdk c None,
              HttpGet (''http://'' @ addr @ ''/latest/dynamic/instance-identity/document'') answer] \<and>
            (drv_zone d, drv_hostID d, drv_region d) =
              (case answer of
                 Inl _ \<Rightarrow> ([], [], [])
               | Inr resp \<Rightarrow> (case (StatusCode resp = 200, Body resp) of
                     (True, Inr s) \<Rightarrow> (case unmarshal_identity env s of
                         Inr i \<Rightarrow> (AvailabilityZone i, InstanceID i, Region i)
                       | Inl _ \<Rightarrow> ([], [], []))
                   | _ \<Rightarrow> ([], [], [])))) \<and>
          Name (GetPluginInfo d v) =
            (if arg_driverName a = [] then ''yandex.csi.flant.com'' else arg_driverName a) \<and>
          VendorVersion (GetPluginInfo d v) = (if version = [] then ''dev'' else version) \<and>
          drv_publishInfoVolumeName d = drv_name d @ ''/volume-name'' \<and>
          drv_endpoint d = arg_ep a \<and> drv_address d = arg_address a \<and>
          drv_folderID d = arg_folderID a \<and> drv_clusterUUID d = arg_clusterUUID a \<and>
          drv_waitActionTimeout d = 300 \<and>
          volumes (resizeLocks w') = Map.empty \<and> \<not> ready w')"
  by (auto simp: NewDriver_def ycloud_Build_def GetInstanceIdentity_def metadata_get_def Let_def
      http_Get_def fresh_fields_def make_driver_def DefaultDriverName_def GetPluginInfo_def
      metadataUrl_def no_identity_def NewRwMap_def defaultWaitActionTimeout_def run_simps
      split: prod.splits sum.splits option.splits if_splits)

subsection \<open>Starting\<close>

text \<open>
  The driver becomes ready exactly when it can serve: \<^verbatim>\<open>Run\<close> gets to serving only for a
  \<^verbatim>\<open>unix\<close> endpoint, after it removed the old socket (or found none) and opened both
  listeners in that order, and then the readiness flag is set; when it fails instead, the flag is
  as it was.
\<close>

lemma Run_start_ready:
  "case run_state (Run_start env d) w of (r, w') \<Rightarrow>
     (case r of
        None \<Rightarrow> ready w' \<and> (\<exists>u removed.
          url_Parse (unicode_IsPrint env) (url_bracketed env) (drv_endpoint d) = Inr u \<and>
          Scheme u = ''unix'' \<and>
          history w' = history w @ [RemoveFile (grpcAddr u) removed,
            NetListen ''unix'' (grpcAddr u) None, NetListen ''tcp'' (drv_address d) None] \<and>
          (case removed of Some (RemoveError t) \<Rightarrow> False | _ \<Rightarrow> True))
      | Some err \<Rightarrow> ready w' = ready w)"
  by (auto simp: Run_start_def Run_http_def os_Remove_def net_Listen_def set_ready_def run_simps
      split: prod.splits sum.splits option.splits if_splits remove_error.splits)

text \<open>
  C29. The socket of the endpoint. Whatever absolute path the endpoint names, written with escapes
  where a URL needs them, \<^verbatim>\<open>Run\<close> gets exactly that path back: it removes no other file,
  opens no other socket, and when it gets to serving it has removed that file, listens on it and on
  the HTTP address, in this order.
\<close>

theorem Run_start_uses_socket:
  assumes "drv_endpoint d = ''unix://'' @ path_escape p" and "HasPrefix p ''/''"
    and "run_state (Run_start env d) w = (r, w')"
  shows "\<exists>es. history w' = history w @ es \<and>
    list_all (\<lambda>e. case e of RemoveFile q a \<Rightarrow> q = p
      | NetListen n q a \<Rightarrow> n = ''unix'' \<and> q = p \<or> n = ''tcp'' \<and> q = drv_address d | _ \<Rightarrow> False) es \<and>
    (r = None \<longrightarrow> (\<exists>removed. es = [RemoveFile p removed, NetListen ''unix'' p None,
      NetListen ''tcp'' (drv_address d) None]))"
proof -
  from assms(2) obtain q where "p = CHR ''/'' # q"
    by (auto simp: HasPrefix_iff)
  then have "url_Parse (unicode_IsPrint env) (url_bracketed env) (drv_endpoint d) =
      Inr \<lparr>Scheme = ''unix'', Host = [], Path = p\<rparr>"
    using assms(1) by (simp only: url_Parse_unix)
  with assms(3) show ?thesis
    by (auto simp: Run_start_def Run_http_def os_Remove_def net_Listen_def set_ready_def grpcAddr_def
        run_simps split: prod.splits option.splits remove_error.splits)
qed

lemma default_endpoint:
  "fl_endpoint default_flags =
     ''unix://'' @ path_escape ''/var/lib/kubelet/plugins/yandex.csi.flant.com/csi.sock''"
proof -
  have "list_all plain_in_path ''/var/lib/kubelet/plugins/yandex.csi.flant.com/csi.sock''"
    by code_simp
  then show ?thesis
    by (simp only: path_escape_plain) (simp add: default_flags_def DefaultDriverName_def)
qed

lemma example_endpoint: "drv_endpoint example_driver = ''unix://'' @ path_escape ''/csi.sock''"
proof -
  have "list_all plain_in_path ''/csi.sock''" by code_simp
  then show ?thesis by (simp only: path_escape_plain) (simp add: example_driver_def)
qed

lemma example_endpoint_parsed [simp]:
  "url_Parse pr bracketed (drv_endpoint example_driver) =
     Inr \<lparr>Scheme = ''unix'', Host = [], Path = ''/csi.sock''\<rparr>"
  unfolding example_endpoint by (rule url_Parse_unix)

lemma Run_start_uses_socket_witness:
  "\<exists>w'. run_state (Run_start example_env (example_driver\<lparr>drv_endpoint := fl_endpoint default_flags\<rparr>))
      example_world = (None, w') \<and>
    NetListen ''unix'' ''/var/lib/kubelet/plugins/yandex.csi.flant.com/csi.sock'' None \<in> set (history w')"
proof -
  let ?p = "''/var/lib/kubelet/plugins/yandex.csi.flant.com/csi.sock''"
  let ?d = "example_driver\<lparr>drv_endpoint := fl_endpoint default_flags\<rparr>"
  have parsed: "url_Parse pr b (fl_endpoint default_flags) =
      Inr \<lparr>Scheme = ''unix'', Host = [], Path = ?p\<rparr>" for pr b
    unfolding default_endpoint by (rule url_Parse_unix)
  obtain w' where run: "run_state (Run_start example_env ?d) example_world = (None, w')"
    by (auto simp: Run_start_def Run_http_def os_Remove_def net_Listen_def set_ready_def parsed
        run_simps)
  from Run_start_uses_socket [OF _ _ run, of ?p] run show ?thesis
    by (auto simp: default_endpoint)
qed

lemma Run_start_fails_not_ready:
  "run_state (Run_start env d) w = (Some err, w') \<Longrightarrow> ready w' = ready w"
  "run_state (Run_start env d) w = (None, w') \<Longrightarrow> ready w'"
  by (auto simp: Run_start_def Run_http_def os_Remove_def net_Listen_def set_ready_def run_simps
      split: prod.splits sum.splits option.splits if_splits remove_error.splits)

text \<open>
  The driver that starts with the default flags serves on the socket the charts expect, under the
  name the rest of the code knows it by.
\<close>

lemma default_flags_socket:
  "fl_endpoint default_flags = ''unix:///var/lib/kubelet/plugins/yandex.csi.flant.com/csi.sock''"
  by (simp add: default_flags_def DefaultDriverName_def)

end
