(* ===== verification/Run_Loop.thy ===== *)
theory Run_Loop
  imports Driver
begin

text \<open>
  The second half of \<^verbatim>\<open>Run\<close> in \<^verbatim>\<open>driver/driver.go\<close>: the three goroutines of
  the error group and the one outside it, as a step relation. Each takes one step at a time, in any
  order, between requests and changes by others; the context can be cancelled at any moment. What
  the two servers may do is the documented contract of their packages: gRPC's
  \<^verbatim>\<open>Serve\<close> returns nil only after \<^verbatim>\<open>GracefulStop\<close> was called and refuses to
  start after it, HTTP's \<^verbatim>\<open>Serve\<close> returns \<^verbatim>\<open>ErrServerClosed\<close> after
  \<^verbatim>\<open>Shutdown\<close> was called and only then, and \<^verbatim>\<open>GracefulStop\<close> and
  \<^verbatim>\<open>Shutdown\<close> return once the requests under way have ended, which every request does here.
\<close>

subsection \<open>The goroutines\<close>

text \<open>The goroutine of \<^verbatim>\<open>httpSrv.Shutdown\<close>; how far it is.\<close>

datatype shutdown_state = ShutdownWaits | ShutdownCalled | ShutdownReturned

text \<open>The goroutine outside the group: it waits, clears the flag, and stops the gRPC server.\<close>

datatype stopper_state = NotSpawned | StopWaits | ReadyCleared | StopCalled | StopReturned

text \<open>The two goroutines that serve.\<close>

datatype serve_state = NotServing | ServeCalled | ServeReturned

text \<open>The results of the group are in the order in which its goroutines ended.\<close>

record serving =
  cancelled :: bool
  http_shutdown :: shutdown_state
  stopper :: stopper_state
  grpc_serve :: serve_state
  http_serve :: serve_state
  results :: "go_error option list"

definition serving_start :: serving where
  "serving_start = \<lparr>cancelled = False, http_shutdown = ShutdownWaits, stopper = NotSpawned,
     grpc_serve = NotServing, http_serve = NotServing, results = []\<rparr>"

text \<open>How the HTTP server can end, and what its goroutine makes of it.\<close>

datatype http_serve_end = ErrServerClosed | HttpServeError go_error

fun http_result :: "http_serve_end \<Rightarrow> go_error option" where
  "http_result ErrServerClosed = None"
| "http_result (HttpServeError err) = Some err"

fun http_can_end :: "serving \<Rightarrow> http_serve_end \<Rightarrow> bool" where
  "http_can_end g ErrServerClosed \<longleftrightarrow> http_shutdown g \<noteq> ShutdownWaits"
| "http_can_end g (HttpServeError err) \<longleftrightarrow> http_shutdown g = ShutdownWaits"

definition grpc_stopped :: "serving \<Rightarrow> bool" where
  "grpc_stopped g \<longleftrightarrow> stopper g \<in> {StopCalled, StopReturned}"

text \<open>What \<^verbatim>\<open>Serve\<close> of a gRPC server that was stopped before returns.\<close>

definition ErrServerStopped :: go_error where
  "ErrServerStopped = PlainError ''grpc: the server has been stopped''"

text \<open>One step of one goroutine.\<close>

inductive go_step :: "serving \<times> ('w, 'op) world \<Rightarrow> serving \<times> ('w, 'op) world \<Rightarrow> bool" where
  shutdown_called: "cancelled g \<Longrightarrow> http_shutdown g = ShutdownWaits \<Longrightarrow>
    go_step (g, w) (g\<lparr>http_shutdown := ShutdownCalled\<rparr>, w)"
| shutdown_returned: "http_shutdown g = ShutdownCalled \<Longrightarrow>
    go_step (g, w) (g\<lparr>http_shutdown := ShutdownReturned, results := results g @ [res]\<rparr>, w)"
| stopper_spawned: "stopper g = NotSpawned \<Longrightarrow> go_step (g, w) (g\<lparr>stopper := StopWaits\<rparr>, w)"
| ready_cleared: "cancelled g \<Longrightarrow> stopper g = StopWaits \<Longrightarrow>
    go_step (g, w) (g\<lparr>stopper := ReadyCleared\<rparr>, snd (run_state (set_ready False) w))"
| stop_called: "stopper g = ReadyCleared \<Longrightarrow> go_step (g, w) (g\<lparr>stopper := StopCalled\<rparr>, w)"
| stop_returned: "stopper g = StopCalled \<Longrightarrow> go_step (g, w) (g\<lparr>stopper := StopReturned\<rparr>, w)"
| grpc_serves: "stopper g \<noteq> NotSpawned \<Longrightarrow> \<not> grpc_stopped g \<Longrightarrow> grpc_serve g = NotServing \<Longrightarrow>
    go_step (g, w) (g\<lparr>grpc_serve := ServeCalled\<rparr>, w)"
| grpc_refuses: "grpc_stopped g \<Longrightarrow> grpc_serve g = NotServing \<Longrightarrow>
    go_step (g, w) (g\<lparr>grpc_serve := ServeReturned, results := results g @ [Some ErrServerStopped]\<rparr>, w)"
| grpc_returned: "grpc_stopped g \<Longrightarrow> grpc_serve g = ServeCalled \<Longrightarrow>
    go_step (g, w) (g\<lparr>grpc_serve := ServeReturned, results := results g @ [None]\<rparr>, w)"
| grpc_failed: "\<not> grpc_stopped g \<Longrightarrow> grpc_serve g = ServeCalled \<Longrightarrow>
    go_step (g, w) (g\<lparr>grpc_serve := ServeReturned, results := results g @ [Some err]\<rparr>, w)"
| http_serves: "http_shutdown g = ShutdownWaits \<Longrightarrow> http_serve g = NotServing \<Longrightarrow>
    go_step (g, w) (g\<lparr>http_serve := ServeCalled\<rparr>, w)"
| http_refuses: "http_shutdown g \<noteq> ShutdownWaits \<Longrightarrow> http_serve g = NotServing \<Longrightarrow>
    go_step (g, w) (g\<lparr>http_serve := ServeReturned, results := results g @ [http_result ErrServerClosed]\<rparr>, w)"
| http_returned: "http_can_end g e \<Longrightarrow> http_serve g = ServeCalled \<Longrightarrow>
    go_step (g, w) (g\<lparr>http_serve := ServeReturned, results := results g @ [http_result e]\<rparr>, w)"

subsection \<open>A run\<close>

text \<open>The group returns the error of the goroutine that failed first, when all have ended.\<close>

definition first_error :: "go_error option list \<Rightarrow> go_error option" where
  "first_error rs = (case List.map_filter id rs of [] \<Rightarrow> None | err # _ \<Rightarrow> Some err)"

datatype phase = Starting | Serving serving | Finished "go_error option"

text \<open>
  The life of \<^verbatim>\<open>Run\<close>: the start-up, then goroutine steps mixed with the requests the
  servers deliver, whole ones; the gRPC server delivers them from \<^verbatim>\<open>Serve\<close> until
  \<^verbatim>\<open>GracefulStop\<close> has returned, also on connections that outlive \<^verbatim>\<open>Serve\<close>, and the
  HTTP server those for the health checks until \<^verbatim>\<open>Shutdown\<close> has.
  It ends when the three goroutines of the group have ended; nobody waits for the one outside.
\<close>

inductive run_step ::
  "('w, 'op) env \<Rightarrow> driver \<Rightarrow> phase \<times> ('w, 'op) world \<Rightarrow> phase \<times> ('w, 'op) world \<Rightarrow> bool"
  for env d
where
  start_failed: "run_state (Run_start env d) w = (Some err, w') \<Longrightarrow>
    run_step env d (Starting, w) (Finished (Some err), w')"
| start_done: "run_state (Run_start env d) w = (None, w') \<Longrightarrow>
    run_step env d (Starting, w) (Serving serving_start, w')"
| goroutine: "go_step (g, w) (g', w') \<Longrightarrow> run_step env d (Serving g, w) (Serving g', w')"
| context_done: "run_step env d (Serving g, w) (Serving (g\<lparr>cancelled := True\<rparr>), w)"
| request_served: "grpc_serve g \<noteq> NotServing \<Longrightarrow> stopper g \<noteq> StopReturned \<Longrightarrow>
    run_state (serve env d rpc) w = (c, w') \<Longrightarrow> run_step env d (Serving g, w) (Serving g, w')"
| health_served: "http_serve g \<noteq> NotServing \<Longrightarrow> http_shutdown g \<noteq> ShutdownReturned \<Longrightarrow>
    run_state (serve_health (NewHealthChecker [yandexHealthChecker env]) rank) w = (status, w') \<Longrightarrow>
    run_step env d (Serving g, w) (Serving g, w')"
| outside: "run_step env d (p, w) (p, w\<lparr>ext := x\<rparr>)"
| group_done: "length (results g) = 3 \<Longrightarrow>
    run_step env d (Serving g, w) (Finished (first_error (results g)), w)"

inductive runs ::
  "('w, 'op) env \<Rightarrow> driver \<Rightarrow> phase \<times> ('w, 'op) world \<Rightarrow> bool"
  for env d
where
  made: "resizeLocks w = NewRwMap \<Longrightarrow> \<not> ready w \<Longrightarrow> runs env d (Starting, w)"
| next_step: "runs env d s \<Longrightarrow> run_step env d s s' \<Longrightarrow> runs env d s'"

subsection \<open>What every run keeps\<close>

inductive_cases run_step_ServingE: "run_step env d (Serving g, w) s"

lemma first_error_None: "first_error rs = None \<longleftrightarrow> list_all (\<lambda>r. r = None) rs"
  by (induction rs) (auto simp: first_error_def map_filter_simps split: option.splits list.splits)

text \<open>
  Each goroutine of the group that ended left one result; nothing stops before the context is
  cancelled; a gRPC server that ended unstopped left an error.
\<close>

definition serving_ok :: "serving \<Rightarrow> bool" where
  "serving_ok g \<longleftrightarrow>
     length (results g) = of_bool (http_shutdown g = ShutdownReturned) +
       of_bool (grpc_serve g = ServeReturned) + of_bool (http_serve g = ServeReturned) \<and>
     (http_shutdown g \<noteq> ShutdownWaits \<or> stopper g \<notin> {NotSpawned, StopWaits} \<longrightarrow> cancelled g) \<and>
     (grpc_serve g = ServeReturned \<longrightarrow> grpc_stopped g \<or> first_error (results g) \<noteq> None)"

lemma serving_ok_start: "serving_ok serving_start"
  by (simp add: serving_ok_def serving_start_def)

lemma serving_ok_cancel: "serving_ok g \<Longrightarrow> serving_ok (g\<lparr>cancelled := True\<rparr>)"
  by (simp add: serving_ok_def grpc_stopped_def)

lemma go_step_serving_ok: "go_step s s' \<Longrightarrow> serving_ok (fst s) \<Longrightarrow> serving_ok (fst s')"
  by (induction rule: go_step.induct) (auto simp: serving_ok_def grpc_stopped_def first_error_None)

lemma go_step_cancelled: "go_step s s' \<Longrightarrow> cancelled (fst s') = cancelled (fst s)"
  by (induction rule: go_step.induct) auto

lemma go_step_history: "go_step s s' \<Longrightarrow> history (snd s') = history (snd s)"
  by (induction rule: go_step.induct) (auto simp: set_ready_def)

definition flag_up :: "serving \<Rightarrow> bool" where
  "flag_up g \<longleftrightarrow> stopper g \<in> {NotSpawned, StopWaits}"

lemma go_step_ready:
  "go_step s s' \<Longrightarrow> ready (snd s) = flag_up (fst s) \<Longrightarrow> ready (snd s') = flag_up (fst s')"
  by (induction rule: go_step.induct) (auto simp: flag_up_def set_ready_def)

text \<open>Both listeners were opened, for the socket of the endpoint and for the HTTP address.\<close>

definition listening :: "('w, 'op) env \<Rightarrow> driver \<Rightarrow> 'op event list \<Rightarrow> bool" where
  "listening env d es \<longleftrightarrow> (\<exists>u. url_Parse (unicode_IsPrint env) (url_bracketed env) (drv_endpoint d) = Inr u \<and>
     NetListen ''unix'' (grpcAddr u) None \<in> set es \<and> NetListen ''tcp'' (drv_address d) None \<in> set es)"

lemma served_appends:
  "run_state (serve env d rpc) w = (c, w') \<Longrightarrow> \<exists>es. appends w es w'"
  using ensuresD [OF serve_attach_safe] by blast

lemma health_appends:
  "run_state (serve_health (NewHealthChecker [yandexHealthChecker env]) rank) w = (status, w') \<Longrightarrow>
   \<exists>es. appends w es w'"
  using ensuresD [OF health_endpoint_status] by blast

fun run_ok :: "('w, 'op) env \<Rightarrow> driver \<Rightarrow> phase \<times> ('w, 'op) world \<Rightarrow> bool" where
  "run_ok env d (Starting, w) \<longleftrightarrow> \<not> ready w"
| "run_ok env d (Serving g, w) \<longleftrightarrow>
     serving_ok g \<and> ready w = flag_up g \<and> listening env d (history w)"
| "run_ok env d (Finished r, w) \<longleftrightarrow> (ready w \<longrightarrow> r \<noteq> None \<and> listening env d (history w))"

lemma run_ok_appends:
  "appends w es w' \<Longrightarrow> run_ok env d (p, w) \<Longrightarrow> run_ok env d (p, w')"
  by (cases p) (auto simp: appends_def listening_def)

lemma run_ok_step: "run_step env d s s' \<Longrightarrow> run_ok env d s \<Longrightarrow> run_ok env d s'"
proof (induction rule: run_step.induct)
  case (start_failed w err w')
  then show ?case using Run_start_fails_not_ready(1) by fastforce
next
  case (start_done w w')
  then show ?case
    using Run_start_ready [of env d w] serving_ok_start
    by (auto simp: flag_up_def serving_start_def listening_def)
next
  case (goroutine g w g' w')
  then show ?case
    using go_step_serving_ok go_step_ready go_step_history by fastforce
next
  case (context_done g w)
  then show ?case by (simp add: serving_ok_cancel flag_up_def)
next
  case (outside p w x)
  then show ?case by (cases p) auto
next
  case (group_done g w)
  then show ?case
    by (auto simp: serving_ok_def flag_up_def grpc_stopped_def of_bool_def split: if_splits)
next
  case (request_served g rpc w c w')
  then show ?case using served_appends run_ok_appends by metis
next
  case (health_served g rank w status w')
  then show ?case using health_appends run_ok_appends by metis
qed

lemma runs_ok: "runs env d s \<Longrightarrow> run_ok env d s"
  by (induction rule: runs.induct) (auto intro: run_ok_step)

text \<open>
  C28. The probe over a whole run, in every world it reaches. Never ready before the servers are
  started: ready implies that the socket of the endpoint and the HTTP address are being listened
  on. While the servers run, ready at least until the context is cancelled, and not ready from the
  moment the gRPC server is told to stop. When \<^verbatim>\<open>Run\<close> returned without an error, not
  ready. And asking changes nothing.
\<close>

theorem Probe_over_a_run:
  assumes "runs env d (p, w)"
  shows "\<exists>b. run_state Probe w = (b, w) \<and>
    (b \<longrightarrow> (\<exists>u. url_Parse (unicode_IsPrint env) (url_bracketed env) (drv_endpoint d) = Inr u \<and>
      NetListen ''unix'' (grpcAddr u) None \<in> set (history w) \<and>
      NetListen ''tcp'' (drv_address d) None \<in> set (history w))) \<and>
    (case p of
       Starting \<Rightarrow> \<not> b
     | Serving g \<Rightarrow> (\<not> cancelled g \<longrightarrow> b) \<and> (stopper g \<in> {StopCalled, StopReturned} \<longrightarrow> \<not> b)
     | Finished r \<Rightarrow> r = None \<longrightarrow> \<not> b)"
  using runs_ok [OF assms]
  by (cases p) (auto simp: listening_def serving_ok_def flag_up_def)

lemma runs_go: "runs env d (Serving g, w) \<Longrightarrow> go_step (g, w) (g', w') \<Longrightarrow> runs env d (Serving g', w')"
  by (blast intro: runs.next_step run_step.goroutine)

lemma runs_cancel: "runs env d (Serving g, w) \<Longrightarrow> runs env d (Serving (g\<lparr>cancelled := True\<rparr>), w)"
  by (blast intro: runs.next_step run_step.context_done)

lemma example_started:
  "\<exists>w. runs example_env example_driver (Serving serving_start, w)"
proof -
  let ?w = "example_world\<lparr>ready := False\<rparr>"
  obtain w' where "run_state (Run_start example_env example_driver) ?w = (None, w')"
    by (auto simp: Run_start_def Run_http_def os_Remove_def net_Listen_def set_ready_def run_simps)
  then have "run_step example_env example_driver (Starting, ?w) (Serving serving_start, w')"
    by (rule run_step.start_done)
  moreover have "runs example_env example_driver (Starting, ?w)"
    by (rule runs.made) simp_all
  ultimately show ?thesis by (blast intro: runs.next_step)
qed

lemma Probe_over_a_run_witness:
  "\<exists>w g w'. runs example_env example_driver (Serving serving_start, w) \<and>
     run_state Probe w = (True, w) \<and>
     runs example_env example_driver (Serving g, w') \<and> stopper g = StopCalled \<and>
     run_state Probe w' = (False, w')"
proof -
  let ?c = "serving_start\<lparr>cancelled := True\<rparr>"
  let ?s = "?c\<lparr>stopper := StopWaits\<rparr>"
  let ?r = "?s\<lparr>stopper := ReadyCleared\<rparr>"
  let ?g = "?r\<lparr>stopper := StopCalled\<rparr>"
  obtain w where w: "runs example_env example_driver (Serving serving_start, w)"
    using example_started by blast
  let ?w = "snd (run_state (set_ready False) w)"
  have "runs example_env example_driver (Serving ?s, w)"
    by (rule runs_go [OF runs_cancel [OF w]], rule go_step.stopper_spawned) (simp add: serving_start_def)
  then have "runs example_env example_driver (Serving ?r, ?w)"
    by (rule runs_go, intro go_step.ready_cleared) simp_all
  then have g: "runs example_env example_driver (Serving ?g, ?w)"
    by (rule runs_go, intro go_step.stop_called) simp
  have "run_state Probe w = (True, w)"
    using Probe_over_a_run [OF w] by (simp add: serving_start_def)
  moreover have "run_state Probe ?w = (False, ?w)"
    using Probe_over_a_run [OF g] by simp
  ultimately show ?thesis using w g by (intro exI [of _ w] exI [of _ ?g] exI [of _ ?w]) simp
qed

subsection \<open>Servers that fail\<close>

text \<open>
  A server that fails goes unnoticed: whatever a goroutine ends with, as long as the context is not
  cancelled \<^verbatim>\<open>Run\<close> goes on and the driver still reports ready.
\<close>

lemma server_failure_unnoticed:
  assumes "runs env d (Serving g, w)" and "\<not> cancelled g" and "run_step env d (Serving g, w) (p, w')"
  shows "\<exists>g'. p = Serving g' \<and> run_state Probe w' = (True, w')"
proof -
  have ok: "serving_ok g" using runs_ok [OF assms(1)] by simp
  have ok': "run_ok env d (p, w')" using run_ok_step [OF assms(3) runs_ok [OF assms(1)]] .
  have "length (results g) \<noteq> 3" using ok assms(2) by (auto simp: serving_ok_def)
  with assms(3) obtain g' where g': "p = Serving g'" by (auto elim: run_step_ServingE)
  moreover have "ready w'"
  proof (cases "cancelled g'")
    case False
    with ok' g' show ?thesis by (auto simp: serving_ok_def flag_up_def)
  next
    case True
    from assms(3) show ?thesis
    proof (cases rule: run_step.cases)
      case (goroutine g'')
      with g' True assms(2) show ?thesis using go_step_cancelled by fastforce
    next
      case context_done
      with assms(2) runs_ok [OF assms(1)] show ?thesis by (auto simp: serving_ok_def flag_up_def)
    qed (use g' True assms(2) in auto)
  qed
  ultimately show ?thesis by simp
qed

text \<open>
  Worse, \<^verbatim>\<open>Run\<close> can return with the flag still set: after the gRPC server failed, the
  three goroutines of the group can end before the one outside it gets to clear the flag.
\<close>

lemma finished_still_ready:
  "\<exists>w. runs example_env example_driver (Finished (Some not_found), w) \<and> run_state Probe w = (True, w)"
proof -
  let ?a = "serving_start\<lparr>stopper := StopWaits\<rparr>"
  let ?b = "?a\<lparr>grpc_serve := ServeCalled\<rparr>"
  let ?c = "?b\<lparr>grpc_serve := ServeReturned, results := results ?b @ [Some not_found]\<rparr>"
  let ?d = "?c\<lparr>cancelled := True\<rparr>"
  let ?e = "?d\<lparr>http_shutdown := ShutdownCalled\<rparr>"
  let ?f = "?e\<lparr>http_shutdown := ShutdownReturned, results := results ?e @ [None]\<rparr>"
  let ?g = "?f\<lparr>http_serve := ServeReturned, results := results ?f @ [http_result ErrServerClosed]\<rparr>"
  obtain w where w: "runs example_env example_driver (Serving serving_start, w)"
    using example_started by blast
  have "runs example_env example_driver (Serving ?a, w)"
    by (rule runs_go [OF w], rule go_step.stopper_spawned) (simp add: serving_start_def)
  then have "runs example_env example_driver (Serving ?b, w)"
    by (rule runs_go, intro go_step.grpc_serves) (simp_all add: serving_start_def grpc_stopped_def)
  then have "runs example_env example_driver (Serving ?c, w)"
    by (rule runs_go, intro go_step.grpc_failed) (simp_all add: grpc_stopped_def)
  then have "runs example_env example_driver (Serving ?d, w)" by (rule runs_cancel)
  then have "runs example_env example_driver (Serving ?e, w)"
    by (rule runs_go, intro go_step.shutdown_called) (simp_all add: serving_start_def)
  then have "runs example_env example_driver (Serving ?f, w)"
    by (rule runs_go, intro go_step.shutdown_returned) simp
  then have g: "runs example_env example_driver (Serving ?g, w)"
    by (rule runs_go, intro go_step.http_refuses) (simp_all add: serving_start_def)
  have "run_step example_env example_driver (Serving ?g, w) (Finished (first_error (results ?g)), w)"
    by (rule run_step.group_done) (simp add: serving_start_def)
  with g have "runs example_env example_driver (Finished (first_error (results ?g)), w)"
    by (rule runs.next_step)
  moreover have "first_error (results ?g) = Some not_found"
    by (simp add: serving_start_def first_error_def map_filter_simps)
  moreover have "ready w" using runs_ok [OF w] by (simp add: flag_up_def serving_start_def)
  ultimately show ?thesis by auto
qed

text \<open>
  And a stop that comes early looks like a failure: when the context is cancelled before the gRPC
  server was told to serve, \<^verbatim>\<open>Serve\<close> refuses to, and its error is the result of the run.
\<close>

lemma early_stop_fails:
  "\<exists>w. runs example_env example_driver (Finished (Some ErrServerStopped), w)"
proof -
  let ?a = "serving_start\<lparr>cancelled := True\<rparr>"
  let ?b = "?a\<lparr>stopper := StopWaits\<rparr>"
  let ?c = "?b\<lparr>stopper := ReadyCleared\<rparr>"
  let ?d = "?c\<lparr>stopper := StopCalled\<rparr>"
  let ?e = "?d\<lparr>grpc_serve := ServeReturned, results := results ?d @ [Some ErrServerStopped]\<rparr>"
  let ?f = "?e\<lparr>http_shutdown := ShutdownCalled\<rparr>"
  let ?g = "?f\<lparr>http_shutdown := ShutdownReturned, results := results ?f @ [None]\<rparr>"
  let ?h = "?g\<lparr>http_serve := ServeReturned, results := results ?g @ [http_result ErrServerClosed]\<rparr>"
  obtain w where w: "runs example_env example_driver (Serving serving_start, w)"
    using example_started by blast
  let ?w = "snd (run_state (set_ready False) w)"
  have "runs example_env example_driver (Serving ?b, w)"
    by (rule runs_go [OF runs_cancel [OF w]], rule go_step.stopper_spawned) (simp add: serving_start_def)
  then have "runs example_env example_driver (Serving ?c, ?w)"
    by (rule runs_go, intro go_step.ready_cleared) simp_all
  then have "runs example_env example_driver (Serving ?d, ?w)"
    by (rule runs_go, intro go_step.stop_called) simp
  then have "runs example_env example_driver (Serving ?e, ?w)"
    by (rule runs_go, intro go_step.grpc_refuses) (simp_all add: grpc_stopped_def serving_start_def)
  then have "runs example_env example_driver (Serving ?f, ?w)"
    by (rule runs_go, intro go_step.shutdown_called) (simp_all add: serving_start_def)
  then have "runs example_env example_driver (Serving ?g, ?w)"
    by (rule runs_go, intro go_step.shutdown_returned) simp
  then have h: "runs example_env example_driver (Serving ?h, ?w)"
    by (rule runs_go, intro go_step.http_refuses) (simp_all add: serving_start_def)
  have "run_step example_env example_driver (Serving ?h, ?w) (Finished (first_error (results ?h)), ?w)"
    by (rule run_step.group_done) (simp add: serving_start_def)
  with h have "runs example_env example_driver (Finished (first_error (results ?h)), ?w)"
    by (rule runs.next_step)
  moreover have "first_error (results ?h) = Some ErrServerStopped"
    by (simp add: serving_start_def first_error_def map_filter_simps)
  ultimately show ?thesis by auto
qed

subsection \<open>Stopping\<close>

text \<open>How many steps the goroutines still have to take.\<close>

definition steps_left :: "serving \<Rightarrow> nat" where
  "steps_left g =
     (case http_shutdown g of ShutdownWaits \<Rightarrow> 2 | ShutdownCalled \<Rightarrow> 1 | ShutdownReturned \<Rightarrow> 0) +
     (case stopper g of NotSpawned \<Rightarrow> 4 | StopWaits \<Rightarrow> 3 | ReadyCleared \<Rightarrow> 2 | StopCalled \<Rightarrow> 1
        | StopReturned \<Rightarrow> 0) +
     (case grpc_serve g of NotServing \<Rightarrow> 2 | ServeCalled \<Rightarrow> 1 | ServeReturned \<Rightarrow> 0) +
     (case http_serve g of NotServing \<Rightarrow> 2 | ServeCalled \<Rightarrow> 1 | ServeReturned \<Rightarrow> 0)"

lemma steps_left_bound: "steps_left g \<le> 10"
  by (simp add: steps_left_def split: shutdown_state.split stopper_state.split serve_state.split)

lemma go_step_steps_left: "go_step s s' \<Longrightarrow> steps_left (fst s') < steps_left (fst s)"
  by (induction rule: go_step.induct) (auto simp: steps_left_def grpc_stopped_def
      split: shutdown_state.split stopper_state.split serve_state.split)

lemma go_steps_left: "(go_step ^^ n) s s' \<Longrightarrow> n + steps_left (fst s') \<le> steps_left (fst s)"
proof (induction n arbitrary: s')
  case (Suc n)
  then obtain t where "(go_step ^^ n) s t" "go_step t s'" by auto
  with Suc.IH [of t] go_step_steps_left [of t s'] show ?case by simp
qed simp

text \<open>A cancelled run whose goroutines cannot move has all of them at their end.\<close>

lemma go_stuck:
  assumes "cancelled g" and "\<And>s. \<not> go_step (g, w) s"
  shows "http_shutdown g = ShutdownReturned" "stopper g = StopReturned"
    "grpc_serve g = ServeReturned" "http_serve g = ServeReturned"
proof -
  show sd: "http_shutdown g = ShutdownReturned"
    using assms go_step.shutdown_called go_step.shutdown_returned by (cases "http_shutdown g") blast+
  show st: "stopper g = StopReturned"
    using assms go_step.stopper_spawned go_step.ready_cleared go_step.stop_called
      go_step.stop_returned by (cases "stopper g") blast+
  have stopped: "grpc_stopped g" by (simp add: grpc_stopped_def st)
  show "grpc_serve g = ServeReturned"
    using assms(2) stopped go_step.grpc_refuses [of g w] go_step.grpc_returned [of g w]
    by (cases "grpc_serve g") blast+
  have closed: "http_shutdown g \<noteq> ShutdownWaits" "http_can_end g ErrServerClosed" by (simp_all add: sd)
  show "http_serve g = ServeReturned"
    using assms(2) closed go_step.http_refuses [of g w] go_step.http_returned [of g ErrServerClosed w]
    by (cases "http_serve g") blast+
qed

lemma go_maximal: "\<exists>s'. go_step\<^sup>*\<^sup>* s s' \<and> (\<forall>t. \<not> go_step s' t)"
proof (induction "steps_left (fst s)" arbitrary: s rule: less_induct)
  case less
  show ?case
  proof (cases "\<exists>t. go_step s t")
    case True
    then obtain t where "go_step s t" by blast
    with less [OF go_step_steps_left] show ?thesis by (meson converse_rtranclp_into_rtranclp)
  qed blast
qed

lemma run_steps_go: "go_step\<^sup>*\<^sup>* s s' \<Longrightarrow> (run_step env d)\<^sup>*\<^sup>* (Serving (fst s), snd s) (Serving (fst s'), snd s')"
proof (induction rule: rtranclp_induct)
  case (step t u)
  then have "run_step env d (Serving (fst t), snd t) (Serving (fst u), snd u)"
    by (intro run_step.goroutine) simp
  with step.IH show ?case by simp
qed simp

lemma runs_cancelled:
  assumes "(run_step env d)\<^sup>*\<^sup>* (Serving g, w) (Serving g', w')" and "runs env d (Serving g, w)" and "cancelled g"
  shows "runs env d (Serving g', w') \<and> cancelled g'"
proof -
  have "runs env d s \<and> (\<exists>h. fst s = Serving h \<and> cancelled h \<or> (\<exists>r. fst s = Finished r))"
    if "(run_step env d)\<^sup>*\<^sup>* (Serving g, w) s" for s
    using that
  proof (induction rule: rtranclp_induct)
    case (step t u)
    then have "runs env d u" by (blast intro: runs.next_step)
    with step.hyps(2) step.IH show ?case
      by (cases rule: run_step.cases) (auto dest: go_step_cancelled)
  qed (use assms in auto)
  from this [OF assms(1)] show ?thesis by auto
qed



end
