(* ===== verification/Command_Line.thy ===== *)
theory Command_Line
  imports Driver
begin

text \<open>
  \<^verbatim>\<open>main\<close> of \<^verbatim>\<open>cmd/yandex-csi-driver/main.go\<close> from its arguments: Go's package
  \<^verbatim>\<open>flag\<close> on the six flags the program defines, and what comes of a wrong argument.
\<close>

datatype flag_error = ErrHelp | FlagError string

text \<open>A text flag takes any value.\<close>

definition set_text_flag :: "string \<Rightarrow> string \<Rightarrow> flags \<Rightarrow> flags option" where
  "set_text_flag name v fl =
     (if name = ''endpoint'' then Some (fl\<lparr>fl_endpoint := v\<rparr>)
      else if name = ''folder-id'' then Some (fl\<lparr>fl_folderID := v\<rparr>)
      else if name = ''driver-name'' then Some (fl\<lparr>fl_driverName := v\<rparr>)
      else if name = ''address'' then Some (fl\<lparr>fl_address := v\<rparr>)
      else if name = ''cluster-uuid'' then Some (fl\<lparr>fl_clusterUUID := v\<rparr>)
      else None)"

text \<open>\<^verbatim>\<open>strconv.ParseBool\<close>.\<close>

definition ParseBool :: "string \<Rightarrow> bool option" where
  "ParseBool s =
     (if s \<in> {''1'', ''t'', ''T'', ''true'', ''TRUE'', ''True''} then Some True
      else if s \<in> {''0'', ''f'', ''F'', ''false'', ''FALSE'', ''False''} then Some False
      else None)"

text \<open>
  An argument is a flag when it starts with one or two dashes and has more than that; two dashes
  alone, a single dash and anything else end the flags. \<open>flag_body\<close> is what follows the dashes.
\<close>

definition flag_body :: "string \<Rightarrow> string option" where
  "flag_body s =
     (if \<not> HasPrefix s ''-'' \<or> length s < 2 then None
      else if \<not> HasPrefix s ''--'' then Some (drop 1 s)
      else if length s = 2 then None
      else Some (drop 2 s))"

text \<open>The name and, after the first equals sign, the value.\<close>

definition split_flag :: "string \<Rightarrow> string \<times> string option" where
  "split_flag body = (if CHR ''='' \<in> set body then map_prod id Some (Cut CHR ''='' body) else (body, None))"

fun flag_parse :: "(nat \<Rightarrow> bool) \<Rightarrow> flags \<Rightarrow> string list \<Rightarrow> flag_error + flags" where
  "flag_parse pr fl [] = Inr fl"
| "flag_parse pr fl (s # args) =
     (case flag_body s of
        None \<Rightarrow> Inr fl
      | Some body \<Rightarrow>
          if body = [] \<or> HasPrefix body ''-'' \<or> HasPrefix body ''='' then
            Inl (FlagError (''bad flag syntax: '' @ s))
          else (case split_flag body of (name, val) \<Rightarrow>
            if name = ''version'' then
              (case val of
                 None \<Rightarrow> flag_parse pr (fl\<lparr>fl_version := True\<rparr>) args
               | Some v \<Rightarrow>
                   (case ParseBool v of
                      None \<Rightarrow> Inl (FlagError (''invalid boolean value '' @ Quote pr v @ '' for -'' @
                        name @ '': parse error''))
                    | Some b \<Rightarrow> flag_parse pr (fl\<lparr>fl_version := b\<rparr>) args))
            else if set_text_flag name [] fl = None then
              if name \<in> {''help'', ''h''} then Inl ErrHelp
              else Inl (FlagError (''flag provided but not defined: -'' @ name))
            else
              (case val of
                 Some v \<Rightarrow> flag_parse pr (the (set_text_flag name v fl)) args
               | None \<Rightarrow>
                   (case args of
                      [] \<Rightarrow> Inl (FlagError (''flag needs an argument: -'' @ name))
                    | v # rest \<Rightarrow> flag_parse pr (the (set_text_flag name v fl)) rest))))"

text \<open>The flag set of a program exits on an error: with status 0 after help, with 2 otherwise.\<close>

datatype process_outcome = UsageExit nat string | Started main_outcome

definition main ::
  "('w, 'op) env \<Rightarrow> string \<Rightarrow> string \<Rightarrow> string \<Rightarrow> string \<Rightarrow> string \<Rightarrow> string list \<Rightarrow>
   ('w, 'op, process_outcome) io" where
  "main env addr version commit gitTreeState authKeys args =
     (case flag_parse (unicode_IsPrint env) default_flags args of
        Inl ErrHelp \<Rightarrow> State_Monad.return (UsageExit 0 [])
      | Inl (FlagError t) \<Rightarrow> State_Monad.return (UsageExit 2 t)
      | Inr fl \<Rightarrow> do {
          res \<leftarrow> main_program env addr version commit gitTreeState authKeys fl;
          State_Monad.return (Started res)
        })"

subsection \<open>Reading the flags back\<close>

definition flag_args :: "flags \<Rightarrow> string list" where
  "flag_args fl = [''--endpoint='' @ fl_endpoint fl, ''--folder-id='' @ fl_folderID fl,
     ''--driver-name='' @ fl_driverName fl, ''--address='' @ fl_address fl,
     ''--cluster-uuid='' @ fl_clusterUUID fl, ''--version='' @ (if fl_version fl then ''true'' else ''false'')]"

definition separate_args :: "flags \<Rightarrow> string list" where
  "separate_args fl = [''-endpoint'', fl_endpoint fl, ''-folder-id'', fl_folderID fl,
     ''-driver-name'', fl_driverName fl, ''-address'', fl_address fl,
     ''-cluster-uuid'', fl_clusterUUID fl] @ (if fl_version fl then [''-version''] else [])"

text \<open>
  The flags of the program survive the command line: whatever the six of them are, written as
  \<^verbatim>\<open>--name=value\<close>, or as separate arguments with the version flag only when it is set,
  they are read back as they were; a value may be empty, hold equals signs or start with a dash.
\<close>

lemma flags_read_back:
  "flag_parse pr default_flags (flag_args fl) = Inr fl"
  "flag_parse pr default_flags (separate_args fl) = Inr fl"
  by (simp_all add: flag_args_def separate_args_def flag_body_def split_flag_def Cut_def
      set_text_flag_def ParseBool_def default_flags_def)

text \<open>What the command line can come to before the driver is made.\<close>

lemma flag_parse_errors:
  "flag_parse pr fl [''--help''] = Inl ErrHelp" "flag_parse pr fl [''-h''] = Inl ErrHelp"
  "flag_parse pr fl [''--endpoint''] = Inl (FlagError ''flag needs an argument: -endpoint'')"
  "flag_parse pr fl [''--node''] = Inl (FlagError ''flag provided but not defined: -node'')"
  "flag_parse pr fl [''---version''] = Inl (FlagError ''bad flag syntax: ---version'')"
  "flag_parse pr fl (''--'' # args) = Inr fl" "flag_parse pr fl (''start'' # args) = Inr fl"
  by (simp_all add: flag_body_def split_flag_def set_text_flag_def)

end
