(* ===== verification/Cloud.thy ===== *)
theory Cloud
  imports Controller View
begin

text \<open>
  What the cloud is to the controller service, seen from above: the disks there are and the
  instances they are attached to. The type \<open>cloud\<close> is that view, \<open>changes\<close> says what each of the
  five operations of the Compute API does to it, and \<open>compute_contract\<close> states the documented
  behaviour of the API in these terms: reading changes nothing and answers the truth, an operation
  that reports its result has taken place, one that reports an error has or has not. It is a
  hypothesis of the theorems of \<open>Controller_Refinement\<close>; \<open>Model_Cloud\<close> is a cloud that meets it.
\<close>

subsection \<open>The cloud seen from above\<close>

text \<open>Each disk lies in a folder, the first component.\<close>

record cloud =
  disks :: "string \<Rightarrow> (string \<times> disk) option"
  instances :: "string set"

definition disk_named :: "cloud \<Rightarrow> string \<Rightarrow> string \<Rightarrow> disk \<Rightarrow> bool" where
  "disk_named A folder name vol \<longleftrightarrow>
     disks A (disk_Id vol) = Some (folder, vol) \<and> disk_Name vol = name"

definition set_disk :: "cloud \<Rightarrow> string \<Rightarrow> disk \<Rightarrow> cloud" where
  "set_disk A folder vol = A\<lparr>disks := (disks A)(disk_Id vol \<mapsto> (folder, vol))\<rparr>"

definition drop_disk :: "cloud \<Rightarrow> string \<Rightarrow> cloud" where
  "drop_disk A i = A\<lparr>disks := (disks A)(i := None)\<rparr>"

lemma cloud_update_simps [simp]:
  "disks (set_disk A f vol) = (disks A)(disk_Id vol \<mapsto> (f, vol))"
  "disks (drop_disk A i) = (disks A)(i := None)"
  "instances (set_disk A f vol) = instances A" "instances (drop_disk A i) = instances A"
  by (simp_all add: set_disk_def drop_disk_def)

datatype change =
    AddDisk create_disk_request
  | DropDisk string
  | ResizeDisk string int64
  | AttachTo string string  \<comment> \<open>the disk and the instance\<close>
  | DetachFrom string string

text \<open>\<open>changes ch A msg A'\<close>: the operation \<open>ch\<close> takes the cloud from \<open>A\<close> to \<open>A'\<close> and answers \<open>msg\<close>.\<close>

fun changes :: "change \<Rightarrow> cloud \<Rightarrow> message \<Rightarrow> cloud \<Rightarrow> bool" where
  "changes (AddDisk r) A msg A' \<longleftrightarrow> (\<exists>vol. msg = DiskMessage vol \<and>
     disks A (disk_Id vol) = None \<and> disk_Name vol = cdr_Name r \<and> disk_Size vol = cdr_Size r \<and>
     (cdr_BlockSize r \<noteq> 0 \<longrightarrow> existing_block_size vol = cdr_BlockSize r) \<and> disk_ZoneId vol = cdr_ZoneId r \<and>
     disk_InstanceIds vol = [] \<and> A' = set_disk A (cdr_FolderId r) vol)"
| "changes (DropDisk i) A msg A' \<longleftrightarrow> A' = drop_disk A i"
| "changes (ResizeDisk i n) A msg A' \<longleftrightarrow>
     (\<exists>f vol. disks A i = Some (f, vol) \<and> A' = set_disk A f (vol\<lparr>disk_Size := n\<rparr>))"
| "changes (AttachTo i inst) A msg A' \<longleftrightarrow> (\<exists>f vol. disks A i = Some (f, vol) \<and>
     A' = set_disk A f (vol\<lparr>disk_InstanceIds := disk_InstanceIds vol @ [inst]\<rparr>))"
| "changes (DetachFrom i inst) A msg A' \<longleftrightarrow> (\<exists>f vol. disks A i = Some (f, vol) \<and>
     A' = set_disk A f (vol\<lparr>disk_InstanceIds := removeAll inst (disk_InstanceIds vol)\<rparr>))"

subsection \<open>The contract of the Compute API\<close>

text \<open>An operation of the API from its start to its response.\<close>

definition operate ::
  "('w, 'op) env \<Rightarrow> ('w, go_error + 'op) state \<Rightarrow> ('w, go_error + message) state" where
  "operate env start = do {
     started \<leftarrow> start;
     case sdk_WrapOperation env started of
       Inl err \<Rightarrow> State_Monad.return (Inl err)
     | Inr op \<Rightarrow> do {
         waited \<leftarrow> op_Wait env op;
         case waited of
           Some err \<Rightarrow> State_Monad.return (Inl err)
         | None \<Rightarrow> op_Response env op
       }
   }"

text \<open>
  An operation that reports success has changed the cloud; one that reports an error has changed
  it or not. Deleting fails with \<^verbatim>\<open>NotFound\<close> only when there is no such disk.
\<close>

fun refused_truly :: "change \<Rightarrow> go_error \<Rightarrow> cloud \<Rightarrow> bool" where
  "refused_truly (DropDisk i) err A \<longleftrightarrow> (status_Code err = NotFound \<longrightarrow> disks A i = None)"
| "refused_truly ch err A \<longleftrightarrow> True"

definition performs ::
  "('w, 'op) env \<Rightarrow> ('w \<Rightarrow> cloud) \<Rightarrow> ('w, go_error + 'op) state \<Rightarrow> change \<Rightarrow> bool" where
  "performs env view start ch \<longleftrightarrow>
     (\<forall>s r s'. run_state (operate env start) s = (r, s') \<longrightarrow>
       (case r of
          Inr msg \<Rightarrow> changes ch (view s) msg (view s')
        | Inl err \<Rightarrow> (view s' = view s \<or> (\<exists>msg. changes ch (view s) msg (view s'))) \<and>
            refused_truly ch err (view s')))"

text \<open>What an answer says of the cloud: a list of the disks of one name in a folder, a disk, an instance.\<close>

definition list_true ::
  "(nat \<Rightarrow> bool) \<Rightarrow> list_disks_request \<Rightarrow> cloud \<Rightarrow> go_error + list_disks_response \<Rightarrow> bool" where
  "list_true pr r A res \<longleftrightarrow> (case res of Inl err \<Rightarrow> True | Inr resp \<Rightarrow>
     (\<forall>name. ldr_Filter r = ''name='' @ Quote pr name \<longrightarrow>
       distinct (ldr_Disks resp) \<and>
       (\<forall>vol. vol \<in> set (ldr_Disks resp) \<longleftrightarrow> disk_named A (ldr_FolderId r) name vol)))"

definition disk_true :: "string \<Rightarrow> cloud \<Rightarrow> go_error + disk \<Rightarrow> bool" where
  "disk_true i A res \<longleftrightarrow> (case res of
     Inl err \<Rightarrow> status_Code err \<noteq> OK \<and> (status_Code err = NotFound \<longrightarrow> disks A i = None)
   | Inr vol \<Rightarrow> \<exists>f. disks A i = Some (f, vol))"

definition instance_true :: "string \<Rightarrow> cloud \<Rightarrow> go_error + instance_info \<Rightarrow> bool" where
  "instance_true i A res \<longleftrightarrow> (case res of
     Inl err \<Rightarrow> status_Code err \<noteq> OK \<and> (status_Code err = NotFound \<longrightarrow> i \<notin> instances A)
   | Inr inst \<Rightarrow> i \<in> instances A)"

definition compute_contract :: "('w, 'op) env \<Rightarrow> ('w \<Rightarrow> cloud) \<Rightarrow> bool" where
  "compute_contract env view \<longleftrightarrow>
     (\<forall>s i f vol. disks (view s) i = Some (f, vol) \<longrightarrow> disk_Id vol = i) \<and>
     (\<forall>r. reads view (api_Disk_List env r) (list_true (unicode_IsPrint env) r)) \<and>
     (\<forall>i. reads view (api_Disk_Get env i) (disk_true i)) \<and>
     (\<forall>i. reads view (api_Instance_Get env i) (instance_true i)) \<and>
     (\<forall>r. performs env view (api_Disk_Create env r) (AddDisk r)) \<and>
     (\<forall>i. performs env view (api_Disk_Delete env i) (DropDisk i)) \<and>
     (\<forall>i n. performs env view (api_Disk_Update env (update_request i n)) (ResizeDisk i n)) \<and>
     (\<forall>r. performs env view (api_Instance_AttachDisk env r)
       (AttachTo (adr_DiskId r) (adr_InstanceId r))) \<and>
     (\<forall>r. performs env view (api_Instance_DetachDisk env r)
       (DetachFrom (ddr_DiskId r) (ddr_InstanceId r)))"

lemma compute_contractD:
  assumes "compute_contract env view"
  shows "disks (view s) i = Some (f, vol) \<Longrightarrow> disk_Id vol = i"
    and "reads view (api_Disk_List env r1) (list_true (unicode_IsPrint env) r1)"
    and "reads view (api_Disk_Get env i) (disk_true i)"
    and "reads view (api_Instance_Get env i) (instance_true i)"
    and "performs env view (api_Disk_Create env r2) (AddDisk r2)"
    and "performs env view (api_Disk_Delete env i) (DropDisk i)"
    and "performs env view (api_Disk_Update env (update_request i n)) (ResizeDisk i n)"
    and "performs env view (api_Instance_AttachDisk env r3)
      (AttachTo (adr_DiskId r3) (adr_InstanceId r3))"
    and "performs env view (api_Instance_DetachDisk env r4)
      (DetachFrom (ddr_DiskId r4) (ddr_InstanceId r4))"
  using assms unfolding compute_contract_def by blast+

subsection \<open>Running a handler against the cloud\<close>

lemma run_WaitForResult:
  "run_state (WaitForResult env (call ev m)) w = ((r, x), w') \<Longrightarrow>
   run_state (operate env m) (ext w) = (r, ext w')"
  by (auto simp: WaitForResult_def operate_def run_simps Operation_Wait_def Operation_Response_def
      split: prod.splits sum.splits option.splits)

lemma view_wp_performs:
  assumes "performs env view m ch"
    and "\<And>msg x B. changes ch A msg B \<Longrightarrow> Q (Inr msg, x) B"
    and "\<And>err x. refused_truly ch err A \<Longrightarrow> Q (Inl err, x) A"
    and "\<And>err x msg B. changes ch A msg B \<Longrightarrow> refused_truly ch err B \<Longrightarrow> Q (Inl err, x) B"
  shows "view_wp view A (WaitForResult env (call ev m)) Q"
proof (rule view_wpI)
  fix w r w'
  assume A: "view (ext w) = A" and run: "run_state (WaitForResult env (call ev m)) w = (r, w')"
  obtain res x where r: "r = (res, x)" by (cases r)
  from assms(1) A run_WaitForResult [OF run [unfolded r]]
  have "case res of
      Inr msg \<Rightarrow> changes ch A msg (view (ext w'))
    | Inl err \<Rightarrow> (view (ext w') = A \<or> (\<exists>msg. changes ch A msg (view (ext w')))) \<and>
        refused_truly ch err (view (ext w'))"
    by (auto simp: performs_def)
  with assms(2-4) r show "Q r (view (ext w'))" by (auto split: sum.splits)
qed

text \<open>The calls of the controller, under the contract.\<close>

lemma view_wp_calls:
  assumes "compute_contract env view"
  shows "(\<And>r. list_true (unicode_IsPrint env) r1 A r \<Longrightarrow> Q1 r A) \<Longrightarrow>
      view_wp view A (Disk_List env r1) Q1"
    and "(\<And>r. disk_true i A r \<Longrightarrow> Q2 r A) \<Longrightarrow> view_wp view A (Disk_Get env i) Q2"
    and "(\<And>r. instance_true i A r \<Longrightarrow> Q3 r A) \<Longrightarrow> view_wp view A (Instance_Get env i) Q3"
  unfolding Disk_List_def Disk_Get_def Instance_Get_def
  by (rule view_wp_reads, rule compute_contractD [OF assms], blast)+

text \<open>Each rule takes the contract first.\<close>

lemmas view_wp_operations =
  view_wp_performs [OF compute_contractD(5) [of env _ r2], where ev = "CreateDisk r2",
    folded Disk_Create_def]
  view_wp_performs [OF compute_contractD(6) [of env _ i], where ev = "DeleteDisk i",
    folded Disk_Delete_def]
  view_wp_performs [OF compute_contractD(7) [of env _ i n],
    where ev = "UpdateDisk (update_request i n)", folded Disk_Update_def]
  view_wp_performs [OF compute_contractD(8) [of env _ r3], where ev = "AttachDisk r3",
    folded Instance_AttachDisk_def]
  view_wp_performs [OF compute_contractD(9) [of env _ r4], where ev = "DetachDisk r4",
    folded Instance_DetachDisk_def]
  for env :: "('w, 'op) env" and r2 i n r3 r4

end
