(* ===== verification/Model_Cloud.thy ===== *)
theory Model_Cloud
  imports Cloud
begin

text \<open>
  A cloud that keeps the contract of \<open>Cloud\<close>, for the examples: its state is the list of the disks
  with their folders, a later version of a disk in front of the earlier ones; there are two
  instances; an operation takes place when it is started and its result is itself the operation.
  Changing a disk that is not there fails with \<^verbatim>\<open>NotFound\<close>.
\<close>

type_synonym model_state = "(string \<times> disk) list"

definition lookup :: "model_state \<Rightarrow> string \<Rightarrow> (string \<times> disk) option" where
  "lookup s i = map_of (map (\<lambda>(f, vol). (disk_Id vol, (f, vol))) s) i"

definition model_instances :: "string list" where
  "model_instances = [''node-1'', ''node-2'']"

definition model_view :: "model_state \<Rightarrow> cloud" where
  "model_view s = \<lparr>disks = lookup s, instances = set model_instances\<rparr>"

definition model_IsPrint :: "nat \<Rightarrow> bool" where
  "model_IsPrint c \<longleftrightarrow> 32 \<le> c \<and> c < 127"

definition model_listed :: "list_disks_request \<Rightarrow> model_state \<Rightarrow> disk list" where
  "model_listed r s = remdups (map snd (filter (\<lambda>(f, vol).
     lookup s (disk_Id vol) = Some (f, vol) \<and> f = ldr_FolderId r \<and>
     (ldr_Filter r = [] \<or> ldr_Filter r = ''name='' @ Quote model_IsPrint (disk_Name vol))) s))"

definition fresh_id :: "model_state \<Rightarrow> string" where
  "fresh_id s = replicate (Suc (sum_list (map (\<lambda>(f, vol). length (disk_Id vol)) s))) (CHR ''d'')"

definition new_disk :: "create_disk_request \<Rightarrow> model_state \<Rightarrow> disk" where
  "new_disk r s = \<lparr>disk_Id = fresh_id s, disk_Name = cdr_Name r, disk_Size = cdr_Size r,
     disk_BlockSize = (if cdr_BlockSize r = 0 then defaultBlockSizeInBytes else cdr_BlockSize r),
     disk_ZoneId = cdr_ZoneId r, disk_InstanceIds = []\<rparr>"

definition done_message :: message where
  "done_message = OtherMessage ''done''"

text \<open>Changing a disk that is there.\<close>

definition model_change ::
  "string \<Rightarrow> (disk \<Rightarrow> disk) \<Rightarrow> (model_state, go_error + message) state" where
  "model_change i upd = State (\<lambda>s. case lookup s i of
     None \<Rightarrow> (Inl not_found, s)
   | Some (f, vol) \<Rightarrow> (Inr done_message, (f, upd vol) # s))"

definition model_env :: "(model_state, message) env" where
  "model_env =
     \<lparr>unicode_IsPrint = model_IsPrint,
      sets_List = (\<lambda>A. if A = {} then [] else [''violation'']),
      fmt_disks = (\<lambda>ds. []),
      json_error = (\<lambda>s. ''invalid JSON''),
      api_Disk_List = (\<lambda>r. State (\<lambda>s.
        (Inr \<lparr>ldr_Disks = model_listed r s, ldr_NextPageToken = []\<rparr>, s))),
      api_Disk_Get = (\<lambda>i. State (\<lambda>s. (case lookup s i of
        None \<Rightarrow> Inl not_found | Some (f, vol) \<Rightarrow> Inr vol, s))),
      api_Disk_Create = (\<lambda>r. State (\<lambda>s.
        (Inr (DiskMessage (new_disk r s)), (cdr_FolderId r, new_disk r s) # s))),
      api_Disk_Delete = (\<lambda>i. State (\<lambda>s. case lookup s i of
        None \<Rightarrow> (Inl not_found, s)
      | Some x \<Rightarrow> (Inr done_message, filter (\<lambda>(f, vol). disk_Id vol \<noteq> i) s))),
      api_Disk_Update = (\<lambda>r. model_change (udr_DiskId r) (\<lambda>vol. vol\<lparr>disk_Size := udr_Size r\<rparr>)),
      api_Instance_Get = (\<lambda>i. State_Monad.return
        (if i \<in> set model_instances then Inr example_instance else Inl not_found)),
      api_Instance_AttachDisk = (\<lambda>r. model_change (adr_DiskId r)
        (\<lambda>vol. vol\<lparr>disk_InstanceIds := disk_InstanceIds vol @ [adr_InstanceId r]\<rparr>)),
      api_Instance_DetachDisk = (\<lambda>r. model_change (ddr_DiskId r)
        (\<lambda>vol. vol\<lparr>disk_InstanceIds := removeAll (ddr_InstanceId r) (disk_InstanceIds vol)\<rparr>)),
      sdk_WrapOperation = (\<lambda>r. r),
      op_Wait = (\<lambda>x. State_Monad.return None),
      op_Response = (\<lambda>x. State_Monad.return (Inr x)),
      api_ApiEndpoint_List = State_Monad.return None,
      os_LookPath = (\<lambda>c. State_Monad.return None),
      os_Exec = (\<lambda>c args. State_Monad.return (example_exec c args)),
      k8s_Exec = (\<lambda>c args. State_Monad.return ([], None)),
      os_MkdirAll = (\<lambda>p n. State_Monad.return None),
      os_OpenCreate = (\<lambda>p n. State_Monad.return None),
      os_Stat = (\<lambda>p. State_Monad.return (Inr 0x41ED)),
      os_Statfs = (\<lambda>p. State_Monad.return
        (Inr \<lparr>Bsize = 4096, Blocks = 100, Bfree = 40, Bavail = 30, Files = 10, Ffree = 4\<rparr>)),
      os_EvalSymlinks = (\<lambda>p. State_Monad.return (Inr ''/dev/vdb'')),
      k8s_DeviceNameFromMount = (\<lambda>p. State_Monad.return (Inr ''/dev/vdb'')),
      k8s_ResizeFs = (\<lambda>dev p. State_Monad.return (Inr True)),
      net_HttpGet = (\<lambda>u. State_Monad.return (Inr \<lparr>StatusCode = 200, Body = Inr ''{}''\<rparr>)),
      sdk_Build = (\<lambda>c. State_Monad.return None),
      os_RemoveFile = (\<lambda>p. State_Monad.return None),
      net_Listener = (\<lambda>n a. State_Monad.return None),
      json_iamKey = (\<lambda>s. Inr s),
      sdk_ServiceAccountKey = (\<lambda>k. Inr k),
      url_bracketed = (\<lambda>s. Inl ''invalid host'')\<rparr>"

lemma model_env_simps [simp]:
  "unicode_IsPrint model_env = model_IsPrint"
  "sets_List model_env V = (if V = {} then [] else [''violation''])"
  "api_Disk_List model_env r1 =
     State (\<lambda>s. (Inr \<lparr>ldr_Disks = model_listed r1 s, ldr_NextPageToken = []\<rparr>, s))"
  "api_Disk_Get model_env i = State (\<lambda>s. (case lookup s i of
     None \<Rightarrow> Inl not_found | Some (f, vol) \<Rightarrow> Inr vol, s))"
  "api_Disk_Create model_env r2 = State (\<lambda>s.
     (Inr (DiskMessage (new_disk r2 s)), (cdr_FolderId r2, new_disk r2 s) # s))"
  "api_Disk_Delete model_env i = State (\<lambda>s. case lookup s i of
     None \<Rightarrow> (Inl not_found, s)
   | Some x \<Rightarrow> (Inr done_message, filter (\<lambda>(f, vol). disk_Id vol \<noteq> i) s))"
  "api_Disk_Update model_env r3 =
     model_change (udr_DiskId r3) (\<lambda>vol. vol\<lparr>disk_Size := udr_Size r3\<rparr>)"
  "api_Instance_Get model_env i = State_Monad.return
     (if i \<in> set model_instances then Inr example_instance else Inl not_found)"
  "api_Instance_AttachDisk model_env r4 = model_change (adr_DiskId r4)
     (\<lambda>vol. vol\<lparr>disk_InstanceIds := disk_InstanceIds vol @ [adr_InstanceId r4]\<rparr>)"
  "api_Instance_DetachDisk model_env r5 = model_change (ddr_DiskId r5)
     (\<lambda>vol. vol\<lparr>disk_InstanceIds := removeAll (ddr_InstanceId r5) (disk_InstanceIds vol)\<rparr>)"
  "sdk_WrapOperation model_env x = x"
  "op_Wait model_env m = State_Monad.return None"
  "op_Response model_env m = State_Monad.return (Inr m)"
  by (simp_all add: model_env_def)

subsection \<open>The contract holds\<close>

lemma lookup_simps [simp]:
  "lookup [] i = None"
  "lookup ((f, vol) # s) i = (if disk_Id vol = i then Some (f, vol) else lookup s i)"
  by (auto simp: lookup_def)

lemma lookup_Some: "lookup s i = Some (f, vol) \<Longrightarrow> disk_Id vol = i \<and> (f, vol) \<in> set s"
  by (induction s) (auto split: if_splits)

lemma lookup_filter:
  "lookup (filter (\<lambda>(f, vol). disk_Id vol \<noteq> i) s) = (lookup s)(i := None)"
  by (rule ext, induction s) (auto split: if_splits)

lemma length_lookup:
  "lookup s i = Some x \<Longrightarrow> length i \<le> sum_list (map (\<lambda>(f, vol). length (disk_Id vol)) s)"
  by (induction s) (auto split: if_splits)

lemma lookup_fresh: "lookup s (fresh_id s) = None"
  using length_lookup [of s "fresh_id s"] by (cases "lookup s (fresh_id s)") (auto simp: fresh_id_def)

lemma model_view_simps [simp]:
  "disks (model_view s) = lookup s" "instances (model_view s) = set model_instances"
  by (simp_all add: model_view_def)

lemma set_disk_model: "set_disk (model_view s) f vol = model_view ((f, vol) # s)"
  by (auto simp: set_disk_def model_view_def fun_eq_iff)

lemma drop_disk_model:
  "drop_disk (model_view s) i = model_view (filter (\<lambda>(f, vol). disk_Id vol \<noteq> i) s)"
  by (simp add: drop_disk_def model_view_def lookup_filter)

lemma not_found_code [simp]: "status_Code not_found = NotFound"
  by (simp add: not_found_def)

lemma model_performs_change:
  assumes "\<And>s f vol. lookup s i = Some (f, vol) \<Longrightarrow>
    changes ch (model_view s) done_message (model_view ((f, upd vol) # s))"
    and "\<And>err A. refused_truly ch err A"
  shows "performs model_env model_view (model_change i upd) ch"
  using assms by (auto simp: performs_def operate_def model_change_def run_simps
      split: option.splits prod.splits sum.splits)

lemma set_model_listed:
  "vol \<in> set (model_listed r s) \<longleftrightarrow> lookup s (disk_Id vol) = Some (ldr_FolderId r, vol) \<and>
     (ldr_Filter r = [] \<or> ldr_Filter r = ''name='' @ Quote model_IsPrint (disk_Name vol))"
  using lookup_Some [of s "disk_Id vol" "ldr_FolderId r" vol]
  by (force simp: model_listed_def)

lemma model_contract: "compute_contract model_env model_view"
  unfolding compute_contract_def
proof (intro conjI allI impI)
  fix s i f vol
  assume "disks (model_view s) i = Some (f, vol)"
  then show "disk_Id vol = i" using lookup_Some by fastforce
next
  fix r
  show "reads model_view (api_Disk_List model_env r) (list_true (unicode_IsPrint model_env) r)"
    by (auto simp: reads_def list_true_def disk_named_def set_model_listed)
      (simp add: model_listed_def)
next
  fix i
  show "reads model_view (api_Disk_Get model_env i) (disk_true i)"
    by (auto simp: reads_def disk_true_def split: option.splits)
  show "reads model_view (api_Instance_Get model_env i) (instance_true i)"
    by (auto simp: reads_def instance_true_def)
  show "performs model_env model_view (api_Disk_Delete model_env i) (DropDisk i)"
    by (auto simp: performs_def operate_def run_simps drop_disk_model split: option.splits)
next
  fix r
  show "performs model_env model_view (api_Disk_Create model_env r) (AddDisk r)"
    by (auto simp: performs_def operate_def run_simps set_disk_model new_disk_def lookup_fresh
        existing_block_size_def)
next
  fix i n
  show "performs model_env model_view (api_Disk_Update model_env (update_request i n)) (ResizeDisk i n)"
    by (auto simp: update_request_def set_disk_model dest: lookup_Some intro!: model_performs_change)
next
  fix r :: attach_disk_request
  show "performs model_env model_view (api_Instance_AttachDisk model_env r)
      (AttachTo (adr_DiskId r) (adr_InstanceId r))"
    by (auto simp: set_disk_model intro!: model_performs_change)
next
  fix r :: detach_disk_request
  show "performs model_env model_view (api_Instance_DetachDisk model_env r)
      (DetachFrom (ddr_DiskId r) (ddr_InstanceId r))"
    by (auto simp: set_disk_model intro!: model_performs_change)
qed

end
