(* ===== verification/Controller_Refinement.thy ===== *)
theory Controller_Refinement
  imports Model_Cloud Lifecycle
begin

text \<open>
  The controller service refines an abstract volume manager. \<open>csi_step\<close> is what CSI asks of one
  controller request, as a step on the cloud seen from above: it is refused without effect, it
  makes its one guarded change, or it finds the change already made. Under the contract of the
  Compute API every handler of the code does one of these, so what holds of all runs of the volume
  manager holds of all runs of the driver.
\<close>

subsection \<open>The volume manager\<close>

inductive csi_step ::
  "('w, 'op) env \<Rightarrow> driver \<Rightarrow> rpc \<Rightarrow> cloud \<Rightarrow> code option \<Rightarrow> cloud \<Rightarrow> bool"
  for env d
where
  refused: "e \<noteq> OK \<Longrightarrow> csi_step env d rpc A (Some e) A"
| create: "CreateVolume_params env req = Inr p \<Longrightarrow>
    (\<And>vol. \<not> disk_named A (drv_folderID d) (cvr_Name req) vol) \<Longrightarrow>
    changes (AddDisk (CreateVolume_createRequest d req p)) A msg A' \<Longrightarrow> e \<in> {OK, Internal} \<Longrightarrow>
    csi_step env d (Rpc_CreateVolume req) A (Some e) A'"
| create_again: "CreateVolume_params env req = Inr p \<Longrightarrow>
    (\<And>vol'. disk_named A (drv_folderID d) (cvr_Name req) vol' \<longleftrightarrow> vol' = vol) \<Longrightarrow>
    disk_Size vol = cp_size p \<Longrightarrow> existing_block_size vol = cp_blockSize p \<Longrightarrow>
    csi_step env d (Rpc_CreateVolume req) A (Some OK) A"
| delete: "i \<noteq> [] \<Longrightarrow> changes (DropDisk i) A msg A' \<Longrightarrow> e \<in> {OK, Internal} \<Longrightarrow>
    csi_step env d (Rpc_DeleteVolume i) A (Some e) A'"
| delete_again: "disks A i = None \<Longrightarrow> csi_step env d (Rpc_DeleteVolume i) A (Some OK) A"
| publish: "ControllerPublishVolume_check req = None \<Longrightarrow>
    disks A (cpr_VolumeId req) = Some (f, vol) \<Longrightarrow> disk_InstanceIds vol = [] \<Longrightarrow>
    cpr_NodeId req \<in> instances A \<Longrightarrow>
    changes (AttachTo (cpr_VolumeId req) (cpr_NodeId req)) A msg A' \<Longrightarrow> e \<in> {OK, Internal} \<Longrightarrow>
    csi_step env d (Rpc_ControllerPublishVolume req) A (Some e) A'"
| publish_again: "ControllerPublishVolume_check req = None \<Longrightarrow>
    disks A (cpr_VolumeId req) = Some (f, vol) \<Longrightarrow> cpr_NodeId req \<in> set (disk_InstanceIds vol) \<Longrightarrow>
    csi_step env d (Rpc_ControllerPublishVolume req) A (Some OK) A"
| unpublish: "disks A (cur_VolumeId req) = Some (f, vol) \<Longrightarrow> disk_InstanceIds vol \<noteq> [] \<Longrightarrow>
    cur_NodeId req \<in> instances A \<Longrightarrow>
    changes (DetachFrom (cur_VolumeId req) (cur_NodeId req)) A msg A' \<Longrightarrow> e \<in> {OK, Internal} \<Longrightarrow>
    csi_step env d (Rpc_ControllerUnpublishVolume req) A (Some e) A'"
| unpublish_again: "disks A (cur_VolumeId req) = None \<or> cur_NodeId req \<notin> instances A \<or>
    (\<exists>f vol. disks A (cur_VolumeId req) = Some (f, vol) \<and> disk_InstanceIds vol = []) \<Longrightarrow>
    csi_step env d (Rpc_ControllerUnpublishVolume req) A (Some OK) A"
| expand: "disks A (cer_VolumeId req) = Some (f, vol) \<Longrightarrow>
    extractStorage (cer_CapacityRange req) (maximumVolumeSize (existing_block_size vol)) = Inr n \<Longrightarrow>
    sint (disk_Size vol) < sint n \<Longrightarrow>
    changes (ResizeDisk (cer_VolumeId req) n) A msg A' \<Longrightarrow> e \<in> {OK, Internal} \<Longrightarrow>
    csi_step env d (Rpc_ControllerExpandVolume req) A (Some e) A'"
| expand_again: "disks A (cer_VolumeId req) = Some (f, vol) \<Longrightarrow>
    extractStorage (cer_CapacityRange req) (maximumVolumeSize (existing_block_size vol)) = Inr n \<Longrightarrow>
    sint n \<le> sint (disk_Size vol) \<Longrightarrow>
    csi_step env d (Rpc_ControllerExpandVolume req) A (Some OK) A"
| listed: "csi_step env d (Rpc_ListVolumes req) A (Some OK) A"

fun is_controller_rpc :: "rpc \<Rightarrow> bool" where
  "is_controller_rpc (Rpc_CreateVolume req) \<longleftrightarrow> True"
| "is_controller_rpc (Rpc_DeleteVolume i) \<longleftrightarrow> True"
| "is_controller_rpc (Rpc_ControllerPublishVolume req) \<longleftrightarrow> True"
| "is_controller_rpc (Rpc_ControllerUnpublishVolume req) \<longleftrightarrow> True"
| "is_controller_rpc (Rpc_ListVolumes req) \<longleftrightarrow> True"
| "is_controller_rpc (Rpc_ControllerExpandVolume req) \<longleftrightarrow> True"
| "is_controller_rpc _ \<longleftrightarrow> False"

subsection \<open>Each handler refines its request\<close>

lemma list_true_named:
  "list_true (unicode_IsPrint env) (CreateVolume_listRequest env d req) A (Inr resp) \<Longrightarrow>
   distinct (ldr_Disks resp) \<and>
   (\<forall>vol. vol \<in> set (ldr_Disks resp) \<longleftrightarrow> disk_named A (drv_folderID d) (cvr_Name req) vol)"
  by (auto simp: list_true_def CreateVolume_listRequest_def)

lemma params_refused_code:
  "CreateVolume_params env req = Inl f \<Longrightarrow> \<exists>e. fault_code f = Some e \<and> e \<noteq> OK"
  using CreateVolume_params_refused [of env req f] by auto

lemma publish_refused_code:
  "ControllerPublishVolume_check req = Some f \<Longrightarrow> \<exists>e. fault_code f = Some e \<and> e \<noteq> OK"
  by (auto simp: ControllerPublishVolume_check_def split: if_splits)

lemma refines_existing:
  assumes "CreateVolume_params env req = Inr p"
    and "distinct (vol # rest)"
    and "\<And>v. v \<in> set (vol # rest) \<longleftrightarrow> disk_named A (drv_folderID d) (cvr_Name req) v"
  shows "csi_step env d (Rpc_CreateVolume req) A (outcome (CreateVolume_existing env req p vol rest)) A"
proof (cases "rest = [] \<and> disk_Size vol = cp_size p \<and> existing_block_size vol = cp_blockSize p")
  case True
  with assms have "csi_step env d (Rpc_CreateVolume req) A (Some OK) A"
    by (intro csi_step.create_again [of env req p A d vol]) auto
  with True show ?thesis by (simp add: CreateVolume_existing_def Let_def)
qed (auto simp: CreateVolume_existing_def Let_def intro: csi_step.refused)

lemma created_outcome:
  "changes (AddDisk r) A msg B \<Longrightarrow> outcome (CreateVolume_created p msg) = Some OK"
  by (auto simp: CreateVolume_created_def)

lemma refines_create:
  assumes contract: "compute_contract env view"
  shows "view_wp view A (serve env d (Rpc_CreateVolume req)) (csi_step env d (Rpc_CreateVolume req) A)"
  unfolding serve.simps CreateVolume_def
  by (intro vwp view_wp_calls [OF contract] view_wp_operations [OF contract])
    (auto dest!: list_true_named params_refused_code simp: created_outcome simp del: changes.simps
      intro: csi_step.refused csi_step.create refines_existing)

lemma refines_delete:
  assumes contract: "compute_contract env view"
  shows "view_wp view A (serve env d (Rpc_DeleteVolume i)) (csi_step env d (Rpc_DeleteVolume i) A)"
  unfolding serve.simps DeleteVolume_def
  by (intro vwp view_wp_calls [OF contract] view_wp_operations [OF contract])
    (auto intro: csi_step.refused csi_step.delete csi_step.delete_again)

lemma refines_publish:
  assumes contract: "compute_contract env view"
  shows "view_wp view A (serve env d (Rpc_ControllerPublishVolume req))
    (csi_step env d (Rpc_ControllerPublishVolume req) A)"
  unfolding serve.simps ControllerPublishVolume_def
  by (intro vwp view_wp_calls [OF contract] view_wp_operations [OF contract])
    (auto simp: disk_true_def instance_true_def attach_request_def list_ex_iff
      dest!: publish_refused_code
      intro: csi_step.refused csi_step.publish csi_step.publish_again)

lemma refines_unpublish:
  assumes contract: "compute_contract env view"
  shows "view_wp view A (serve env d (Rpc_ControllerUnpublishVolume req))
    (csi_step env d (Rpc_ControllerUnpublishVolume req) A)"
  unfolding serve.simps ControllerUnpublishVolume_def
  by (intro vwp view_wp_calls [OF contract] view_wp_operations [OF contract])
    (auto simp: disk_true_def instance_true_def
      intro: csi_step.refused csi_step.unpublish csi_step.unpublish_again)

lemma refines_expand:
  assumes contract: "compute_contract env view"
  shows "view_wp view A (serve env d (Rpc_ControllerExpandVolume req))
    (csi_step env d (Rpc_ControllerExpandVolume req) A)"
  unfolding serve.simps ControllerExpandVolume_def Let_def
  by (intro vwp view_wp_calls [OF contract] view_wp_operations [OF contract])
    (auto simp: disk_true_def
      intro: csi_step.refused csi_step.expand csi_step.expand_again)

lemma refines_list:
  assumes contract: "compute_contract env view"
  shows "view_wp view A (serve env d (Rpc_ListVolumes req)) (csi_step env d (Rpc_ListVolumes req) A)"
  unfolding serve.simps ListVolumes_def Let_def
  by (intro vwp view_wp_calls [OF contract]) (auto intro: csi_step.refused csi_step.listed)


lemma serve_step:
  assumes "compute_contract env view" and "is_controller_rpc rpc"
    and "run_state (serve env d rpc) w = (c, w')"
  shows "csi_step env d rpc (view (ext w)) c (view (ext w'))"
proof -
  have "view_wp view (view (ext w)) (serve env d rpc) (csi_step env d rpc (view (ext w)))"
    using assms(2) refines_create [OF assms(1)] refines_delete [OF assms(1)]
      refines_publish [OF assms(1)] refines_unpublish [OF assms(1)] refines_expand [OF assms(1)]
      refines_list [OF assms(1)]
    by (cases rpc) auto
  then show ?thesis using assms(3) by (rule view_wpD)
qed

text \<open>
  C3. Refinement. Against a cloud that keeps the contract of the Compute API, whatever controller
  request the driver serves, the cloud moves as the volume manager says for that request and the
  status code the caller gets: a refused request changes nothing, a change is made only under its
  guard, success is reported only with the change made or found made, and an error after the
  operation was started is \<^verbatim>\<open>Internal\<close>.
\<close>

theorem serve_refines_volume_manager:
  assumes "compute_contract env view" and "is_controller_rpc rpc"
    and "run_state (serve env d rpc) w = (c, w')"
  shows "csi_step env d rpc (view (ext w)) c (view (ext w'))"
  using assms by (rule serve_step)

definition model_world :: "model_state \<Rightarrow> (model_state, message) world" where
  "model_world s = \<lparr>ext = s, resizeLocks = NewRwMap, ready = True, history = []\<rparr>"

lemma model_world_simps [simp]:
  "ext (model_world s) = s" "resizeLocks (model_world s) = NewRwMap" "history (model_world s) = []"
  by (simp_all add: model_world_def)

definition first_disk :: disk where
  "first_disk = new_disk (CreateVolume_createRequest example_driver example_create example_params) []"

lemma first_disk_simps [simp]:
  "disk_Id first_disk = ''d''" "disk_Name first_disk = ''pvc-1''"
  "disk_Size first_disk = defaultVolumeSizeInBytes"
  "existing_block_size first_disk = defaultBlockSizeInBytes" "disk_InstanceIds first_disk = []"
  by (simp_all add: first_disk_def new_disk_def CreateVolume_createRequest_def example_create_def
      example_params_def fresh_id_def existing_block_size_def)

lemma model_create_run:
  "\<exists>w'. run_state (serve model_env example_driver (Rpc_CreateVolume example_create)) (model_world []) =
     (Some OK, w') \<and> ext w' = [(''folder-1'', first_disk)]"
proof -
  have "CreateVolume_params model_env example_create = Inr example_params"
    by (rule example_accepted) simp
  then show ?thesis
    by (simp add: with_outcome_def CreateVolume_def WaitForResult_def example_simps
        model_listed_def CreateVolume_created_def first_disk_def CreateVolume_createRequest_def
        example_driver_def)
qed

lemma serve_refines_volume_manager_witness:
  "csi_step model_env example_driver (Rpc_CreateVolume example_create) (model_view []) (Some OK)
     (model_view [(''folder-1'', first_disk)])"
proof -
  obtain w' where "run_state (serve model_env example_driver (Rpc_CreateVolume example_create))
      (model_world []) = (Some OK, w')" "ext w' = [(''folder-1'', first_disk)]"
    using model_create_run by blast
  with serve_refines_volume_manager [OF model_contract, of "Rpc_CreateVolume example_create"
      example_driver "model_world []"]
  show ?thesis by simp
qed

end
