(* ===== verification/Managed_Cloud.thy ===== *)
theory Managed_Cloud
  imports Controller_Refinement
begin

text \<open>
  What follows from the refinement: what success of a request means for the cloud, which shape of
  the cloud every request keeps, that a request touches no disk but its own, and that creating a
  volume again finds the volume.
\<close>

subsection \<open>The shape of a managed cloud\<close>

text \<open>
  Disks are filed under their IDs, a name is used once in a folder, and a disk is attached to at
  most one instance, which exists.
\<close>

definition well_kept :: "cloud \<Rightarrow> bool" where
  "well_kept A \<longleftrightarrow>
     (\<forall>i f vol. disks A i = Some (f, vol) \<longrightarrow> disk_Id vol = i \<and>
       length (disk_InstanceIds vol) \<le> 1 \<and> set (disk_InstanceIds vol) \<subseteq> instances A) \<and>
     (\<forall>f name vol vol'. disk_named A f name vol \<longrightarrow> disk_named A f name vol' \<longrightarrow> vol = vol')"

lemma well_keptD:
  assumes "well_kept A" and "disks A i = Some (f, vol)"
  shows "disk_Id vol = i" and "length (disk_InstanceIds vol) \<le> 1"
    and "set (disk_InstanceIds vol) \<subseteq> instances A"
  using assms by (auto simp: well_kept_def)

lemma well_kept_unique:
  "well_kept A \<Longrightarrow> disk_named A f name vol \<Longrightarrow> disk_named A f name vol' \<Longrightarrow> vol = vol'"
  by (auto simp: well_kept_def)

lemma well_kept_drop: "well_kept A \<Longrightarrow> well_kept (drop_disk A i)"
  unfolding well_kept_def disk_named_def cloud_update_simps fun_upd_apply
  by (metis option.distinct(1))

text \<open>Changing a disk but neither its ID nor its name, or adding one under a free name.\<close>

lemma well_kept_set_disk:
  assumes A: "well_kept A" and "length (disk_InstanceIds vol') \<le> 1"
    and "set (disk_InstanceIds vol') \<subseteq> instances A"
    and name: "\<And>v. disk_named A f (disk_Name vol') v \<Longrightarrow> disk_Id v = disk_Id vol'"
  shows "well_kept (set_disk A f vol')"
proof -
  have named: "disk_named (set_disk A f vol') g n v \<longleftrightarrow>
      (if disk_Id v = disk_Id vol' then v = vol' \<and> g = f \<and> n = disk_Name vol' else disk_named A g n v)"
    for g n v
    by (auto simp: disk_named_def)
  have "v = v'" if "disk_named (set_disk A f vol') g n v" "disk_named (set_disk A f vol') g n v'"
    for g n v v'
    using that name [of v] name [of v'] well_kept_unique [OF A, of g n v v']
    unfolding named by (auto split: if_splits)
  moreover have "disk_Id v = i \<and> length (disk_InstanceIds v) \<le> 1 \<and>
      set (disk_InstanceIds v) \<subseteq> instances (set_disk A f vol')"
    if "disks (set_disk A f vol') i = Some (g, v)" for i g v
    using that assms(2,3) well_keptD [OF A, of i g v] by (simp split: if_splits)
  ultimately show ?thesis unfolding well_kept_def by blast
qed

lemma well_kept_update:
  assumes "well_kept A" and "disks A i = Some (f, vol)"
    and "disk_Id vol' = disk_Id vol" and "disk_Name vol' = disk_Name vol"
    and "length (disk_InstanceIds vol') \<le> 1" and "set (disk_InstanceIds vol') \<subseteq> instances A"
  shows "well_kept (set_disk A f vol')"
proof (rule well_kept_set_disk [OF assms(1) assms(5,6)])
  fix v
  assume v: "disk_named A f (disk_Name vol') v"
  have "disk_named A f (disk_Name vol') vol"
    using assms(2,4) well_keptD(1) [OF assms(1,2)] by (simp add: disk_named_def)
  from well_kept_unique [OF assms(1) v this] assms(3) show "disk_Id v = disk_Id vol'" by simp
qed

lemma csi_step_well_kept: "csi_step env d rpc A c A' \<Longrightarrow> well_kept A \<Longrightarrow> well_kept A'"
proof (induction rule: csi_step.induct)
  case (create req p A msg A' e)
  then show ?case
    by (auto simp: CreateVolume_createRequest_def intro!: well_kept_set_disk)
next
  case (publish req A f vol msg A' e)
  then show ?case by (auto intro!: well_kept_update)
next
  case (unpublish A req f vol msg A' e)
  then have "length (disk_InstanceIds vol) \<le> 1" "set (disk_InstanceIds vol) \<subseteq> instances A"
    using well_keptD by blast+
  then have "length (removeAll (cur_NodeId req) (disk_InstanceIds vol)) \<le> 1"
    "set (removeAll (cur_NodeId req) (disk_InstanceIds vol)) \<subseteq> instances A"
    by (auto intro: le_trans [OF length_removeAll_less_eq])
  with unpublish show ?case by (auto intro!: well_kept_update)
next
  case (expand A req f vol n msg A' e)
  then have "well_kept (set_disk A f (vol\<lparr>disk_Size := n\<rparr>))"
    using well_keptD [of A "cer_VolumeId req" f vol]
    by (intro well_kept_update [of A "cer_VolumeId req" f vol]) simp_all
  with expand show ?case by auto
qed (auto intro: well_kept_drop)

subsection \<open>What success means\<close>

text \<open>The one disk of the name that a volume is created under.\<close>

definition the_disk :: "cloud \<Rightarrow> string \<Rightarrow> string \<Rightarrow> disk \<Rightarrow> bool" where
  "the_disk A folder name vol \<longleftrightarrow> (\<forall>v. disk_named A folder name v \<longleftrightarrow> v = vol)"

fun achieved :: "('w, 'op) env \<Rightarrow> driver \<Rightarrow> rpc \<Rightarrow> cloud \<Rightarrow> bool" where
  "achieved env d (Rpc_CreateVolume req) A \<longleftrightarrow> (\<exists>p vol. CreateVolume_params env req = Inr p \<and>
     the_disk A (drv_folderID d) (cvr_Name req) vol \<and> disk_Size vol = cp_size p \<and>
     existing_block_size vol = cp_blockSize p)"
| "achieved env d (Rpc_DeleteVolume i) A \<longleftrightarrow> disks A i = None"
| "achieved env d (Rpc_ControllerPublishVolume req) A \<longleftrightarrow>
     (\<exists>f vol. disks A (cpr_VolumeId req) = Some (f, vol) \<and> disk_InstanceIds vol = [cpr_NodeId req])"
| "achieved env d (Rpc_ControllerUnpublishVolume req) A \<longleftrightarrow>
     (\<forall>f vol. disks A (cur_VolumeId req) = Some (f, vol) \<longrightarrow>
       cur_NodeId req \<notin> set (disk_InstanceIds vol))"
| "achieved env d (Rpc_ControllerExpandVolume req) A \<longleftrightarrow>
     (\<exists>f vol n. disks A (cer_VolumeId req) = Some (f, vol) \<and>
       extractStorage (cer_CapacityRange req) (maximumVolumeSize (existing_block_size vol)) = Inr n \<and>
       sint n \<le> sint (disk_Size vol))"
| "achieved env d rpc A \<longleftrightarrow> True"

lemma params_blockSize: "CreateVolume_params env req = Inr p \<Longrightarrow> cp_blockSize p \<noteq> 0"
  using CreateVolume_blockSize_cases [of env req]
  by (auto simp: CreateVolume_params_def Let_def block_sizes_def
      split: sum.splits option.splits if_splits)

lemma singleton_of_member: "length xs \<le> 1 \<Longrightarrow> x \<in> set xs \<Longrightarrow> xs = [x]"
  by (cases xs) auto

lemma the_disk_new:
  assumes "\<And>v. \<not> disk_named A f (disk_Name vol) v"
  shows "the_disk (set_disk A f vol) f (disk_Name vol) vol"
  using assms by (auto simp: the_disk_def disk_named_def)

lemma csi_step_achieves:
  "csi_step env d rpc A c A' \<Longrightarrow> c = Some OK \<Longrightarrow> well_kept A \<Longrightarrow> achieved env d rpc A'"
proof (induction rule: csi_step.induct)
  case (create req p A msg A' e)
  then obtain vol where vol: "A' = set_disk A (drv_folderID d) vol" "disk_Name vol = cvr_Name req"
      "disk_Size vol = cp_size p" "existing_block_size vol = cp_blockSize p"
    using params_blockSize [OF create(1)] by (auto simp: CreateVolume_createRequest_def)
  with create(2) the_disk_new [of A "drv_folderID d" vol] create(1) show ?case by auto
next
  case (create_again req p A vol)
  then show ?case by (auto simp: the_disk_def)
next
  case (publish_again req A f vol)
  then have "disk_InstanceIds vol = [cpr_NodeId req]"
    by (intro singleton_of_member well_keptD(2) [of A])
  with publish_again show ?case by auto
next
  case (unpublish_again A req)
  then show ?case using well_keptD(3) [of A] by fastforce
next
  case (expand A req f vol n msg A' e)
  have "disk_Id vol = cer_VolumeId req" using expand well_keptD(1) by blast
  with expand show ?case by (auto simp: existing_block_size_def)
qed (auto dest: well_keptD)

text \<open>
  C11. What success means. In a cloud that keeps the contract of the Compute API and is well kept
  (names unique, a disk on at most one existing instance), a controller request that succeeds
  leaves: for a creation exactly one disk of that name, with the requested size and block size; for
  a deletion no such disk; for a publication the disk attached to that node and no other; for an
  unpublication the disk not attached to that node; for an expansion a disk at least as large as
  requested.
\<close>

theorem success_achieves:
  assumes "compute_contract env view" and "is_controller_rpc rpc" and "well_kept (view (ext w))"
    and "run_state (serve env d rpc) w = (Some OK, w')"
  shows "achieved env d rpc (view (ext w'))"
  using csi_step_achieves [OF serve_step [OF assms(1,2,4)] refl assms(3)] .

lemma model_well_kept: "well_kept (model_view [])"
  by (simp add: well_kept_def disk_named_def)

lemma success_achieves_witness:
  "achieved model_env example_driver (Rpc_CreateVolume example_create)
     (model_view [(''folder-1'', first_disk)])"
proof -
  obtain w' where "run_state (serve model_env example_driver (Rpc_CreateVolume example_create))
      (model_world []) = (Some OK, w')" "ext w' = [(''folder-1'', first_disk)]"
    using model_create_run by blast
  with success_achieves [OF model_contract, of "Rpc_CreateVolume example_create" "model_world []"
      example_driver w'] model_well_kept
  show ?thesis by simp
qed

subsection \<open>What every request keeps\<close>

fun target :: "rpc \<Rightarrow> string option" where
  "target (Rpc_DeleteVolume i) = Some i"
| "target (Rpc_ControllerPublishVolume req) = Some (cpr_VolumeId req)"
| "target (Rpc_ControllerUnpublishVolume req) = Some (cur_VolumeId req)"
| "target (Rpc_ControllerExpandVolume req) = Some (cer_VolumeId req)"
| "target rpc = None"

lemma csi_step_frame:
  assumes "csi_step env d rpc A c A'" and "\<And>i f vol. disks A i = Some (f, vol) \<Longrightarrow> disk_Id vol = i"
    and "disks A i = Some (f, vol)"
  shows "if target rpc \<noteq> Some i then disks A' i = Some (f, vol)
    else rpc = Rpc_DeleteVolume i \<or> (\<exists>vol'. disks A' i = Some (f, vol') \<and>
      disk_Name vol' = disk_Name vol \<and> sint (disk_Size vol) \<le> sint (disk_Size vol'))"
  using assms by (induction rule: csi_step.induct) (auto split: if_splits)

text \<open>
  Runs of the driver together with whatever else happens to the cloud, as long as that keeps it
  well kept.
\<close>

inductive managed :: "('w, 'op) env \<Rightarrow> driver \<Rightarrow> ('w \<Rightarrow> cloud) \<Rightarrow> ('w, 'op) world \<Rightarrow> bool"
  for env d view
where
  managed_start: "well_kept (view (ext w)) \<Longrightarrow> managed env d view w"
| managed_served: "managed env d view w \<Longrightarrow> is_controller_rpc rpc \<Longrightarrow>
    run_state (serve env d rpc) w = (c, w') \<Longrightarrow> managed env d view w'"
| managed_outside: "managed env d view w \<Longrightarrow> well_kept (view x) \<Longrightarrow>
    managed env d view (w\<lparr>ext := x\<rparr>)"

text \<open>
  C8. Invariant of the cloud under management. However controller requests are served, in any order
  and mixed with changes by others that keep the cloud well kept, the cloud stays well kept: no two
  disks of one folder get the same name, and no disk gets attached to two instances.
\<close>

theorem managed_well_kept:
  assumes "compute_contract env view" and "managed env d view w"
  shows "well_kept (view (ext w))"
  using assms(2) csi_step_well_kept [OF serve_step [OF assms(1)]]
  by (induction rule: managed.induct) auto

lemma managed_well_kept_witness:
  "\<exists>w. managed model_env example_driver model_view w \<and>
     ext w = [(''folder-1'', first_disk)] \<and> well_kept (model_view [(''folder-1'', first_disk)])"
proof -
  obtain w' where w': "run_state (serve model_env example_driver (Rpc_CreateVolume example_create))
      (model_world []) = (Some OK, w')" "ext w' = [(''folder-1'', first_disk)]"
    using model_create_run by blast
  have "managed model_env example_driver model_view (model_world [])"
    by (rule managed_start) (simp add: model_well_kept)
  then have "managed model_env example_driver model_view w'"
    by (rule managed_served [OF _ _ w'(1)]) simp
  with managed_well_kept [OF model_contract this] w'(2) show ?thesis by auto
qed

text \<open>
  C13. A request stays with its volume. Under the contract, serving a controller request leaves every
  disk but the one it names exactly as it was; the disk it names is still there unless it was to be
  deleted, in its folder, under its name, and not smaller than before.
\<close>

theorem request_touches_own_disk:
  assumes "compute_contract env view" and "is_controller_rpc rpc"
    and "run_state (serve env d rpc) w = (c, w')" and "disks (view (ext w)) i = Some (f, vol)"
  shows "if target rpc \<noteq> Some i then disks (view (ext w')) i = Some (f, vol)
    else rpc = Rpc_DeleteVolume i \<or> (\<exists>vol'. disks (view (ext w')) i = Some (f, vol') \<and>
      disk_Name vol' = disk_Name vol \<and> sint (disk_Size vol) \<le> sint (disk_Size vol'))"
  by (rule csi_step_frame [OF serve_step [OF assms(1-3)] compute_contractD(1) [OF assms(1)] assms(4)])

lemma request_touches_own_disk_witness:
  "\<exists>w'. run_state (serve model_env example_driver (Rpc_DeleteVolume ''d''))
      (model_world [(''folder-1'', example_disk), (''folder-1'', first_disk)]) = (Some OK, w') \<and>
    disks (model_view (ext w')) ''disk-1'' = Some (''folder-1'', example_disk)"
proof -
  let ?s = "[(''folder-1'', example_disk), (''folder-1'', first_disk)]"
  obtain w' where w': "run_state (serve model_env example_driver (Rpc_DeleteVolume ''d''))
      (model_world ?s) = (Some OK, w')"
    by (simp add: with_outcome_def DeleteVolume_def WaitForResult_def example_simps example_disk_def)
  have "disks (model_view (ext (model_world ?s))) ''disk-1'' = Some (''folder-1'', example_disk)"
    by (simp add: example_disk_def)
  from request_touches_own_disk [OF model_contract _ w' this] w' show ?thesis by simp
qed

subsection \<open>Creating again\<close>

definition volume_of :: "create_params \<Rightarrow> disk \<Rightarrow> csi_volume" where
  "volume_of p vol = \<lparr>VolumeId = disk_Id vol, CapacityBytes = disk_Size vol,
     AccessibleTopology = [topology_of (cp_region p) (disk_ZoneId vol)]\<rparr>"

definition fits :: "create_params \<Rightarrow> disk \<Rightarrow> bool" where
  "fits p vol \<longleftrightarrow> disk_Size vol = cp_size p \<and> existing_block_size vol = cp_blockSize p"

lemma CreateVolume_existing_fits:
  "CreateVolume_existing env req p vol rest = Inr v \<longleftrightarrow> rest = [] \<and> fits p vol \<and> v = volume_of p vol"
  by (auto simp: CreateVolume_existing_def Let_def fits_def volume_of_def)

lemma created_volume:
  assumes "changes (AddDisk (CreateVolume_createRequest d req p)) A msg B"
    and "\<And>v. \<not> disk_named A (drv_folderID d) (cvr_Name req) v" and "cp_blockSize p \<noteq> 0"
  obtains vol where "the_disk B (drv_folderID d) (cvr_Name req) vol" and "fits p vol"
    and "CreateVolume_created p msg = Inr (volume_of p vol)"
proof -
  obtain vol where vol: "msg = DiskMessage vol" "B = set_disk A (drv_folderID d) vol"
      "disk_Name vol = cvr_Name req" "fits p vol" "disk_ZoneId vol = cp_zone p"
    using assms(1,3) by (auto simp: CreateVolume_createRequest_def fits_def)
  moreover have "the_disk B (drv_folderID d) (cvr_Name req) vol"
    using the_disk_new [of A "drv_folderID d" vol] assms(2) vol by simp
  ultimately show ?thesis
    by (intro that [of vol]) (simp_all add: CreateVolume_created_def volume_of_def)
qed

lemma CreateVolume_result:
  assumes contract: "compute_contract env view"
  shows "view_wp view A (CreateVolume env d req) (\<lambda>r B. case r of Inl f \<Rightarrow> True
    | Inr v \<Rightarrow> \<exists>p vol. CreateVolume_params env req = Inr p \<and>
        the_disk B (drv_folderID d) (cvr_Name req) vol \<and> fits p vol \<and> v = volume_of p vol)"
  unfolding CreateVolume_def
  by (intro vwp view_wp_calls [OF contract] view_wp_operations [OF contract])
    (auto dest!: list_true_named simp: CreateVolume_existing_fits the_disk_def simp del: changes.simps
      split: sum.splits elim!: created_volume dest: params_blockSize, metis)

lemma CreateVolume_finds:
  assumes contract: "compute_contract env view" and "CreateVolume_params env req = Inr p"
    and "the_disk A (drv_folderID d) (cvr_Name req) vol" and "fits p vol"
  shows "view_wp view A (CreateVolume env d req)
    (\<lambda>r B. B = A \<and> (r = Inr (volume_of p vol) \<or> outcome r = Some Internal))"
proof -
  have only: "xs = [vol]" if "distinct xs" "\<And>v. v \<in> set xs \<longleftrightarrow> v = vol" for xs
    using that by (cases xs; cases "tl xs") (auto, metis)
  have listed: "ldr_Disks resp = [vol]"
    if "list_true (unicode_IsPrint env) (CreateVolume_listRequest env d req) A (Inr resp)" for resp
    using list_true_named [OF that] assms(3) by (intro only) (auto simp: the_disk_def)
  have "CreateVolume_existing env req p vol [] = Inr (volume_of p vol)"
    using assms(4) by (simp add: CreateVolume_existing_fits)
  then show ?thesis
    unfolding CreateVolume_def
    by (intro vwp view_wp_calls [OF contract] view_wp_operations [OF contract])
      (auto simp: assms(2) dest!: listed)
qed

text \<open>
  C6. Creating is idempotent. Once a request to create a volume has succeeded, repeating it later,
  while the disk of that name is still the one it was, creates nothing and answers the very same
  volume, with ID, capacity and topology, unless the cloud fails to list the disks.
\<close>

theorem CreateVolume_idempotent:
  assumes "compute_contract env view"
    and "run_state (CreateVolume env d req) w = (Inr v, w1)"
    and "\<And>vol. disk_named (view (ext w2)) (drv_folderID d) (cvr_Name req) vol \<longleftrightarrow>
      disk_named (view (ext w1)) (drv_folderID d) (cvr_Name req) vol"
    and "run_state (CreateVolume env d req) w2 = (r, w3)"
  shows "view (ext w3) = view (ext w2) \<and> (r = Inr v \<or> outcome r = Some Internal)"
proof -
  from view_wpD [OF CreateVolume_result [OF assms(1)] assms(2)]
  obtain p vol where p: "CreateVolume_params env req = Inr p" "fits p vol" "v = volume_of p vol"
    and "the_disk (view (ext w1)) (drv_folderID d) (cvr_Name req) vol"
    by auto
  then have "the_disk (view (ext w2)) (drv_folderID d) (cvr_Name req) vol"
    by (simp add: the_disk_def assms(3))
  from view_wpD [OF CreateVolume_finds [OF assms(1) p(1) this p(2)] assms(4)] p(3)
  show ?thesis by simp
qed

lemma CreateVolume_idempotent_witness:
  "\<exists>v w1 w2. run_state (CreateVolume model_env example_driver example_create) (model_world []) =
      (Inr v, w1) \<and> VolumeId v = ''d'' \<and>
    run_state (CreateVolume model_env example_driver example_create) w1 = (Inr v, w2) \<and>
    model_view (ext w2) = model_view [(''folder-1'', first_disk)]"
proof -
  have p: "CreateVolume_params model_env example_create = Inr example_params"
    by (rule example_accepted) simp
  obtain v w1 where w1: "run_state (CreateVolume model_env example_driver example_create)
      (model_world []) = (Inr v, w1)" "VolumeId v = ''d''" "ext w1 = [(''folder-1'', first_disk)]"
    by (simp add: CreateVolume_def WaitForResult_def example_simps p
        model_listed_def CreateVolume_created_def first_disk_def CreateVolume_createRequest_def
        example_driver_def new_disk_def fresh_id_def)
  obtain r w2 where w2: "run_state (CreateVolume model_env example_driver example_create) w1 = (r, w2)"
    by (cases "run_state (CreateVolume model_env example_driver example_create) w1")
  have "model_listed (CreateVolume_listRequest model_env example_driver example_create)
      [(''folder-1'', first_disk)] = [first_disk]"
    by (simp add: model_listed_def CreateVolume_listRequest_def example_driver_def example_create_def)
  then have "outcome r \<noteq> Some Internal"
    using w2 w1(3)
    by (auto simp: CreateVolume_def example_simps p CreateVolume_existing_def example_params_def)
  with CreateVolume_idempotent [OF model_contract w1(1) _ w2] w1 w2 show ?thesis by auto
qed

end
