(* ===== verification/Concurrency.thy ===== *)
theory Concurrency
  imports Lifecycle
begin

text \<open>
  Requests served side by side. The gRPC server runs each request in a goroutine of its own; what
  they share inside the driver is the resize lock table, each method of which is one atomic step.
  A concurrent history is an interleaving of the histories of single requests, each of which met
  whatever answers the outside and the other requests made it meet; it is possible for the lock
  table when every check in it got the answer of the table at that moment.
\<close>

definition request_trace :: "('w, 'op) env \<Rightarrow> driver \<Rightarrow> rpc \<Rightarrow> 'op event list \<Rightarrow> bool" where
  "request_trace env d rpc es \<longleftrightarrow>
     (\<exists>w c w'. run_state (serve env d rpc) w = (c, w') \<and> history w' = history w @ es)"

inductive concurrent :: "('w, 'op) env \<Rightarrow> driver \<Rightarrow> 'op event list \<Rightarrow> bool"
  for env d
where
  no_request: "concurrent env d []"
| one_more: "concurrent env d others \<Longrightarrow> request_trace env d rpc es \<Longrightarrow> h \<in> shuffles es others \<Longrightarrow>
    concurrent env d h"

lemma request_traceD: "request_trace env d rpc es \<Longrightarrow> ensures (serve env d rpc) (\<lambda>r. Q) \<Longrightarrow> Q es"
  by (auto simp: request_trace_def appends_def dest!: ensuresD)

subsection \<open>Attaching after a check\<close>

definition attaches :: "string \<Rightarrow> 'op event \<Rightarrow> bool" where
  "attaches v e \<longleftrightarrow> (case attached e of None \<Rightarrow> False | Some r \<Rightarrow> adr_DiskId r = v)"

lemma preceded_shuffles:
  "h \<in> shuffles es os \<Longrightarrow> preceded P Q es \<Longrightarrow> preceded P Q os \<Longrightarrow> preceded P Q h"
  by (induction es os arbitrary: h rule: shuffles.induct) auto

lemma handlers_check_first:
  "ensures (CreateVolume env d r1) (\<lambda>r. preceded (\<lambda>e. e = CheckLock v False) (attaches v))"
  "ensures (DeleteVolume env i) (\<lambda>r. preceded (\<lambda>e. e = CheckLock v False) (attaches v))"
  "ensures (ControllerPublishVolume env d r2) (\<lambda>r. preceded (\<lambda>e. e = CheckLock v False) (attaches v))"
  "ensures (ControllerUnpublishVolume env r3) (\<lambda>r. preceded (\<lambda>e. e = CheckLock v False) (attaches v))"
  "ensures (ListVolumes env d r4) (\<lambda>r. preceded (\<lambda>e. e = CheckLock v False) (attaches v))"
  "ensures (ControllerExpandVolume env r5) (\<lambda>r. preceded (\<lambda>e. e = CheckLock v False) (attaches v))"
  "ensures (NodeGetInfo env d) (\<lambda>r. preceded (\<lambda>e. e = CheckLock v False) (attaches v))"
  unfolding CreateVolume_def DeleteVolume_def ControllerPublishVolume_def
    ControllerUnpublishVolume_def ListVolumes_def ControllerExpandVolume_def NodeGetInfo_def Let_def
  by (intro wp allI impI; auto simp: attaches_def attach_request_def elim!: op_runE)+

lemma serve_checks_first:
  "ensures (serve env d rpc) (\<lambda>r. preceded (\<lambda>e. e = CheckLock v False) (attaches v))"
proof (cases "is_node_rpc rpc")
  case True
  then show ?thesis
    by (rule node_rpc_stays_on_node [THEN ensures_mono])
      (auto intro!: preceded_none simp: list_all_iff attaches_def node_event_simps)
next
  case False
  then show ?thesis
    using handlers_check_first by (cases rpc) (auto intro!: ensures_with_outcome)
qed

lemma concurrent_checks_first:
  "concurrent env d h \<Longrightarrow> preceded (\<lambda>e. e = CheckLock v False) (attaches v) h"
proof (induction rule: concurrent.induct)
  case (one_more others rpc es h)
  then show ?case
    using request_traceD [OF one_more.hyps(2) serve_checks_first] by (blast intro: preceded_shuffles)
qed simp

text \<open>
  C20. What the resize lock still promises when requests are served concurrently: a volume is
  attached only after a moment at which it was not in the lock table. However the steps of any
  number of requests interleave, before each attach stands a check that found the volume free, and
  it was free then.
\<close>

theorem concurrent_attach_was_free:
  assumes "concurrent env d h" and "checks_agree NewRwMap h" and "h = us @ AttachDisk r a # vs"
  shows "\<exists>before between. us = before @ CheckLock (adr_DiskId r) False # between \<and>
    \<not> VolIdExists (replay_locks NewRwMap before) (adr_DiskId r)"
proof -
  have "list_ex (\<lambda>e. e = CheckLock (adr_DiskId r) False) us"
    using concurrent_checks_first [OF assms(1), of "adr_DiskId r"] assms(3)
    by (simp add: attaches_def)
  then obtain before between where us: "us = before @ CheckLock (adr_DiskId r) False # between"
    by (auto simp: list_ex_iff dest: split_list)
  moreover have "\<not> VolIdExists (replay_locks NewRwMap before) (adr_DiskId r)"
    using assms(2,3) us by simp
  ultimately show ?thesis by blast
qed

subsection \<open>The race\<close>

text \<open>A cloud that refuses to resize the disk and lets it be attached.\<close>

definition racing_env :: "(unit, nat) env" where
  "racing_env = example_env\<lparr>op_Wait := (\<lambda>x. State_Monad.return (if x = 3 then Some refusal else None))\<rparr>"

lemma racing_env_simps [simp]:
  "api_Disk_Get racing_env i = State_Monad.return (Inr example_disk)"
  "api_Instance_Get racing_env i = State_Monad.return (Inr example_instance)"
  "api_Disk_Update racing_env u = State_Monad.return (Inr 3)"
  "api_Instance_AttachDisk racing_env r = State_Monad.return (Inr 4)"
  "sdk_WrapOperation racing_env y = y"
  "op_Wait racing_env n = State_Monad.return (if n = 3 then Some refusal else None)"
  "op_Response racing_env n = State_Monad.return
     (Inr (if n = 1 then DiskMessage example_disk else OtherMessage ''empty''))"
  by (simp_all add: racing_env_def)

definition expand_events :: "nat event list" where
  "expand_events = [GetDisk ''disk-1'' (Inr example_disk),
     UpdateDisk (update_request ''disk-1'' 0x80000000) (Inr 3), Wait 3 (Some refusal),
     PutLock ''disk-1'']"

definition publish_events :: "nat event list" where
  "publish_events = [GetDisk ''disk-1'' (Inr example_disk), GetInstance ''node-1'' (Inr example_instance),
     AttachDisk (attach_request example_publish) (Inr 4), Wait 4 None,
     Response 4 (Inr (OtherMessage ''empty''))]"

lemma expand_trace:
  "request_trace racing_env example_driver (Rpc_ControllerExpandVolume example_expand) expand_events"
proof -
  have "history (snd (run_state (serve racing_env example_driver
      (Rpc_ControllerExpandVolume example_expand)) example_world)) = expand_events"
    using example_expand_size must_detach_refusal
    by (simp add: with_outcome_def ControllerExpandVolume_def example_simps WaitForResult_def
        locks_PutVolId_def expand_events_def)
      (simp add: example_expand_def example_disk_def)
  then show ?thesis
    unfolding request_trace_def by (metis append_Nil example_world_simps(1) prod.collapse)
qed

lemma publish_trace:
  "request_trace racing_env example_driver (Rpc_ControllerPublishVolume example_publish)
     (CheckLock ''disk-1'' False # publish_events)"
proof -
  have "history (snd (run_state (serve racing_env example_driver
      (Rpc_ControllerPublishVolume example_publish)) example_world)) =
      CheckLock ''disk-1'' False # publish_events"
    by (simp add: with_outcome_def ControllerPublishVolume_def ControllerPublishVolume_check_def
        example_simps WaitForResult_def locks_VolIdExists_def publish_events_def)
      (simp add: example_publish_def example_disk_def)
  then show ?thesis
    unfolding request_trace_def by (metis append_Nil example_world_simps(1) prod.collapse)
qed

lemma append_in_shuffles: "xs @ ys \<in> shuffles xs ys"
  by (induction xs) (auto simp: Cons_in_shuffles_rightI intro: Cons_in_shuffles_leftI)

lemma racing_history:
  "concurrent racing_env example_driver (CheckLock ''disk-1'' False # expand_events @ publish_events)"
proof (rule concurrent.one_more [OF _ publish_trace])
  show "concurrent racing_env example_driver expand_events"
    by (rule concurrent.one_more [OF concurrent.no_request expand_trace]) simp
  show "CheckLock ''disk-1'' False # expand_events @ publish_events \<in>
      shuffles (CheckLock ''disk-1'' False # publish_events) expand_events"
    using append_in_shuffles [of expand_events publish_events]
    by (intro Cons_in_shuffles_leftI) (simp add: shuffles_commutes)
qed

text \<open>
  C21. What it does not promise: checking the lock and attaching are two steps, and a resize can be
  refused in between. There are a publication and an expansion of one volume, each as the driver
  serves it, and an interleaving of the two that is possible for the lock table, in which the
  expansion puts the volume into the table and the publication then attaches it.
\<close>

theorem expand_publish_race:
  "\<exists>before between after.
     concurrent racing_env example_driver
       (before @ PutLock ''disk-1'' # between @
        AttachDisk (attach_request example_publish) (Inr 4) # after) \<and>
     checks_agree NewRwMap (before @ PutLock ''disk-1'' # between @
        AttachDisk (attach_request example_publish) (Inr 4) # after) \<and>
     adr_DiskId (attach_request example_publish) = ''disk-1'' \<and>
     list_all (\<lambda>e. e \<noteq> RemoveLock ''disk-1'') between"
proof (intro exI conjI)
  let ?before = "CheckLock ''disk-1'' False # butlast expand_events"
  let ?between = "take 2 publish_events"
  let ?after = "drop 3 publish_events"
  let ?h = "?before @ PutLock ''disk-1'' # ?between @
    AttachDisk (attach_request example_publish) (Inr 4) # ?after"
  have h: "?h = CheckLock ''disk-1'' False # expand_events @ publish_events"
    by (simp add: expand_events_def publish_events_def)
  show "concurrent racing_env example_driver ?h" unfolding h by (rule racing_history)
  show "checks_agree NewRwMap ?h" unfolding h by (simp add: expand_events_def publish_events_def)
  show "adr_DiskId (attach_request example_publish) = ''disk-1''"
    by (simp add: attach_request_def example_publish_def)
  show "list_all (\<lambda>e. e \<noteq> RemoveLock ''disk-1'') ?between" by (simp add: publish_events_def)
qed

lemma concurrent_attach_was_free_witness:
  "concurrent racing_env example_driver (CheckLock ''disk-1'' False # expand_events @ publish_events) \<and>
   (\<exists>before between. CheckLock ''disk-1'' False # expand_events @ take 2 publish_events =
      before @ CheckLock ''disk-1'' False # between \<and>
      \<not> VolIdExists (replay_locks NewRwMap before) ''disk-1'')"
proof -
  let ?r = "attach_request example_publish"
  have disk: "adr_DiskId ?r = ''disk-1''" by (simp add: attach_request_def example_publish_def)
  have "CheckLock ''disk-1'' False # expand_events @ publish_events =
      (CheckLock ''disk-1'' False # expand_events @ take 2 publish_events) @
      AttachDisk ?r (Inr 4) # drop 3 publish_events"
    by (simp add: publish_events_def)
  from concurrent_attach_was_free [OF racing_history _ this] racing_history show ?thesis
    by (simp add: disk expand_events_def publish_events_def)
qed

end
