(* ===== verification/Node_View.thy ===== *)
theory Node_View
  imports Lifecycle View
begin

text \<open>
  What the node is to the node service, seen from above: what each device holds, which mounts lie
  on each path, and where a path leads. \<open>node_contract\<close> states the documented behaviour of the
  commands and system calls of the node in these terms. It is a hypothesis of the theorems of
  \<open>Node_Refinement\<close>; \<open>Model_Node\<close> is a node that meets it.
\<close>

subsection \<open>The node seen from above\<close>

text \<open>
  A device is blank or holds something \<^verbatim>\<open>blkid\<close> recognises. The mounts on a path are a
  stack, the newest first: a mount is its source and the options it was made with. Devices and
  mount points go by their real paths; \<open>resolve\<close> follows the symbolic links of a path, as
  \<^verbatim>\<open>/dev/disk/by-id\<close> has them.
\<close>

datatype content = Blank | Holds string

type_synonym mount_entry = "string \<times> string list"

record node_state =
  devices :: "string \<Rightarrow> content option"
  mounts :: "string \<Rightarrow> mount_entry list"
  resolve :: "string \<Rightarrow> string"

definition content_at :: "node_state \<Rightarrow> string \<Rightarrow> content option" where
  "content_at A dev = devices A (resolve A dev)"

definition mounts_at :: "node_state \<Rightarrow> string \<Rightarrow> mount_entry list" where
  "mounts_at A path = mounts A (resolve A path)"

definition set_content :: "string \<Rightarrow> content \<Rightarrow> node_state \<Rightarrow> node_state" where
  "set_content dev c A = A\<lparr>devices := (devices A)(resolve A dev \<mapsto> c)\<rparr>"

definition set_mounts :: "string \<Rightarrow> mount_entry list \<Rightarrow> node_state \<Rightarrow> node_state" where
  "set_mounts path ms A = A\<lparr>mounts := (mounts A)(resolve A path := ms)\<rparr>"

lemma node_update_simps [simp]:
  "devices (set_content dev c A) = (devices A)(resolve A dev \<mapsto> c)"
  "mounts (set_content dev c A) = mounts A" "resolve (set_content dev c A) = resolve A"
  "devices (set_mounts path ms A) = devices A" "resolve (set_mounts path ms A) = resolve A"
  "mounts (set_mounts path ms A) = (mounts A)(resolve A path := ms)"
  by (simp_all add: set_content_def set_mounts_def)

lemma node_at_simps [simp]:
  "content_at (set_content dev c A) dev = Some c" "mounts_at (set_mounts path ms A) path = ms"
  "content_at (set_mounts path ms A) dev = content_at A dev"
  "mounts_at (set_content dev c A) path = mounts_at A path"
  by (simp_all add: content_at_def mounts_at_def)

lemma set_mounts_set_mounts [simp]:
  "set_mounts path ms (set_mounts path ms' A) = set_mounts path ms A"
  "mounts_at A path = ms \<Longrightarrow> set_mounts path ms A = A"
  by (cases A, auto simp: set_mounts_def mounts_at_def)+

subsection \<open>The contract of the node\<close>

text \<open>
  What an answer says: the exit status 2 of \<^verbatim>\<open>blkid\<close> that there is nothing it knows on
  the device (or no device), its success that there is something; the success of
  \<^verbatim>\<open>findmnt\<close> that there are mounts, with the real path as their target, and its failure
  with no output that there are none.
\<close>

definition blkid_true :: "string \<Rightarrow> node_state \<Rightarrow> string \<times> exec_error option \<Rightarrow> bool" where
  "blkid_true dev A ans \<longleftrightarrow>
     (snd ans = None \<longrightarrow> (\<exists>fs. content_at A dev = Some (Holds fs))) \<and>
     (\<forall>t. snd ans = Some (ExitError 2 t) \<longrightarrow> content_at A dev \<in> {None, Some Blank})"

definition findmnt_true ::
  "('w, 'op) env \<Rightarrow> string \<Rightarrow> node_state \<Rightarrow> string \<times> exec_error option \<Rightarrow> bool" where
  "findmnt_true env path A ans \<longleftrightarrow>
     (snd ans = None \<longrightarrow> mounts_at A path \<noteq> [] \<and> fst ans \<noteq> [] \<and>
       (\<exists>fss. unmarshal_findmnt env (fst ans) = Inr (Some \<lparr>FileSystems = fss\<rparr>) \<and> fss \<noteq> [] \<and>
         (\<forall>fs \<in> set fss. fs_Target fs = resolve A path))) \<and>
     (snd ans \<noteq> None \<longrightarrow> TrimSpace (fst ans) = [] \<longrightarrow> mounts_at A path = [])"

text \<open>The options a \<^verbatim>\<open>mount\<close> gets, before its source and its target.\<close>

definition mount_flags :: "string \<Rightarrow> string list \<Rightarrow> string list" where
  "mount_flags fsType opts = (if fsType = [] then [] else [''-t'', fsType]) @
     (if 0 < length opts then [''-o'', Join opts '',''] else [])"

lemma mount_args_flags: "mount_args source target fsType opts = mount_flags fsType opts @ [source, target]"
  by (simp add: mount_args_def mount_flags_def)

text \<open>
  The commands that change the node. A \<^verbatim>\<open>mkfs\<close> that fails may leave anything on its
  device; a \<^verbatim>\<open>mount\<close> or \<^verbatim>\<open>umount\<close> that fails leaves the mounts as they were.
\<close>

definition mkfs_effect ::
  "string \<Rightarrow> string \<Rightarrow> node_state \<Rightarrow> string \<times> exec_error option \<Rightarrow> node_state \<Rightarrow> bool" where
  "mkfs_effect fsType dev A ans B \<longleftrightarrow>
     (if snd ans = None then content_at A dev \<noteq> None \<and> B = set_content dev (Holds fsType) A
      else B = A \<or> content_at A dev \<noteq> None \<and> (\<exists>c. B = set_content dev c A))"

definition mount_effect ::
  "string list \<Rightarrow> string \<Rightarrow> string \<Rightarrow> node_state \<Rightarrow> string \<times> exec_error option \<Rightarrow> node_state \<Rightarrow> bool"
where
  "mount_effect flags source target A ans B \<longleftrightarrow>
     (if snd ans = None then B = set_mounts target ((source, flags) # mounts_at A target) A else B = A)"

definition umount_effect ::
  "string \<Rightarrow> node_state \<Rightarrow> string \<times> exec_error option \<Rightarrow> node_state \<Rightarrow> bool" where
  "umount_effect target A ans B \<longleftrightarrow>
     (if snd ans = None then mounts_at A target \<noteq> [] \<and> B = set_mounts target (tl (mounts_at A target)) A
      else B = A)"

abbreviation keeps :: "('w \<Rightarrow> node_state) \<Rightarrow> ('w, 'a) state \<Rightarrow> bool" where
  "keeps view m \<equiv> reads view m (\<lambda>A r. True)"

definition node_contract :: "('w, 'op) env \<Rightarrow> ('w \<Rightarrow> node_state) \<Rightarrow> bool" where
  "node_contract env view \<longleftrightarrow>
     (\<forall>dev. reads view (os_Exec env ''blkid'' [dev]) (blkid_true dev)) \<and>
     (\<forall>path. reads view (os_Exec env ''findmnt'' (findmnt_args path)) (findmnt_true env path)) \<and>
     (\<forall>path. reads view (os_EvalSymlinks env path)
       (\<lambda>A r. case r of Inl err \<Rightarrow> True | Inr p \<Rightarrow> p = resolve A path)) \<and>
     (\<forall>fs dev. obeys view (os_Exec env (''mkfs.'' @ fs) (mkfs_args dev fs)) (mkfs_effect fs dev)) \<and>
     (\<forall>flags source target. obeys view (os_Exec env ''mount'' (flags @ [source, target]))
       (mount_effect flags source target)) \<and>
     (\<forall>target. obeys view (os_Exec env ''umount'' [target]) (umount_effect target)) \<and>
     (\<forall>c. keeps view (os_LookPath env c)) \<and>
     (\<forall>path. keeps view (os_Exec env ''blockdev'' [''getsize64'', path])) \<and>
     (\<forall>dev. keeps view (k8s_Exec env ''fsck'' [''-a'', dev])) \<and>
     (\<forall>path perm. keeps view (os_MkdirAll env path perm)) \<and>
     (\<forall>path perm. keeps view (os_OpenCreate env path perm)) \<and>
     (\<forall>path. keeps view (os_Stat env path)) \<and> (\<forall>path. keeps view (os_Statfs env path)) \<and>
     (\<forall>path. keeps view (k8s_DeviceNameFromMount env path)) \<and>
     (\<forall>dev path. keeps view (k8s_ResizeFs env dev path))"

lemma node_contractD:
  assumes "node_contract env view"
  shows "reads view (os_Exec env ''blkid'' [dev]) (blkid_true dev)"
    and "reads view (os_Exec env ''findmnt'' (findmnt_args path)) (findmnt_true env path)"
    and "reads view (os_EvalSymlinks env path)
      (\<lambda>A r. case r of Inl err \<Rightarrow> True | Inr p \<Rightarrow> p = resolve A path)"
    and "obeys view (os_Exec env (''mkfs.'' @ fs) (mkfs_args dev fs)) (mkfs_effect fs dev)"
    and "obeys view (os_Exec env ''mount'' (flags @ [source, target]))
      (mount_effect flags source target)"
    and "obeys view (os_Exec env ''umount'' [target]) (umount_effect target)"
    and "keeps view (os_LookPath env c)"
    and "keeps view (os_Exec env ''blockdev'' [''getsize64'', path])"
    and "keeps view (k8s_Exec env ''fsck'' [''-a'', dev])"
    and "keeps view (os_MkdirAll env path perm)" and "keeps view (os_OpenCreate env path perm)"
    and "keeps view (os_Stat env path)" and "keeps view (os_Statfs env path)"
    and "keeps view (k8s_DeviceNameFromMount env path)" and "keeps view (k8s_ResizeFs env dev path)"
  using assms unfolding node_contract_def by simp_all

text \<open>The calls of the node service, under the contract.\<close>

lemma view_wp_node_calls:
  assumes "node_contract env view"
  shows "(\<And>r. blkid_true dev A r \<Longrightarrow> Q1 r A) \<Longrightarrow> view_wp view A (exec_Command env ''blkid'' [dev]) Q1"
    and "(\<And>r. findmnt_true env path A r \<Longrightarrow> Q1 r A) \<Longrightarrow>
      view_wp view A (exec_Command env ''findmnt'' (findmnt_args path)) Q1"
    and "(\<And>r. (case r of Inl err \<Rightarrow> True | Inr p \<Rightarrow> p = resolve A path) \<Longrightarrow> Q3 r A) \<Longrightarrow>
      view_wp view A (fs_EvalSymlinks env path) Q3"
    and "(\<And>r B. mkfs_effect fs dev A r B \<Longrightarrow> Q1 r B) \<Longrightarrow>
      view_wp view A (exec_Command env (''mkfs.'' @ fs) (mkfs_args dev fs)) Q1"
    and "(\<And>r B. mount_effect (mount_flags fs opts) source target A r B \<Longrightarrow> Q1 r B) \<Longrightarrow>
      view_wp view A (exec_Command env ''mount'' (mount_args source target fs opts)) Q1"
    and "(\<And>r B. umount_effect target A r B \<Longrightarrow> Q1 r B) \<Longrightarrow>
      view_wp view A (exec_Command env ''umount'' [target]) Q1"
    and "(\<And>r. Q1 r A) \<Longrightarrow> view_wp view A (exec_Command env ''blockdev'' [''getsize64'', path]) Q1"
    and "(\<And>r. Q4 r A) \<Longrightarrow> view_wp view A (k8s_Command env ''fsck'' [''-a'', dev]) Q4"
    and "(\<And>r. Q5 r A) \<Longrightarrow> view_wp view A (fs_MkdirAll env path perm) Q5"
    and "(\<And>r. Q5 r A) \<Longrightarrow> view_wp view A (fs_OpenCreate env path perm) Q5"
    and "(\<And>r. Q6 r A) \<Longrightarrow> view_wp view A (unix_Stat env path) Q6"
    and "(\<And>r. Q7 r A) \<Longrightarrow> view_wp view A (unix_Statfs env path) Q7"
    and "(\<And>r. Q3 r A) \<Longrightarrow> view_wp view A (mount_GetDeviceName env path) Q3"
    and "(\<And>r. Q8 r A) \<Longrightarrow> view_wp view A (resize_Resize env dev path) Q8"
    and "(\<And>r. Q9 r A) \<Longrightarrow> view_wp view A (exec_LookPath env c) Q9"
  unfolding call_defs mount_args_flags
  by (rule view_wp_obeys view_wp_reads, rule node_contractD [OF assms], blast)+
    (rule view_wp_bind, rule view_wp_reads, rule node_contractD [OF assms], rule view_wp_return, blast)

end
