(* ===== verification/Model_Node.thy ===== *)
theory Model_Node
  imports Node_View
begin

text \<open>
  A node that keeps the contract of \<open>Node_View\<close>, for the examples: the state of its outside is the
  node seen from above itself, and its commands do to it what the contract says, whenever they can.
\<close>

definition exit_status :: "int \<Rightarrow> string \<times> exec_error option" where
  "exit_status n = ([], Some (ExitError n ''exit status''))"

definition shared_mount :: "string \<Rightarrow> fileSystem" where
  "shared_mount path = \<lparr>fs_Target = path, fs_Propagation = ''shared'', fs_FsType = ''ext4'',
     fs_Options = ''rw''\<rparr>"

definition model_findmnt :: "string \<Rightarrow> node_state \<Rightarrow> string \<times> exec_error option" where
  "model_findmnt path A =
     (if mounts_at A path = [] then exit_status 1
      else if ascii (resolve A path) then
        (bytes (render (findmnt_value (map (\<lambda>m. shared_mount (resolve A path)) (mounts_at A path)))), None)
      else (''?'', Some (RunError ''not a name'')))"

definition model_exec ::
  "string \<Rightarrow> string list \<Rightarrow> node_state \<Rightarrow> (string \<times> exec_error option) \<times> node_state" where
  "model_exec cmd args A =
     (let done = ([], None); path = last args in
      if cmd = ''blkid'' then
        (case content_at A path of Some (Holds fs) \<Rightarrow> (fs, None) | _ \<Rightarrow> exit_status 2, A)
      else if cmd = ''findmnt'' then (model_findmnt (args ! 3) A, A)
      else if HasPrefix cmd ''mkfs.'' then
        if content_at A path = None then (exit_status 1, A)
        else (done, set_content path (Holds (drop 5 cmd)) A)
      else if cmd = ''mount'' then
        (done, set_mounts path ((last (butlast args), butlast (butlast args)) # mounts_at A path) A)
      else if cmd = ''umount'' then
        if mounts_at A path = [] then (exit_status 32, A)
        else (done, set_mounts path (tl (mounts_at A path)) A)
      else (done, A))"

definition node_env :: "(node_state, nat) env" where
  "node_env = quiet_env\<lparr>os_Exec := (\<lambda>cmd args. State (model_exec cmd args)),
     os_EvalSymlinks := (\<lambda>path. State (\<lambda>A. (Inr (resolve A path), A)))\<rparr>"

lemma node_env_simps [simp]:
  "os_Exec node_env cmd args = State (model_exec cmd args)"
  "os_EvalSymlinks node_env path = State (\<lambda>A. (Inr (resolve A path), A))"
  "os_LookPath node_env c = State_Monad.return None"
  "k8s_Exec node_env c args = State_Monad.return ([], None)"
  "os_MkdirAll node_env path perm = State_Monad.return None"
  "os_OpenCreate node_env path perm = State_Monad.return None"
  "os_Stat node_env path = State_Monad.return (Inr 0x41ED)"
  "os_Statfs node_env path = State_Monad.return
     (Inr \<lparr>Bsize = 4096, Blocks = 100, Bfree = 40, Bavail = 30, Files = 10, Ffree = 4\<rparr>)"
  "k8s_DeviceNameFromMount node_env path = State_Monad.return (Inr ''/dev/vdb'')"
  "k8s_ResizeFs node_env dev path = State_Monad.return (Inr True)"
  by (simp_all add: node_env_def quiet_env_def)

lemma model_findmnt_true: "findmnt_true node_env path A (model_findmnt path A)"
proof (cases "mounts_at A path = []")
  case False
  have rendered: "bytes (render (findmnt_value mounts)) \<noteq> []" for mounts
    by (simp add: findmnt_value_def bytes_def)
  have "ascii_mount (shared_mount (resolve A path))" if "ascii (resolve A path)"
    using that unfolding ascii_mount_def shared_mount_def by simp code_simp
  moreover have trim: "TrimSpace ''?'' \<noteq> []" by code_simp
  ultimately show ?thesis
    using False rendered
    by (auto simp: findmnt_true_def model_findmnt_def unmarshal_findmnt_rendered list_all_iff
        shared_mount_def trim)
qed (simp add: findmnt_true_def model_findmnt_def exit_status_def)

lemma model_exec_simps [simp]:
  "model_exec ''blkid'' [dev] A =
     (case content_at A dev of Some (Holds fs) \<Rightarrow> (fs, None) | _ \<Rightarrow> exit_status 2, A)"
  "model_exec ''findmnt'' (findmnt_args path) A = (model_findmnt path A, A)"
  "model_exec (CHR ''m'' # CHR ''k'' # CHR ''f'' # CHR ''s'' # CHR ''.'' # fs) (mkfs_args dev fs) A =
     (if content_at A dev = None then (exit_status 1, A)
      else (([], None), set_content dev (Holds fs) A))"
  "model_exec ''mount'' args A = (([], None), set_mounts (last args)
     ((last (butlast args), butlast (butlast args)) # mounts_at A (last args)) A)"
  "model_exec ''umount'' [target] A =
     (if mounts_at A target = [] then (exit_status 32, A)
      else (([], None), set_mounts target (tl (mounts_at A target)) A))"
  "model_exec ''blockdev'' args A = (([], None), A)"
  by (simp_all add: model_exec_def findmnt_args_def mkfs_args_def Let_def, auto)

lemma node_contract_model: "node_contract node_env (\<lambda>A. A)"
  unfolding node_contract_def
  by (auto simp: reads_def obeys_def model_findmnt_true blkid_true_def mkfs_effect_def
      mount_effect_def umount_effect_def exit_status_def butlast_append split: option.splits content.splits if_splits)

subsection \<open>A volume on this node\<close>

text \<open>One blank device behind the link of the volume \<^verbatim>\<open>disk-1\<close>, and no mounts.\<close>

definition example_link :: string where
  "example_link = getDeviceByIDPath ''disk-1''"

definition blank_node :: node_state where
  "blank_node = \<lparr>devices = [''/dev/vdb'' \<mapsto> Blank], mounts = (\<lambda>p. []),
     resolve = (\<lambda>p. if p = example_link then ''/dev/vdb'' else p)\<rparr>"

definition node_world :: "node_state \<Rightarrow> (node_state, nat) world" where
  "node_world A = \<lparr>ext = A, resizeLocks = NewRwMap, ready = True, history = []\<rparr>"

lemma node_world_simps [simp]: "ext (node_world A) = A" "history (node_world A) = []"
  by (simp_all add: node_world_def)

definition staged_node :: node_state where
  "staged_node = set_mounts ''/stage'' [(example_link, [''-t'', ''ext4'', ''-o'', ''noatime''])]
     (set_content example_link (Holds ''ext4'') blank_node)"

lemma blank_node_simps [simp]:
  "content_at blank_node (getDeviceByIDPath ''disk-1'') = Some Blank" "mounts_at blank_node path = []"
  by (simp_all add: blank_node_def content_at_def mounts_at_def example_link_def)

lemma model_findmnt_unmounted:
  "mounts_at A path = [] \<Longrightarrow> model_findmnt path A = exit_status 1"
  by (simp add: model_findmnt_def)

lemma model_stage:
  "\<exists>w'. run_state (serve node_env d (Rpc_NodeStageVolume (example_stage Map.empty)))
     (node_world blank_node) = (Some OK, w') \<and> ext w' = staged_node"
  by (simp add: with_outcome_def stage_simps mount_args_flags mount_flags_def
      model_findmnt_unmounted exit_status_def staged_node_def example_link_def)

lemma model_mount:
  assumes "mounts_at (ext w) path = []" and "path \<noteq> []" and "source \<noteq> []" and "fs \<noteq> []"
  shows "\<exists>w'. run_state (mount_unless_mounted (newMounter node_env) source path fs opts) w =
      (Inr (), w') \<and> ext w' = set_mounts path [(source, mount_flags fs opts)] (ext w)"
  using assms
  by (simp add: stage_simps mount_args_flags model_findmnt_unmounted exit_status_def butlast_append)

lemma model_unmount:
  assumes "mounts_at (ext w) path = [m]" and "resolve (ext w) path = path" and "ascii path"
    and "path \<noteq> []"
  shows "\<exists>w'. run_state (unmount_if_mounted (newMounter node_env) path) w = (Inr (), w') \<and>
      ext w' = set_mounts path [] (ext w)"
proof -
  have "ascii_mount (shared_mount path)"
    using assms(3) unfolding ascii_mount_def shared_mount_def by simp code_simp
  then have "read_findmnt node_env path (bytes (render (findmnt_value [shared_mount path]))) = Inr True"
    using read_findmnt_mounts [of "[shared_mount path]" node_env path] by (simp add: shared_mount_def)
  with assms show ?thesis
    by (simp add: stage_simps unmount_if_mounted_def Unmount_def model_findmnt_def)
qed

text \<open>A path with a symbolic link in it is never seen mounted.\<close>

lemma model_link_unseen:
  assumes "resolve A path \<noteq> path" and "ascii (resolve A path)" and "mounts_at A path = [m]"
  shows "fst (model_findmnt path A) \<noteq> []" "snd (model_findmnt path A) = None"
    "read_findmnt node_env path (fst (model_findmnt path A)) = Inr False"
proof -
  have "ascii_mount (shared_mount (resolve A path))"
    using assms(2) unfolding ascii_mount_def shared_mount_def by simp code_simp
  then show "read_findmnt node_env path (fst (model_findmnt path A)) = Inr False"
    using assms read_findmnt_mounts [of "[shared_mount (resolve A path)]" node_env path]
    by (simp add: model_findmnt_def) (simp add: shared_mount_def)
qed (use assms in \<open>simp_all add: model_findmnt_def findmnt_value_def bytes_def\<close>)

lemma model_unmount_link:
  assumes "mounts_at (ext w) path = [m]" and "resolve (ext w) path \<noteq> path"
    and "ascii (resolve (ext w) path)" and "path \<noteq> []"
  shows "\<exists>w'. run_state (unmount_if_mounted (newMounter node_env) path) w = (Inr (), w') \<and>
      ext w' = ext w"
  using assms model_link_unseen [OF assms(2,3,1)]
  by (cases "model_findmnt path (ext w)") (simp add: stage_simps unmount_if_mounted_def)

end
