(* ===== verification/Node_Refinement.thy ===== *)
theory Node_Refinement
  imports Model_Node
begin

text \<open>
  The node service refines an abstract volume stager. \<open>node_step\<close> is what CSI asks of one node
  request, as a step on the node seen from above: a device is formatted only while it is blank, a
  path is mounted only while it is not, and unmounted only while it is. Under the contract of the
  node every handler of the code does one of these steps.
\<close>

subsection \<open>The mounter against the node\<close>

lemma view_IsFormatted:
  assumes "node_contract env view" and "\<And>f. fault_code f \<noteq> Some OK \<Longrightarrow> Q (Inl f) A"
    and "\<And>fs. content_at A dev = Some (Holds fs) \<Longrightarrow> Q (Inr True) A"
    and "content_at A dev \<in> {None, Some Blank} \<Longrightarrow> Q (Inr False) A"
  shows "view_wp view A (IsFormatted env dev) Q"
  unfolding IsFormatted_def lookpath_failed_def Let_def
  by (intro vwp view_wp_node_calls [OF assms(1)])
    (use assms(2-) in \<open>auto simp: blkid_true_def blkidExitStatusNoIdentifiers_def\<close>)

lemma view_Format:
  assumes "node_contract env view" and "\<And>f. Q (Inl f) A"
    and "content_at A dev \<noteq> None \<Longrightarrow> Q (Inr ()) (set_content dev (Holds fs) A)"
    and "\<And>f c. content_at A dev \<noteq> None \<Longrightarrow> Q (Inl f) (set_content dev c A)"
  shows "view_wp view A (Format env dev fs) Q"
  unfolding Format_def lookpath_failed_def Let_def
  by (intro vwp view_wp_node_calls [OF assms(1)])
    (use assms(2-) in \<open>auto simp: mkfs_effect_def\<close>)

lemma read_findmnt_true:
  assumes "findmnt_true env path A (out, None)"
  shows "mounts_at A path \<noteq> [] \<and>
    (case read_findmnt env path out of Inl f \<Rightarrow> True | Inr m \<Rightarrow> m \<longleftrightarrow> resolve A path = path)"
  using assms by (cases "read_findmnt env path out")
    (auto simp: findmnt_true_def read_findmnt_def scan_mounts_spec list_ex_iff list_all_iff
      split: if_splits, metis list.set_intros(1) neq_Nil_conv)

lemma scan_mounts_code: "scan_mounts pr path found fss = Inl f \<Longrightarrow> fault_code f = Some Unknown"
  by (induction fss arbitrary: found) (auto split: if_splits)

lemma read_findmnt_code: "read_findmnt env path out = Inl f \<Longrightarrow> fault_code f \<noteq> Some OK"
  by (auto simp: read_findmnt_def dest: scan_mounts_code split: if_splits sum.splits option.splits)

text \<open>
  \<^verbatim>\<open>IsMounted\<close> tells the truth about a path that is its own real path; about another
  path that has mounts it says that it has none.
\<close>

lemma view_IsMounted:
  assumes "node_contract env view" and "\<And>f. fault_code f \<noteq> Some OK \<Longrightarrow> Q (Inl f) A"
    and "mounts_at A path \<noteq> [] \<Longrightarrow> Q (Inr (resolve A path = path)) A"
    and "mounts_at A path = [] \<Longrightarrow> Q (Inr False) A"
  shows "view_wp view A (IsMounted env path) Q"
proof -
  have found: "Q (read_findmnt env path out) A" if "findmnt_true env path A (out, None)" for out
    using read_findmnt_true [OF that] read_findmnt_code [of env path out] assms(2,3)
    by (cases "read_findmnt env path out") auto
  have missing: "Q (Inr False) A" if "findmnt_true env path A (out, Some e)" "TrimSpace out = []" for out e
    using that assms(4) by (simp add: findmnt_true_def)
  show ?thesis
    unfolding IsMounted_def lookpath_failed_def Let_def
    by (intro vwp view_wp_node_calls [OF assms(1)]) (auto intro: assms(2) found missing)
qed

lemma view_Mount:
  assumes "node_contract env view" and "\<And>f. Q (Inl f) A"
    and "Q (Inr ()) (set_mounts target ((source, mount_flags fs opts) # mounts_at A target) A)"
  shows "view_wp view A (Mount env source target fs opts) Q"
  unfolding Mount_def make_mount_point_def Let_def
  by (intro vwp view_wp_node_calls [OF assms(1)])
    (use assms(2-) in \<open>auto simp: mount_effect_def\<close>)

lemma view_Unmount:
  assumes "node_contract env view" and "\<And>f. fault_code f \<noteq> Some OK \<Longrightarrow> Q (Inl f) A"
    and "mounts_at A target \<noteq> [] \<Longrightarrow> Q (Inr ()) (set_mounts target (tl (mounts_at A target)) A)"
  shows "view_wp view A (Unmount env target) Q"
  unfolding Unmount_def
  by (intro vwp view_wp_node_calls [OF assms(1)])
    (use assms(2-) in \<open>auto simp: umount_effect_def\<close>)

lemma view_measuring:
  assumes "node_contract env view" and "\<And>r. Q1 r A" and "\<And>r. Q2 r A"
  shows "view_wp view A (IsBlockDevice env path) Q1" "view_wp view A (GetStatistics env path) Q2"
  unfolding GetStatistics_def IsBlockDevice_def
  by (intro vwp view_wp_node_calls [OF assms(1)], auto intro: assms(2,3))+

subsection \<open>The volume stager\<close>

text \<open>
  The status code says how far a request got; an error code may come with part of its work done.
  A path that is not its own real path is never seen mounted: mounting it puts one more mount on
  what is there, and unmounting it does nothing.
\<close>

inductive format_step ::
  "bool \<Rightarrow> string \<Rightarrow> string \<Rightarrow> node_state \<Rightarrow> code option \<Rightarrow> node_state \<Rightarrow> bool"
  for skip dev fsType
where
  format_refused: "c \<noteq> Some OK \<Longrightarrow> format_step skip dev fsType A c A"
| format_forbidden: "skip \<Longrightarrow> format_step skip dev fsType A (Some OK) A"
| formatted_already: "content_at A dev = Some (Holds fs) \<Longrightarrow> format_step skip dev fsType A (Some OK) A"
| formatted: "\<not> skip \<Longrightarrow> content_at A dev = Some Blank \<Longrightarrow>
    format_step skip dev fsType A (Some OK) (set_content dev (Holds fsType) A)"
| format_failed: "\<not> skip \<Longrightarrow> content_at A dev = Some Blank \<Longrightarrow> c \<noteq> Some OK \<Longrightarrow>
    format_step skip dev fsType A c (set_content dev x A)"

inductive mount_step ::
  "mount_entry \<Rightarrow> string \<Rightarrow> node_state \<Rightarrow> code option \<Rightarrow> node_state \<Rightarrow> bool"
  for entry path
where
  mount_refused: "c \<noteq> Some OK \<Longrightarrow> mount_step entry path A c A"
| mounted_already: "mounts_at A path \<noteq> [] \<Longrightarrow> resolve A path = path \<Longrightarrow> mount_step entry path A (Some OK) A"
| mounted: "mounts_at A path = [] \<or> resolve A path \<noteq> path \<Longrightarrow>
    mount_step entry path A (Some OK) (set_mounts path (entry # mounts_at A path) A)"

inductive unmount_step :: "string \<Rightarrow> node_state \<Rightarrow> code option \<Rightarrow> node_state \<Rightarrow> bool"
  for path
where
  unmount_refused: "c \<noteq> Some OK \<Longrightarrow> unmount_step path A c A"
| unmounted_already: "mounts_at A path = [] \<or> resolve A path \<noteq> path \<Longrightarrow>
    unmount_step path A (Some OK) A"
| unmounted: "mounts_at A path \<noteq> [] \<Longrightarrow> resolve A path = path \<Longrightarrow>
    unmount_step path A (Some OK) (set_mounts path (tl (mounts_at A path)) A)"

text \<open>The access a request asks for.\<close>

abbreviation access_of :: "volume_capability option \<Rightarrow> access_type option" where
  "access_of capability \<equiv> Option.bind capability AccessType"

inductive node_step :: "rpc \<Rightarrow> node_state \<Rightarrow> code option \<Rightarrow> node_state \<Rightarrow> bool" where
  rejected: "c \<noteq> Some OK \<Longrightarrow> node_step rpc A c A"
| measured: "node_step (Rpc_NodeGetVolumeStats req1) A (Some OK) A"
| grown: "node_step (Rpc_NodeExpandVolume req2) A (Some OK) A"
| stage_block: "access_of (nsr_VolumeCapability req) = Some AccessBlock \<Longrightarrow>
    node_step (Rpc_NodeStageVolume req) A (Some OK) A"
| stage_failed: "access_of (nsr_VolumeCapability req) = Some (AccessMount mnt) \<Longrightarrow>
    format_step (noFormat (nsr_VolumeContext req)) (getDeviceByIDPath (nsr_VolumeId req))
      (default_fsType mnt) A c' A' \<Longrightarrow> c \<noteq> Some OK \<Longrightarrow>
    node_step (Rpc_NodeStageVolume req) A c A'"
| stage: "access_of (nsr_VolumeCapability req) = Some (AccessMount mnt) \<Longrightarrow>
    format_step (noFormat (nsr_VolumeContext req)) (getDeviceByIDPath (nsr_VolumeId req))
      (default_fsType mnt) A (Some OK) B \<Longrightarrow>
    mount_step (getDeviceByIDPath (nsr_VolumeId req),
      mount_flags (default_fsType mnt) (MountFlags mnt)) (nsr_StagingTargetPath req) B c A' \<Longrightarrow>
    node_step (Rpc_NodeStageVolume req) A c A'"
| unstage: "unmount_step (nur_StagingTargetPath ureq) A c A' \<Longrightarrow>
    node_step (Rpc_NodeUnstageVolume ureq) A c A'"
| publish: "access_of (npr_VolumeCapability preq) = Some (AccessMount mnt) \<Longrightarrow>
    mount_step (npr_StagingTargetPath preq,
      mount_flags (default_fsType mnt) (publish_options preq @ MountFlags mnt))
      (npr_TargetPath preq) A c A' \<Longrightarrow>
    node_step (Rpc_NodePublishVolume preq) A c A'"
| publish_block: "access_of (npr_VolumeCapability preq) = Some AccessBlock \<Longrightarrow>
    source = resolve A (getDeviceByIDPath (npr_VolumeId preq)) \<Longrightarrow> HasPrefix source ''/dev'' \<Longrightarrow>
    mount_step (source, mount_flags [] (publish_options preq)) (npr_TargetPath preq) A c A' \<Longrightarrow>
    node_step (Rpc_NodePublishVolume preq) A c A'"
| unpublish: "unmount_step (nupr_TargetPath upreq) A c A' \<Longrightarrow>
    node_step (Rpc_NodeUnpublishVolume upreq) A c A'"

text \<open>The path a request mounts on or unmounts.\<close>

fun mount_path :: "rpc \<Rightarrow> string option" where
  "mount_path (Rpc_NodeStageVolume req) = Some (nsr_StagingTargetPath req)"
| "mount_path (Rpc_NodeUnstageVolume req) = Some (nur_StagingTargetPath req)"
| "mount_path (Rpc_NodePublishVolume req) = Some (npr_TargetPath req)"
| "mount_path (Rpc_NodeUnpublishVolume req) = Some (nupr_TargetPath req)"
| "mount_path _ = None"

definition real_path :: "node_state \<Rightarrow> rpc \<Rightarrow> bool" where
  "real_path A rpc \<longleftrightarrow> (case mount_path rpc of None \<Rightarrow> True | Some path \<Rightarrow> resolve A path = path)"

subsection \<open>Each handler refines its request\<close>

lemma wrapped_code: "fault_code (wrap_error (StatusError Internal) f) \<noteq> Some OK"
  using wrap_error_code [of Internal "\<lambda>t. t" f] by auto

lemma view_format:
  assumes contract: "node_contract env view"
  shows "view_wp view A (NodeStageVolume_format (newMounter env) skip dev fs)
    (\<lambda>r B. format_step skip dev fs A (outcome r) B \<and> (r = Inr () \<or> outcome r \<noteq> Some OK))"
  unfolding NodeStageVolume_format_def newMounter_simps
  by (intro vwp view_IsFormatted [OF contract] view_Format [OF contract])
    (auto simp: wrapped_code intro: format_step.intros)

lemma mounted_first:
  "mounts_at A path = [] \<Longrightarrow> mount_step entry path A (Some OK) (set_mounts path [entry] A)"
  using mount_step.mounted [of A path entry] by simp

lemma view_mount:
  assumes contract: "node_contract env view"
  shows "view_wp view A (mount_unless_mounted (newMounter env) source path fs opts)
    (\<lambda>r. mount_step (source, mount_flags fs opts) path A (outcome r))"
  unfolding mount_unless_mounted_def newMounter_simps
  by (intro vwp view_IsMounted [OF contract] view_Mount [OF contract])
    (auto simp: wrapped_code intro: mount_step.intros mounted_first)

lemma view_unmount:
  assumes contract: "node_contract env view"
  shows "view_wp view A (unmount_if_mounted (newMounter env) path)
    (\<lambda>r. unmount_step path A (outcome r))"
  unfolding unmount_if_mounted_def newMounter_simps
  by (intro vwp view_IsMounted [OF contract] view_Unmount [OF contract])
    (auto intro: unmount_step.intros)

lemma fsck_verdict_code: "fsck_verdict dev out res = Some err \<Longrightarrow> status_Code err \<noteq> OK"
  by (auto simp: fsck_verdict_def NewMountError_def split: option.splits k8s_exec_error.splits if_splits)

text \<open>A block whose result is its caller's.\<close>

lemma view_wp_then:
  "view_wp view A m P \<Longrightarrow> (\<And>r B. P r B \<Longrightarrow> view_wp view B (f r) Q) \<Longrightarrow>
   view_wp view A (State_Monad.bind m f) Q"
  by (rule view_wp_bind, erule view_wp_mono) blast

lemma node_refines_stage_mount:
  assumes contract: "node_contract env view"
    and access: "access_of (nsr_VolumeCapability req) = Some (AccessMount mnt)"
  shows "view_wp view A (NodeStageVolume_mount env (newMounter env) req mnt)
    (\<lambda>r. node_step (Rpc_NodeStageVolume req) A (outcome r))"
  unfolding NodeStageVolume_mount_def Let_def checkAndRepairFilesystem_def
  by (intro view_wp_then [OF view_format [OF contract]] vwp view_wp_node_calls [OF contract]
      view_wp_mono [OF view_mount [OF contract]])
    (use access in \<open>auto dest: fsck_verdict_code
      intro: node_step.stage node_step.stage_failed\<close>)


lemma node_refines_stage:
  assumes contract: "node_contract env view"
  shows "view_wp view A (NodeStageVolume env (newMounter env) req)
    (\<lambda>r. node_step (Rpc_NodeStageVolume req) A (outcome r))"
  unfolding NodeStageVolume_def
  by (intro vwp node_refines_stage_mount [OF contract])
    (auto intro: node_step.rejected node_step.stage_block)

lemma node_refines_publish:
  assumes contract: "node_contract env view"
  shows "view_wp view A (NodePublishVolume env (newMounter env) req)
    (\<lambda>r. node_step (Rpc_NodePublishVolume req) A (outcome r))"
  unfolding NodePublishVolume_def nodePublishVolumeForBlock_def nodePublishVolumeForFileSystem_def
    findAbsoluteDeviceByIDPath_def Let_def
  by (intro vwp view_wp_node_calls [OF contract] view_wp_mono [OF view_mount [OF contract]])
    (auto intro: node_step.rejected node_step.publish node_step.publish_block)

lemma node_refines_unmounting:
  assumes contract: "node_contract env view"
  shows "view_wp view A (NodeUnstageVolume (newMounter env) ureq)
        (\<lambda>r. node_step (Rpc_NodeUnstageVolume ureq) A (outcome r))"
    and "view_wp view A (NodeUnpublishVolume (newMounter env) upreq)
        (\<lambda>r. node_step (Rpc_NodeUnpublishVolume upreq) A (outcome r))"
  unfolding NodeUnstageVolume_def NodeUnpublishVolume_def
  by (intro vwp view_wp_mono [OF view_unmount [OF contract]];
      auto intro: node_step.rejected node_step.unstage node_step.unpublish)+

lemma node_refines_measuring:
  assumes contract: "node_contract env view"
  shows "view_wp view A (NodeGetVolumeStats env (newMounter env) req)
      (\<lambda>r. node_step (Rpc_NodeGetVolumeStats req) A (outcome r))"
    and "view_wp view A (NodeExpandVolume env ereq)
      (\<lambda>r. node_step (Rpc_NodeExpandVolume ereq) A (outcome r))"
proof -
  have wrap: "fault_code (wrap_error (\<lambda>t. StatusError Internal (k t)) f) \<noteq> Some OK" for k f
    using wrap_error_code [of Internal k f] by auto
  show "view_wp view A (NodeGetVolumeStats env (newMounter env) req)
      (\<lambda>r. node_step (Rpc_NodeGetVolumeStats req) A (outcome r))"
    unfolding NodeGetVolumeStats_def newMounter_simps Let_def
    by (intro vwp view_IsMounted [OF contract] view_measuring [OF contract])
      (auto simp: wrap intro: node_step.rejected node_step.measured)
  show "view_wp view A (NodeExpandVolume env ereq)
      (\<lambda>r. node_step (Rpc_NodeExpandVolume ereq) A (outcome r))"
    unfolding NodeExpandVolume_def Let_def
    by (intro vwp view_wp_node_calls [OF contract])
      (auto intro: node_step.rejected node_step.grown)
qed

lemma serve_node_step:
  assumes "node_contract env view" and "is_node_rpc rpc"
    and "run_state (serve env d rpc) w = (c, w')"
  shows "node_step rpc (view (ext w)) c (view (ext w'))"
proof -
  have "view_wp view (view (ext w)) (serve env d rpc) (node_step rpc (view (ext w)))"
    using assms(2) node_refines_stage [OF assms(1)] node_refines_publish [OF assms(1)]
      node_refines_unmounting [OF assms(1)] node_refines_measuring [OF assms(1)]
    by (cases rpc) (auto intro!: view_wp_with_outcome)
  then show ?thesis using assms(3) by (rule view_wpD)
qed

text \<open>
  C4. Refinement on the node. On a node whose commands keep their contract, whatever node request the
  driver serves, the node moves as the volume stager says for that request and its status code: a
  device is formatted only while it is blank and formatting is not forbidden, a path is mounted from
  the requested source with the requested options only while it is not seen mounted, and unmounted
  only while it is; success is reported only with the work done or found done.
\<close>

theorem serve_refines_volume_stager:
  assumes "node_contract env view" and "is_node_rpc rpc"
    and "run_state (serve env d rpc) w = (c, w')"
  shows "node_step rpc (view (ext w)) c (view (ext w'))"
  using assms by (rule serve_node_step)

lemma serve_refines_volume_stager_witness:
  "node_step (Rpc_NodeStageVolume (example_stage Map.empty)) blank_node (Some OK) staged_node"
proof -
  obtain w' where "run_state (serve node_env example_driver
      (Rpc_NodeStageVolume (example_stage Map.empty))) (node_world blank_node) = (Some OK, w')"
    "ext w' = staged_node"
    using model_stage by blast
  with serve_refines_volume_stager [OF node_contract_model _ this(1)] show ?thesis by simp
qed

end
