(* ===== verification/Managed_Node.thy ===== *)
theory Managed_Node
  imports Node_Refinement
begin

text \<open>
  What follows from the refinement of the node service: data on a device survives every request, a
  request stays with its own device and path, no path is ever mounted twice, success means what CSI
  says, requests are idempotent, and the life of a volume on a node leaves the mounts as they were.
\<close>

subsection \<open>Data and frame\<close>

text \<open>
  \<open>confined rpc A B\<close>: from \<open>A\<close> to \<open>B\<close> nothing changed but a blank device that \<open>rpc\<close> was to format and
  the mounts of the path it names.
\<close>

definition confined :: "rpc \<Rightarrow> node_state \<Rightarrow> node_state \<Rightarrow> bool" where
  "confined rpc A B \<longleftrightarrow> resolve B = resolve A \<and>
     (\<forall>dev. devices B dev \<noteq> devices A dev \<longrightarrow> devices A dev = Some Blank \<and> devices B dev \<noteq> None \<and>
       (\<exists>req. rpc = Rpc_NodeStageVolume req \<and> \<not> noFormat (nsr_VolumeContext req) \<and>
         dev = resolve A (getDeviceByIDPath (nsr_VolumeId req)))) \<and>
     (\<forall>p. mounts B p \<noteq> mounts A p \<longrightarrow> map_option (resolve A) (mount_path rpc) = Some p)"

inductive_cases format_stepE: "format_step skip dev fs A c B"
inductive_cases mount_stepE: "mount_step entry path A c B"
inductive_cases unmount_stepE: "unmount_step path A c B"

lemma format_step_cases:
  "format_step skip dev fs A c B \<Longrightarrow> B = A \<or> \<not> skip \<and> content_at A dev = Some Blank \<and>
     (\<exists>x. B = set_content dev x A)"
  by (erule format_stepE) auto

lemma mount_step_cases:
  "mount_step entry path A c B \<Longrightarrow> B = A \<or> (\<exists>ms. B = set_mounts path ms A)"
  by (erule mount_stepE) auto

lemma unmount_step_cases:
  "unmount_step path A c B \<Longrightarrow> B = A \<or> (\<exists>ms. B = set_mounts path ms A)"
  by (erule unmount_stepE) auto

lemma node_step_confined: "node_step rpc A c B \<Longrightarrow> confined rpc A B"
  by (induction rule: node_step.induct)
    (auto simp: confined_def content_at_def
      dest!: format_step_cases mount_step_cases unmount_step_cases split: if_splits)

lemma confined_keeps_data:
  "confined rpc A B \<Longrightarrow> devices A dev = Some (Holds fs) \<Longrightarrow> devices B dev = Some (Holds fs)"
  unfolding confined_def by (metis content.distinct(1) option.inject)

text \<open>
  C5. Data on the node is safe. Under the contract of the node, serving a node request leaves
  everything a device holds in place and every device there; the only device it may change is the
  blank one of a volume to be staged without the no-format annotation, and the only mounts it may
  change are those of the path the request names.
\<close>

theorem node_request_confined:
  assumes "node_contract env view" and "is_node_rpc rpc"
    and "run_state (serve env d rpc) w = (c, w')"
  shows "confined rpc (view (ext w)) (view (ext w')) \<and>
    (\<forall>dev fs. devices (view (ext w)) dev = Some (Holds fs) \<longrightarrow>
      devices (view (ext w')) dev = Some (Holds fs))"
  using node_step_confined [OF serve_node_step [OF assms]] confined_keeps_data by blast

lemma node_request_confined_witness:
  "\<exists>c w'. run_state (serve node_env example_driver (Rpc_NodeStageVolume (example_stage Map.empty)))
      (node_world staged_node) = (c, w') \<and> devices (ext w') ''/dev/vdb'' = Some (Holds ''ext4'')"
proof -
  obtain c w' where run: "run_state (serve node_env example_driver
      (Rpc_NodeStageVolume (example_stage Map.empty))) (node_world staged_node) = (c, w')"
    by fastforce
  have "devices staged_node ''/dev/vdb'' = Some (Holds ''ext4'')"
    by (simp add: staged_node_def blank_node_def)
  with run node_request_confined [OF node_contract_model _ run] show ?thesis by auto
qed

subsection \<open>No path is mounted twice\<close>

definition unstacked :: "node_state \<Rightarrow> bool" where
  "unstacked A \<longleftrightarrow> (\<forall>p. length (mounts A p) \<le> 1)"

lemma unstacked_set_mounts: "unstacked A \<Longrightarrow> length ms \<le> 1 \<Longrightarrow> unstacked (set_mounts path ms A)"
  by (simp add: unstacked_def)

lemma unstacked_set_content [simp]: "unstacked (set_content dev c A) \<longleftrightarrow> unstacked A"
  by (simp add: unstacked_def)

lemma unstacked_tl: "unstacked A \<Longrightarrow> tl (mounts_at A path) = []"
  by (cases "mounts_at A path") (auto simp: unstacked_def mounts_at_def dest: spec [of _ "resolve A path"])

lemma format_step_frame:
  "format_step skip dev fs A c B \<Longrightarrow>
   resolve B = resolve A \<and> mounts B = mounts A \<and> (unstacked B \<longleftrightarrow> unstacked A)"
  by (erule format_stepE) auto

lemma mount_step_unstacked:
  "mount_step entry path A c B \<Longrightarrow> resolve A path = path \<Longrightarrow> unstacked A \<Longrightarrow> unstacked B"
  by (erule mount_stepE) (auto intro: unstacked_set_mounts)

lemma unmount_step_unstacked: "unmount_step path A c B \<Longrightarrow> unstacked A \<Longrightarrow> unstacked B"
  by (erule unmount_stepE) (auto intro: unstacked_set_mounts simp: unstacked_tl)

lemma node_step_unstacked: "node_step rpc A c B \<Longrightarrow> real_path A rpc \<Longrightarrow> unstacked A \<Longrightarrow> unstacked B"
  by (induction rule: node_step.induct)
    (auto simp: real_path_def dest: format_step_frame mount_step_unstacked unmount_step_unstacked,
      metis format_step_frame mount_step_unstacked)

text \<open>
  Runs of the node service together with whatever else happens on the node, as long as that stacks
  no mounts. The requests name their paths without symbolic links or redundant slashes.
\<close>

inductive managed_node ::
  "('w, 'op) env \<Rightarrow> driver \<Rightarrow> ('w \<Rightarrow> node_state) \<Rightarrow> ('w, 'op) world \<Rightarrow> bool"
  for env d view
where
  node_start: "unstacked (view (ext w)) \<Longrightarrow> managed_node env d view w"
| node_served: "managed_node env d view w \<Longrightarrow> is_node_rpc rpc \<Longrightarrow> real_path (view (ext w)) rpc \<Longrightarrow>
    run_state (serve env d rpc) w = (c, w') \<Longrightarrow> managed_node env d view w'"
| node_outside: "managed_node env d view w \<Longrightarrow> unstacked (view x) \<Longrightarrow>
    managed_node env d view (w\<lparr>ext := x\<rparr>)"

text \<open>
  C9. Invariant of the node. However node requests are served, retries included, in any order and
  mixed with changes by others that stack no mounts, no path ever has two mounts: the driver never
  mounts over a mount.
\<close>

theorem managed_node_unstacked:
  assumes "node_contract env view" and "managed_node env d view w"
  shows "unstacked (view (ext w))"
  using assms(2) node_step_unstacked [OF serve_node_step [OF assms(1)]]
  by (induction rule: managed_node.induct) auto

lemma unstacked_blank: "unstacked blank_node"
  by (simp add: unstacked_def blank_node_def)

lemma example_link_not: "example_link \<noteq> ''/stage''" "example_link \<noteq> ''/pod''"
  by (simp_all add: example_link_def getDeviceByIDPath_eq)

lemma real_path_example:
  "real_path blank_node (Rpc_NodeStageVolume (example_stage Map.empty))"
  "real_path staged_node (Rpc_NodeStageVolume (example_stage Map.empty))"
  using example_link_not
  by (simp_all add: real_path_def staged_node_def blank_node_def example_stage_def)

lemma managed_node_unstacked_witness:
  "\<exists>w. managed_node node_env example_driver (\<lambda>A. A) w \<and> ext w = staged_node \<and> unstacked staged_node"
proof -
  obtain w' where w': "run_state (serve node_env example_driver
      (Rpc_NodeStageVolume (example_stage Map.empty))) (node_world blank_node) = (Some OK, w')"
    "ext w' = staged_node"
    using model_stage by blast
  have "managed_node node_env example_driver (\<lambda>A. A) (node_world blank_node)"
    by (rule node_start) (simp add: unstacked_blank)
  then have "managed_node node_env example_driver (\<lambda>A. A) w'"
    by (rule node_served [OF _ _ _ w'(1)]) (simp_all add: real_path_example)
  with managed_node_unstacked [OF node_contract_model this] w'(2) show ?thesis by auto
qed

subsection \<open>What success means\<close>

fun node_achieved :: "rpc \<Rightarrow> node_state \<Rightarrow> bool" where
  "node_achieved (Rpc_NodeStageVolume req) A \<longleftrightarrow>
     access_of (nsr_VolumeCapability req) = Some AccessBlock \<or>
     mounts_at A (nsr_StagingTargetPath req) \<noteq> [] \<and>
     (noFormat (nsr_VolumeContext req) \<or>
       (\<exists>fs. content_at A (getDeviceByIDPath (nsr_VolumeId req)) = Some (Holds fs)))"
| "node_achieved (Rpc_NodeUnstageVolume req) A \<longleftrightarrow> mounts_at A (nur_StagingTargetPath req) = []"
| "node_achieved (Rpc_NodePublishVolume req) A \<longleftrightarrow> mounts_at A (npr_TargetPath req) \<noteq> []"
| "node_achieved (Rpc_NodeUnpublishVolume req) A \<longleftrightarrow> mounts_at A (nupr_TargetPath req) = []"
| "node_achieved rpc A \<longleftrightarrow> True"

lemma mount_step_achieves: "mount_step entry path A (Some OK) B \<Longrightarrow> mounts_at B path \<noteq> []"
  by (erule mount_stepE) auto

lemma unmount_step_achieves:
  "unmount_step path A (Some OK) B \<Longrightarrow> resolve A path = path \<Longrightarrow> unstacked A \<Longrightarrow> mounts_at B path = []"
  by (erule unmount_stepE) (auto simp: unstacked_tl)

lemma format_step_achieves:
  "format_step skip dev fs A (Some OK) B \<Longrightarrow> skip \<or> (\<exists>fs. content_at B dev = Some (Holds fs))"
  by (erule format_stepE) auto

lemma mount_step_content: "mount_step entry path A c B \<Longrightarrow> content_at B dev = content_at A dev"
  by (erule mount_stepE) auto

lemma node_step_achieves:
  "node_step rpc A c B \<Longrightarrow> c = Some OK \<Longrightarrow> real_path A rpc \<Longrightarrow> unstacked A \<Longrightarrow> node_achieved rpc B"
  by (induction rule: node_step.induct)
    (auto simp: real_path_def mount_step_content
      dest: mount_step_achieves unmount_step_achieves format_step_achieves)

text \<open>
  C12. What success of a node request means. On a node that keeps its contract and has no stacked
  mounts, for requests with real paths: after a stage the volume's device holds a file system (unless
  formatting was forbidden) and the staging path is mounted; after a publication the target path is
  mounted; after an unstage or an unpublication the path is not mounted.
\<close>

theorem node_success_achieves:
  assumes "node_contract env view" and "is_node_rpc rpc"
    and "real_path (view (ext w)) rpc" and "unstacked (view (ext w))"
    and "run_state (serve env d rpc) w = (Some OK, w')"
  shows "node_achieved rpc (view (ext w'))"
  using node_step_achieves [OF serve_node_step [OF assms(1,2,5)] refl assms(3,4)] .

lemma node_success_achieves_witness:
  "node_achieved (Rpc_NodeStageVolume (example_stage Map.empty)) staged_node"
proof -
  obtain w' where "run_state (serve node_env example_driver
      (Rpc_NodeStageVolume (example_stage Map.empty))) (node_world blank_node) = (Some OK, w')"
    "ext w' = staged_node"
    using model_stage by blast
  with node_success_achieves [OF node_contract_model _ _ _ this(1)]
  show ?thesis by (simp only: node_world_simps real_path_example unstacked_blank is_node_rpc.simps)
qed

subsection \<open>Repeating a request\<close>

lemma achieved_again:
  "node_step rpc A c B \<Longrightarrow> node_achieved rpc A \<Longrightarrow> real_path A rpc \<Longrightarrow> B = A"
  by (induction rule: node_step.induct)
    (auto simp: real_path_def elim!: format_stepE mount_stepE unmount_stepE)

text \<open>
  C7. Node requests are idempotent where paths are real. Let a node request name a path that leads
  through no symbolic link, and let no path of the node have two mounts before it. Once that request
  has succeeded, serving it again while the node is as it was left changes nothing, whatever the
  commands answer this time and whatever the outcome: nothing is formatted, mounted over, or
  unmounted a second time. Neither condition can be dropped: a second publication on a linked path
  mounts again (\<open>linked_path_leaks_mount\<close>), and unpublishing takes one of two stacked mounts off
  each time.
\<close>

theorem node_requests_idempotent:
  assumes "node_contract env view" and "is_node_rpc rpc"
    and "real_path (view (ext w)) rpc" and "unstacked (view (ext w))"
    and "run_state (serve env d rpc) w = (Some OK, w1)"
    and "view (ext w2) = view (ext w1)"
    and "run_state (serve env d rpc) w2 = (c, w3)"
  shows "view (ext w3) = view (ext w1)"
proof -
  have step: "node_step rpc (view (ext w)) (Some OK) (view (ext w1))"
    by (rule serve_node_step [OF assms(1,2,5)])
  have "node_achieved rpc (view (ext w1))"
    by (rule node_step_achieves [OF step refl assms(3,4)])
  moreover have "real_path (view (ext w1)) rpc"
    using node_step_confined [OF step] assms(3) by (auto simp: confined_def real_path_def split: option.splits)
  ultimately show ?thesis
    using achieved_again serve_node_step [OF assms(1,2,7)] assms(6) by metis
qed

lemma node_requests_idempotent_witness:
  "\<exists>w1 c w3. run_state (serve node_env example_driver
      (Rpc_NodeStageVolume (example_stage Map.empty))) (node_world blank_node) = (Some OK, w1) \<and>
    run_state (serve node_env example_driver (Rpc_NodeStageVolume (example_stage Map.empty))) w1 =
      (c, w3) \<and> ext w1 = staged_node \<and> ext w3 = staged_node"
proof -
  obtain w1 where w1: "run_state (serve node_env example_driver
      (Rpc_NodeStageVolume (example_stage Map.empty))) (node_world blank_node) = (Some OK, w1)"
    "ext w1 = staged_node"
    using model_stage by blast
  obtain c w3 where w3: "run_state (serve node_env example_driver
      (Rpc_NodeStageVolume (example_stage Map.empty))) w1 = (c, w3)"
    by fastforce
  have "ext w3 = ext w1"
    by (rule node_requests_idempotent [OF node_contract_model _ _ _ w1(1) refl w3])
      (simp_all only: node_world_simps real_path_example unstacked_blank is_node_rpc.simps)
  with w1 w3 show ?thesis by auto
qed

subsection \<open>The life of a volume on a node\<close>

lemma stage_fresh:
  assumes "node_step (Rpc_NodeStageVolume req) A (Some OK) B"
    and "access_of (nsr_VolumeCapability req) = Some (AccessMount mnt)"
    and "mounts_at A (nsr_StagingTargetPath req) = []"
  shows "resolve B = resolve A \<and> mounts B = (mounts A)(resolve A (nsr_StagingTargetPath req) :=
    [(getDeviceByIDPath (nsr_VolumeId req), mount_flags (default_fsType mnt) (MountFlags mnt))])"
  using assms
  by (cases rule: node_step.cases)
    (auto elim!: format_stepE mount_stepE simp: mounts_at_def set_content_def)

lemma publish_fresh:
  assumes "node_step (Rpc_NodePublishVolume req) A (Some OK) B"
    and "access_of (npr_VolumeCapability req) = Some (AccessMount mnt)"
    and "mounts_at A (npr_TargetPath req) = []"
  shows "resolve B = resolve A \<and> mounts B = (mounts A)(resolve A (npr_TargetPath req) :=
    [(npr_StagingTargetPath req,
      mount_flags (default_fsType mnt) (publish_options req @ MountFlags mnt))])"
  using assms by (cases rule: node_step.cases) (auto elim!: mount_stepE simp: mounts_at_def)

lemma unmount_single:
  assumes "unmount_step path A (Some OK) B" and "resolve A path = path" and "mounts A path = [e]"
  shows "resolve B = resolve A \<and> mounts B = (mounts A)(path := [])"
  using assms by (auto elim!: unmount_stepE simp: mounts_at_def)

lemma unmounting_steps:
  "node_step (Rpc_NodeUnstageVolume ureq) A (Some OK) B \<Longrightarrow>
   unmount_step (nur_StagingTargetPath ureq) A (Some OK) B"
  "node_step (Rpc_NodeUnpublishVolume upreq) A (Some OK) B \<Longrightarrow>
   unmount_step (nupr_TargetPath upreq) A (Some OK) B"
  by (erule node_step.cases; simp)+


text \<open>One such life on the example node.\<close>

definition example_node_publish :: node_publish_request where
  "example_node_publish = \<lparr>npr_VolumeId = ''disk-1'', npr_StagingTargetPath = ''/stage'',
     npr_TargetPath = ''/pod'', npr_VolumeCapability = Some example_capability, npr_Readonly = True\<rparr>"

definition example_node_unpublish :: node_unpublish_request where
  "example_node_unpublish = \<lparr>nupr_VolumeId = ''disk-1'', nupr_TargetPath = ''/pod''\<rparr>"

definition example_node_unstage :: node_unstage_request where
  "example_node_unstage = \<lparr>nur_VolumeId = ''disk-1'', nur_StagingTargetPath = ''/stage''\<rparr>"

lemma staged_node_simps [simp]:
  "mounts_at staged_node ''/pod'' = []" "resolve staged_node = resolve blank_node"
  "resolve blank_node ''/pod'' = ''/pod''" "resolve blank_node ''/stage'' = ''/stage''"
  "mounts_at staged_node ''/stage'' = [(example_link, [''-t'', ''ext4'', ''-o'', ''noatime''])]"
  using example_link_not by (auto simp: staged_node_def blank_node_def mounts_at_def)

lemma example_life:
  obtains w1 w2 w3 w4 where
    "run_state (serve node_env example_driver (Rpc_NodeStageVolume (example_stage Map.empty)))
       (node_world blank_node) = (Some OK, w1)"
    "run_state (serve node_env example_driver (Rpc_NodePublishVolume example_node_publish)) w1 = (Some OK, w2)"
    "run_state (serve node_env example_driver (Rpc_NodeUnpublishVolume example_node_unpublish)) w2 =
       (Some OK, w3)"
    "run_state (serve node_env example_driver (Rpc_NodeUnstageVolume example_node_unstage)) w3 = (Some OK, w4)"
proof -
  have names: "ascii ''/pod''" "ascii ''/stage''" by code_simp+
  obtain w1 where w1: "run_state (serve node_env example_driver
      (Rpc_NodeStageVolume (example_stage Map.empty))) (node_world blank_node) = (Some OK, w1)"
    "ext w1 = staged_node"
    using model_stage by blast
  let ?flags = "mount_flags ''ext4'' [''bind'', ''ro'', ''noatime'']"
  from model_mount [of w1 "''/pod''" "''/stage''" "''ext4''" "[''bind'', ''ro'', ''noatime'']"] w1(2)
  obtain w2 where w2: "run_state (serve node_env example_driver
      (Rpc_NodePublishVolume example_node_publish)) w1 = (Some OK, w2)"
    "ext w2 = set_mounts ''/pod'' [(''/stage'', ?flags)] staged_node"
    by (auto simp: with_outcome_def NodePublishVolume_def example_node_publish_def example_capability_def
        nodePublishVolumeForFileSystem_def default_fsType_def publish_options_def run_simps)
  from model_unmount [of w2 "''/pod''"] w2(2) names
  obtain w3 where w3: "run_state (serve node_env example_driver
      (Rpc_NodeUnpublishVolume example_node_unpublish)) w2 = (Some OK, w3)"
    "ext w3 = set_mounts ''/pod'' [] staged_node"
    by (auto simp: with_outcome_def NodeUnpublishVolume_def example_node_unpublish_def run_simps)
  have "mounts_at (ext w3) ''/stage'' = [(example_link, [''-t'', ''ext4'', ''-o'', ''noatime''])]"
    using staged_node_simps(5) by (simp add: w3(2) mounts_at_def)
  from model_unmount [OF this] w3(2) names
  obtain w4 where "run_state (serve node_env example_driver
      (Rpc_NodeUnstageVolume example_node_unstage)) w3 = (Some OK, w4)"
    by (auto simp: with_outcome_def NodeUnstageVolume_def example_node_unstage_def run_simps)
  with w1 w2 w3 that show ?thesis by blast
qed


subsection \<open>Paths with symbolic links\<close>

text \<open>
  C40. A path that is not its own real path is never seen mounted, because the driver compares it with
  the real path \<^verbatim>\<open>findmnt\<close> prints. So, on a node that keeps its contract, publishing a
  file system volume there and unpublishing it again, both with success, leaves one mount more on the
  path than there was before.
\<close>

theorem linked_path_leaks_mount:
  assumes "node_contract env view"
    and published: "run_state (serve env d (Rpc_NodePublishVolume p)) w = (Some OK, w1)"
    and unpublished: "run_state (serve env d (Rpc_NodeUnpublishVolume q)) w1 = (Some OK, w2)"
    and "npr_TargetPath p = path" and "nupr_TargetPath q = path"
    and "access_of (npr_VolumeCapability p) = Some (AccessMount mnt)"
    and "resolve (view (ext w)) path \<noteq> path"
  shows "length (mounts_at (view (ext w2)) path) = Suc (length (mounts_at (view (ext w)) path))"
proof -
  have p: "node_step (Rpc_NodePublishVolume p) (view (ext w)) (Some OK) (view (ext w1))"
    by (rule serve_node_step [OF assms(1) _ published]) simp
  then have "resolve (view (ext w1)) path \<noteq> path"
    using node_step_confined assms(7) by (fastforce simp: confined_def)
  then have "view (ext w2) = view (ext w1)"
    using unmounting_steps(2) [OF serve_node_step [OF assms(1) _ unpublished]] assms(5)
    by (auto elim: unmount_stepE)
  with p assms(4,6,7) show ?thesis
    by (auto elim!: node_step.cases [of "Rpc_NodePublishVolume p"] mount_stepE)
qed

text \<open>The example node with a link \<^verbatim>\<open>/kubelet/pod\<close> to \<^verbatim>\<open>/data/pod\<close>.\<close>

definition linked_node :: node_state where
  "linked_node = blank_node\<lparr>resolve := (\<lambda>p. if p = ''/kubelet/pod'' then ''/data/pod'' else p)\<rparr>"

lemma linked_path_leaks_mount_witness:
  "\<exists>w1 w2. run_state (serve node_env example_driver (Rpc_NodePublishVolume
       (example_node_publish\<lparr>npr_TargetPath := ''/kubelet/pod''\<rparr>))) (node_world linked_node) = (Some OK, w1) \<and>
     run_state (serve node_env example_driver (Rpc_NodeUnpublishVolume
       (example_node_unpublish\<lparr>nupr_TargetPath := ''/kubelet/pod''\<rparr>))) w1 = (Some OK, w2) \<and>
     length (mounts_at (ext w2) ''/kubelet/pod'') = 1"
proof -
  let ?w = "node_world linked_node"
  have link: "resolve (ext ?w) ''/kubelet/pod'' = ''/data/pod''"
    and there: "mounts_at (ext ?w) ''/kubelet/pod'' = []"
    by (simp_all add: linked_node_def mounts_at_def blank_node_def)
  have name: "ascii ''/data/pod''" by code_simp
  obtain w1 m where w1: "run_state (serve node_env example_driver (Rpc_NodePublishVolume
       (example_node_publish\<lparr>npr_TargetPath := ''/kubelet/pod''\<rparr>))) ?w = (Some OK, w1)"
    "ext w1 = set_mounts ''/kubelet/pod'' [m] linked_node"
    using model_mount [OF there, of "''/stage''" "''ext4''" "[''bind'', ''ro'', ''noatime'']"]
    by (auto simp: with_outcome_def NodePublishVolume_def example_node_publish_def example_capability_def
        nodePublishVolumeForFileSystem_def default_fsType_def publish_options_def run_simps)
  obtain w2 where w2: "run_state (serve node_env example_driver (Rpc_NodeUnpublishVolume
       (example_node_unpublish\<lparr>nupr_TargetPath := ''/kubelet/pod''\<rparr>))) w1 = (Some OK, w2)"
    using model_unmount_link [of w1 "''/kubelet/pod''" m] link name w1(2)
    by (auto simp: with_outcome_def NodeUnpublishVolume_def example_node_unpublish_def run_simps)
  have "length (mounts_at (ext w2) ''/kubelet/pod'') = Suc (length (mounts_at (ext ?w) ''/kubelet/pod''))"
    using link linked_path_leaks_mount [OF node_contract_model w1(1) w2]
    by (simp add: example_node_publish_def example_node_unpublish_def example_capability_def)
  with there w1(1) w2 show ?thesis by auto
qed

end
