(* ===== verification/Node_Concurrency.thy ===== *)
theory Node_Concurrency
  imports Concurrency Managed_Node
begin

text \<open>
  Node requests served side by side. Nothing in the driver orders them: a concurrent history is
  possible on a node when every command in it does to the node, at its moment, what its contract
  says. The invariant of \<open>Managed_Node\<close> does not carry over: looking for a mount and mounting are two
  steps.
\<close>

text \<open>One event against the node, and a history of them.\<close>

fun node_allows :: "('w, 'op) env \<Rightarrow> node_state \<Rightarrow> 'op event \<Rightarrow> node_state \<Rightarrow> bool" where
  "node_allows env A (Exec cmd args ans) B \<longleftrightarrow>
     (if cmd = ''blkid'' then B = A \<and> blkid_true (last args) A ans
      else if cmd = ''findmnt'' then B = A \<and> findmnt_true env (args ! 3) A ans
      else if HasPrefix cmd ''mkfs.'' then mkfs_effect (drop 5 cmd) (last args) A ans B
      else if cmd = ''mount'' then
        mount_effect (butlast (butlast args)) (last (butlast args)) (last args) A ans B
      else if cmd = ''umount'' then umount_effect (last args) A ans B
      else B = A)"
| "node_allows env A (EvalSymlinks path r) B \<longleftrightarrow>
     B = A \<and> (case r of Inl err \<Rightarrow> True | Inr p \<Rightarrow> p = resolve A path)"
| "node_allows env A e B \<longleftrightarrow> B = A"

fun node_history :: "('w, 'op) env \<Rightarrow> node_state \<Rightarrow> 'op event list \<Rightarrow> node_state \<Rightarrow> bool" where
  "node_history env A [] B \<longleftrightarrow> B = A"
| "node_history env A (e # es) B \<longleftrightarrow> (\<exists>C. node_allows env A e C \<and> node_history env C es B)"

lemma node_history_append:
  "node_history env A (us @ vs) B \<longleftrightarrow> (\<exists>C. node_history env A us C \<and> node_history env C vs B)"
  by (induction us arbitrary: A) auto

text \<open>A publication of a staged volume: the look for a mount, then the mount.\<close>

definition node_publish_flags :: "string list" where
  "node_publish_flags = mount_flags ''ext4'' [''bind'', ''ro'', ''noatime'']"

definition node_looks :: "nat event list" where
  "node_looks = [LookPath ''findmnt'' None,
     Exec ''findmnt'' (findmnt_args ''/pod'') (exit_status 1)]"

definition node_mounts :: "nat event list" where
  "node_mounts = [MkdirAll ''/pod'' 488 None,
     Exec ''mount'' (node_publish_flags @ [''/stage'', ''/pod'']) ([], None)]"

lemma node_publish_run:
  "\<exists>w'. run_state (serve node_env example_driver (Rpc_NodePublishVolume example_node_publish))
     (node_world staged_node) = (Some OK, w') \<and> history w' = node_looks @ node_mounts"
  by (simp add: with_outcome_def NodePublishVolume_def nodePublishVolumeForFileSystem_def
      publish_options_def example_node_publish_def stage_simps mount_args_flags
      node_looks_def node_mounts_def node_publish_flags_def model_findmnt_unmounted exit_status_def)

lemma node_looks_history: "mounts_at A ''/pod'' = [] \<Longrightarrow> node_history node_env A node_looks A"
  by (simp add: node_looks_def findmnt_args_def findmnt_true_def exit_status_def)

lemma node_mounts_history:
  "node_history node_env A node_mounts
     (set_mounts ''/pod'' ((''/stage'', node_publish_flags) # mounts_at A ''/pod'') A)"
  by (simp add: node_mounts_def mount_effect_def butlast_append)

text \<open>
  C22. Two publications at once. A volume published twice at the same time on one path, each request as
  the driver serves it and both with success, can end up mounted twice there: there is an interleaving
  of the two, possible on the node, in which both look before either mounts. One unpublication then
  leaves the path mounted.
\<close>

theorem concurrent_publish_stacks:
  "\<exists>es h B. (\<exists>w'. run_state (serve node_env example_driver (Rpc_NodePublishVolume example_node_publish))
        (node_world staged_node) = (Some OK, w') \<and> history w' = es) \<and>
     h \<in> shuffles es es \<and> concurrent node_env example_driver h \<and>
     node_history node_env staged_node h B \<and> length (mounts_at B ''/pod'') = 2"
proof -
  let ?es = "node_looks @ node_mounts" and ?h = "node_looks @ node_looks @ node_mounts @ node_mounts"
  have trace: "request_trace node_env example_driver (Rpc_NodePublishVolume example_node_publish) ?es"
    using node_publish_run unfolding request_trace_def by (metis append_Nil node_world_simps(2))
  have shuffled: "?h \<in> shuffles ?es ?es"
    by (simp add: node_looks_def node_mounts_def Cons_in_shuffles_leftI Cons_in_shuffles_rightI)
  have "concurrent node_env example_driver ?es"
    by (rule concurrent.one_more [OF concurrent.no_request trace]) simp
  with trace shuffled have "concurrent node_env example_driver ?h"
    by (blast intro: concurrent.one_more)
  moreover have "node_history node_env staged_node ?h
      (set_mounts ''/pod'' [(''/stage'', node_publish_flags), (''/stage'', node_publish_flags)] staged_node)"
    using node_mounts_history [of staged_node] node_looks_history [of staged_node]
      node_mounts_history [of "set_mounts ''/pod'' [(''/stage'', node_publish_flags)] staged_node"]
    by (simp add: node_history_append) blast
  ultimately show ?thesis
    using node_publish_run shuffled
    by (intro exI [of _ ?es] exI [of _ ?h]
        exI [of _ "set_mounts ''/pod'' [(''/stage'', node_publish_flags),
          (''/stage'', node_publish_flags)] staged_node"]) simp
qed

end
