(* ===== verification/Spec2Isabelle.thy ===== *)
theory Spec2Isabelle
  imports Run_Loop Command_Line Managed_Cloud Node_Concurrency
begin

text \<open>
  A verification development of the Yandex Cloud CSI driver (\<^verbatim>\<open>src/\<close>), the program
  that creates cloud disks for Kubernetes volumes, attaches them to nodes, formats and mounts them
  there and grows them.

  \<^bold>\<open>The program and its parts.\<close> One binary (\<^verbatim>\<open>cmd/yandex-csi-driver/main.go\<close>) makes a
  \<^verbatim>\<open>driver.Driver\<close> with \<^verbatim>\<open>NewDriver\<close>, which asks the metadata service of
  the instance it runs on who and where it is (\<^verbatim>\<open>ychelpers/metadata_service.go\<close>), and
  runs it with \<^verbatim>\<open>Run\<close> (\<^verbatim>\<open>driver/driver.go\<close>): a gRPC server for the three CSI
  services and an HTTP server for the health checks (\<^verbatim>\<open>driver/health.go\<close>). The identity
  service (\<^verbatim>\<open>driver/identity.go\<close>) answers who the driver is and whether it is ready. The
  controller service (\<^verbatim>\<open>driver/controller.go\<close>) changes the cloud through asynchronous
  operations (\<^verbatim>\<open>ychelpers/operation_wrapper.go\<close>). The node service
  (\<^verbatim>\<open>driver/node.go\<close>) works on the devices of one node through the commands of
  \<^verbatim>\<open>driver/mounter.go\<close>. Two things tie the services together: the device name computed
  from a volume ID (\<^verbatim>\<open>driver/encoding.go\<close>), under which the controller attaches a disk and
  the node finds it, and the table of volumes with a pending resize (\<^verbatim>\<open>driver/lock.go\<close>),
  which the expansion of a volume writes and its publication reads.

  \<^bold>\<open>How it is modelled.\<close> Each Go function is one definition of the same name: a HOL function
  where it is pure, a \<^verbatim>\<open>do\<close> block of the state monad where it calls the outside or uses a
  mutable field of the driver. Such a block runs on a \<open>world\<close> (theory \<open>Environment\<close>): the state of
  everything outside, the driver's mutable fields \<^verbatim>\<open>resizeLocks\<close> and
  \<^verbatim>\<open>ready\<close>, and a history with one event per call, which no definition reads. What the
  outside does is the record \<open>env\<close>, an argument of every definition, so each theorem holds for all
  clouds, nodes and answers. Errors are values (\<open>Go_Errors\<close>): the result of a handler is
  \<open>fault + 'a\<close>, \<open>Inl\<close> a Go error with its gRPC code or a panic. Machine integers are words of their
  width. Every function is total, its recursion structural or with a termination proof, so there is no
  fuel and no bound, and a handler always returns; loops of the program over lists are
  \<^verbatim>\<open>fun\<close>s of the same shape.

  \<^bold>\<open>The theories\<close>, in the order they are built:
  \<^item> \<open>Prelude\<close>: the machine integers, the rules that run a \<^verbatim>\<open>do\<close> block, facts on lists and words.
  \<^item> \<open>Go_Strings\<close>, \<open>Go_Strconv\<close>, \<open>Go_Quote\<close>, \<open>Go_Path\<close>: the string functions of Go's standard
    library the driver calls, with round trips (numerals, quoting) and injectivity.
  \<^item> \<open>Go_Json\<close>: \<^verbatim>\<open>json.Unmarshal\<close> into structs of strings: lexer, parser with a stack,
    decoding, and the round trip of rendered values.
  \<^item> \<open>Go_Url\<close>: \<^verbatim>\<open>url.Parse\<close>, and the round trip of escaped paths.
  \<^item> \<open>Go_Errors\<close>: errors, status codes and panics as values.
  \<^item> \<open>Encoding\<close>: \<^verbatim>\<open>encoding.go\<close>, device names.
  \<^item> \<open>Rw_Map\<close>: \<^verbatim>\<open>lock.go\<close>; the locale \<open>volume_set\<close> is its contract.
  \<^item> \<open>Sizes\<close>: the arithmetic of \<^verbatim>\<open>controller.go\<close> (lines 35 to 66 and 613 to 765): block
    sizes, capacity ranges, their bounds and the absence of overflow.
  \<^item> \<open>Environment\<close>: messages, world, calls, and the rules \<open>ensures\<close> and \<open>wp\<close>, which compute what a
    block guarantees of its result and of the calls it made. \<open>Example_Env\<close>: one concrete
    environment for the witnesses.
  \<^item> \<open>View\<close>: the rules \<open>view_wp\<close>, which run a handler against an abstract view of the outside whose
    changes a contract describes.
  \<^item> \<open>Driver_State\<close>, \<open>Operation_Wrapper\<close>: the driver's configuration; \<^verbatim>\<open>WaitForResult\<close>.
  \<^item> \<open>Guarded_Rpc\<close>: the locale of a handler that refuses incomplete requests first, interpreted for
    the eleven handlers that have required fields.
  \<^item> \<open>Mounter\<close>: \<^verbatim>\<open>mounter.go\<close>; the interface is a record of methods, its contract the
    locale \<open>mounter_contract\<close>, interpreted on the one implementation.
  \<^item> \<open>Node\<close>: \<^verbatim>\<open>node.go\<close>; staging, publishing, statistics, growth, and what may be
    formatted and mounted.
  \<^item> \<open>Controller\<close>: \<^verbatim>\<open>controller.go\<close>; what each handler may change in the cloud, in which
    order, and when it reports success.
  \<^item> \<open>Lifecycle\<close>: the requests as steps of one system, the worlds it reaches, and the invariants of
    the resize lock there.
  \<^item> \<open>Cloud\<close>: the cloud seen from above (disks, instances, attachments), what each operation of the
    Compute API does to it, and the contract of the API as one hypothesis. \<open>Model_Cloud\<close>: a cloud
    that meets the contract.
  \<^item> \<open>Controller_Refinement\<close>: the abstract volume manager \<open>csi_step\<close>, and the proof that every
    controller handler refines it. \<open>Managed_Cloud\<close>: what follows for success, for the shape of the
    cloud over all runs, for other disks, and for repeated creations.
  \<^item> \<open>Node_View\<close>: the node seen from above (what each device holds, the mounts on each path, where
    links lead) and the contract of its commands. \<open>Model_Node\<close>: a node that meets the contract.
  \<^item> \<open>Node_Refinement\<close>: the abstract volume stager \<open>node_step\<close>, and the proof that every node handler
    refines it. \<open>Managed_Node\<close>: what follows for the data on devices, for stacked mounts over all
    runs, for success, repetition, the whole life of a volume on a node, and paths with links.
  \<^item> \<open>Concurrency\<close>: requests interleaved call by call; what the resize lock still promises then, and
    the race it leaves open. \<open>Node_Concurrency\<close>: two node requests at once, and the double mount they
    can make.
  \<^item> \<open>Identity\<close>, \<open>Health\<close>, \<open>Metadata_Service\<close>, \<open>Driver\<close>: the remaining services, the making of a
    driver, and \<^verbatim>\<open>Run\<close> up to its servers. \<open>Run_Loop\<close>: the goroutines of \<^verbatim>\<open>Run\<close> one
    step at a time, between requests: what the probe answers, what a failed server does, and that a
    cancelled run ends. \<open>Command_Line\<close>: \<^verbatim>\<open>main\<close> from its arguments, with the parsing of
    package \<^verbatim>\<open>flag\<close>.

  \<^bold>\<open>Granularity.\<close> \<open>Lifecycle\<close> and \<open>Managed_Cloud\<close> serve one request after the other, mixed with
  changes from outside, and so does \<open>Managed_Node\<close>; \<open>Concurrency\<close> interleaves the calls of
  requests; \<open>Run_Loop\<close> interleaves the steps of the goroutines of \<^verbatim>\<open>Run\<close> with whole requests.
  The contract of the Compute API is stated at the moment an operation returns: an operation that
  failed has taken place by then or never does. The contract of the node takes it that
  \<^verbatim>\<open>findmnt\<close> can be run (the driver reads any silent failure of it as no mount) and that
  mounting does not move the links of other paths. What gRPC's and HTTP's servers do when they are
  told to serve and to stop is their documented contract, written into the steps of \<open>Run_Loop\<close>.

  \<^bold>\<open>Not modelled.\<close> Log statements (they only read values that are defined). The SDK, the
  Compute API, gRPC and HTTP serving, \<^verbatim>\<open>k8s.io\<close> helpers, the commands of the node and the
  kernel are arguments; so are the Unicode table behind \<^verbatim>\<open>%q\<close>, the texts of JSON errors,
  and what \<^verbatim>\<open>url.Parse\<close> makes of a host in brackets. Timeouts are part of the behaviour of
  the calls they bound. Signals appear as the event that cancels the
  context, the usage text and the end of the process as their outcomes. The Helm chart, the manifests and the image hold no program logic.
\<close>

end
